(* ===== verification/Prelude.thy ===== *)
theory Prelude
  imports Main "HOL-Library.Char_ord" "HOL-Library.List_Lexorder"
begin

text \<open>
  Shared ground of the development.  It holds the Go idioms that every component uses:
  fallible state-changing calls and the \<^verbatim>\<open>if err != nil\<close> idiom, error values with the
  sentinel chain that \<^verbatim>\<open>errors.Is\<close> inspects, the HTTP replies of
  \<^verbatim>\<open>internal/api/responses.go\<close>, the functions of Go's \<^verbatim>\<open>strings\<close> package that the
  sources call, and the preservation rules by which invariants are pushed through handlers.
  Go strings are byte strings, so \<^typ>\<open>string\<close> (a list of 8-bit characters) is exact.
\<close>

named_theorems preserves_rule \<open>rules that push an invariant through a state-changing call\<close>
named_theorems row_simps \<open>equations about single table rows\<close>

section \<open>Errors\<close>

text \<open>The sentinel errors that the sources compare with \<^verbatim>\<open>errors.Is\<close> or \<^verbatim>\<open>==\<close>.\<close>

datatype sentinel =
    ErrRecordNotFound
  | ErrMemberNotFound
  | ErrEntryNotFound
  | ErrLicenseRequired
  | DeadlineExceeded
  | Canceled

text \<open>
  A Go error value is its rendered message and the sentinels found along its
  \<^verbatim>\<open>Unwrap\<close> chain (\<^verbatim>\<open>fmt.Errorf\<close> with \<^verbatim>\<open>%w\<close> keeps the chain).
\<close>

datatype error = Error (error_string: string) (chain: "sentinel list")

definition errors_Is :: "error \<Rightarrow> sentinel \<Rightarrow> bool" where
  "errors_Is e s \<longleftrightarrow> s \<in> set (chain e)"

definition errorf :: "string \<Rightarrow> error" where
  "errorf msg = Error msg []"

definition wrapf :: "string \<Rightarrow> error \<Rightarrow> error" where
  "wrapf prefix e = Error (prefix @ '': '' @ error_string e) (chain e)"

lemma error_string_errorf [simp]: "error_string (errorf m) = m"
  by (simp add: errorf_def)

lemma chain_errorf [simp]: "chain (errorf m) = []"
  by (simp add: errorf_def)

lemma error_string_wrapf [simp]: "error_string (wrapf p e) = p @ '': '' @ error_string e"
  by (simp add: wrapf_def)

lemma chain_wrapf [simp]: "chain (wrapf p e) = chain e"
  by (simp add: wrapf_def)

lemma errors_Is_errorf [simp]: "\<not> errors_Is (errorf m) s"
  by (simp add: errors_Is_def)

lemma errors_Is_wrapf [simp]: "errors_Is (wrapf p e) s = errors_Is e s"
  by (simp add: errors_Is_def)

section \<open>Fallible operations on a state\<close>

text \<open>
  An operation takes the state and returns a result with the new state; a fallible one
  returns \<^verbatim>\<open>Inl err\<close> or \<^verbatim>\<open>Inr value\<close>.  \<^verbatim>\<open>try_op m h f\<close> is
  \<^verbatim>\<open>x, err := m(); if err != nil { h(err) }; f(x)\<close>.
\<close>

type_synonym ('s, 'r) act = "'s \<Rightarrow> 'r \<times> 's"
type_synonym ('s, 'a) op = "'s \<Rightarrow> (error + 'a) \<times> 's"

definition ret :: "'r \<Rightarrow> ('s, 'r) act" where
  "ret r = (\<lambda>s. (r, s))"

definition try_op :: "('s, 'a) op \<Rightarrow> (error \<Rightarrow> ('s, 'r) act) \<Rightarrow> ('a \<Rightarrow> ('s, 'r) act) \<Rightarrow> ('s, 'r) act" where
  "try_op m h f = (\<lambda>s. case m s of (Inl e, s') \<Rightarrow> h e s' | (Inr x, s') \<Rightarrow> f x s')"

text \<open>\<^verbatim>\<open>if err != nil { return fmt.Errorf("msg: %w", err) }\<close>.\<close>

definition bind_op :: "('s, 'a) op \<Rightarrow> string \<Rightarrow> ('a \<Rightarrow> ('s, 'b) op) \<Rightarrow> ('s, 'b) op" where
  "bind_op m msg f = try_op m (\<lambda>e. ret (Inl (wrapf msg e))) f"

text \<open>\<^verbatim>\<open>if err != nil { return err }\<close>.\<close>

definition pass_op :: "('s, 'a) op \<Rightarrow> ('a \<Rightarrow> ('s, 'b) op) \<Rightarrow> ('s, 'b) op" where
  "pass_op m f = try_op m (\<lambda>e. ret (Inl e)) f"

text \<open>\<^verbatim>\<open>_ = m()\<close>: the error, if any, is dropped.\<close>

definition ignore_op :: "('s, 'a) op \<Rightarrow> ('s, 'r) act \<Rightarrow> ('s, 'r) act" where
  "ignore_op m k = try_op m (\<lambda>_. k) (\<lambda>_. k)"

definition ok :: "'a \<Rightarrow> ('s, 'a) op" where
  "ok x = ret (Inr x)"

definition fail :: "error \<Rightarrow> ('s, 'a) op" where
  "fail e = ret (Inl e)"

lemma ret_apply [simp]: "ret r s = (r, s)"
  by (simp add: ret_def)

lemma ok_apply [simp]: "ok x s = (Inr x, s)"
  by (simp add: ok_def)

lemma fail_apply [simp]: "fail e s = (Inl e, s)"
  by (simp add: fail_def)

lemma try_op_Inl: "m s = (Inl e, s') \<Longrightarrow> try_op m h f s = h e s'"
  by (simp add: try_op_def)

lemma try_op_Inr: "m s = (Inr x, s') \<Longrightarrow> try_op m h f s = f x s'"
  by (simp add: try_op_def)

lemma bind_op_InrE:
  assumes "bind_op m msg f s = (Inr x, s')"
  obtains y s1 where "m s = (Inr y, s1)" and "f y s1 = (Inr x, s')"
  using assms by (auto simp: bind_op_def try_op_def split: prod.splits sum.splits)

lemma pass_op_InrE:
  assumes "pass_op m f s = (Inr x, s')"
  obtains y s1 where "m s = (Inr y, s1)" and "f y s1 = (Inr x, s')"
  using assms by (auto simp: pass_op_def try_op_def split: prod.splits sum.splits)

lemma try_opE:
  assumes "try_op m h f s = (r, s')"
  obtains e s1 where "m s = (Inl e, s1)" and "h e s1 = (r, s')"
        | x s1 where "m s = (Inr x, s1)" and "f x s1 = (r, s')"
  using assms by (auto simp: try_op_def split: prod.splits sum.splits)

lemmas op_defs = try_op_def bind_op_def pass_op_def ignore_op_def

subsection \<open>Preservation of an invariant\<close>

definition preserves :: "('s \<Rightarrow> bool) \<Rightarrow> ('s, 'r) act \<Rightarrow> bool" where
  "preserves I m \<longleftrightarrow> (\<forall>s. I s \<longrightarrow> I (snd (m s)))"

lemma preservesI: "(\<And>s. I s \<Longrightarrow> I (snd (m s))) \<Longrightarrow> preserves I m"
  by (simp add: preserves_def)

lemma preservesD: "preserves I m \<Longrightarrow> I s \<Longrightarrow> I (snd (m s))"
  by (simp add: preserves_def)

lemma preserves_result: "preserves I m \<Longrightarrow> I s \<Longrightarrow> m s = (r, s') \<Longrightarrow> I s'"
  by (metis preservesD snd_conv)

lemma preserves_ret [preserves_rule]: "preserves I (ret r)"
  by (simp add: preserves_def)

lemma preserves_ok [preserves_rule]: "preserves I (ok x)"
  by (simp add: preserves_def)

lemma preserves_fail [preserves_rule]: "preserves I (fail e)"
  by (simp add: preserves_def)

lemma preserves_try [preserves_rule]:
  assumes m: "preserves I m" and h: "\<And>e. preserves I (h e)" and f: "\<And>x. preserves I (f x)"
  shows "preserves I (try_op m h f)"
proof (rule preservesI)
  fix s assume I: "I s"
  obtain r s' where ms: "m s = (r, s')" by (cases "m s")
  with m I have I': "I s'" by (rule preserves_result)
  show "I (snd (try_op m h f s))"
  proof (cases r)
    case (Inl e)
    then show ?thesis using ms preservesD [OF h I'] by (simp add: try_op_def)
  next
    case (Inr x)
    then show ?thesis using ms preservesD [OF f I'] by (simp add: try_op_def)
  qed
qed

lemma preserves_bind [preserves_rule]:
  "preserves I m \<Longrightarrow> (\<And>x. preserves I (f x)) \<Longrightarrow> preserves I (bind_op m msg f)"
  by (simp add: bind_op_def preserves_try preserves_ret)

lemma preserves_pass [preserves_rule]:
  "preserves I m \<Longrightarrow> (\<And>x. preserves I (f x)) \<Longrightarrow> preserves I (pass_op m f)"
  by (simp add: pass_op_def preserves_try preserves_ret)

lemma preserves_ignore [preserves_rule]:
  "preserves I m \<Longrightarrow> preserves I k \<Longrightarrow> preserves I (ignore_op m k)"
  by (simp add: ignore_op_def preserves_try)

lemma preserves_if [preserves_rule]:
  "(b \<Longrightarrow> preserves I m) \<Longrightarrow> (\<not> b \<Longrightarrow> preserves I n) \<Longrightarrow> preserves I (if b then m else n)"
  by simp

lemma preserves_option [preserves_rule]:
  "(x = None \<Longrightarrow> preserves I m) \<Longrightarrow> (\<And>y. x = Some y \<Longrightarrow> preserves I (n y)) \<Longrightarrow>
   preserves I (case x of None \<Rightarrow> m | Some y \<Rightarrow> n y)"
  by (cases x) simp_all

lemma preserves_let [preserves_rule]:
  "preserves I (f x) \<Longrightarrow> preserves I (let y = x in f y)"
  by simp

text \<open>A loop that stops at the first error: \<^verbatim>\<open>for _, x := range xs { y, err := f(x); if err !=
  nil { return err } ... }\<close>.\<close>

fun each_op :: "('a \<Rightarrow> ('s, 'b) op) \<Rightarrow> 'a list \<Rightarrow> ('s, 'b list) op" where
  "each_op f [] = ok []"
| "each_op f (x # xs) = pass_op (f x) (\<lambda>y. pass_op (each_op f xs) (\<lambda>ys. ok (y # ys)))"

lemma preserves_each [preserves_rule]:
  "(\<And>x. preserves I (f x)) \<Longrightarrow> preserves I (each_op f xs)"
  by (induction xs) (simp_all add: preserves_pass preserves_ok)

section \<open>HTTP replies\<close>

text \<open>
  \<^verbatim>\<open>internal/api/responses.go\<close>: a handler ends in \<^verbatim>\<open>ErrorResponse\<close>,
  \<^verbatim>\<open>JSONResponse\<close>, or a bare \<^verbatim>\<open>w.WriteHeader(status)\<close>.
\<close>

datatype 'b reply =
    ErrorResponse nat string
  | JSONResponse nat 'b
  | WriteHeader nat

fun status :: "'b reply \<Rightarrow> nat" where
  "status (ErrorResponse c _) = c"
| "status (JSONResponse c _) = c"
| "status (WriteHeader c) = c"

section \<open>Go's \<^verbatim>\<open>strings\<close> package\<close>

text \<open>\<^verbatim>\<open>strings.HasPrefix\<close>, \<^verbatim>\<open>strings.Contains\<close>, \<^verbatim>\<open>strings.Join\<close>.\<close>

fun HasPrefix :: "string \<Rightarrow> string \<Rightarrow> bool" where
  "HasPrefix s [] = True"
| "HasPrefix [] (_ # _) = False"
| "HasPrefix (c # s) (d # p) = (c = d \<and> HasPrefix s p)"

fun Contains :: "string \<Rightarrow> string \<Rightarrow> bool" where
  "Contains [] p = (p = [])"
| "Contains (c # s) p = (HasPrefix (c # s) p \<or> Contains s p)"

definition TrimPrefix :: "string \<Rightarrow> string \<Rightarrow> string" where
  "TrimPrefix s p = (if HasPrefix s p then drop (length p) s else s)"

fun Join :: "string list \<Rightarrow> string \<Rightarrow> string" where
  "Join [] sep = []"
| "Join [x] sep = x"
| "Join (x # y # xs) sep = x @ sep @ Join (y # xs) sep"

lemma HasPrefix_append [simp]: "HasPrefix (p @ s) p"
  by (induction p) auto

lemma HasPrefix_iff: "HasPrefix s p \<longleftrightarrow> (\<exists>t. s = p @ t)"
  by (induction s p rule: HasPrefix.induct) auto

lemma Contains_Nil [simp]: "Contains s []"
  by (cases s) simp_all

lemma Contains_prefix: "HasPrefix s p \<Longrightarrow> Contains s p"
  by (cases s) (auto elim: HasPrefix.elims)

lemma Contains_appendI: "Contains t p \<Longrightarrow> Contains (s @ t) p"
  by (induction s) auto

lemma Contains_iff: "Contains s p \<longleftrightarrow> (\<exists>u v. s = u @ p @ v)"
proof
  show "Contains s p \<Longrightarrow> \<exists>u v. s = u @ p @ v"
  proof (induction s)
    case Nil
    then show ?case by simp
  next
    case (Cons c s)
    show ?case
    proof (cases "HasPrefix (c # s) p")
      case True
      then obtain t where "c # s = [] @ p @ t" by (auto simp: HasPrefix_iff)
      then show ?thesis by blast
    next
      case False
      with Cons obtain u v where "s = u @ p @ v" by auto
      then have "c # s = (c # u) @ p @ v" by simp
      then show ?thesis by blast
    qed
  qed
next
  show "\<exists>u v. s = u @ p @ v \<Longrightarrow> Contains s p"
    by (metis Contains_appendI Contains_prefix HasPrefix_append)
qed

text \<open>
  \<^verbatim>\<open>strings.TrimSpace\<close> strips Unicode white space.  A leading white-space code point is one
  ASCII byte or one of the UTF-8 sequences below; \<^verbatim>\<open>space_len\<close> is its length in bytes, zero
  when the string does not begin with white space.
\<close>

definition ascii_space :: "nat \<Rightarrow> bool" where
  "ascii_space c \<longleftrightarrow> 9 \<le> c \<and> c \<le> 13 \<or> c = 32"

definition wide_space :: "nat \<Rightarrow> nat \<Rightarrow> nat \<Rightarrow> bool" where
  "wide_space a b c \<longleftrightarrow>
     a = 0xE1 \<and> b = 0x9A \<and> c = 0x80 \<or>
     a = 0xE2 \<and> b = 0x80 \<and> (0x80 \<le> c \<and> c \<le> 0x8A \<or> c = 0xA8 \<or> c = 0xA9 \<or> c = 0xAF) \<or>
     a = 0xE2 \<and> b = 0x81 \<and> c = 0x9F \<or>
     a = 0xE3 \<and> b = 0x80 \<and> c = 0x80"

definition latin_space :: "nat \<Rightarrow> nat \<Rightarrow> bool" where
  "latin_space a b \<longleftrightarrow> a = 0xC2 \<and> (b = 0x85 \<or> b = 0xA0)"

fun space_len :: "nat list \<Rightarrow> nat" where
  "space_len (a # b # c # _) =
     (if ascii_space a then 1 else if latin_space a b then 2 else if wide_space a b c then 3 else 0)"
| "space_len [a, b] = (if ascii_space a then 1 else if latin_space a b then 2 else 0)"
| "space_len [a] = (if ascii_space a then 1 else 0)"
| "space_len [] = 0"

text \<open>The same test on the reversed string, for trailing white space.\<close>

fun space_len_rev :: "nat list \<Rightarrow> nat" where
  "space_len_rev (c # b # a # _) =
     (if ascii_space c then 1 else if latin_space b c then 2 else if wide_space a b c then 3 else 0)"
| "space_len_rev [c, b] = (if ascii_space c then 1 else if latin_space b c then 2 else 0)"
| "space_len_rev [c] = (if ascii_space c then 1 else 0)"
| "space_len_rev [] = 0"

text \<open>\<^verbatim>\<open>strip\<close> drops white space as long as the length test reports some; the first argument
  bounds the number of code points by the number of bytes.\<close>

fun strip :: "nat \<Rightarrow> (nat list \<Rightarrow> nat) \<Rightarrow> string \<Rightarrow> string" where
  "strip 0 len s = s"
| "strip (Suc n) len s =
     (let k = len (map of_char (take 3 s)) in if k = 0 then s else strip n len (drop k s))"

definition TrimSpace :: "string \<Rightarrow> string" where
  "TrimSpace s =
     (let l = strip (length s) space_len s
      in rev (strip (length l) space_len_rev (rev l)))"

text \<open>A string is blank when nothing is left after trimming, as in
  \<^verbatim>\<open>strings.TrimSpace(x) == ""\<close>.\<close>

definition blank :: "string \<Rightarrow> bool" where
  "blank s \<longleftrightarrow> TrimSpace s = []"

lemma TrimSpace_Nil [simp]: "TrimSpace [] = []"
  by (simp add: TrimSpace_def)

lemma not_blank_nonempty: "\<not> blank s \<Longrightarrow> s \<noteq> []"
  by (auto simp: blank_def)

text \<open>\<^verbatim>\<open>fmt\<close>'s \<^verbatim>\<open>%q\<close> in error messages: double quotes, with the quote and the backslash
  escaped (the text is only shown, never inspected).\<close>

definition quote :: "string \<Rightarrow> string" where
  "quote s = CHR 0x22 # concat (map (\<lambda>c. if c = CHR 0x22 \<or> c = CHR 0x5C then [CHR 0x5C, c] else [c]) s)
     @ [CHR 0x22]"

text \<open>\<^verbatim>\<open>%d\<close>: the decimal digits of an integer.\<close>

fun digits :: "nat \<Rightarrow> string" where
  "digits n = (if n < 10 then [char_of (48 + n)] else digits (n div 10) @ [char_of (48 + n mod 10)])"

definition decimal :: "int \<Rightarrow> string" where
  "decimal n = (if n < 0 then ''-'' @ digits (nat (- n)) else digits (nat n))"

declare digits.simps [simp del]

section \<open>Lists as tables\<close>

text \<open>\<^verbatim>\<open>First\<close> with a condition returns the first matching row in table order.\<close>

lemma find_Some_set: "find P xs = Some x \<Longrightarrow> x \<in> set xs \<and> P x"
  by (auto simp: find_Some_iff)

lemma find_None_set: "find P xs = None \<longleftrightarrow> (\<forall>x \<in> set xs. \<not> P x)"
  by (auto simp: find_None_iff)

lemma find_unique:
  "x \<in> set xs \<Longrightarrow> P x \<Longrightarrow> (\<And>y. y \<in> set xs \<Longrightarrow> P y \<Longrightarrow> y = x) \<Longrightarrow> find P xs = Some x"
proof -
  assume x: "x \<in> set xs" "P x" and u: "\<And>y. y \<in> set xs \<Longrightarrow> P y \<Longrightarrow> y = x"
  from x obtain y where y: "find P xs = Some y"
    by (metis find_None_set not_None_eq)
  with u show ?thesis by (metis find_Some_set)
qed

lemma distinct_map_key_unique:
  "distinct (map f xs) \<Longrightarrow> x \<in> set xs \<Longrightarrow> y \<in> set xs \<Longrightarrow> f x = f y \<Longrightarrow> x = y"
  by (auto simp: distinct_map inj_on_def)

lemma find_by_key:
  "distinct (map f xs) \<Longrightarrow> x \<in> set xs \<Longrightarrow> find (\<lambda>y. f y = f x) xs = Some x"
  by (rule find_unique) (auto dest: distinct_map_key_unique)

lemma distinct_map_filter_keep: "distinct (map f xs) \<Longrightarrow> distinct (map f (filter P xs))"
  by (induction xs) auto

lemma map_key_update: "(\<And>x. f (g x) = f x) \<Longrightarrow> map f (map (\<lambda>x. if P x then g x else x) xs) = map f xs"
  by (induction xs) auto

text \<open>\<^verbatim>\<open>RowsAffected\<close> of an \<^verbatim>\<open>UPDATE\<close> with condition \<^verbatim>\<open>P\<close>.\<close>

definition rows_matching :: "('a \<Rightarrow> bool) \<Rightarrow> 'a list \<Rightarrow> nat" where
  "rows_matching P xs = length (filter P xs)"

lemma rows_matching_zero: "rows_matching P xs = 0 \<longleftrightarrow> (\<forall>x \<in> set xs. \<not> P x)"
  by (simp add: rows_matching_def filter_empty_conv)

text \<open>Go's integer division truncates towards zero.\<close>

definition go_div :: "int \<Rightarrow> int \<Rightarrow> int" where
  "go_div a b = sgn a * sgn b * (\<bar>a\<bar> div \<bar>b\<bar>)"

lemma go_div_nonneg [simp]: "0 \<le> a \<Longrightarrow> 0 < b \<Longrightarrow> go_div a b = a div b"
  by (cases "a = 0") (simp_all add: go_div_def)

end
