(* ===== verification/Model_Types.thy ===== *)
theory Model_Types
  imports Prelude
begin

text \<open>
  The data types of \<^verbatim>\<open>internal/model\<close>: the string-valued enumerations with their
  constants and the structs that are rows of database tables.  A pointer field is an
  \<^verbatim>\<open>option\<close>.  A Go \<^verbatim>\<open>time.Time\<close> is its distance in nanoseconds from the Unix epoch;
  the zero value is the first instant of year 1.
\<close>

section \<open>Time\<close>

type_synonym time = int
type_synonym duration = int

definition zero_time :: time where
  "zero_time = - 62135596800000000000"

definition IsZero :: "time \<Rightarrow> bool" where
  "IsZero t \<longleftrightarrow> t = zero_time"

definition Millisecond :: duration where "Millisecond = 1000000"
definition Second :: duration where "Second = 1000000000"
definition Minute :: duration where "Minute = 60000000000"
definition Hour :: duration where "Hour = 3600000000000"

definition Milliseconds :: "duration \<Rightarrow> int" where
  "Milliseconds d = go_div d Millisecond"

section \<open>Enumerations\<close>

text \<open>The Go types are strings with named constants; a value read from a request or from the
  database may be any string.\<close>

type_synonym Protocol = string

definition ProtocolA2A :: Protocol where "ProtocolA2A = ''a2a''"
definition ProtocolMCP :: Protocol where "ProtocolMCP = ''mcp''"
definition ProtocolA2UI :: Protocol where "ProtocolA2UI = ''a2ui''"

type_synonym LifecycleState = string

definition LifecycleRegistered :: LifecycleState where "LifecycleRegistered = ''registered''"
definition LifecycleActive :: LifecycleState where "LifecycleActive = ''active''"
definition LifecycleDegraded :: LifecycleState where "LifecycleDegraded = ''degraded''"
definition LifecycleOffline :: LifecycleState where "LifecycleOffline = ''offline''"
definition LifecycleDeprecated :: LifecycleState where "LifecycleDeprecated = ''deprecated''"

lemmas lifecycle_defs = LifecycleRegistered_def LifecycleActive_def LifecycleDegraded_def
  LifecycleOffline_def LifecycleDeprecated_def

lemma lifecycle_distinct [simp]:
  "LifecycleRegistered \<noteq> LifecycleActive" "LifecycleRegistered \<noteq> LifecycleDegraded"
  "LifecycleRegistered \<noteq> LifecycleOffline" "LifecycleRegistered \<noteq> LifecycleDeprecated"
  "LifecycleActive \<noteq> LifecycleRegistered" "LifecycleActive \<noteq> LifecycleDegraded"
  "LifecycleActive \<noteq> LifecycleOffline" "LifecycleActive \<noteq> LifecycleDeprecated"
  "LifecycleDegraded \<noteq> LifecycleRegistered" "LifecycleDegraded \<noteq> LifecycleActive"
  "LifecycleDegraded \<noteq> LifecycleOffline" "LifecycleDegraded \<noteq> LifecycleDeprecated"
  "LifecycleOffline \<noteq> LifecycleRegistered" "LifecycleOffline \<noteq> LifecycleActive"
  "LifecycleOffline \<noteq> LifecycleDegraded" "LifecycleOffline \<noteq> LifecycleDeprecated"
  "LifecycleDeprecated \<noteq> LifecycleRegistered" "LifecycleDeprecated \<noteq> LifecycleActive"
  "LifecycleDeprecated \<noteq> LifecycleDegraded" "LifecycleDeprecated \<noteq> LifecycleOffline"
  by (simp_all add: lifecycle_defs)

type_synonym SourceType = string

definition SourceK8s :: SourceType where "SourceK8s = ''k8s''"
definition SourceConfig :: SourceType where "SourceConfig = ''config''"
definition SourcePush :: SourceType where "SourcePush = ''push''"
definition SourceUpstream :: SourceType where "SourceUpstream = ''upstream''"

type_synonym PartyKind = string

definition PartyKindPerson :: PartyKind where "PartyKindPerson = ''person''"
definition PartyKindGroup :: PartyKind where "PartyKindGroup = ''group''"
definition PartyKindProject :: PartyKind where "PartyKindProject = ''project''"

lemmas party_kind_defs = PartyKindPerson_def PartyKindGroup_def PartyKindProject_def

definition ValidPartyKinds :: "PartyKind \<Rightarrow> bool" where
  "ValidPartyKinds k \<longleftrightarrow> k \<in> {PartyKindPerson, PartyKindGroup, PartyKindProject}"

text \<open>The map \<^verbatim>\<open>ContainmentRelationships\<close> has the single key \<^verbatim>\<open>group_member\<close>.\<close>

definition ContainmentRelationshipNames :: "string list" where
  "ContainmentRelationshipNames = [''group_member'']"

definition ContainmentRelationships :: "string \<Rightarrow> bool" where
  "ContainmentRelationships n \<longleftrightarrow> n \<in> set ContainmentRelationshipNames"

lemma ContainmentRelationships_iff [simp]: "ContainmentRelationships n \<longleftrightarrow> n = ''group_member''"
  by (simp add: ContainmentRelationships_def ContainmentRelationshipNames_def)

section \<open>Parties\<close>

record Party =
  party_ID :: string
  party_Kind :: PartyKind
  party_Name :: string
  party_Version :: int
  party_UserID :: "string option"
  party_IsSystem :: bool
  party_CreatedAt :: time
  party_UpdatedAt :: time

record PartyRelationship =
  rel_ID :: string
  FromPartyID :: string
  FromRole :: string
  ToPartyID :: string
  ToRole :: string
  RelationshipName :: string
  rel_CreatedAt :: time

record PartyGroupClosure =
  MemberPartyID :: string
  AncestorPartyID :: string

record GlobalPartyRole =
  gpr_PartyID :: string
  gpr_RoleID :: string

record CatalogProjectMembership =
  CatalogEntryID :: string
  ProjectPartyID :: string
  cpm_CreatedAt :: time

record UserProjectMembership =
  Project :: Party
  ProjectRole :: string

section \<open>Users, roles, settings\<close>

record Role =
  role_ID :: string
  role_Name :: string
  role_Description :: string
  Permissions :: "string list"
  role_IsSystem :: bool
  role_CreatedAt :: time
  role_UpdatedAt :: time

text \<open>\<^verbatim>\<open>user_Role\<close> is the preloaded association; a stored row has none.\<close>

record User =
  user_ID :: string
  Username :: string
  Email :: string
  user_DisplayName :: string
  PasswordHash :: string
  user_RoleID :: string
  user_Role :: "Role option"
  IsActive :: bool
  LastLogin :: "time option"
  FailedAttempts :: int
  LockedUntil :: "time option"
  user_CreatedAt :: time
  user_UpdatedAt :: time

record Setting =
  setting_Key :: string
  setting_Value :: string
  setting_Category :: string
  setting_Description :: string
  setting_UpdatedAt :: time

section \<open>Catalog entries\<close>

record Provider =
  provider_ID :: string
  Organization :: string
  Team :: string
  provider_URL :: string
  provider_CreatedOn :: time

record Health =
  State :: LifecycleState
  LastProbedAt :: "time option"
  LastSuccessAt :: "time option"
  LastError :: string
  LatencyMs :: int
  ConsecutiveFailures :: int

record Validity =
  From :: "time option"
  To :: "time option"
  validity_LastSeen :: time

text \<open>The zero \<^verbatim>\<open>model.Health{}\<close>.\<close>

definition zero_Health :: Health where
  "zero_Health = \<lparr>State = '''', LastProbedAt = None, LastSuccessAt = None, LastError = '''',
     LatencyMs = 0, ConsecutiveFailures = 0\<rparr>"

definition IsActiveAt :: "Validity \<Rightarrow> time \<Rightarrow> bool" where
  "IsActiveAt v t =
     (if (case From v of Some f \<Rightarrow> t < f | None \<Rightarrow> False) then False
      else if (case To v of Some u \<Rightarrow> t > u | None \<Rightarrow> False) then False
      else True)"

end
