(* ===== verification/Capability.thy ===== *)
theory Capability
  imports Model_Types "HOL-Library.Multiset"
begin

text \<open>
  Capabilities of an agent (\<^verbatim>\<open>internal/model/capability.go\<close>, \<^verbatim>\<open>a2a_capabilities.go\<close>,
  \<^verbatim>\<open>a2a_security_capabilities.go\<close>, \<^verbatim>\<open>mcp_capabilities.go\<close>) and the views computed from
  them at serialization time (\<^verbatim>\<open>internal/model/agent.go\<close>: \<^verbatim>\<open>buildAuthSummary\<close>,
  \<^verbatim>\<open>buildAuthLabel\<close>, \<^verbatim>\<open>buildSecurityDetail\<close>).  A Go map is an association list with
  distinct keys; its order stands for one iteration order of the map.
\<close>

section \<open>Data\<close>

text \<open>JSON values, for the \<^verbatim>\<open>any\<close>-typed fields; a number is kept as its literal.\<close>

datatype json =
    JNull
  | JBool bool
  | JNum string
  | JStr string
  | JArr "json list"
  | JObj "(string \<times> json) list"

record A2ASkill =
  skill_Name :: string
  skill_Description :: string
  skill_Tags :: "string list"
  skill_InputModes :: "string list"
  skill_OutputModes :: "string list"

record A2AExtension =
  ext_URI :: string
  ext_Required :: bool

record A2AInterface =
  iface_URL :: string
  iface_Binding :: string

record A2ASignature =
  sig_Algorithm :: string
  sig_KeyID :: string

record A2AOAuthFlow =
  FlowType :: string
  AuthorizationURL :: string
  TokenURL :: string
  RefreshURL :: string
  DeviceAuthURL :: string
  Scopes :: "(string \<times> string) list"
  Deprecated :: bool

record A2ASecurityScheme =
  SchemeName :: string
  scheme_Type :: string
  scheme_Description :: string
  APIKeyLocation :: string
  APIKeyName :: string
  HTTPScheme :: string
  BearerFormat :: string
  OAuthFlows :: "A2AOAuthFlow list"
  OAuth2MetadataURL :: string
  OpenIDConnectURL :: string
  scheme_Method :: string
  scheme_Name :: string

record A2ASecurityRequirement =
  Schemes :: "(string \<times> string list) list"
  SkillRef :: string

record MCPTool =
  tool_Name :: string
  tool_Description :: string
  InputSchema :: json

record MCPResource =
  resource_Name :: string
  resource_URI :: string
  resource_Description :: string

record MCPPrompt =
  prompt_Name :: string
  prompt_Description :: string
  Arguments :: "json list"

text \<open>The \<^verbatim>\<open>Capability\<close> interface: one constructor per implementing type.\<close>

datatype Capability =
    CapSkill A2ASkill
  | CapInterface A2AInterface
  | CapSecurityScheme A2ASecurityScheme
  | CapSecurityRequirement A2ASecurityRequirement
  | CapExtension A2AExtension
  | CapSignature A2ASignature
  | CapTool MCPTool
  | CapResource MCPResource
  | CapPrompt MCPPrompt

section \<open>The interface methods and the registry\<close>

fun Kind :: "Capability \<Rightarrow> string" where
  "Kind (CapSkill _) = ''a2a.skill''"
| "Kind (CapInterface _) = ''a2a.interface''"
| "Kind (CapSecurityScheme _) = ''a2a.security_scheme''"
| "Kind (CapSecurityRequirement _) = ''a2a.security_requirement''"
| "Kind (CapExtension _) = ''a2a.extension''"
| "Kind (CapSignature _) = ''a2a.signature''"
| "Kind (CapTool _) = ''mcp.tool''"
| "Kind (CapResource _) = ''mcp.resource''"
| "Kind (CapPrompt _) = ''mcp.prompt''"

text \<open>\<^verbatim>\<open>Validate\<close>: \<^verbatim>\<open>None\<close> is the nil error.\<close>

fun Validate :: "Capability \<Rightarrow> error option" where
  "Validate (CapSkill s) =
     (if skill_Name s = '''' then Some (errorf ''a2a.skill: name is required'') else None)"
| "Validate (CapInterface i) =
     (if iface_URL i = '''' then Some (errorf ''a2a.interface: url is required'') else None)"
| "Validate (CapSecurityScheme a) =
     (if SchemeName a = '''' then Some (errorf ''a2a.security_scheme: scheme_name is required'')
      else if scheme_Type a = '''' then Some (errorf ''a2a.security_scheme: type is required'')
      else None)"
| "Validate (CapSecurityRequirement r) =
     (if length (Schemes r) = 0 then Some (errorf ''a2a.security_requirement: schemes is required'')
      else None)"
| "Validate (CapExtension e) =
     (if ext_URI e = '''' then Some (errorf ''a2a.extension: uri is required'') else None)"
| "Validate (CapSignature g) =
     (if sig_Algorithm g = '''' then Some (errorf ''a2a.signature: algorithm is required'') else None)"
| "Validate (CapTool t) =
     (if tool_Name t = '''' then Some (errorf ''mcp.tool: name is required'') else None)"
| "Validate (CapResource r) =
     (if resource_Name r = '''' then Some (errorf ''mcp.resource: name is required'') else None)"
| "Validate (CapPrompt p) =
     (if prompt_Name p = '''' then Some (errorf ''mcp.prompt: name is required'') else None)"

text \<open>The registry after the \<^verbatim>\<open>init\<close> functions have run: kind and discoverability.\<close>

definition capabilityRegistry :: "(string \<times> bool) list" where
  "capabilityRegistry =
     [(''a2a.skill'', True), (''a2a.interface'', False), (''a2a.security_scheme'', False),
      (''a2a.security_requirement'', False), (''a2a.extension'', False), (''a2a.signature'', False),
      (''mcp.tool'', True), (''mcp.resource'', True), (''mcp.prompt'', True)]"

definition registered_kind :: "string \<Rightarrow> bool" where
  "registered_kind k \<longleftrightarrow> map_of capabilityRegistry k \<noteq> None"

definition DiscoverableKinds_of :: "(string \<times> bool) list \<Rightarrow> string list" where
  "DiscoverableKinds_of registry = sort (map fst (filter snd registry))"

definition DiscoverableKinds :: "string list" where
  "DiscoverableKinds = DiscoverableKinds_of capabilityRegistry"

section \<open>Derived names of security requirements\<close>

definition derivedName :: "A2ASecurityRequirement \<Rightarrow> string" where
  "derivedName a =
     (let keys = sort (map fst (Schemes a));
          parts = map (\<lambda>k. k @ '':'' @
             Join (sort (case map_of (Schemes a) k of Some ss \<Rightarrow> ss | None \<Rightarrow> [])) '','') keys;
          name = Join parts ''+''
      in if SkillRef a \<noteq> '''' then ''skill:'' @ SkillRef a @ '':'' @ name else name)"

section \<open>Views computed at serialization time\<close>

record authSummaryJSON =
  Types :: "string list"
  Label :: string
  Required :: bool

definition auth_display_name :: "string \<Rightarrow> string" where
  "auth_display_name s =
     (if s = ''http:Bearer'' then ''Bearer JWT''
      else if s = ''http:Basic'' then ''Basic Auth''
      else if s = ''apiKey'' then ''API Key''
      else if s = ''oauth2'' then ''OAuth 2.0''
      else if s = ''openIdConnect'' then ''OIDC''
      else if s = ''mutualTls'' then ''mTLS''
      else s)"

definition buildAuthLabel :: "string list \<Rightarrow> string" where
  "buildAuthLabel schemes =
     (if length schemes = 0 then ''Open (no auth)''
      else let label = Join (map auth_display_name schemes) '' + ''
           in if length label > 40 then take 37 label @ ''...'' else label)"

definition auth_type_of :: "A2ASecurityScheme \<Rightarrow> string" where
  "auth_type_of c =
     (if scheme_Type c = ''http'' \<and> HTTPScheme c \<noteq> '''' then ''http:'' @ HTTPScheme c
      else scheme_Type c)"

text \<open>The loop of \<^verbatim>\<open>buildAuthSummary\<close>: the slice \<^verbatim>\<open>schemes\<close> holds exactly the keys of
  \<^verbatim>\<open>seen\<close>, in the order of first occurrence.\<close>

fun auth_loop :: "Capability list \<Rightarrow> string list \<Rightarrow> bool \<Rightarrow> string list \<times> bool" where
  "auth_loop [] schemes hasRequirement = (schemes, hasRequirement)"
| "auth_loop (CapSecurityScheme c # caps) schemes hasRequirement =
     (if auth_type_of c \<notin> set schemes
      then auth_loop caps (schemes @ [auth_type_of c]) hasRequirement
      else auth_loop caps schemes hasRequirement)"
| "auth_loop (CapSecurityRequirement c # caps) schemes hasRequirement =
     (if SkillRef c = '''' then auth_loop caps schemes True
      else auth_loop caps schemes hasRequirement)"
| "auth_loop (_ # caps) schemes hasRequirement = auth_loop caps schemes hasRequirement"

definition buildAuthSummary :: "Capability list \<Rightarrow> authSummaryJSON option" where
  "buildAuthSummary capabilities =
     (case auth_loop capabilities [] False of (schemes, hasRequirement) \<Rightarrow>
        if length schemes = 0 then None
        else let sorted_schemes = sort schemes
             in Some \<lparr>Types = sorted_schemes, Label = buildAuthLabel sorted_schemes,
                      Required = hasRequirement\<rparr>)"

fun scheme_caps :: "Capability list \<Rightarrow> A2ASecurityScheme list" where
  "scheme_caps [] = []"
| "scheme_caps (CapSecurityScheme c # caps) = c # scheme_caps caps"
| "scheme_caps (_ # caps) = scheme_caps caps"

fun requirement_caps :: "Capability list \<Rightarrow> A2ASecurityRequirement list" where
  "requirement_caps [] = []"
| "requirement_caps (CapSecurityRequirement c # caps) = c # requirement_caps caps"
| "requirement_caps (_ # caps) = requirement_caps caps"

text \<open>\<^verbatim>\<open>sort.Slice\<close> is not stable, so the order of equal keys is its choice: the sorting
  function is an argument (\<^verbatim>\<open>sorter key xs\<close>).  \<^verbatim>\<open>json.Marshal\<close> of these structs cannot fail,
  so the view keeps the structs themselves.\<close>

record securityDetailJSON =
  SecuritySchemes :: "A2ASecurityScheme list"
  SecurityRequirements :: "A2ASecurityRequirement list"

definition buildSecurityDetail ::
  "((A2ASecurityScheme \<Rightarrow> string) \<Rightarrow> A2ASecurityScheme list \<Rightarrow> A2ASecurityScheme list) \<Rightarrow>
   ((A2ASecurityRequirement \<Rightarrow> string) \<Rightarrow> A2ASecurityRequirement list \<Rightarrow> A2ASecurityRequirement list) \<Rightarrow>
   Capability list \<Rightarrow> securityDetailJSON option" where
  "buildSecurityDetail sort_schemes sort_reqs capabilities =
     (let schemeCaps = scheme_caps capabilities; reqCaps = requirement_caps capabilities
      in if length schemeCaps = 0 \<and> length reqCaps = 0 then None
         else Some \<lparr>SecuritySchemes = sort_schemes SchemeName schemeCaps,
                    SecurityRequirements = sort_reqs derivedName reqCaps\<rparr>)"

section \<open>Lemmas\<close>

lemma scheme_caps_set: "c \<in> set (scheme_caps caps) \<longleftrightarrow> CapSecurityScheme c \<in> set caps"
  by (induction caps rule: scheme_caps.induct) auto

lemma requirement_caps_set: "c \<in> set (requirement_caps caps) \<longleftrightarrow> CapSecurityRequirement c \<in> set caps"
  by (induction caps rule: requirement_caps.induct) auto

lemma auth_loop_types:
  "set (fst (auth_loop caps ss h)) = set ss \<union> {auth_type_of c |c. CapSecurityScheme c \<in> set caps}"
  by (induction caps ss h rule: auth_loop.induct) auto

lemma auth_loop_distinct: "distinct ss \<Longrightarrow> distinct (fst (auth_loop caps ss h))"
  by (induction caps ss h rule: auth_loop.induct) auto

lemma auth_loop_required:
  "snd (auth_loop caps ss h) \<longleftrightarrow> h \<or> (\<exists>c. CapSecurityRequirement c \<in> set caps \<and> SkillRef c = '''')"
  by (induction caps ss h rule: auth_loop.induct) auto

lemma Kind_registered: "registered_kind (Kind c)"
  by (cases c) (simp_all add: registered_kind_def capabilityRegistry_def)

text \<open>The derived name does not depend on the iteration order of the maps it reads.\<close>

lemma map_of_mset_cong:
  assumes "mset xs = mset ys" and "distinct (map fst xs)"
  shows "map_of xs = map_of ys"
proof -
  have "distinct (map fst ys)"
    using assms by (metis mset_eq_imp_distinct_iff mset_map)
  with assms show ?thesis
    by (metis map_of_inject_set mset_eq_setD)
qed

lemma sort_mset_cong: "mset xs = mset ys \<Longrightarrow> sort xs = sort ys"
  by (metis properties_for_sort sorted_sort mset_sort)

end
