(* ===== verification/Catalog_Entry.thy ===== *)
theory Catalog_Entry
  imports Capability
begin

text \<open>
  Catalog entries (\<^verbatim>\<open>internal/model/agent.go\<close>, \<^verbatim>\<open>agent_type.go\<close>): the structs, the
  synchronisation between public fields and database columns, and the flat JSON view.
  \<^verbatim>\<open>encoding/json\<close> on the two serialized columns is an argument: an encoder that may fail
  and a decoder that may fail, as \<^verbatim>\<open>json.Marshal\<close> and \<^verbatim>\<open>json.Unmarshal\<close> do.
\<close>

section \<open>Data\<close>

record AgentType =
  agent_type_ID :: string
  AgentKey :: string
  agent_Protocol :: Protocol
  Endpoint :: string
  agent_Version :: string
  agent_SpecVersion :: string
  ProviderID :: "string option"
  agent_Provider :: "Provider option"
  CreatedOn :: time
  Capabilities :: "Capability list"
  RawBytes :: string

record CatalogEntry =
  entry_ID :: string
  AgentTypeID :: string
  entry_AgentType :: "AgentType option"
  entry_DisplayName :: string
  entry_Description :: string
  Status :: LifecycleState
  Source :: SourceType
  CreatedAt :: time
  UpdatedAt :: time
  Categories :: "string list"
  Metadata :: "(string \<times> string) list"
  entry_Validity :: Validity
  CategoriesJSON :: string
  MetadataJSON :: string
  ValidFrom :: "time option"
  ValidTo :: "time option"
  LastSeen :: time
  HealthLastProbedAt :: "time option"
  HealthLastSuccessAt :: "time option"
  HealthLastError :: string
  HealthLatencyMs :: int
  HealthConsecutiveFailures :: int
  entry_Health :: Health

text \<open>The two columns that hold JSON text.\<close>

record json_codec =
  marshal_strings :: "string list \<Rightarrow> string option"
  marshal_map :: "(string \<times> string) list \<Rightarrow> string option"
  unmarshal_strings :: "string \<Rightarrow> string list option"
  unmarshal_map :: "string \<Rightarrow> (string \<times> string) list option"

section \<open>Synchronisation with the database columns\<close>

definition SyncToDB :: "json_codec \<Rightarrow> CatalogEntry \<Rightarrow> CatalogEntry" where
  "SyncToDB j e =
     (let e1 = (case marshal_strings j (Categories e) of
                  Some b \<Rightarrow> e\<lparr>CategoriesJSON := b\<rparr> | None \<Rightarrow> e);
          e2 = (case marshal_map j (Metadata e1) of
                  Some b \<Rightarrow> e1\<lparr>MetadataJSON := b\<rparr> | None \<Rightarrow> e1)
      in e2\<lparr>ValidFrom := From (entry_Validity e2), ValidTo := To (entry_Validity e2),
            LastSeen := validity_LastSeen (entry_Validity e2)\<rparr>)"

definition SyncFromDB :: "json_codec \<Rightarrow> CatalogEntry \<Rightarrow> CatalogEntry" where
  "SyncFromDB j e =
     (let e1 = (if CategoriesJSON e \<noteq> '''' then
                  (case unmarshal_strings j (CategoriesJSON e) of
                     Some cs \<Rightarrow> e\<lparr>Categories := cs\<rparr> | None \<Rightarrow> e)
                else e);
          e2 = (if MetadataJSON e1 \<noteq> '''' then
                  (case unmarshal_map j (MetadataJSON e1) of
                     Some m \<Rightarrow> e1\<lparr>Metadata := m\<rparr> | None \<Rightarrow> e1)
                else e1)
      in e2\<lparr>entry_Validity := \<lparr>From = ValidFrom e2, To = ValidTo e2, validity_LastSeen = LastSeen e2\<rparr>,
            entry_Health := \<lparr>State = Status e2, LastProbedAt = HealthLastProbedAt e2,
              LastSuccessAt = HealthLastSuccessAt e2, LastError = HealthLastError e2,
              LatencyMs = HealthLatencyMs e2,
              ConsecutiveFailures = HealthConsecutiveFailures e2\<rparr>\<rparr>)"

lemma SyncFromDB_fields [simp]:
  "entry_ID (SyncFromDB j e) = entry_ID e"
  "AgentTypeID (SyncFromDB j e) = AgentTypeID e"
  "entry_AgentType (SyncFromDB j e) = entry_AgentType e"
  "entry_DisplayName (SyncFromDB j e) = entry_DisplayName e"
  "Status (SyncFromDB j e) = Status e"
  "Source (SyncFromDB j e) = Source e"
  "HealthLastProbedAt (SyncFromDB j e) = HealthLastProbedAt e"
  "HealthConsecutiveFailures (SyncFromDB j e) = HealthConsecutiveFailures e"
  "LastSeen (SyncFromDB j e) = LastSeen e"
  by (auto simp: SyncFromDB_def Let_def split: option.splits)

lemma SyncFromDB_Health [simp]:
  "entry_Health (SyncFromDB j e) = \<lparr>State = Status e, LastProbedAt = HealthLastProbedAt e,
     LastSuccessAt = HealthLastSuccessAt e, LastError = HealthLastError e,
     LatencyMs = HealthLatencyMs e, ConsecutiveFailures = HealthConsecutiveFailures e\<rparr>"
  by (auto simp: SyncFromDB_def Let_def split: option.splits)

lemma SyncFromDB_Validity [simp]:
  "entry_Validity (SyncFromDB j e) =
     \<lparr>From = ValidFrom e, To = ValidTo e, validity_LastSeen = LastSeen e\<rparr>"
  by (auto simp: SyncFromDB_def Let_def split: option.splits)

lemma SyncToDB_columns [simp]:
  "ValidFrom (SyncToDB j e) = From (entry_Validity e)"
  "ValidTo (SyncToDB j e) = To (entry_Validity e)"
  "LastSeen (SyncToDB j e) = validity_LastSeen (entry_Validity e)"
  "Status (SyncToDB j e) = Status e" "entry_ID (SyncToDB j e) = entry_ID e"
  "Categories (SyncToDB j e) = Categories e" "Metadata (SyncToDB j e) = Metadata e"
  by (auto simp: SyncToDB_def Let_def split: option.splits)

text \<open>What the two columns need of \<^verbatim>\<open>encoding/json\<close> on the values at hand: the slice and the map
  marshal to non-empty texts that unmarshal to the same values.\<close>

definition codec_ok :: "json_codec \<Rightarrow> string list \<Rightarrow> (string \<times> string) list \<Rightarrow> bool" where
  "codec_ok j xs m \<longleftrightarrow>
     (case marshal_strings j xs of Some b \<Rightarrow> b \<noteq> '''' \<and> unmarshal_strings j b = Some xs | None \<Rightarrow> False) \<and>
     (case marshal_map j m of Some b \<Rightarrow> b \<noteq> '''' \<and> unmarshal_map j b = Some m | None \<Rightarrow> False)"

lemma SyncToDB_JSON:
  assumes "codec_ok j (Categories e) (Metadata e)"
  shows "CategoriesJSON (SyncToDB j e) \<noteq> '''' \<and>
         unmarshal_strings j (CategoriesJSON (SyncToDB j e)) = Some (Categories e)"
    and "MetadataJSON (SyncToDB j e) \<noteq> '''' \<and>
         unmarshal_map j (MetadataJSON (SyncToDB j e)) = Some (Metadata e)"
  using assms by (auto simp: SyncToDB_def codec_ok_def split: option.splits)

section \<open>The flat JSON view\<close>

record healthJSON =
  hj_State :: string
  hj_LastProbedAt :: "time option"
  hj_LastSuccessAt :: "time option"
  hj_LatencyMs :: int
  hj_ConsecutiveFailures :: int
  hj_LastError :: string

text \<open>\<^verbatim>\<open>cej_Capabilities\<close> is \<^verbatim>\<open>None\<close> when the JSON field is omitted; otherwise the list that
  \<^verbatim>\<open>MarshalCapabilitiesJSON\<close> serializes.\<close>

record catalogEntryJSON =
  cej_ID :: string
  cej_AgentTypeID :: string
  cej_DisplayName :: string
  cej_Description :: string
  cej_Protocol :: Protocol
  cej_Endpoint :: string
  cej_Version :: string
  cej_SpecVersion :: string
  cej_Status :: LifecycleState
  cej_Source :: SourceType
  cej_Provider :: "Provider option"
  cej_Categories :: "string list"
  cej_Capabilities :: "Capability list option"
  cej_Validity :: Validity
  cej_Metadata :: "(string \<times> string) list"
  cej_CreatedAt :: time
  cej_UpdatedAt :: time
  cej_Health :: healthJSON
  cej_AuthSummary :: "authSummaryJSON option"
  cej_SecurityDetail :: "securityDetailJSON option"

definition toCatalogEntryJSON ::
  "(Capability list \<Rightarrow> securityDetailJSON option) \<Rightarrow> CatalogEntry \<Rightarrow> catalogEntryJSON" where
  "toCatalogEntryJSON build_detail e =
     (let caps = (case entry_AgentType e of Some t \<Rightarrow> Capabilities t | None \<Rightarrow> []) in
      \<lparr>cej_ID = entry_ID e, cej_AgentTypeID = AgentTypeID e, cej_DisplayName = entry_DisplayName e,
       cej_Description = entry_Description e,
       cej_Protocol = (case entry_AgentType e of Some t \<Rightarrow> agent_Protocol t | None \<Rightarrow> ''''),
       cej_Endpoint = (case entry_AgentType e of Some t \<Rightarrow> Endpoint t | None \<Rightarrow> ''''),
       cej_Version = (case entry_AgentType e of Some t \<Rightarrow> agent_Version t | None \<Rightarrow> ''''),
       cej_SpecVersion = (case entry_AgentType e of Some t \<Rightarrow> agent_SpecVersion t | None \<Rightarrow> ''''),
       cej_Status = Status e, cej_Source = Source e,
       cej_Provider = (case entry_AgentType e of Some t \<Rightarrow> agent_Provider t | None \<Rightarrow> None),
       cej_Categories = Categories e,
       cej_Capabilities = (if length caps > 0 then Some caps else None),
       cej_Validity = entry_Validity e, cej_Metadata = Metadata e,
       cej_CreatedAt = CreatedAt e, cej_UpdatedAt = UpdatedAt e,
       cej_Health = \<lparr>hj_State = State (entry_Health e),
         hj_LastProbedAt = LastProbedAt (entry_Health e),
         hj_LastSuccessAt = LastSuccessAt (entry_Health e),
         hj_LatencyMs = LatencyMs (entry_Health e),
         hj_ConsecutiveFailures = ConsecutiveFailures (entry_Health e),
         hj_LastError = LastError (entry_Health e)\<rparr>,
       cej_AuthSummary = (if length caps > 0 then buildAuthSummary caps else None),
       cej_SecurityDetail = (if length caps > 0 then build_detail caps else None)\<rparr>)"

text \<open>\<^verbatim>\<open>MarshalJSON\<close> first rebuilds the public fields from the columns.\<close>

definition MarshalJSON ::
  "json_codec \<Rightarrow> (Capability list \<Rightarrow> securityDetailJSON option) \<Rightarrow> CatalogEntry \<Rightarrow> catalogEntryJSON" where
  "MarshalJSON j build_detail e = toCatalogEntryJSON build_detail (SyncFromDB j e)"

end
