(* ===== verification/Database.thy ===== *)
theory Database
  imports Catalog_Entry
begin

text \<open>
  The relational state behind the stores.  A table is the list of its rows in storage order;
  the columns are those of the structs of \<^verbatim>\<open>internal/model\<close> and the unique indexes are
  those of the GORM tags and of \<^verbatim>\<open>internal/db/migrations.go\<close>.

  The database engine is an external service.  Every statement may be refused by it; the state
  carries the schedule \<^verbatim>\<open>faults\<close> of the statements to come: \<^verbatim>\<open>Some msg\<close> refuses the next
  statement with the engine's message, \<^verbatim>\<open>None\<close> lets it run, and an exhausted schedule lets
  everything run.  Theorems quantify over the schedule, so they hold whichever statements
  fail.  A transaction that ends in an error restores the tables it started from.
\<close>

section \<open>Tables\<close>

record capabilityRow =
  cap_ID :: string
  cap_AgentTypeID :: string
  cap_Kind :: string
  cap_Name :: string
  cap_Description :: string
  cap_Properties :: json

record rawCardRow =
  raw_AgentTypeID :: string
  raw_Data :: string
  raw_ContentType :: string
  raw_FetchedAt :: time
  raw_Truncated :: bool

text \<open>\<^verbatim>\<open>schema_migrations\<close> is \<^verbatim>\<open>None\<close> before the table exists.  \<^verbatim>\<open>raw_definition\<close> is the
  former column of \<^verbatim>\<open>agent_types\<close>: the bytes by agent type where it is not null, \<^verbatim>\<open>None\<close> when
  there is no such column.\<close>

record SchemaMigration =
  sm_Version :: int
  sm_Description :: string
  sm_AppliedAt :: time

record db =
  parties :: "Party list"
  party_relationships :: "PartyRelationship list"
  party_group_closures :: "PartyGroupClosure list"
  global_party_roles :: "GlobalPartyRole list"
  catalog_project_memberships :: "CatalogProjectMembership list"
  users :: "User list"
  roles :: "Role list"
  settings :: "Setting list"
  providers :: "Provider list"
  agent_types :: "AgentType list"
  capabilities :: "capabilityRow list"
  catalog_entries :: "CatalogEntry list"
  raw_cards :: "rawCardRow list"
  schema_migrations :: "SchemaMigration list option"
  raw_definition :: "(string \<times> string) list option"
  faults :: "string option list"

definition empty_db :: db where
  "empty_db = \<lparr>parties = [], party_relationships = [], party_group_closures = [],
     global_party_roles = [], catalog_project_memberships = [], users = [], roles = [],
     settings = [], providers = [], agent_types = [], capabilities = [], catalog_entries = [],
     raw_cards = [], schema_migrations = None, raw_definition = None, faults = []\<rparr>"

section \<open>Choices of the object-relational mapper\<close>

text \<open>
  GORM is a third-party package.  Two of its behaviours decide what the stores do, so they are
  parameters: whether \<^verbatim>\<open>FirstOrCreate\<close> adds the non-zero primary key of its destination to
  the lookup, and whether \<^verbatim>\<open>Save\<close> copies the key of a loaded belongs-to association over
  the foreign-key field.
\<close>

record orm =
  pk_in_lookup :: bool
  belongs_to_wins :: bool

section \<open>Statements and transactions\<close>

definition exec :: "(db, 'a) op \<Rightarrow> (db, 'a) op" where
  "exec f = (\<lambda>s. case faults s of
       [] \<Rightarrow> f s
     | None # fs \<Rightarrow> f (s\<lparr>faults := fs\<rparr>)
     | Some msg # fs \<Rightarrow> (Inl (errorf msg), s\<lparr>faults := fs\<rparr>))"

definition query :: "(db \<Rightarrow> 'a) \<Rightarrow> (db, 'a) op" where
  "query q = exec (\<lambda>s. (Inr (q s), s))"

definition modify :: "(db \<Rightarrow> db) \<Rightarrow> (db, unit) op" where
  "modify f = exec (\<lambda>s. (Inr (), f s))"

text \<open>\<^verbatim>\<open>First(&x, cond)\<close>: of the rows that match, the one with the least primary key, else
  \<^verbatim>\<open>gorm.ErrRecordNotFound\<close>.\<close>

definition first_by :: "('a \<Rightarrow> string) \<Rightarrow> ('a \<Rightarrow> bool) \<Rightarrow> 'a list \<Rightarrow> 'a option" where
  "first_by key cond xs = find cond (sort_key key xs)"

definition record_not_found :: error where
  "record_not_found = Error ''record not found'' [ErrRecordNotFound]"

definition First :: "(db \<Rightarrow> 'a list) \<Rightarrow> ('a \<Rightarrow> string) \<Rightarrow> ('a \<Rightarrow> bool) \<Rightarrow> (db, 'a) op" where
  "First tab key cond = exec (\<lambda>s. case first_by key cond (tab s) of
       Some x \<Rightarrow> (Inr x, s)
     | None \<Rightarrow> (Inl record_not_found, s))"

lemma errors_Is_record_not_found [simp]: "errors_Is record_not_found ErrRecordNotFound"
  by (simp add: errors_Is_def record_not_found_def)

lemma first_by_Some: "first_by key cond xs = Some x \<Longrightarrow> x \<in> set xs \<and> cond x"
  by (auto simp: first_by_def dest: find_Some_set)

lemma first_by_None: "first_by key cond xs = None \<longleftrightarrow> (\<forall>x \<in> set xs. \<not> cond x)"
  by (simp add: first_by_def find_None_set)

lemma first_by_unique:
  assumes "x \<in> set xs" and "cond x" and u: "\<And>y. y \<in> set xs \<Longrightarrow> cond y \<Longrightarrow> y = x"
  shows "first_by key cond xs = Some x"
  unfolding first_by_def
proof (rule find_unique)
  show "x \<in> set (sort_key key xs)" using assms(1) by simp
  show "cond x" by fact
  fix y assume "y \<in> set (sort_key key xs)" and "cond y"
  then show "y = x" using u unfolding set_sort by blast
qed

lemma first_by_key:
  "distinct (map f xs) \<Longrightarrow> x \<in> set xs \<Longrightarrow> f x = v \<Longrightarrow> first_by key (\<lambda>y. f y = v) xs = Some x"
  by (rule first_by_unique) (auto dest: distinct_map_key_unique)

text \<open>An \<^verbatim>\<open>UPDATE\<close> returns the number of rows its condition matched.\<close>

definition update_rows :: "(db \<Rightarrow> 'a list) \<Rightarrow> ('a list \<Rightarrow> db \<Rightarrow> db) \<Rightarrow> ('a \<Rightarrow> bool) \<Rightarrow> ('a \<Rightarrow> 'a) \<Rightarrow> (db, nat) op" where
  "update_rows tab put cond f = exec (\<lambda>s.
     (Inr (rows_matching cond (tab s)),
      put (map (\<lambda>x. if cond x then f x else x) (tab s)) s))"

text \<open>An \<^verbatim>\<open>INSERT\<close> is refused when a unique index already holds one of the row's keys;
  \<^verbatim>\<open>clash\<close> names the violated index.\<close>

definition insert_row :: "(db \<Rightarrow> 'a list) \<Rightarrow> ('a list \<Rightarrow> db \<Rightarrow> db) \<Rightarrow> ('a \<Rightarrow> 'a list \<Rightarrow> string option) \<Rightarrow> 'a \<Rightarrow> (db, unit) op" where
  "insert_row tab put clash x = exec (\<lambda>s. case clash x (tab s) of
       Some cols \<Rightarrow> (Inl (errorf (''UNIQUE constraint failed: '' @ cols)), s)
     | None \<Rightarrow> (Inr (), put (tab s @ [x]) s))"

text \<open>\<^verbatim>\<open>db.Transaction(fn)\<close>: begin, run the body, commit; an error of the body or of the commit
  restores the tables (the schedule has moved on).\<close>

definition Transaction :: "(db, 'a) op \<Rightarrow> (db, 'a) op" where
  "Transaction body = (\<lambda>s. case modify (\<lambda>t. t) s of
       (Inl e, s1) \<Rightarrow> (Inl e, s1)
     | (Inr _, s1) \<Rightarrow> (case body s1 of
           (Inl e, s2) \<Rightarrow> (Inl e, s1\<lparr>faults := faults s2\<rparr>)
         | (Inr x, s2) \<Rightarrow> (case modify (\<lambda>t. t) s2 of
               (Inl e, s3) \<Rightarrow> (Inl e, s1\<lparr>faults := faults s3\<rparr>)
             | (Inr _, s3) \<Rightarrow> (Inr x, s3))))"

section \<open>Equations for an engine that refuses nothing\<close>

lemma exec_clean [simp]: "faults s = [] \<Longrightarrow> exec f s = f s"
  by (simp add: exec_def)

lemma query_clean [simp]: "faults s = [] \<Longrightarrow> query q s = (Inr (q s), s)"
  by (simp add: query_def)

lemma modify_clean [simp]: "faults s = [] \<Longrightarrow> modify f s = (Inr (), f s)"
  by (simp add: modify_def)

lemma First_clean: "faults s = [] \<Longrightarrow> First tab key cond s =
   (case first_by key cond (tab s) of Some x \<Rightarrow> (Inr x, s) | None \<Rightarrow> (Inl record_not_found, s))"
  by (simp add: First_def)

lemma update_rows_clean: "faults s = [] \<Longrightarrow> update_rows tab put cond f s =
   (Inr (rows_matching cond (tab s)), put (map (\<lambda>x. if cond x then f x else x) (tab s)) s)"
  by (simp add: update_rows_def)

lemma insert_row_clean: "faults s = [] \<Longrightarrow> insert_row tab put clash x s =
   (case clash x (tab s) of
      Some cols \<Rightarrow> (Inl (errorf (''UNIQUE constraint failed: '' @ cols)), s)
    | None \<Rightarrow> (Inr (), put (tab s @ [x]) s))"
  by (simp add: insert_row_def)

lemma Transaction_clean:
  assumes "faults s = []" and "faults (snd (body s)) = []"
  shows "Transaction body s =
    (case body s of (Inl e, s') \<Rightarrow> (Inl e, s) | (Inr x, s') \<Rightarrow> (Inr x, s'))"
proof -
  have "s\<lparr>faults := []\<rparr> = s" using assms(1) by simp
  then show ?thesis using assms
    by (cases "body s") (auto simp: Transaction_def split: sum.splits)
qed

lemmas clean_simps = First_clean update_rows_clean insert_row_clean

section \<open>Inversion\<close>

text \<open>The state without its schedule.\<close>

definition tables :: "db \<Rightarrow> db" where
  "tables s = s\<lparr>faults := []\<rparr>"

lemma tables_faults [simp]: "tables (s\<lparr>faults := fs\<rparr>) = tables s"
  by (simp add: tables_def)

lemma tables_eqD:
  assumes "tables s = tables t"
  shows "parties s = parties t" "party_relationships s = party_relationships t"
    "party_group_closures s = party_group_closures t" "global_party_roles s = global_party_roles t"
    "catalog_project_memberships s = catalog_project_memberships t" "users s = users t"
    "roles s = roles t" "settings s = settings t" "providers s = providers t"
    "agent_types s = agent_types t" "capabilities s = capabilities t"
    "catalog_entries s = catalog_entries t" "raw_cards s = raw_cards t"
    "schema_migrations s = schema_migrations t" "raw_definition s = raw_definition t"
  using assms by (cases s; cases t; simp add: tables_def)+

text \<open>What a statement or transaction that ended in a given way has done.\<close>

lemma exec_cases:
  assumes "exec f s = (r, s')"
  obtains (refused) msg fs where "r = Inl (errorf msg)" and "s' = s\<lparr>faults := fs\<rparr>"
        | (ran) fs where "f (s\<lparr>faults := fs\<rparr>) = (r, s')"
proof (cases "faults s")
  case Nil
  then have "s\<lparr>faults := []\<rparr> = s" by simp
  then have "f (s\<lparr>faults := []\<rparr>) = (r, s')" using Nil assms by (simp only: exec_def list.case)
  then show ?thesis by (rule ran)
next
  case (Cons x fs)
  then show ?thesis using assms ran refused by (cases x) (auto simp: exec_def)
qed

lemma query_InrE:
  assumes "query q s = (Inr x, s')"
  obtains fs where "s' = s\<lparr>faults := fs\<rparr>" and "x = q (s\<lparr>faults := fs\<rparr>)"
  using assms unfolding query_def by (elim exec_cases) auto

lemma query_InlE:
  assumes "query q s = (Inl e, s')"
  obtains msg fs where "e = errorf msg" and "s' = s\<lparr>faults := fs\<rparr>"
  using assms unfolding query_def by (elim exec_cases) auto

lemma modify_InrE:
  assumes "modify f s = (Inr u, s')"
  obtains fs where "s' = f (s\<lparr>faults := fs\<rparr>)"
  using assms unfolding modify_def by (elim exec_cases) auto

lemma modify_InlE:
  assumes "modify f s = (Inl e, s')"
  obtains fs where "s' = s\<lparr>faults := fs\<rparr>"
  using assms unfolding modify_def by (elim exec_cases) auto

lemma First_InrE:
  assumes "First tab key cond s = (Inr x, s')"
  obtains fs where "s' = s\<lparr>faults := fs\<rparr>" and "first_by key cond (tab (s\<lparr>faults := fs\<rparr>)) = Some x"
  using assms unfolding First_def by (elim exec_cases) (auto split: option.splits)

lemma First_InlE:
  assumes "First tab key cond s = (Inl e, s')"
  obtains (refused) msg fs where "e = errorf msg" and "s' = s\<lparr>faults := fs\<rparr>"
        | (missing) fs where "e = record_not_found" and "s' = s\<lparr>faults := fs\<rparr>"
            and "first_by key cond (tab (s\<lparr>faults := fs\<rparr>)) = None"
  using assms unfolding First_def by (elim exec_cases) (auto split: option.splits)

lemma insert_row_InrE:
  assumes "insert_row tab put clash x s = (Inr u, s')"
  obtains fs where "clash x (tab (s\<lparr>faults := fs\<rparr>)) = None"
    and "s' = put (tab (s\<lparr>faults := fs\<rparr>) @ [x]) (s\<lparr>faults := fs\<rparr>)"
  using assms unfolding insert_row_def by (elim exec_cases) (auto split: option.splits)

lemma insert_row_InlE:
  assumes "insert_row tab put clash x s = (Inl e, s')"
  obtains fs where "s' = s\<lparr>faults := fs\<rparr>"
  using assms unfolding insert_row_def by (elim exec_cases) (auto split: option.splits)

lemma update_rows_InrE:
  assumes "update_rows tab put cond f s = (Inr n, s')"
  obtains fs where "n = rows_matching cond (tab (s\<lparr>faults := fs\<rparr>))"
    and "s' = put (map (\<lambda>x. if cond x then f x else x) (tab (s\<lparr>faults := fs\<rparr>))) (s\<lparr>faults := fs\<rparr>)"
  using assms unfolding update_rows_def by (elim exec_cases) auto

lemma Transaction_InrE:
  assumes "Transaction body s = (Inr x, s')"
  obtains fs s2 fs2 where "body (s\<lparr>faults := fs\<rparr>) = (Inr x, s2)" and "s' = s2\<lparr>faults := fs2\<rparr>"
proof -
  from assms obtain s1 s2 u v where b: "modify (\<lambda>t. t) s = (Inr u, s1)"
    and m: "body s1 = (Inr x, s2)" and c: "modify (\<lambda>t. t) s2 = (Inr v, s')"
    by (auto simp: Transaction_def split: prod.splits sum.splits)
  from b obtain fs where "s1 = s\<lparr>faults := fs\<rparr>" by (rule modify_InrE)
  moreover from c obtain fs2 where "s' = s2\<lparr>faults := fs2\<rparr>" by (rule modify_InrE)
  ultimately show ?thesis using m that by blast
qed

text \<open>A failed transaction has changed no table.\<close>

lemma Transaction_InlE:
  assumes "Transaction body s = (Inl e, s')"
  obtains fs where "s' = s\<lparr>faults := fs\<rparr>"
proof -
  have "\<exists>fs. s' = s\<lparr>faults := fs\<rparr>"
    using assms
    by (auto simp: Transaction_def split: prod.splits sum.splits elim!: modify_InrE modify_InlE)
  then show ?thesis using that by blast
qed

lemmas db_elims = query_InrE query_InlE modify_InrE modify_InlE First_InrE First_InlE
  insert_row_InrE insert_row_InlE update_rows_InrE Transaction_InrE Transaction_InlE

section \<open>Invariants of the tables\<close>

text \<open>
  The contract between the database layer and an invariant of the tables: the invariant does not
  look at the schedule.  Every operation built from statements that keep it then keeps it,
  whichever statements the engine refuses.
\<close>

locale table_invariant =
  fixes I :: "db \<Rightarrow> bool"
  assumes faults_irrelevant: "I (s\<lparr>faults := fs\<rparr>) \<longleftrightarrow> I s"
begin

lemma tables_determine: "tables s = tables t \<Longrightarrow> I s \<longleftrightarrow> I t"
  by (metis faults_irrelevant tables_def)

lemma tables_transfer: "I t \<Longrightarrow> tables s = tables t \<Longrightarrow> I s"
  using tables_determine by blast

lemma preserves_exec:
  assumes "\<And>s. I s \<Longrightarrow> I (snd (f s))"
  shows "preserves I (exec f)"
  by (auto simp: preserves_def exec_def faults_irrelevant assms split: list.split option.split)

lemma preserves_query [preserves_rule]: "preserves I (query q)"
  unfolding query_def by (rule preserves_exec) simp

lemma preserves_First [preserves_rule]: "preserves I (First tab key cond)"
  unfolding First_def by (rule preserves_exec) (simp split: option.split)

lemma preserves_modify: "(\<And>s. I s \<Longrightarrow> I (f s)) \<Longrightarrow> preserves I (modify f)"
  unfolding modify_def by (rule preserves_exec) simp

lemma preserves_update_rows:
  assumes "\<And>s. I s \<Longrightarrow> I (put (map (\<lambda>x. if cond x then f x else x) (tab s)) s)"
  shows "preserves I (update_rows tab put cond f)"
  unfolding update_rows_def by (rule preserves_exec) (simp add: assms)

lemma preserves_insert_row:
  assumes "\<And>s. I s \<Longrightarrow> clash x (tab s) = None \<Longrightarrow> I (put (tab s @ [x]) s)"
  shows "preserves I (insert_row tab put clash x)"
  unfolding insert_row_def by (rule preserves_exec) (simp add: assms split: option.split)

lemma Transaction_keeps:
  assumes body: "\<And>s r s'. I s \<Longrightarrow> body s = (Inr r, s') \<Longrightarrow> I s'"
  shows "preserves I (Transaction body)"
proof (rule preservesI)
  fix s assume "I s"
  obtain r1 s1 where b: "modify (\<lambda>t. t) s = (r1, s1)" by (cases "modify (\<lambda>t. t) s")
  with \<open>I s\<close> have I1: "I s1"
    using preserves_modify [of "\<lambda>t. t"] by (metis preserves_result)
  obtain r2 s2 where m: "body s1 = (r2, s2)" by (cases "body s1")
  obtain r3 s3 where c: "modify (\<lambda>t. t) s2 = (r3, s3)" by (cases "modify (\<lambda>t. t) s2")
  have "I s3" if "r2 = Inr x" for x
    using body [OF I1] m c that preserves_modify [of "\<lambda>t. t"] by (metis preserves_result)
  then show "I (snd (Transaction body s))"
    using I1 b m c by (auto simp: Transaction_def faults_irrelevant split: sum.split)
qed

lemma preserves_Transaction [preserves_rule]:
  "preserves I body \<Longrightarrow> preserves I (Transaction body)"
  by (rule Transaction_keeps) (metis preserves_result)

end

end
