(* ===== verification/Capability_Json.thy ===== *)
theory Capability_Json
  imports Capability Database "HOL-Library.AList" "HOL-Library.Monad_Syntax" "HOL-Library.Sublist"
begin

text \<open>
  The JSON shape of capabilities and the rows they are stored in
  (\<^verbatim>\<open>internal/model/capability.go\<close>, the struct tags of the capability types, and
  \<^verbatim>\<open>capabilityToRow\<close>, \<^verbatim>\<open>derivedNameFromSchemes\<close>, \<^verbatim>\<open>rowToCapability\<close> of
  \<^verbatim>\<open>internal/store/sql_store.go\<close>).

  A JSON text is its value.  \<^verbatim>\<open>encoding/json\<close> writes the fields of a struct in order, leaves
  out an empty field tagged \<^verbatim>\<open>omitempty\<close>, and writes a map with its keys sorted; reading, it
  leaves a field alone when the key is absent or null and fails when the value has another
  type.  Keys are compared exactly: the keys of stored objects are the ones the tags write.
  A number in an \<^verbatim>\<open>any\<close> field is the literal that \<^verbatim>\<open>encoding/json\<close> prints for it, so
  passing it through \<^verbatim>\<open>map[string]any\<close> keeps it.
\<close>

section \<open>Writing\<close>

text \<open>A field tagged \<^verbatim>\<open>omitempty\<close>; the first argument says whether its value is empty.\<close>

definition omit :: "bool \<Rightarrow> string \<Rightarrow> json \<Rightarrow> (string \<times> json) list" where
  "omit is_empty k v = (if is_empty then [] else [(k, v)])"

abbreviation omit_str :: "string \<Rightarrow> string \<Rightarrow> (string \<times> json) list" where
  "omit_str k s \<equiv> omit (s = '''') k (JStr s)"

abbreviation omit_list :: "string \<Rightarrow> json list \<Rightarrow> (string \<times> json) list" where
  "omit_list k xs \<equiv> omit (xs = []) k (JArr xs)"

definition flow_json :: "A2AOAuthFlow \<Rightarrow> json" where
  "flow_json f = JObj ([(''flow_type'', JStr (FlowType f))]
     @ omit_str ''authorization_url'' (AuthorizationURL f) @ omit_str ''token_url'' (TokenURL f)
     @ omit_str ''refresh_url'' (RefreshURL f) @ omit_str ''device_auth_url'' (DeviceAuthURL f)
     @ omit (Scopes f = []) ''scopes'' (JObj (map (\<lambda>(k, v). (k, JStr v)) (Scopes f)))
     @ omit (\<not> Deprecated f) ''deprecated'' (JBool (Deprecated f)))"

definition skill_fields :: "A2ASkill \<Rightarrow> (string \<times> json) list" where
  "skill_fields s = (''name'', JStr (skill_Name s)) # omit_str ''description'' (skill_Description s)
     @ omit_list ''tags'' (map JStr (skill_Tags s)) @ omit_list ''inputModes'' (map JStr (skill_InputModes s))
     @ omit_list ''outputModes'' (map JStr (skill_OutputModes s))"

definition scheme_fields :: "A2ASecurityScheme \<Rightarrow> (string \<times> json) list" where
  "scheme_fields a = [(''scheme_name'', JStr (SchemeName a)), (''type'', JStr (scheme_Type a))]
     @ omit_str ''description'' (scheme_Description a)
     @ omit_str ''api_key_location'' (APIKeyLocation a) @ omit_str ''api_key_name'' (APIKeyName a)
     @ omit_str ''http_scheme'' (HTTPScheme a) @ omit_str ''bearer_format'' (BearerFormat a)
     @ omit_list ''oauth_flows'' (map flow_json (OAuthFlows a))
     @ omit_str ''oauth2_metadata_url'' (OAuth2MetadataURL a)
     @ omit_str ''openid_connect_url'' (OpenIDConnectURL a)
     @ omit_str ''method'' (scheme_Method a) @ omit_str ''name'' (scheme_Name a)"

definition schemes_json :: "(string \<times> string list) list \<Rightarrow> json" where
  "schemes_json m = JObj (map (\<lambda>(k, ss). (k, JArr (map JStr ss))) m)"

fun cap_fields :: "Capability \<Rightarrow> (string \<times> json) list" where
  "cap_fields (CapSkill s) = skill_fields s"
| "cap_fields (CapInterface i) = (''url'', JStr (iface_URL i)) # omit_str ''binding'' (iface_Binding i)"
| "cap_fields (CapSecurityScheme a) = scheme_fields a"
| "cap_fields (CapSecurityRequirement r) =
     (''schemes'', schemes_json (Schemes r)) # omit_str ''skill_ref'' (SkillRef r)"
| "cap_fields (CapExtension e) = [(''uri'', JStr (ext_URI e)), (''required'', JBool (ext_Required e))]"
| "cap_fields (CapSignature g) = (''algorithm'', JStr (sig_Algorithm g)) # omit_str ''keyId'' (sig_KeyID g)"
| "cap_fields (CapTool t) = [(''name'', JStr (tool_Name t)), (''description'', JStr (tool_Description t))]
     @ omit (InputSchema t = JNull) ''input_schema'' (InputSchema t)"
| "cap_fields (CapResource r) = [(''name'', JStr (resource_Name r)), (''uri'', JStr (resource_URI r))]
     @ omit_str ''description'' (resource_Description r)"
| "cap_fields (CapPrompt p) = (''name'', JStr (prompt_Name p)) #
     omit_str ''description'' (prompt_Description p) @ omit_list ''arguments'' (Arguments p)"

text \<open>\<^verbatim>\<open>json.Marshal\<close> of a map.\<close>

definition map_json :: "(string \<times> json) list \<Rightarrow> json" where
  "map_json m = JObj (sort_key fst m)"

definition MarshalCapabilitiesJSON :: "Capability list \<Rightarrow> json" where
  "MarshalCapabilitiesJSON items =
     JArr (map (\<lambda>c. map_json (AList.update ''kind'' (JStr (Kind c)) (cap_fields c))) items)"

section \<open>Reading\<close>

type_synonym object = "string \<rightharpoonup> json"

definition str_field :: "object \<Rightarrow> string \<Rightarrow> string option" where
  "str_field m k = (case m k of None \<Rightarrow> Some '''' | Some JNull \<Rightarrow> Some '''' | Some (JStr s) \<Rightarrow> Some s | _ \<Rightarrow> None)"

definition bool_field :: "object \<Rightarrow> string \<Rightarrow> bool option" where
  "bool_field m k = (case m k of None \<Rightarrow> Some False | Some JNull \<Rightarrow> Some False | Some (JBool b) \<Rightarrow> Some b | _ \<Rightarrow> None)"

fun str_items :: "json list \<Rightarrow> string list option" where
  "str_items [] = Some []"
| "str_items (JStr s # xs) = map_option ((#) s) (str_items xs)"
| "str_items (JNull # xs) = map_option ((#) '''') (str_items xs)"
| "str_items (_ # xs) = None"

definition list_field :: "object \<Rightarrow> string \<Rightarrow> json list option" where
  "list_field m k = (case m k of None \<Rightarrow> Some [] | Some JNull \<Rightarrow> Some [] | Some (JArr xs) \<Rightarrow> Some xs | _ \<Rightarrow> None)"

definition strs_field :: "object \<Rightarrow> string \<Rightarrow> string list option" where
  "strs_field m k = Option.bind (list_field m k) str_items"

fun str_values :: "(string \<times> json) list \<Rightarrow> (string \<times> string) list option" where
  "str_values [] = Some []"
| "str_values ((k, JStr s) # xs) = map_option ((#) (k, s)) (str_values xs)"
| "str_values ((k, JNull) # xs) = map_option ((#) (k, '''')) (str_values xs)"
| "str_values (_ # xs) = None"

fun strs_values :: "(string \<times> json) list \<Rightarrow> (string \<times> string list) list option" where
  "strs_values [] = Some []"
| "strs_values ((k, JArr ss) # xs) =
     Option.bind (str_items ss) (\<lambda>vs. map_option ((#) (k, vs)) (strs_values xs))"
| "strs_values ((k, JNull) # xs) = map_option ((#) (k, [])) (strs_values xs)"
| "strs_values (_ # xs) = None"

definition obj_field :: "object \<Rightarrow> string \<Rightarrow> (string \<times> json) list option" where
  "obj_field m k = (case m k of None \<Rightarrow> Some [] | Some JNull \<Rightarrow> Some [] | Some (JObj o') \<Rightarrow> Some o' | _ \<Rightarrow> None)"

definition flow_of :: "json \<Rightarrow> A2AOAuthFlow option" where
  "flow_of j = (case j of JObj l \<Rightarrow> (let m = map_of l in do {
       ft \<leftarrow> str_field m ''flow_type''; au \<leftarrow> str_field m ''authorization_url'';
       tu \<leftarrow> str_field m ''token_url''; ru \<leftarrow> str_field m ''refresh_url'';
       du \<leftarrow> str_field m ''device_auth_url'';
       sc \<leftarrow> Option.bind (obj_field m ''scopes'') str_values;
       dp \<leftarrow> bool_field m ''deprecated'';
       Some \<lparr>FlowType = ft, AuthorizationURL = au, TokenURL = tu, RefreshURL = ru,
             DeviceAuthURL = du, Scopes = sc, Deprecated = dp\<rparr>})
     | JNull \<Rightarrow> Some \<lparr>FlowType = '''', AuthorizationURL = '''', TokenURL = '''', RefreshURL = '''',
             DeviceAuthURL = '''', Scopes = [], Deprecated = False\<rparr>
     | _ \<Rightarrow> None)"

fun flows_of :: "json list \<Rightarrow> A2AOAuthFlow list option" where
  "flows_of [] = Some []"
| "flows_of (x # xs) = Option.bind (flow_of x) (\<lambda>f. map_option ((#) f) (flows_of xs))"

definition skill_of :: "object \<Rightarrow> A2ASkill option" where
  "skill_of m = do {
     n \<leftarrow> str_field m ''name''; d \<leftarrow> str_field m ''description''; t \<leftarrow> strs_field m ''tags'';
     i \<leftarrow> strs_field m ''inputModes''; u \<leftarrow> strs_field m ''outputModes'';
     Some \<lparr>skill_Name = n, skill_Description = d, skill_Tags = t, skill_InputModes = i, skill_OutputModes = u\<rparr>}"

definition scheme_of :: "object \<Rightarrow> A2ASecurityScheme option" where
  "scheme_of m = do {
     sn \<leftarrow> str_field m ''scheme_name''; ty \<leftarrow> str_field m ''type''; d \<leftarrow> str_field m ''description'';
     al \<leftarrow> str_field m ''api_key_location''; an \<leftarrow> str_field m ''api_key_name'';
     hs \<leftarrow> str_field m ''http_scheme''; bf \<leftarrow> str_field m ''bearer_format'';
     fl \<leftarrow> Option.bind (list_field m ''oauth_flows'') flows_of;
     mu \<leftarrow> str_field m ''oauth2_metadata_url''; oc \<leftarrow> str_field m ''openid_connect_url'';
     me \<leftarrow> str_field m ''method''; na \<leftarrow> str_field m ''name'';
     Some \<lparr>SchemeName = sn, scheme_Type = ty, scheme_Description = d, APIKeyLocation = al, APIKeyName = an,
           HTTPScheme = hs, BearerFormat = bf, OAuthFlows = fl, OAuth2MetadataURL = mu,
           OpenIDConnectURL = oc, scheme_Method = me, scheme_Name = na\<rparr>}"

text \<open>\<^verbatim>\<open>factory()\<close> of a kind followed by \<^verbatim>\<open>json.Unmarshal\<close> into the new value; the kind has
  been found in the registry.\<close>

definition cap_of :: "string \<Rightarrow> object \<Rightarrow> Capability option" where
  "cap_of kind m =
     (if kind = ''a2a.skill'' then map_option CapSkill (skill_of m)
      else if kind = ''a2a.interface'' then do {
        u \<leftarrow> str_field m ''url''; b \<leftarrow> str_field m ''binding'';
        Some (CapInterface \<lparr>iface_URL = u, iface_Binding = b\<rparr>)}
      else if kind = ''a2a.security_scheme'' then map_option CapSecurityScheme (scheme_of m)
      else if kind = ''a2a.security_requirement'' then do {
        ss \<leftarrow> Option.bind (obj_field m ''schemes'') strs_values; r \<leftarrow> str_field m ''skill_ref'';
        Some (CapSecurityRequirement \<lparr>Schemes = ss, SkillRef = r\<rparr>)}
      else if kind = ''a2a.extension'' then do {
        u \<leftarrow> str_field m ''uri''; r \<leftarrow> bool_field m ''required'';
        Some (CapExtension \<lparr>ext_URI = u, ext_Required = r\<rparr>)}
      else if kind = ''a2a.signature'' then do {
        a \<leftarrow> str_field m ''algorithm''; k \<leftarrow> str_field m ''keyId'';
        Some (CapSignature \<lparr>sig_Algorithm = a, sig_KeyID = k\<rparr>)}
      else if kind = ''mcp.tool'' then do {
        n \<leftarrow> str_field m ''name''; d \<leftarrow> str_field m ''description'';
        Some (CapTool \<lparr>tool_Name = n, tool_Description = d,
          InputSchema = (case m ''input_schema'' of Some v \<Rightarrow> v | None \<Rightarrow> JNull)\<rparr>)}
      else if kind = ''mcp.resource'' then do {
        n \<leftarrow> str_field m ''name''; u \<leftarrow> str_field m ''uri''; d \<leftarrow> str_field m ''description'';
        Some (CapResource \<lparr>resource_Name = n, resource_URI = u, resource_Description = d\<rparr>)}
      else if kind = ''mcp.prompt'' then do {
        n \<leftarrow> str_field m ''name''; d \<leftarrow> str_field m ''description''; a \<leftarrow> list_field m ''arguments'';
        Some (CapPrompt \<lparr>prompt_Name = n, prompt_Description = d, Arguments = a\<rparr>)}
      else None)"

text \<open>The kind of an item: \<^verbatim>\<open>None\<close> when the item does not decode into \<^verbatim>\<open>kindWrapper\<close>.\<close>

definition kindWrapper :: "json \<Rightarrow> string option" where
  "kindWrapper raw = (case raw of JObj l \<Rightarrow> str_field (map_of l) ''kind'' | JNull \<Rightarrow> Some '''' | _ \<Rightarrow> None)"

definition fields_of :: "json \<Rightarrow> (string \<times> json) list" where
  "fields_of j = (case j of JObj l \<Rightarrow> l | _ \<Rightarrow> [])"

text \<open>The text of an \<^verbatim>\<open>encoding/json\<close> error is abbreviated.\<close>

definition json_error :: error where
  "json_error = errorf ''json: cannot unmarshal''"

fun unmarshal_items :: "json list \<Rightarrow> Capability list \<Rightarrow> error + Capability list" where
  "unmarshal_items [] result = Inr result"
| "unmarshal_items (raw # rest) result =
     (case kindWrapper raw of
        None \<Rightarrow> unmarshal_items rest result
      | Some k \<Rightarrow>
          if \<not> registered_kind k then unmarshal_items rest result
          else (case cap_of k (map_of (fields_of raw)) of
              None \<Rightarrow> Inl (wrapf (''unmarshal kind '' @ quote k) json_error)
            | Some item \<Rightarrow> unmarshal_items rest (result @ [item])))"

definition UnmarshalCapabilitiesJSON :: "json \<Rightarrow> error + Capability list" where
  "UnmarshalCapabilitiesJSON data = (case data of
       JArr rawItems \<Rightarrow> unmarshal_items rawItems []
     | JNull \<Rightarrow> Inr []
     | _ \<Rightarrow> Inl (wrapf ''unmarshal capabilities array'' json_error))"

section \<open>Rows of the capabilities table\<close>

text \<open>\<^verbatim>\<open>v, _ := m[k].(string)\<close>.\<close>

definition string_at :: "(string \<times> json) list \<Rightarrow> string \<Rightarrow> string" where
  "string_at m k = (case map_of m k of Some (JStr s) \<Rightarrow> s | _ \<Rightarrow> '''')"

fun first_nonempty :: "string list \<Rightarrow> string" where
  "first_nonempty [] = ''''"
| "first_nonempty (x # xs) = (if x \<noteq> '''' then x else first_nonempty xs)"

fun any_strings :: "json list \<Rightarrow> string list" where
  "any_strings [] = []"
| "any_strings (JStr s # xs) = s # any_strings xs"
| "any_strings (_ # xs) = any_strings xs"

definition derivedNameFromSchemes :: "(string \<times> json) list \<Rightarrow> string" where
  "derivedNameFromSchemes m =
     (case map_of m ''schemes'' of
        Some (JObj schemesMap) \<Rightarrow>
          if length schemesMap = 0 then ''''
          else let keys = sort (map fst schemesMap);
                   parts = map (\<lambda>k. k @ '':'' @ (case map_of schemesMap k of
                       Some (JArr sv) \<Rightarrow> Join (sort (any_strings sv)) '','' | _ \<Rightarrow> '''')) keys;
                   name = Join parts ''+'';
                   skillRef = string_at m ''skill_ref''
               in if skillRef \<noteq> '''' then ''skill:'' @ skillRef @ '':'' @ name else name
      | _ \<Rightarrow> '''')"

definition row_name :: "(string \<times> json) list \<Rightarrow> string" where
  "row_name m =
     (let name = first_nonempty (string_at m ''name'' #
            map (string_at m) [''scheme_name'', ''uri'', ''url'', ''type'', ''algorithm''])
      in if name = '''' then derivedNameFromSchemes m else name)"

definition capabilityToRow :: "string \<Rightarrow> string \<Rightarrow> Capability \<Rightarrow> capabilityRow" where
  "capabilityToRow uid agentTypeID cap =
     (let m = cap_fields cap
      in \<lparr>cap_ID = uid, cap_AgentTypeID = agentTypeID, cap_Kind = Kind cap, cap_Name = row_name m,
          cap_Description = string_at m ''description'',
          cap_Properties = map_json (AList.delete ''description'' (AList.delete ''name'' m))\<rparr>)"

definition rowToCapability :: "capabilityRow \<Rightarrow> error + Capability" where
  "rowToCapability row =
     (if \<not> registered_kind (cap_Kind row)
      then Inl (errorf (''unknown capability kind: '' @ cap_Kind row))
      else let props = (map_of (fields_of (cap_Properties row)))
                 (''name'' \<mapsto> JStr (cap_Name row), ''description'' \<mapsto> JStr (cap_Description row));
               props' = (if cap_Kind row = ''a2a.security_scheme'' \<and> props ''scheme_name'' = None
                         then props(''scheme_name'' \<mapsto> JStr (cap_Name row)) else props)
           in case cap_of (cap_Kind row) props' of
                Some c \<Rightarrow> Inr c
              | None \<Rightarrow> Inl (wrapf (''unmarshal into capability kind '' @ quote (cap_Kind row)) json_error))"

section \<open>Lookup in written objects\<close>

named_theorems field_simps \<open>what a reader finds in an object that was written field by field\<close>

text \<open>A typed read depends on the value at its key only; the rules pass over the other keys,
  and an omitted field reads as its zero value.\<close>

lemma lookup_other [field_simps]:
  "k' \<noteq> k \<Longrightarrow> (m ++ map_of (omit b k v)) k' = m k'"
  "k' \<noteq> k \<Longrightarrow> map_of (omit b k v) k' = None"
  by (simp_all add: omit_def)

lemma str_field_written [field_simps]:
  "k' \<noteq> k \<Longrightarrow> str_field (m(k := v)) k' = str_field m k'"
  "str_field (m(k \<mapsto> JStr s)) k = Some s"
  "k' \<noteq> k \<Longrightarrow> str_field (m ++ map_of (omit b k w)) k' = str_field m k'"
  "m k = None \<Longrightarrow> str_field (m ++ map_of (omit (s = []) k (JStr s))) k = Some s"
  "k' \<noteq> k \<Longrightarrow> str_field (map_of (omit b k w)) k' = Some []"
  "str_field (map_of (omit (s = []) k (JStr s))) k = Some s"
  "str_field Map.empty k = Some []"
  by (simp_all add: str_field_def omit_def map_add_def)

lemma list_field_written [field_simps]:
  "k' \<noteq> k \<Longrightarrow> list_field (m(k := v)) k' = list_field m k'"
  "list_field (m(k \<mapsto> JArr xs)) k = Some xs"
  "k' \<noteq> k \<Longrightarrow> list_field (m ++ map_of (omit b k w)) k' = list_field m k'"
  "m k = None \<Longrightarrow> list_field (m ++ map_of (omit (xs = []) k (JArr xs))) k = Some xs"
  "k' \<noteq> k \<Longrightarrow> list_field (map_of (omit b k w)) k' = Some []"
  "list_field (map_of (omit (xs = []) k (JArr xs))) k = Some xs"
  "list_field Map.empty k = Some []"
  by (simp_all add: list_field_def omit_def map_add_def)

lemma bool_field_written [field_simps]:
  "k' \<noteq> k \<Longrightarrow> bool_field (m(k := v)) k' = bool_field m k'"
  "bool_field (m(k \<mapsto> JBool t)) k = Some t"
  "k' \<noteq> k \<Longrightarrow> bool_field (m ++ map_of (omit b k w)) k' = bool_field m k'"
  "m k = None \<Longrightarrow> bool_field (m ++ map_of (omit (\<not> t) k (JBool t))) k = Some t"
  "k' \<noteq> k \<Longrightarrow> bool_field (map_of (omit b k w)) k' = Some False"
  "bool_field (map_of (omit (\<not> t) k (JBool t))) k = Some t"
  "bool_field Map.empty k = Some False"
  by (simp_all add: bool_field_def omit_def map_add_def)

lemma obj_field_written [field_simps]:
  "k' \<noteq> k \<Longrightarrow> obj_field (m(k := v)) k' = obj_field m k'"
  "obj_field (m(k \<mapsto> JObj l)) k = Some l"
  "k' \<noteq> k \<Longrightarrow> obj_field (m ++ map_of (omit b k w)) k' = obj_field m k'"
  "m k = None \<Longrightarrow> obj_field (m ++ map_of (omit (l = []) k (JObj l))) k = Some l"
  "k' \<noteq> k \<Longrightarrow> obj_field (map_of (omit b k w)) k' = Some []"
  "obj_field (map_of (omit (l = []) k (JObj l))) k = Some l"
  "obj_field Map.empty k = Some []"
  by (simp_all add: obj_field_def omit_def map_add_def)

lemma mapped_list_written [field_simps]:
  "m k = None \<Longrightarrow> list_field (m ++ map_of (omit (ys = []) k (JArr (map f ys)))) k = Some (map f ys)"
  "list_field (map_of (omit (ys = []) k (JArr (map f ys)))) k = Some (map f ys)"
  "m k = None \<Longrightarrow> obj_field (m ++ map_of (omit (zs = []) k (JObj (map g zs)))) k = Some (map g zs)"
  by (simp_all add: list_field_def obj_field_def omit_def map_add_def)

lemma any_written [field_simps]:
  "(case map_of (omit (j = JNull) k j) k of None \<Rightarrow> JNull | Some v \<Rightarrow> v) = j"
  by (simp add: omit_def)

lemma str_items_map [field_simps]: "str_items (map JStr xs) = Some xs"
  by (induction xs) auto

lemma str_values_map [field_simps]: "str_values (map (\<lambda>(k, v). (k, JStr v)) xs) = Some xs"
  by (induction xs) auto

lemma strs_values_map [field_simps]: "strs_values (map (\<lambda>(k, ss). (k, JArr (map JStr ss))) xs) = Some xs"
  by (induction xs) (auto simp: str_items_map)

lemma flow_of_flow_json [field_simps]: "flow_of (flow_json f) = Some f"
  by (cases f) (simp add: flow_of_def flow_json_def field_simps)

lemma flows_of_map [field_simps]: "flows_of (map flow_json fs) = Some fs"
  by (induction fs) (simp_all add: flow_of_flow_json)

section \<open>Round trips\<close>

lemmas reader_defs = cap_of_def skill_of_def scheme_of_def skill_fields_def scheme_fields_def
  strs_field_def schemes_json_def

lemma cap_of_with_kind: "cap_of (Kind c) ((map_of (cap_fields c))(''kind'' \<mapsto> v)) = Some c"
  by (cases c; simp add: reader_defs field_simps)

text \<open>The keys that a written struct can have, in order, are distinct.\<close>

definition keys_within :: "(string \<times> json) list \<Rightarrow> string list \<Rightarrow> bool" where
  "keys_within xs ks \<longleftrightarrow> subseq (map fst xs) ks"

lemma keys_within_rules:
  "keys_within xs ks \<Longrightarrow> keys_within (omit b k v @ xs) (k # ks)"
  "keys_within xs ks \<Longrightarrow> keys_within ((k, v) # xs) (k # ks)"
  "keys_within (omit b k v) [k]" "keys_within [] []"
  by (auto simp: keys_within_def omit_def)

lemma keys_within_distinct: "keys_within xs ks \<Longrightarrow> distinct ks \<Longrightarrow> distinct (map fst xs)"
  unfolding keys_within_def
  by (induction rule: list_emb.induct) (auto dest: list_emb_set)

fun cap_keys :: "Capability \<Rightarrow> string list" where
  "cap_keys (CapSkill _) = [''name'', ''description'', ''tags'', ''inputModes'', ''outputModes'']"
| "cap_keys (CapInterface _) = [''url'', ''binding'']"
| "cap_keys (CapSecurityScheme _) = [''scheme_name'', ''type'', ''description'', ''api_key_location'',
     ''api_key_name'', ''http_scheme'', ''bearer_format'', ''oauth_flows'', ''oauth2_metadata_url'',
     ''openid_connect_url'', ''method'', ''name'']"
| "cap_keys (CapSecurityRequirement _) = [''schemes'', ''skill_ref'']"
| "cap_keys (CapExtension _) = [''uri'', ''required'']"
| "cap_keys (CapSignature _) = [''algorithm'', ''keyId'']"
| "cap_keys (CapTool _) = [''name'', ''description'', ''input_schema'']"
| "cap_keys (CapResource _) = [''name'', ''uri'', ''description'']"
| "cap_keys (CapPrompt _) = [''name'', ''description'', ''arguments'']"

lemma cap_fields_keys: "keys_within (cap_fields c) (cap_keys c)"
  by (cases c; simp only: cap_fields.simps cap_keys.simps skill_fields_def scheme_fields_def append.simps;
      intro keys_within_rules)

lemma cap_fields_distinct: "distinct (map fst (cap_fields c))"
  by (rule keys_within_distinct [OF cap_fields_keys]) (cases c; simp)

lemma distinct_map_fst_sort: "distinct (map f (sort_key g xs)) \<longleftrightarrow> distinct (map f xs)"
  by (simp add: distinct_map)

lemma map_of_map_json: "distinct (map fst m) \<Longrightarrow> map_of (fields_of (map_json m)) = map_of m"
  unfolding fields_of_def map_json_def json.case
  by (rule map_of_mset_cong) (simp_all add: distinct_map_fst_sort)

lemma unmarshal_items_marshalled:
  "unmarshal_items (map (\<lambda>c. map_json (AList.update ''kind'' (JStr (Kind c)) (cap_fields c))) cs) result =
   Inr (result @ cs)"
proof (induction cs arbitrary: result)
  case (Cons c cs)
  let ?m = "AList.update ''kind'' (JStr (Kind c)) (cap_fields c)"
  have d: "map_of (fields_of (map_json ?m)) = (map_of (cap_fields c))(''kind'' \<mapsto> JStr (Kind c))"
    by (simp add: map_of_map_json distinct_update cap_fields_distinct update_conv')
  then have "kindWrapper (map_json ?m) = Some (Kind c)"
    by (simp add: kindWrapper_def map_json_def fields_of_def field_simps)
  with d Cons.IH show ?case
    by (simp add: Kind_registered cap_of_with_kind)
qed simp

text \<open>
  \<^bold>\<open>C29\<close> Serializing a list of capabilities with their kinds and parsing it back gives the same
  list, whatever the capabilities.
\<close>

theorem capability_list_roundtrip: "UnmarshalCapabilitiesJSON (MarshalCapabilitiesJSON cs) = Inr cs"
  by (simp add: UnmarshalCapabilitiesJSON_def MarshalCapabilitiesJSON_def unmarshal_items_marshalled)

text \<open>What a stored capability reads back as: a security scheme without the legacy name gets
  the name column, which holds its scheme name.\<close>

fun stored_form :: "Capability \<Rightarrow> Capability" where
  "stored_form (CapSecurityScheme a) =
     CapSecurityScheme (a\<lparr>scheme_Name := (if scheme_Name a = '''' then SchemeName a else scheme_Name a)\<rparr>)"
| "stored_form c = c"

lemma map_of_properties:
  "map_of (fields_of (cap_Properties (capabilityToRow uid tid c))) =
   (map_of (cap_fields c))(''name'' := None, ''description'' := None)"
  by (simp add: capabilityToRow_def Let_def map_of_map_json distinct_delete cap_fields_distinct delete_conv')

lemma string_at_written [field_simps]:
  "map_of m k = Some (JStr s) \<Longrightarrow> string_at m k = s"
  "map_of m k = None \<Longrightarrow> string_at m k = []"
  by (simp_all add: string_at_def)

lemma string_at_omit [field_simps]:
  "string_at (omit (s = []) k (JStr s)) k = s"
  "k \<noteq> k' \<Longrightarrow> string_at (omit b k' v @ xs) k = string_at xs k"
  "k \<noteq> k' \<Longrightarrow> string_at (omit b k' v) k = []"
  "map_of xs k = None \<Longrightarrow> string_at (omit (s = []) k (JStr s) @ xs) k = s"
  "k \<noteq> k' \<Longrightarrow> string_at ((k', v) # xs) k = string_at xs k"
  "string_at ((k, JStr s) # xs) k = s" "string_at [] k = []"
  by (simp_all add: string_at_def omit_def)

text \<open>The name and description columns of a row.\<close>

fun cap_label :: "Capability \<Rightarrow> string" where
  "cap_label (CapSkill s) = skill_Name s"
| "cap_label (CapInterface i) = iface_URL i"
| "cap_label (CapSecurityScheme a) = (if scheme_Name a \<noteq> '''' then scheme_Name a else SchemeName a)"
| "cap_label (CapSecurityRequirement r) = derivedName r"
| "cap_label (CapExtension e) = ext_URI e"
| "cap_label (CapSignature g) = sig_Algorithm g"
| "cap_label (CapTool t) = tool_Name t"
| "cap_label (CapResource r) = resource_Name r"
| "cap_label (CapPrompt p) = prompt_Name p"

lemma any_strings_map [simp]: "any_strings (map JStr xs) = xs"
  by (induction xs) auto

lemma scopes_of_schemes:
  "(case map_of (map (\<lambda>(k, ss). (k, JArr (map JStr ss))) xs) k of
      Some (JArr sv) \<Rightarrow> Join (sort (any_strings sv)) '','' | _ \<Rightarrow> '''') =
   Join (sort (case map_of xs k of Some ss \<Rightarrow> ss | None \<Rightarrow> [])) '',''"
  by (induction xs) auto

text \<open>The store derives the same name from the JSON of a requirement as the model does from the
  struct.\<close>

lemma derived_names_agree:
  assumes "Schemes r \<noteq> []"
  shows "derivedNameFromSchemes (cap_fields (CapSecurityRequirement r)) = derivedName r"
proof -
  have "map fst (map (\<lambda>(k, ss). (k, JArr (map JStr ss))) (Schemes r)) = map fst (Schemes r)"
    by (simp add: comp_def split_def)
  then show ?thesis using assms
    by (simp add: derivedNameFromSchemes_def derivedName_def schemes_json_def string_at_omit Let_def
        scopes_of_schemes del: map_map)
qed

lemma row_name_label:
  assumes "Validate c = None"
  shows "row_name (cap_fields c) = cap_label c"
proof (cases c)
  case (CapSecurityScheme a)
  then have "SchemeName a \<noteq> []" using assms by (auto split: if_splits)
  with CapSecurityScheme show ?thesis
    by (simp add: row_name_def scheme_fields_def string_at_omit Let_def)
next
  case (CapSecurityRequirement r)
  then have "Schemes r \<noteq> []" using assms by (auto split: if_splits)
  then show ?thesis
    using CapSecurityRequirement derived_names_agree [of r]
    by (simp add: row_name_def string_at_omit Let_def)
qed (use assms in \<open>auto simp: row_name_def skill_fields_def string_at_omit Let_def split: if_splits\<close>)

lemma overridden: "a \<noteq> b \<Longrightarrow> m(a := None, b := None, a \<mapsto> u, b \<mapsto> v) = m(a \<mapsto> u, b \<mapsto> v)"
  by auto

lemma scheme_name_present: "map_of (scheme_fields a) ''scheme_name'' = Some (JStr (SchemeName a))"
  by (simp add: scheme_fields_def)

lemma cap_of_overridden:
  "cap_of (Kind c) ((map_of (cap_fields c))(''name'' \<mapsto> JStr (cap_label c),
     ''description'' \<mapsto> JStr (string_at (cap_fields c) ''description''))) = Some (stored_form c)"
  by (cases c; simp add: reader_defs field_simps)

lemma rowToCapability_written:
  assumes "Validate c = None"
  shows "rowToCapability (capabilityToRow uid tid c) = Inr (stored_form c)"
proof -
  let ?p = "(map_of (cap_fields c))(''name'' \<mapsto> JStr (cap_label c),
     ''description'' \<mapsto> JStr (string_at (cap_fields c) ''description''))"
  have cols: "cap_Kind (capabilityToRow uid tid c) = Kind c"
    "cap_Name (capabilityToRow uid tid c) = cap_label c"
    "cap_Description (capabilityToRow uid tid c) = string_at (cap_fields c) ''description''"
    using row_name_label [OF assms] by (simp_all add: capabilityToRow_def Let_def)
  have "?p ''scheme_name'' \<noteq> None" if "Kind c = ''a2a.security_scheme''"
    using that by (cases c) (simp_all add: scheme_name_present)
  then show ?thesis
    unfolding rowToCapability_def cols map_of_properties
    by (auto simp: overridden Kind_registered cap_of_overridden Let_def simp del: fun_upd_apply)
qed

text \<open>
  \<^bold>\<open>C25\<close> A valid capability stored as a row of the capabilities table is read back as the
  same capability, and the row's name is a function of the capability alone: for a security
  requirement it is the name \<^verbatim>\<open>derivedName\<close> computes.  The one field that changes is the legacy
  \<^verbatim>\<open>name\<close> of a security scheme, which reads back as the scheme name when it was empty.
\<close>

theorem capability_row_roundtrip:
  assumes "Validate c = None"
  shows "rowToCapability (capabilityToRow uid tid c) = Inr (stored_form c) \<and>
    cap_Name (capabilityToRow uid tid c) = cap_label c \<and>
    (stored_form c \<noteq> c \<longleftrightarrow> (\<exists>a. c = CapSecurityScheme a \<and> scheme_Name a = ''''))"
proof (intro conjI)
  show "rowToCapability (capabilityToRow uid tid c) = Inr (stored_form c)"
    by (rule rowToCapability_written [OF assms])
  show "cap_Name (capabilityToRow uid tid c) = cap_label c"
    using row_name_label [OF assms] by (simp add: capabilityToRow_def Let_def)
  show "stored_form c \<noteq> c \<longleftrightarrow> (\<exists>a. c = CapSecurityScheme a \<and> scheme_Name a = '''')"
  proof (cases c)
    case (CapSecurityScheme a)
    then have "SchemeName a \<noteq> ''''" using assms by (auto split: if_splits)
    with CapSecurityScheme show ?thesis by (cases a) auto
  qed simp_all
qed

definition sample_scheme :: A2ASecurityScheme where
  "sample_scheme = \<lparr>SchemeName = ''bearer'', scheme_Type = ''http'', scheme_Description = '''',
     APIKeyLocation = '''', APIKeyName = '''', HTTPScheme = ''Bearer'', BearerFormat = ''JWT'',
     OAuthFlows = [], OAuth2MetadataURL = '''', OpenIDConnectURL = '''', scheme_Method = '''',
     scheme_Name = ''''\<rparr>"

theorem capability_row_roundtrip_witness:
  "rowToCapability (capabilityToRow ''c1'' ''t1'' (CapSecurityScheme sample_scheme)) =
     Inr (CapSecurityScheme (sample_scheme\<lparr>scheme_Name := ''bearer''\<rparr>)) \<and>
   cap_Name (capabilityToRow ''c1'' ''t1'' (CapSecurityScheme sample_scheme)) = ''bearer''"
  using capability_row_roundtrip [of "CapSecurityScheme sample_scheme" "''c1''" "''t1''"]
  by (simp add: sample_scheme_def)

end
