(* ===== verification/Party_Closure.thy ===== *)
theory Party_Closure
  imports Database
begin

text \<open>
  The recursive query of \<^verbatim>\<open>rebuildAllClosures\<close> (\<^verbatim>\<open>internal/store/party_store.go\<close>).
  \<^verbatim>\<open>WITH RECURSIVE pairs AS (initial UNION recursive)\<close> keeps a queue of rows: the initial
  rows without duplicates; while the queue is not empty one row is taken, the recursive select
  runs on that row alone, and its results that were never queued before are queued.  The result
  is every row that was ever queued.  The loop ends on every input and computes the transitive
  closure of the edges.
\<close>

section \<open>The query\<close>

type_synonym pair = "string \<times> string"

text \<open>The recursive select on one row: \<^verbatim>\<open>SELECT p.member_id, pr.to_party_id FROM pairs p JOIN
  party_relationships pr ON pr.from_party_id = p.ancestor_id\<close>.\<close>

definition recursive_select :: "pair list \<Rightarrow> pair \<Rightarrow> pair list" where
  "recursive_select E p = map (\<lambda>e. (fst p, snd e)) (filter (\<lambda>e. fst e = snd p) E)"

definition fresh_rows :: "pair list \<Rightarrow> pair \<Rightarrow> pair list \<Rightarrow> pair list" where
  "fresh_rows E p seen = remdups (filter (\<lambda>r. r \<notin> set seen) (recursive_select E p))"

lemma fresh_rows_iff:
  "(m, t) \<in> set (fresh_rows E p seen) \<longleftrightarrow> m = fst p \<and> (snd p, t) \<in> set E \<and> (m, t) \<notin> set seen"
  by (force simp: fresh_rows_def recursive_select_def)

lemma distinct_fresh_rows: "distinct (fresh_rows E p seen)"
  by (simp add: fresh_rows_def)

definition cte_rows :: "pair list \<Rightarrow> pair list \<Rightarrow> pair list \<Rightarrow> pair set" where
  "cte_rows E q seen = (fst ` (set q \<union> set seen)) \<times> (snd ` set E)"

lemma finite_cte_rows [simp]: "finite (cte_rows E q seen)"
  by (simp add: cte_rows_def)

lemma cte_rows_step:
  "cte_rows E (q @ fresh_rows E p seen) (seen @ fresh_rows E p seen) \<subseteq> cte_rows E (p # q) seen"
  by (force simp: cte_rows_def fresh_rows_iff)

lemma fresh_rows_in_rows: "set (fresh_rows E p seen) \<subseteq> cte_rows E (p # q) seen - set seen"
  by (force simp: cte_rows_def fresh_rows_iff)

lemma cte_measure:
  fixes E p q seen
  defines "new \<equiv> fresh_rows E p seen"
  shows "new = [] \<Longrightarrow> card (cte_rows E (q @ new) (seen @ new) - set (seen @ new))
           \<le> card (cte_rows E (p # q) seen - set seen)"
    and "new \<noteq> [] \<Longrightarrow> card (cte_rows E (q @ new) (seen @ new) - set (seen @ new))
           < card (cte_rows E (p # q) seen - set seen)"
proof -
  let ?A = "cte_rows E (q @ new) (seen @ new) - set (seen @ new)"
  let ?B = "cte_rows E (p # q) seen - set seen"
  have sub: "?A \<subseteq> ?B" using cte_rows_step [of E q p seen] by (auto simp: new_def)
  then show "card ?A \<le> card ?B" by (intro card_mono) simp_all
  assume "new \<noteq> []"
  then obtain r where "r \<in> set new" by (cases new) auto
  then have "r \<in> ?B - ?A" using fresh_rows_in_rows [of E p seen q] by (auto simp: new_def)
  with sub have "?A \<subset> ?B" by blast
  then show "card ?A < card ?B" by (intro psubset_card_mono) simp_all
qed

function cte_loop :: "pair list \<Rightarrow> pair list \<Rightarrow> pair list \<Rightarrow> pair list" where
  "cte_loop E [] seen = seen"
| "cte_loop E (p # q) seen =
     (let new = fresh_rows E p seen in cte_loop E (q @ new) (seen @ new))"
  by pat_completeness auto
termination
proof (relation "measures [\<lambda>(E, q, seen). card (cte_rows E q seen - set seen), \<lambda>(E, q, seen). length q]", goal_cases)
  case 1
  show ?case by simp
next
  case (2 E p q seen x)
  then show ?case
    using cte_measure [of E p seen q]
    by (cases "fresh_rows E p seen = []") (auto simp: less_le)
qed

definition with_recursive_pairs :: "pair list \<Rightarrow> pair list" where
  "with_recursive_pairs E = cte_loop E (remdups E) (remdups E)"

section \<open>The query computes the transitive closure\<close>

lemma cte_loop_extends: "set seen \<subseteq> set (cte_loop E q seen)"
  by (induction E q seen rule: cte_loop.induct) (auto simp: Let_def)

lemma cte_loop_distinct: "distinct seen \<Longrightarrow> distinct (cte_loop E q seen)"
proof (induction E q seen rule: cte_loop.induct)
  case (2 E p q seen)
  have "set seen \<inter> set (fresh_rows E p seen) = {}" by (auto simp: fresh_rows_def)
  with 2 show ?case by (simp add: Let_def distinct_fresh_rows)
qed simp

lemma cte_loop_sound:
  assumes "\<And>m a t. (m, a) \<in> T \<Longrightarrow> (a, t) \<in> set E \<Longrightarrow> (m, t) \<in> T"
  shows "set q \<union> set seen \<subseteq> T \<Longrightarrow> set (cte_loop E q seen) \<subseteq> T"
  using assms
proof (induction E q seen rule: cte_loop.induct)
  case (2 E p q seen)
  have "set (fresh_rows E p seen) \<subseteq> T"
  proof
    fix r assume r: "r \<in> set (fresh_rows E p seen)"
    obtain m t where "r = (m, t)" by (cases r)
    with r have "r = (fst p, t)" and "(snd p, t) \<in> set E" by (simp_all add: fresh_rows_iff)
    moreover have "(fst p, snd p) \<in> T" using 2(2) by simp
    ultimately show "r \<in> T" using 2(3) by metis
  qed
  with 2 show ?case by (simp add: Let_def)
qed simp

text \<open>Every row that has left the queue has had its successors queued.\<close>

definition expanded :: "pair list \<Rightarrow> pair list \<Rightarrow> pair list \<Rightarrow> bool" where
  "expanded E q seen \<longleftrightarrow>
     (\<forall>m a t. (m, a) \<in> set seen - set q \<longrightarrow> (a, t) \<in> set E \<longrightarrow> (m, t) \<in> set seen)"

lemma expanded_step:
  "expanded E (p # q) seen \<Longrightarrow> expanded E (q @ fresh_rows E p seen) (seen @ fresh_rows E p seen)"
  unfolding expanded_def by (cases p) (auto simp: fresh_rows_iff)

lemma cte_loop_closed:
  "expanded E q seen \<Longrightarrow> (m, a) \<in> set (cte_loop E q seen) \<Longrightarrow> (a, t) \<in> set E \<Longrightarrow>
   (m, t) \<in> set (cte_loop E q seen)"
proof (induction E q seen rule: cte_loop.induct)
  case (1 E seen)
  then show ?case by (auto simp: expanded_def)
next
  case (2 E p q seen)
  then show ?case by (simp add: Let_def expanded_step)
qed

lemma with_recursive_pairs_trancl: "set (with_recursive_pairs E) = (set E)\<^sup>+"
proof
  show "set (with_recursive_pairs E) \<subseteq> (set E)\<^sup>+"
    unfolding with_recursive_pairs_def
    by (rule cte_loop_sound) (auto intro: trancl_into_trancl)
  have closed: "(m, t) \<in> set (with_recursive_pairs E)"
    if "(m, a) \<in> set (with_recursive_pairs E)" "(a, t) \<in> set E" for m a t
    using cte_loop_closed [OF _ that(1) [unfolded with_recursive_pairs_def] that(2)]
    by (simp add: with_recursive_pairs_def expanded_def)
  have base: "set E \<subseteq> set (with_recursive_pairs E)"
    using cte_loop_extends [of "remdups E" E "remdups E"] by (simp add: with_recursive_pairs_def)
  show "(set E)\<^sup>+ \<subseteq> set (with_recursive_pairs E)"
  proof
    fix r assume "r \<in> (set E)\<^sup>+"
    then obtain x y where r: "r = (x, y)" "(x, y) \<in> (set E)\<^sup>+" by (cases r) blast
    from r(2) have "(x, y) \<in> set (with_recursive_pairs E)"
      by (induction rule: trancl_induct) (use base closed in auto)
    with r show "r \<in> set (with_recursive_pairs E)" by simp
  qed
qed

lemma with_recursive_pairs_distinct: "distinct (with_recursive_pairs E)"
  by (simp add: with_recursive_pairs_def cte_loop_distinct)

section \<open>\<^verbatim>\<open>rebuildAllClosures\<close>\<close>

definition containment_rows :: "PartyRelationship list \<Rightarrow> PartyRelationship list" where
  "containment_rows rels = filter (\<lambda>r. RelationshipName r \<in> set ContainmentRelationshipNames) rels"

definition edge :: "PartyRelationship \<Rightarrow> pair" where
  "edge r = (FromPartyID r, ToPartyID r)"

definition containment_edges :: "PartyRelationship list \<Rightarrow> pair list" where
  "containment_edges rels = map edge (containment_rows rels)"

definition rebuildAllClosures :: "(db, unit) op" where
  "rebuildAllClosures =
     bind_op (modify (\<lambda>s. s\<lparr>party_group_closures := []\<rparr>)) ''clearing party_group_closures'' (\<lambda>_.
       if length ContainmentRelationshipNames = 0 then ok ()
       else modify (\<lambda>s. s\<lparr>party_group_closures := party_group_closures s @
         map (\<lambda>p. \<lparr>MemberPartyID = fst p, AncestorPartyID = snd p\<rparr>)
           (remdups (with_recursive_pairs (containment_edges (party_relationships s))))\<rparr>))"

definition closure_pairs :: "db \<Rightarrow> pair set" where
  "closure_pairs s = (\<lambda>c. (MemberPartyID c, AncestorPartyID c)) ` set (party_group_closures s)"

definition containment :: "db \<Rightarrow> pair set" where
  "containment s = set (containment_edges (party_relationships s))"

lemma containment_iff:
  "(a, b) \<in> containment s \<longleftrightarrow> (\<exists>r \<in> set (party_relationships s).
     RelationshipName r = ''group_member'' \<and> FromPartyID r = a \<and> ToPartyID r = b)"
  by (auto simp: containment_def containment_edges_def containment_rows_def edge_def
      ContainmentRelationshipNames_def image_iff)

lemma containment_cong [simp]:
  "containment (s\<lparr>faults := f\<rparr>) = containment s"
  "containment (s\<lparr>party_group_closures := c\<rparr>) = containment s"
  "containment (s\<lparr>parties := ps\<rparr>) = containment s"
  "containment (s\<lparr>global_party_roles := g\<rparr>) = containment s"
  "containment (s\<lparr>catalog_project_memberships := m\<rparr>) = containment s"
  by (simp_all add: containment_def)

lemma closure_pairs_cong [simp]:
  "closure_pairs (s\<lparr>faults := f\<rparr>) = closure_pairs s"
  "closure_pairs (s\<lparr>party_relationships := r\<rparr>) = closure_pairs s"
  "closure_pairs (s\<lparr>parties := ps\<rparr>) = closure_pairs s"
  "closure_pairs (s\<lparr>global_party_roles := g\<rparr>) = closure_pairs s"
  "closure_pairs (s\<lparr>catalog_project_memberships := m\<rparr>) = closure_pairs s"
  by (simp_all add: closure_pairs_def)

text \<open>A rebuild that succeeds leaves the closure of the current edges and touches no other table.\<close>

definition rebuilt :: "db \<Rightarrow> db" where
  "rebuilt s = s\<lparr>party_group_closures :=
     map (\<lambda>p. \<lparr>MemberPartyID = fst p, AncestorPartyID = snd p\<rparr>)
       (remdups (with_recursive_pairs (containment_edges (party_relationships s))))\<rparr>"

lemma rebuildAllClosures_Inr:
  assumes "rebuildAllClosures s = (Inr u, s')"
  shows "tables s' = tables (rebuilt s)"
  using assms
  by (auto simp: tables_def rebuildAllClosures_def bind_op_def try_op_def modify_def exec_def rebuilt_def
      ContainmentRelationshipNames_def split: list.splits option.splits)

lemma tables_rebuilt_cong: "tables s = tables t \<Longrightarrow> tables (rebuilt s) = tables (rebuilt t)"
  by (cases s; cases t; simp add: tables_def rebuilt_def)

lemma rebuildAllClosures_clean:
  "faults s = [] \<Longrightarrow> rebuildAllClosures s = (Inr (), rebuilt s)"
  by (simp add: rebuildAllClosures_def bind_op_def try_op_def rebuilt_def
      ContainmentRelationshipNames_def)

lemma closure_pairs_rebuilt [simp]: "closure_pairs (rebuilt s) = (containment s)\<^sup>+"
  by (simp add: closure_pairs_def rebuilt_def image_image with_recursive_pairs_trancl containment_def)

lemma containment_rebuilt [simp]: "containment (rebuilt s) = containment s"
  by (simp add: rebuilt_def)

lemma rebuilt_tables [simp]:
  "parties (rebuilt s) = parties s" "party_relationships (rebuilt s) = party_relationships s"
  "global_party_roles (rebuilt s) = global_party_roles s"
  "catalog_project_memberships (rebuilt s) = catalog_project_memberships s"
  "users (rebuilt s) = users s" "roles (rebuilt s) = roles s" "faults (rebuilt s) = faults s"
  by (simp_all add: rebuilt_def)

end
