(* ===== verification/Party_Store.thy ===== *)
theory Party_Store
  imports Party_Closure
begin

text \<open>
  \<^verbatim>\<open>PartyStore\<close> (\<^verbatim>\<open>internal/store/party_store.go\<close>, \<^verbatim>\<open>party_store_members.go\<close>,
  \<^verbatim>\<open>party_project_store.go\<close>, \<^verbatim>\<open>party_store_person_sync.go\<close>): parties, the relationship
  graph with its materialized closure, and project scoping of catalog entries.  The clock
  (\<^verbatim>\<open>now\<close>) and a freshly generated UUID (\<^verbatim>\<open>uid\<close>) are arguments.
\<close>

section \<open>Unique indexes\<close>

definition party_clash :: "Party \<Rightarrow> Party list \<Rightarrow> string option" where
  "party_clash p ps =
     (if \<exists>q \<in> set ps. party_ID q = party_ID p then Some ''parties.id''
      else if party_UserID p \<noteq> None \<and> (\<exists>q \<in> set ps. party_UserID q = party_UserID p)
      then Some ''parties.user_id'' else None)"

definition rel_key :: "PartyRelationship \<Rightarrow> string \<times> string \<times> string \<times> string \<times> string" where
  "rel_key r = (FromPartyID r, FromRole r, ToPartyID r, ToRole r, RelationshipName r)"

definition rel_clash :: "PartyRelationship \<Rightarrow> PartyRelationship list \<Rightarrow> string option" where
  "rel_clash r rs =
     (if \<exists>q \<in> set rs. rel_ID q = rel_ID r then Some ''party_relationships.id''
      else if \<exists>q \<in> set rs. rel_key q = rel_key r then Some ''party_relationships.from_party_id''
      else None)"

definition cpm_key :: "CatalogProjectMembership \<Rightarrow> string \<times> string" where
  "cpm_key m = (CatalogEntryID m, ProjectPartyID m)"

definition cpm_clash :: "CatalogProjectMembership \<Rightarrow> CatalogProjectMembership list \<Rightarrow> string option" where
  "cpm_clash m ms = (if \<exists>q \<in> set ms. cpm_key q = cpm_key m
     then Some ''catalog_project_memberships.catalog_entry_id'' else None)"

abbreviation put_parties :: "Party list \<Rightarrow> db \<Rightarrow> db" where
  "put_parties ps s \<equiv> s\<lparr>parties := ps\<rparr>"

abbreviation put_relationships :: "PartyRelationship list \<Rightarrow> db \<Rightarrow> db" where
  "put_relationships rs s \<equiv> s\<lparr>party_relationships := rs\<rparr>"

abbreviation put_memberships :: "CatalogProjectMembership list \<Rightarrow> db \<Rightarrow> db" where
  "put_memberships ms s \<equiv> s\<lparr>catalog_project_memberships := ms\<rparr>"

section \<open>Parties\<close>

text \<open>\<^verbatim>\<open>Create\<close> fills zero \<^verbatim>\<open>CreatedAt\<close> and \<^verbatim>\<open>UpdatedAt\<close> fields.\<close>

definition stamp_party :: "time \<Rightarrow> Party \<Rightarrow> Party" where
  "stamp_party now p = p\<lparr>party_CreatedAt := (if IsZero (party_CreatedAt p) then now else party_CreatedAt p),
     party_UpdatedAt := (if IsZero (party_UpdatedAt p) then now else party_UpdatedAt p)\<rparr>"

definition insert_party :: "Party \<Rightarrow> (db, unit) op" where
  "insert_party = insert_row parties put_parties party_clash"

definition CreateParty :: "string \<Rightarrow> time \<Rightarrow> Party \<Rightarrow> (db, Party) op" where
  "CreateParty uid now p =
     (if \<not> ValidPartyKinds (party_Kind p)
      then fail (errorf (''invalid party kind: '' @ quote (party_Kind p)))
      else let p1 = (if party_ID p = '''' then p\<lparr>party_ID := uid\<rparr> else p);
               p2 = stamp_party now p1
           in bind_op (insert_party p2) ''creating party'' (\<lambda>_. ok p2))"

text \<open>\<^verbatim>\<open>First\<close> with the not-found error mapped to a nil pointer.\<close>

definition first_or_nil :: "(db \<Rightarrow> 'a list) \<Rightarrow> ('a \<Rightarrow> string) \<Rightarrow> ('a \<Rightarrow> bool) \<Rightarrow> string \<Rightarrow> (db, 'a option) op" where
  "first_or_nil tab key cond msg =
     try_op (First tab key cond)
       (\<lambda>e. if errors_Is e ErrRecordNotFound then ok None else fail (wrapf msg e))
       (\<lambda>x. ok (Some x))"

definition GetParty :: "string \<Rightarrow> (db, Party option) op" where
  "GetParty partyID = first_or_nil parties party_ID (\<lambda>p. party_ID p = partyID) ''getting party''"

definition GetPartyByUserID :: "string \<Rightarrow> (db, Party option) op" where
  "GetPartyByUserID userID =
     first_or_nil parties party_ID (\<lambda>p. party_UserID p = Some userID) ''getting party by user id''"

definition ListParties :: "PartyKind \<Rightarrow> (db, Party list) op" where
  "ListParties kind =
     bind_op (query (\<lambda>s. if kind \<noteq> '''' then filter (\<lambda>p. party_Kind p = kind) (parties s) else parties s))
       ''listing parties'' ok"

definition DeleteParty :: "string \<Rightarrow> (db, unit) op" where
  "DeleteParty partyID = Transaction (
     try_op (First parties party_ID (\<lambda>p. party_ID p = partyID))
       (\<lambda>e. if errors_Is e ErrRecordNotFound then fail (errorf (''party '' @ quote partyID @ '' not found''))
            else fail (wrapf ''finding party'' e))
       (\<lambda>party.
         if party_IsSystem party
         then fail (errorf (''party '' @ quote partyID @ '' is a system party and cannot be deleted''))
         else
           bind_op (modify (\<lambda>s. s\<lparr>party_relationships :=
               filter (\<lambda>r. \<not> (FromPartyID r = partyID \<or> ToPartyID r = partyID)) (party_relationships s)\<rparr>))
             ''deleting relationships for party'' (\<lambda>_.
           bind_op (modify (\<lambda>s. s\<lparr>global_party_roles :=
               filter (\<lambda>g. \<not> gpr_PartyID g = partyID) (global_party_roles s)\<rparr>))
             ''deleting global party roles'' (\<lambda>_.
           bind_op (modify (\<lambda>s. s\<lparr>catalog_project_memberships :=
               filter (\<lambda>m. \<not> ProjectPartyID m = partyID) (catalog_project_memberships s)\<rparr>))
             ''deleting catalog project memberships'' (\<lambda>_.
           bind_op rebuildAllClosures ''rebuilding closure after party deletion'' (\<lambda>_.
           bind_op (modify (\<lambda>s. s\<lparr>parties :=
               filter (\<lambda>p. \<not> party_ID p = party_ID party) (parties s)\<rparr>))
             ''deleting party'' (\<lambda>_. ok ())))))))"

definition AncestorGroupIDs :: "string \<Rightarrow> (db, string list) op" where
  "AncestorGroupIDs partyID =
     bind_op (query (\<lambda>s. map AncestorPartyID
        (filter (\<lambda>c. MemberPartyID c = partyID) (party_group_closures s))))
       ''loading ancestor group ids'' ok"

section \<open>Members\<close>

text \<open>\<^verbatim>\<open>tx.Where(five columns).FirstOrCreate(rel)\<close>.\<close>

definition stamp_rel :: "time \<Rightarrow> PartyRelationship \<Rightarrow> PartyRelationship" where
  "stamp_rel now r = r\<lparr>rel_CreatedAt := (if IsZero (rel_CreatedAt r) then now else rel_CreatedAt r)\<rparr>"

definition FirstOrCreate_rel :: "orm \<Rightarrow> time \<Rightarrow> PartyRelationship \<Rightarrow> (db, PartyRelationship) op" where
  "FirstOrCreate_rel orm now rel =
     pass_op (query (\<lambda>s. first_by rel_ID
         (\<lambda>r. rel_key r = rel_key rel \<and> (pk_in_lookup orm \<longrightarrow> rel_ID r = rel_ID rel))
         (party_relationships s)))
       (\<lambda>found. case found of
           Some r \<Rightarrow> ok r
         | None \<Rightarrow> pass_op (insert_row party_relationships put_relationships rel_clash (stamp_rel now rel))
                     (\<lambda>_. ok (stamp_rel now rel)))"

definition arrow :: string where
  "arrow = [CHR 0x20, CHR 0xE2, CHR 0x86, CHR 0x92, CHR 0x20]"

definition insert_edge :: "orm \<Rightarrow> time \<Rightarrow> PartyRelationship \<Rightarrow> (db, PartyRelationship) op" where
  "insert_edge orm now rel =
     bind_op (FirstOrCreate_rel orm now rel) ''adding member relationship'' (\<lambda>r.
       if ContainmentRelationships (RelationshipName r)
       then pass_op rebuildAllClosures (\<lambda>_. ok r)
       else ok r)"

definition AddMember :: "orm \<Rightarrow> string \<Rightarrow> time \<Rightarrow> PartyRelationship \<Rightarrow> (db, PartyRelationship) op" where
  "AddMember orm uid now rel0 =
     (let rel = (if rel_ID rel0 = '''' then rel0\<lparr>rel_ID := uid\<rparr> else rel0) in
      Transaction (
        if ContainmentRelationships (RelationshipName rel) then
          if FromPartyID rel = ToPartyID rel
          then fail (errorf (''cannot add party '' @ FromPartyID rel @ '' as member of itself''))
          else
            bind_op (query (\<lambda>s. rows_matching
                (\<lambda>c. MemberPartyID c = ToPartyID rel \<and> AncestorPartyID c = FromPartyID rel)
                (party_group_closures s)))
              ''cycle detection'' (\<lambda>count.
              if count > 0
              then fail (errorf (''adding '' @ FromPartyID rel @ arrow @ ToPartyID rel @ '' would create a cycle''))
              else insert_edge orm now rel)
        else insert_edge orm now rel))"

definition RemoveMember :: "string \<Rightarrow> string \<Rightarrow> string \<Rightarrow> (db, unit) op" where
  "RemoveMember fromPartyID toPartyID relationshipName = Transaction (
     bind_op (modify (\<lambda>s. s\<lparr>party_relationships :=
         filter (\<lambda>r. \<not> (FromPartyID r = fromPartyID \<and> ToPartyID r = toPartyID \<and>
                        RelationshipName r = relationshipName)) (party_relationships s)\<rparr>))
       ''removing member relationship'' (\<lambda>_.
       if ContainmentRelationships relationshipName then rebuildAllClosures else ok ()))"

definition ListMembers :: "string \<Rightarrow> string \<Rightarrow> (db, PartyRelationship list) op" where
  "ListMembers toPartyID relationshipName =
     bind_op (query (\<lambda>s. filter (\<lambda>r. ToPartyID r = toPartyID \<and> RelationshipName r = relationshipName)
        (party_relationships s)))
       ''listing members'' ok"

record UpdateMemberRoleParams =
  umr_FromPartyID :: string
  umr_ToPartyID :: string
  umr_RelationshipName :: string
  umr_OldRole :: string
  umr_NewRole :: string

definition umr_matches :: "UpdateMemberRoleParams \<Rightarrow> PartyRelationship \<Rightarrow> bool" where
  "umr_matches params r \<longleftrightarrow>
     FromPartyID r = umr_FromPartyID params \<and> ToPartyID r = umr_ToPartyID params \<and>
     RelationshipName r = umr_RelationshipName params \<and> FromRole r = umr_OldRole params"

text \<open>The \<^verbatim>\<open>UPDATE\<close> is refused when the new rows would share a key of the unique index.\<close>

definition update_roles_stmt :: "UpdateMemberRoleParams \<Rightarrow> (db, nat) op" where
  "update_roles_stmt params = exec (\<lambda>s.
     let new = map (\<lambda>r. if umr_matches params r then r\<lparr>FromRole := umr_NewRole params\<rparr> else r)
                 (party_relationships s)
     in if distinct (map rel_key new)
        then (Inr (rows_matching (umr_matches params) (party_relationships s)),
              s\<lparr>party_relationships := new\<rparr>)
        else (Inl (errorf ''UNIQUE constraint failed: party_relationships.from_party_id''), s))"

definition UpdateMemberRole :: "UpdateMemberRoleParams \<Rightarrow> (db, unit) op" where
  "UpdateMemberRole params =
     bind_op (update_roles_stmt params) ''updating member role'' (\<lambda>n.
       if n = 0
       then fail (Error (''member relationship not found: from='' @ umr_FromPartyID params @
              '' to='' @ umr_ToPartyID params @ '' relationship='' @ umr_RelationshipName params @
              '' role='' @ umr_OldRole params) [ErrMemberNotFound])
       else ok ())"

section \<open>Projects of catalog entries\<close>

definition GetDefaultProject :: "(db, Party) op" where
  "GetDefaultProject =
     try_op (First parties party_ID (\<lambda>p. party_Kind p = PartyKindProject \<and> party_IsSystem p))
       (\<lambda>e. if errors_Is e ErrRecordNotFound
            then fail (errorf (''default project not found '' @ [CHR 0xE2, CHR 0x80, CHR 0x94] @ '' was migration007 run?''))
            else fail (wrapf ''getting default project'' e))
       ok"

definition AssignToProject :: "time \<Rightarrow> string \<Rightarrow> string \<Rightarrow> (db, unit) op" where
  "AssignToProject now catalogEntryID projectPartyID =
     pass_op (query (\<lambda>s. find (\<lambda>m. CatalogEntryID m = catalogEntryID \<and> ProjectPartyID m = projectPartyID)
         (catalog_project_memberships s)))
       (\<lambda>found. case found of
           Some _ \<Rightarrow> ok ()
         | None \<Rightarrow> insert_row catalog_project_memberships put_memberships cpm_clash
             \<lparr>CatalogEntryID = catalogEntryID, ProjectPartyID = projectPartyID, cpm_CreatedAt = now\<rparr>)"

definition RemoveFromProject :: "string \<Rightarrow> string \<Rightarrow> (db, unit) op" where
  "RemoveFromProject catalogEntryID projectPartyID =
     modify (\<lambda>s. s\<lparr>catalog_project_memberships :=
       filter (\<lambda>m. \<not> (CatalogEntryID m = catalogEntryID \<and> ProjectPartyID m = projectPartyID))
         (catalog_project_memberships s)\<rparr>)"

definition ListProjectsForCatalogEntry :: "string \<Rightarrow> (db, Party list) op" where
  "ListProjectsForCatalogEntry catalogEntryID =
     bind_op (query (\<lambda>s. concat (map (\<lambda>p. map (\<lambda>_. p)
         (filter (\<lambda>m. ProjectPartyID m = party_ID p \<and> CatalogEntryID m = catalogEntryID)
            (catalog_project_memberships s))) (parties s))))
       ''listing projects for catalog entry'' ok"

definition ListCatalogEntryIDsForProject :: "string \<Rightarrow> (db, string list) op" where
  "ListCatalogEntryIDsForProject projectPartyID =
     bind_op (query (\<lambda>s. map CatalogEntryID
         (filter (\<lambda>m. ProjectPartyID m = projectPartyID) (catalog_project_memberships s))))
       ''listing catalog entry ids for project'' ok"

definition GetProjectRoles :: "string list \<Rightarrow> string \<Rightarrow> (db, string list) op" where
  "GetProjectRoles fromPartyIDs projectPartyID =
     (if length fromPartyIDs = 0 then ok []
      else bind_op (query (\<lambda>s. map FromRole
          (filter (\<lambda>r. RelationshipName r = ''project_member'' \<and> ToPartyID r = projectPartyID \<and>
                       FromPartyID r \<in> set fromPartyIDs) (party_relationships s))))
        ''getting project roles'' ok)"

section \<open>Person parties of users\<close>

definition personName :: "User \<Rightarrow> string" where
  "personName u = (if user_DisplayName u \<noteq> '''' then user_DisplayName u else Username u)"

definition CreatePersonForUser :: "string \<Rightarrow> time \<Rightarrow> User \<Rightarrow> (db, unit) op" where
  "CreatePersonForUser uid now u =
     try_op (First parties party_ID (\<lambda>p. party_UserID p = Some (user_ID u)))
       (\<lambda>e. if \<not> errors_Is e ErrRecordNotFound then fail (wrapf ''checking existing person'' e)
            else bind_op (insert_party \<lparr>party_ID = uid, party_Kind = PartyKindPerson,
                     party_Name = personName u, party_Version = 0, party_UserID = Some (user_ID u),
                     party_IsSystem = False, party_CreatedAt = now, party_UpdatedAt = now\<rparr>)
                   (''creating person for user '' @ user_ID u) (\<lambda>_. ok ()))
       (\<lambda>_. ok ())"

definition UpdatePersonForUser :: "time \<Rightarrow> User \<Rightarrow> (db, unit) op" where
  "UpdatePersonForUser now u =
     bind_op (update_rows parties put_parties (\<lambda>p. party_UserID p = Some (user_ID u))
         (\<lambda>p. p\<lparr>party_Name := personName u, party_UpdatedAt := now\<rparr>))
       (''updating person for user '' @ user_ID u) (\<lambda>_. ok ())"

section \<open>What a successful membership change has done\<close>

definition add_edge :: "PartyRelationship \<Rightarrow> db \<Rightarrow> db" where
  "add_edge r s = (if r \<in> set (party_relationships s) then s
     else s\<lparr>party_relationships := party_relationships s @ [r]\<rparr>)"

lemma rel_key_eqD:
  assumes "rel_key r = rel_key q"
  shows "FromPartyID r = FromPartyID q" "FromRole r = FromRole q" "ToPartyID r = ToPartyID q"
    "ToRole r = ToRole q" "RelationshipName r = RelationshipName q"
  using assms by (simp_all add: rel_key_def)

lemma rel_key_stamp [simp]: "rel_key (stamp_rel now r) = rel_key r"
  by (simp add: rel_key_def stamp_rel_def)

lemma rel_clash_None:
  "rel_clash r rs = None \<longleftrightarrow>
     (\<forall>q \<in> set rs. rel_ID q \<noteq> rel_ID r) \<and> (\<forall>q \<in> set rs. rel_key q \<noteq> rel_key r)"
  by (auto simp: rel_clash_def)

lemma rel_clash_fresh: "rel_clash r rs = None \<Longrightarrow> r \<notin> set rs"
  by (auto simp: rel_clash_None)

lemma FirstOrCreate_rel_Inr:
  assumes "FirstOrCreate_rel orm now rel s = (Inr r, s')"
  shows "rel_key r = rel_key rel \<and>
    (r \<in> set (party_relationships s) \<or> rel_clash r (party_relationships s) = None) \<and>
    tables s' = tables (add_edge r s)"
  using assms unfolding FirstOrCreate_rel_def
  by (elim pass_op_InrE query_InrE)
     (auto simp: add_edge_def rel_clash_fresh tables_def dest!: first_by_Some elim!: pass_op_InrE insert_row_InrE
       split: option.splits)

definition edge_added :: "PartyRelationship \<Rightarrow> db \<Rightarrow> db" where
  "edge_added r s = (if RelationshipName r = ''group_member'' then rebuilt (add_edge r s)
     else add_edge r s)"

lemma insert_edge_Inr:
  assumes "insert_edge orm now rel s = (Inr r, s')"
  shows "rel_key r = rel_key rel \<and>
    (r \<in> set (party_relationships s) \<or> rel_clash r (party_relationships s) = None) \<and>
    tables s' = tables (edge_added r s)"
proof -
  from assms obtain r1 s1 where f: "FirstOrCreate_rel orm now rel s = (Inr r1, s1)"
    and k: "(if ContainmentRelationships (RelationshipName r1)
             then pass_op rebuildAllClosures (\<lambda>_. ok r1) else ok r1) s1 = (Inr r, s')"
    unfolding insert_edge_def by (elim bind_op_InrE)
  have s1: "tables s1 = tables (add_edge r1 s)" using FirstOrCreate_rel_Inr [OF f] by blast
  have "r = r1 \<and> tables s' = tables (edge_added r1 s)"
  proof (cases "RelationshipName r1 = ''group_member''")
    case True
    then obtain u where "rebuildAllClosures s1 = (Inr u, s')" and "r = r1"
      using k by (auto elim!: pass_op_InrE)
    then show ?thesis
      using rebuildAllClosures_Inr [of s1 u s'] tables_rebuilt_cong [OF s1] True
      by (simp add: edge_added_def)
  next
    case False
    then show ?thesis using k s1 by (auto simp: edge_added_def)
  qed
  with FirstOrCreate_rel_Inr [OF f] show ?thesis by simp
qed

lemma rows_matching_closure:
  "rows_matching (\<lambda>c. MemberPartyID c = a \<and> AncestorPartyID c = b) (party_group_closures s) = 0
   \<longleftrightarrow> (a, b) \<notin> closure_pairs s"
  by (auto simp: rows_matching_zero closure_pairs_def)

lemma AddMember_Inr:
  assumes "AddMember orm uid now rel s = (Inr r, s')"
  shows "rel_key r = rel_key rel"
    and "r \<in> set (party_relationships s) \<or> rel_clash r (party_relationships s) = None"
    and "RelationshipName rel = ''group_member'' \<Longrightarrow>
         FromPartyID rel \<noteq> ToPartyID rel \<and> (ToPartyID rel, FromPartyID rel) \<notin> closure_pairs s"
    and "tables s' = tables (edge_added r s)"
proof -
  define rel1 where "rel1 = (if rel_ID rel = '''' then rel\<lparr>rel_ID := uid\<rparr> else rel)"
  have key: "rel_key rel1 = rel_key rel" by (simp add: rel1_def rel_key_def)
  note fields = rel_key_eqD [OF key]
  from assms obtain fs s2 fs2 where body:
    "(if ContainmentRelationships (RelationshipName rel1) then
        if FromPartyID rel1 = ToPartyID rel1
        then fail (errorf (''cannot add party '' @ FromPartyID rel1 @ '' as member of itself''))
        else
          bind_op (query (\<lambda>s. rows_matching
              (\<lambda>c. MemberPartyID c = ToPartyID rel1 \<and> AncestorPartyID c = FromPartyID rel1)
              (party_group_closures s)))
            ''cycle detection'' (\<lambda>count.
            if count > 0
            then fail (errorf (''adding '' @ FromPartyID rel1 @ arrow @ ToPartyID rel1 @ '' would create a cycle''))
            else insert_edge orm now rel1)
      else insert_edge orm now rel1) (s\<lparr>faults := fs\<rparr>) = (Inr r, s2)"
    and s': "s' = s2\<lparr>faults := fs2\<rparr>"
    unfolding AddMember_def Let_def rel1_def [symmetric] by (elim Transaction_InrE)
  have "(RelationshipName rel = ''group_member'' \<longrightarrow>
      FromPartyID rel \<noteq> ToPartyID rel \<and> (ToPartyID rel, FromPartyID rel) \<notin> closure_pairs s) \<and>
    (\<exists>gs. insert_edge orm now rel1 (s\<lparr>faults := gs\<rparr>) = (Inr r, s2))"
  proof (cases "RelationshipName rel = ''group_member''")
    case True
    then show ?thesis using body fields
      by (auto elim!: bind_op_InrE query_InrE simp: rows_matching_closure split: if_splits)
  next
    case False
    then show ?thesis using body fields by auto
  qed
  then obtain gs where g: "RelationshipName rel = ''group_member'' \<longrightarrow>
      FromPartyID rel \<noteq> ToPartyID rel \<and> (ToPartyID rel, FromPartyID rel) \<notin> closure_pairs s"
    and ie: "insert_edge orm now rel1 (s\<lparr>faults := gs\<rparr>) = (Inr r, s2)" by blast
  note post = insert_edge_Inr [OF ie]
  show "rel_key r = rel_key rel" using post key by simp
  show "r \<in> set (party_relationships s) \<or> rel_clash r (party_relationships s) = None"
    using post by simp
  show "RelationshipName rel = ''group_member'' \<Longrightarrow>
    FromPartyID rel \<noteq> ToPartyID rel \<and> (ToPartyID rel, FromPartyID rel) \<notin> closure_pairs s"
    using g by blast
  show "tables s' = tables (edge_added r s)"
    using post s' by (simp add: edge_added_def add_edge_def rebuilt_def tables_def)
qed

section \<open>The closure invariant\<close>

text \<open>
  The closure table is the transitive closure of the containment edges, and the containment graph
  has no cycle.
\<close>

definition closure_inv :: "db \<Rightarrow> bool" where
  "closure_inv s \<longleftrightarrow> closure_pairs s = (containment s)\<^sup>+ \<and> acyclic (containment s)"

interpretation cl: table_invariant closure_inv
  by unfold_locales (simp add: closure_inv_def)

lemma containment_add_edge:
  "containment (add_edge r s) =
     (if RelationshipName r = ''group_member'' then insert (FromPartyID r, ToPartyID r) (containment s)
      else containment s)"
  by (auto simp: containment_iff add_edge_def split: if_splits)

lemma closure_pairs_add_edge [simp]: "closure_pairs (add_edge r s) = closure_pairs s"
  by (simp add: add_edge_def)

text \<open>The check that \<^verbatim>\<open>AddMember\<close> makes is exactly the condition under which the new edge keeps
  the graph acyclic.\<close>

lemma cycle_check_exact:
  assumes "closure_inv s"
  shows "acyclic (insert (a, b) (containment s)) \<longleftrightarrow> a \<noteq> b \<and> (b, a) \<notin> closure_pairs s"
  using assms by (auto simp: closure_inv_def acyclic_insert rtrancl_eq_or_trancl)

lemma closure_inv_edge_added:
  assumes "closure_inv s"
    and "RelationshipName r = ''group_member'' \<Longrightarrow>
         FromPartyID r \<noteq> ToPartyID r \<and> (ToPartyID r, FromPartyID r) \<notin> closure_pairs s"
  shows "closure_inv (edge_added r s)"
proof (cases "RelationshipName r = ''group_member''")
  case True
  then have "acyclic (insert (FromPartyID r, ToPartyID r) (containment s))"
    using assms cycle_check_exact by blast
  with True show ?thesis
    by (simp add: closure_inv_def edge_added_def containment_add_edge)
next
  case False
  with assms(1) show ?thesis by (simp add: closure_inv_def edge_added_def containment_add_edge)
qed

lemma AddMember_closure [preserves_rule]: "preserves closure_inv (AddMember orm uid now rel)"
proof (rule preservesI)
  fix s assume I: "closure_inv s"
  obtain res s' where m: "AddMember orm uid now rel s = (res, s')"
    by (cases "AddMember orm uid now rel s")
  show "closure_inv (snd (AddMember orm uid now rel s))"
  proof (cases res)
    case (Inl e)
    with m have t: "AddMember orm uid now rel s = (Inl e, s')" by simp
    from t obtain fs where "s' = s\<lparr>faults := fs\<rparr>"
      unfolding AddMember_def Let_def by (rule Transaction_InlE)
    with I m show ?thesis by (simp add: cl.faults_irrelevant)
  next
    case (Inr r)
    with m have ok: "AddMember orm uid now rel s = (Inr r, s')" by simp
    note key = rel_key_eqD [OF AddMember_Inr(1) [OF ok]]
    have "closure_inv (edge_added r s)"
      using AddMember_Inr(3) [OF ok] key by (intro closure_inv_edge_added [OF I]) simp
    then have "closure_inv s'" using AddMember_Inr(4) [OF ok] by (rule cl.tables_transfer)
    with m show ?thesis by simp
  qed
qed

text \<open>Deleting edges keeps the graph acyclic, and the rebuild restores the closure table.\<close>

lemma closure_inv_after_delete:
  assumes "closure_inv s" and "containment t \<subseteq> containment s"
  shows "closure_inv (rebuilt t)"
  using assms by (auto simp: closure_inv_def intro: acyclic_subset)

lemma containment_filter_subset:
  "containment (s\<lparr>party_relationships := filter P (party_relationships s)\<rparr>) \<subseteq> containment s"
  by (auto simp: containment_iff)

lemma containment_tables: "tables s = tables t \<Longrightarrow> containment s = containment t"
  unfolding containment_def by (drule tables_eqD(2)) simp

lemma RemoveMember_closure [preserves_rule]: "preserves closure_inv (RemoveMember f t n)"
  unfolding RemoveMember_def
proof (rule cl.Transaction_keeps)
  fix s :: db and r s'
  let ?P = "\<lambda>r. \<not> (FromPartyID r = f \<and> ToPartyID r = t \<and> RelationshipName r = n)"
  let ?s1 = "s\<lparr>party_relationships := filter ?P (party_relationships s)\<rparr>"
  assume I: "closure_inv s" and body: "bind_op (modify (\<lambda>s. s\<lparr>party_relationships :=
         filter ?P (party_relationships s)\<rparr>)) ''removing member relationship'' (\<lambda>_.
       if ContainmentRelationships n then rebuildAllClosures else ok ()) s = (Inr r, s')"
  then obtain u s1 where m: "modify (\<lambda>s. s\<lparr>party_relationships := filter ?P (party_relationships s)\<rparr>) s = (Inr u, s1)"
    and k: "(if ContainmentRelationships n then rebuildAllClosures else ok ()) s1 = (Inr r, s')"
    by (elim bind_op_InrE)
  from m have s1: "tables s1 = tables ?s1" by (elim modify_InrE) (simp add: tables_def)
  show "closure_inv s'"
  proof (cases "n = ''group_member''")
    case True
    with k have "tables s' = tables (rebuilt ?s1)"
      using rebuildAllClosures_Inr tables_rebuilt_cong [OF s1] by simp
    with closure_inv_after_delete [OF I containment_filter_subset] show ?thesis
      by (rule cl.tables_transfer)
  next
    case False
    then have "containment ?s1 = containment s" by (auto simp: containment_iff)
    with I have "closure_inv ?s1" by (simp add: closure_inv_def)
    then have "closure_inv s1" using s1 by (rule cl.tables_transfer)
    with False k show ?thesis by simp
  qed
qed

lemma role_update_fields [simp]:
  "edge (if b then r\<lparr>FromRole := x\<rparr> else r) = edge r"
  "RelationshipName (if b then r\<lparr>FromRole := x\<rparr> else r) = RelationshipName r"
  "rel_ID (if b then r\<lparr>FromRole := x\<rparr> else r) = rel_ID r"
  by (simp_all add: edge_def)

lemma UpdateMemberRole_closure [preserves_rule]: "preserves closure_inv (UpdateMemberRole params)"
proof -
  have "containment (s\<lparr>party_relationships := map (\<lambda>r. if umr_matches params r
          then r\<lparr>FromRole := umr_NewRole params\<rparr> else r) (party_relationships s)\<rparr>) = containment s" for s :: db
    by (simp add: containment_def containment_edges_def containment_rows_def filter_map comp_def)
  then have "preserves closure_inv (update_roles_stmt params)"
    unfolding update_roles_stmt_def by (intro cl.preserves_exec) (simp add: Let_def closure_inv_def)
  then show ?thesis unfolding UpdateMemberRole_def by (intro preserves_rule)
qed

end
