(* ===== verification/Party_Integrity.thy ===== *)
theory Party_Integrity
  imports Party_Store
begin

text \<open>
  Invariants of the party tables under every operation of \<^verbatim>\<open>PartyStore\<close>: the closure table,
  the unique indexes, and the protection of system parties.  The operations form a step relation;
  a state is reachable when it arises from empty tables by any sequence of calls under any
  schedule of refused statements.
\<close>

section \<open>The remaining operations keep the closure\<close>

lemma closure_inv_same_edges:
  "containment t = containment s \<Longrightarrow> closure_pairs t = closure_pairs s \<Longrightarrow> closure_inv s \<Longrightarrow> closure_inv t"
  by (simp add: closure_inv_def)

lemma insert_party_closure [preserves_rule]: "preserves closure_inv (insert_party p)"
  unfolding insert_party_def
  by (rule cl.preserves_insert_row) (erule closure_inv_same_edges [rotated 2], simp_all)

lemma CreateParty_closure [preserves_rule]: "preserves closure_inv (CreateParty uid now p)"
  unfolding CreateParty_def Let_def by (intro preserves_rule)

lemma AssignToProject_closure [preserves_rule]: "preserves closure_inv (AssignToProject now c p)"
proof -
  have "preserves closure_inv (insert_row catalog_project_memberships put_memberships cpm_clash m)" for m
    by (rule cl.preserves_insert_row) (erule closure_inv_same_edges [rotated 2], simp_all)
  then show ?thesis unfolding AssignToProject_def by (intro preserves_rule cl.preserves_query)
qed

lemma RemoveFromProject_closure [preserves_rule]: "preserves closure_inv (RemoveFromProject c p)"
  unfolding RemoveFromProject_def
  by (rule cl.preserves_modify) (erule closure_inv_same_edges [rotated 2], simp_all)

lemma CreatePersonForUser_closure [preserves_rule]: "preserves closure_inv (CreatePersonForUser uid now u)"
  unfolding CreatePersonForUser_def by (intro preserves_rule cl.preserves_First)

lemma UpdatePersonForUser_closure [preserves_rule]: "preserves closure_inv (UpdatePersonForUser now u)"
proof -
  have "preserves closure_inv (update_rows parties put_parties P f)" for P f
    by (rule cl.preserves_update_rows) (erule closure_inv_same_edges [rotated 2], simp_all)
  then show ?thesis unfolding UpdatePersonForUser_def by (intro preserves_rule)
qed

section \<open>What a successful deletion has done\<close>

definition party_deleted :: "string \<Rightarrow> db \<Rightarrow> db" where
  "party_deleted partyID s =
     (let s1 = s\<lparr>party_relationships :=
            filter (\<lambda>r. \<not> (FromPartyID r = partyID \<or> ToPartyID r = partyID)) (party_relationships s),
          global_party_roles := filter (\<lambda>g. gpr_PartyID g \<noteq> partyID) (global_party_roles s),
          catalog_project_memberships :=
            filter (\<lambda>m. ProjectPartyID m \<noteq> partyID) (catalog_project_memberships s)\<rparr>
      in (rebuilt s1)\<lparr>parties := filter (\<lambda>p. party_ID p \<noteq> partyID) (parties s)\<rparr>)"

lemma tables_party_deleted_cong:
  "tables s = tables t \<Longrightarrow> tables (party_deleted i s) = tables (party_deleted i t)"
  by (cases s; cases t; simp add: tables_def party_deleted_def rebuilt_def Let_def)

lemma tables_eq_faults: "tables s = tables t \<Longrightarrow> s = t\<lparr>faults := faults s\<rparr>"
  by (cases s; cases t; simp add: tables_def)

lemma rebuild_step:
  assumes "rebuildAllClosures s = (Inr u, s1)"
  obtains fs where "s1 = (rebuilt s)\<lparr>faults := fs\<rparr>"
  using tables_eq_faults [OF rebuildAllClosures_Inr [OF assms]] by blast

lemma DeleteParty_Inr:
  assumes "DeleteParty partyID s = (Inr u, s')"
  shows "tables s' = tables (party_deleted partyID s)"
    and "\<exists>p. first_by party_ID (\<lambda>p. party_ID p = partyID) (parties s) = Some p \<and> \<not> party_IsSystem p"
proof -
  from assms have "tables s' = tables (party_deleted partyID s) \<and>
    (\<exists>p. first_by party_ID (\<lambda>p. party_ID p = partyID) (parties s) = Some p \<and> \<not> party_IsSystem p)"
    unfolding DeleteParty_def
    apply (elim Transaction_InrE try_opE)
     apply (simp split: if_splits)
    apply (split if_splits)
     apply simp
    apply (elim First_InrE bind_op_InrE modify_InrE rebuild_step)
    apply (frule first_by_Some)
    apply (clarsimp simp add: party_deleted_def Let_def tables_def rebuilt_def)
    done
  then show "tables s' = tables (party_deleted partyID s)"
    and "\<exists>p. first_by party_ID (\<lambda>p. party_ID p = partyID) (parties s) = Some p \<and> \<not> party_IsSystem p"
    by blast+
qed

lemma closure_inv_party_deleted: "closure_inv s \<Longrightarrow> closure_inv (party_deleted i s)"
proof -
  assume I: "closure_inv s"
  let ?t = "s\<lparr>party_relationships :=
            filter (\<lambda>r. \<not> (FromPartyID r = i \<or> ToPartyID r = i)) (party_relationships s),
          global_party_roles := filter (\<lambda>g. gpr_PartyID g \<noteq> i) (global_party_roles s),
          catalog_project_memberships :=
            filter (\<lambda>m. ProjectPartyID m \<noteq> i) (catalog_project_memberships s)\<rparr>"
  have "containment ?t \<subseteq> containment s" by (auto simp: containment_iff)
  with I have "closure_inv (rebuilt ?t)" by (rule closure_inv_after_delete)
  then show ?thesis by (simp add: party_deleted_def closure_inv_def)
qed

text \<open>An operation that is one transaction changes the tables to a given function of the old ones
  or leaves them alone; an invariant that the function keeps is kept by the operation.\<close>

lemma Transaction_unchanged:
  assumes "Transaction body s = (Inl e, s')"
  shows "tables s' = tables s"
  using assms by (elim Transaction_InlE) simp

lemma DeleteParty_cases:
  assumes "DeleteParty i s = (r, s')"
  shows "tables s' = tables s \<or> tables s' = tables (party_deleted i s)"
proof (cases r)
  case (Inl e)
  with assms show ?thesis unfolding DeleteParty_def by (blast intro: Transaction_unchanged)
next
  case (Inr u)
  with assms show ?thesis using DeleteParty_Inr(1) by simp
qed

lemma DeleteParty_closure [preserves_rule]: "preserves closure_inv (DeleteParty i)"
proof (rule preservesI)
  fix s assume I: "closure_inv s"
  obtain r s' where m: "DeleteParty i s = (r, s')" by (cases "DeleteParty i s")
  from DeleteParty_cases [OF m] I closure_inv_party_deleted [OF I] have "closure_inv s'"
    by (metis cl.tables_transfer)
  with m show "closure_inv (snd (DeleteParty i s))" by simp
qed

section \<open>Unique indexes\<close>

definition user_ids :: "Party list \<Rightarrow> string list" where
  "user_ids ps = List.map_filter party_UserID ps"

definition keys_inv :: "db \<Rightarrow> bool" where
  "keys_inv s \<longleftrightarrow> distinct (map party_ID (parties s)) \<and> distinct (user_ids (parties s)) \<and>
     distinct (map rel_ID (party_relationships s)) \<and> distinct (map rel_key (party_relationships s)) \<and>
     distinct (map cpm_key (catalog_project_memberships s))"

interpretation ky: table_invariant keys_inv
  by unfold_locales (simp add: keys_inv_def)

lemma keys_inv_cong:
  "keys_inv s \<Longrightarrow> parties t = parties s \<Longrightarrow> party_relationships t = party_relationships s \<Longrightarrow>
   catalog_project_memberships t = catalog_project_memberships s \<Longrightarrow> keys_inv t"
  by (simp add: keys_inv_def)

lemma user_ids_snoc [simp]:
  "user_ids (ps @ [p]) = user_ids ps @ (case party_UserID p of None \<Rightarrow> [] | Some u \<Rightarrow> [u])"
  by (simp add: user_ids_def map_filter_def split: option.split)

lemma set_user_ids: "u \<in> set (user_ids ps) \<longleftrightarrow> (\<exists>p \<in> set ps. party_UserID p = Some u)"
  by (force simp: user_ids_def map_filter_def)

lemma user_ids_unique:
  "distinct (user_ids ps) \<Longrightarrow> p \<in> set ps \<Longrightarrow> q \<in> set ps \<Longrightarrow> party_UserID p = Some u \<Longrightarrow>
   party_UserID q = Some u \<Longrightarrow> p = q"
proof (induction ps)
  case (Cons r ps)
  have "party_UserID r = Some u \<Longrightarrow> x \<in> set ps \<Longrightarrow> party_UserID x \<noteq> Some u" for x
    using Cons.prems(1) by (force simp: user_ids_def map_filter_def)
  with Cons show ?case by (auto simp: user_ids_def map_filter_def split: if_splits)
qed simp

lemma user_ids_filter: "distinct (user_ids ps) \<Longrightarrow> distinct (user_ids (filter P ps))"
proof (induction ps)
  case (Cons p ps)
  then show ?case
    by (cases "party_UserID p") (auto simp: user_ids_def map_filter_def)
qed simp

lemma user_ids_update:
  "(\<And>p. party_UserID (f p) = party_UserID p) \<Longrightarrow>
   user_ids (map (\<lambda>p. if P p then f p else p) ps) = user_ids ps"
  by (induction ps) (simp_all add: user_ids_def map_filter_def)

lemma insert_party_keys [preserves_rule]: "preserves keys_inv (insert_party p)"
  unfolding insert_party_def
proof (rule ky.preserves_insert_row)
  fix s :: db assume "keys_inv s" and "party_clash p (parties s) = None"
  then show "keys_inv (put_parties (parties s @ [p]) s)"
    by (auto simp: keys_inv_def party_clash_def set_user_ids split: if_splits option.splits)
qed

lemma keys_inv_edge_added:
  assumes "keys_inv s" and "r \<in> set (party_relationships s) \<or> rel_clash r (party_relationships s) = None"
  shows "keys_inv (edge_added r s)"
  using assms by (auto simp: keys_inv_def edge_added_def add_edge_def rel_clash_None)

lemma keys_inv_party_deleted: "keys_inv s \<Longrightarrow> keys_inv (party_deleted i s)"
  by (simp add: keys_inv_def party_deleted_def distinct_map_filter_keep user_ids_filter)

lemma AddMember_cases:
  assumes "AddMember orm uid now rel s = (r, s')"
  obtains (failed) e where "r = Inl e" and "tables s' = tables s"
        | (added) q where "r = Inr q" and "tables s' = tables (edge_added q s)"
proof (cases r)
  case (Inl e)
  with assms have "tables s' = tables s"
    unfolding AddMember_def Let_def by (blast intro: Transaction_unchanged)
  with Inl show ?thesis by (rule failed)
next
  case (Inr q)
  with assms show ?thesis using AddMember_Inr(4) added by blast
qed

lemma AddMember_keys [preserves_rule]: "preserves keys_inv (AddMember orm uid now rel)"
proof (rule preservesI)
  fix s assume I: "keys_inv s"
  obtain r s' where m: "AddMember orm uid now rel s = (r, s')" by (cases "AddMember orm uid now rel s")
  from m have "keys_inv s'"
  proof (cases rule: AddMember_cases)
    case (failed e)
    with I show ?thesis by (metis ky.tables_transfer)
  next
    case (added q)
    then have "keys_inv (edge_added q s)"
      using keys_inv_edge_added [OF I AddMember_Inr(2)] m by blast
    with added show ?thesis by (metis ky.tables_transfer)
  qed
  with m show "keys_inv (snd (AddMember orm uid now rel s))" by simp
qed

lemma DeleteParty_keys [preserves_rule]: "preserves keys_inv (DeleteParty i)"
proof (rule preservesI)
  fix s assume I: "keys_inv s"
  obtain r s' where m: "DeleteParty i s = (r, s')" by (cases "DeleteParty i s")
  from DeleteParty_cases [OF m] I keys_inv_party_deleted [OF I] have "keys_inv s'"
    by (metis ky.tables_transfer)
  with m show "keys_inv (snd (DeleteParty i s))" by simp
qed

lemma CreateParty_keys [preserves_rule]: "preserves keys_inv (CreateParty uid now p)"
  unfolding CreateParty_def Let_def by (intro preserves_rule)

lemma RemoveMember_keys [preserves_rule]: "preserves keys_inv (RemoveMember f t n)"
proof -
  have "preserves keys_inv (modify (\<lambda>s. s\<lparr>party_relationships := filter P (party_relationships s)\<rparr>))" for P
    by (rule ky.preserves_modify) (simp add: keys_inv_def distinct_map_filter_keep)
  moreover have "preserves keys_inv rebuildAllClosures"
    unfolding rebuildAllClosures_def
    by (intro preserves_rule ky.preserves_modify) (erule keys_inv_cong, simp_all)+
  ultimately show ?thesis unfolding RemoveMember_def by (intro preserves_rule)
qed

lemma UpdateMemberRole_keys [preserves_rule]: "preserves keys_inv (UpdateMemberRole params)"
proof -
  have "map rel_ID (map (\<lambda>r. if umr_matches params r then r\<lparr>FromRole := n\<rparr> else r) rs) = map rel_ID rs" for n rs
    by (rule map_key_update) simp
  then have "preserves keys_inv (update_roles_stmt params)"
    unfolding update_roles_stmt_def
    by (intro ky.preserves_exec) (simp add: Let_def keys_inv_def del: map_map)
  then show ?thesis unfolding UpdateMemberRole_def by (intro preserves_rule)
qed

lemma AssignToProject_keys [preserves_rule]: "preserves keys_inv (AssignToProject now c p)"
proof -
  have "preserves keys_inv (insert_row catalog_project_memberships put_memberships cpm_clash m)" for m
    by (rule ky.preserves_insert_row) (auto simp: keys_inv_def cpm_clash_def split: if_splits)
  then show ?thesis unfolding AssignToProject_def by (intro preserves_rule ky.preserves_query)
qed

lemma RemoveFromProject_keys [preserves_rule]: "preserves keys_inv (RemoveFromProject c p)"
  unfolding RemoveFromProject_def
  by (rule ky.preserves_modify) (simp add: keys_inv_def distinct_map_filter_keep)

lemma CreatePersonForUser_keys [preserves_rule]: "preserves keys_inv (CreatePersonForUser uid now u)"
  unfolding CreatePersonForUser_def by (intro preserves_rule ky.preserves_First)

lemma UpdatePersonForUser_keys [preserves_rule]: "preserves keys_inv (UpdatePersonForUser now u)"
proof -
  let ?f = "\<lambda>p :: Party. p\<lparr>party_Name := personName u, party_UpdatedAt := now\<rparr>"
  have "map party_ID (map (\<lambda>p. if P p then ?f p else p) ps) = map party_ID ps" for P ps
    by (rule map_key_update) simp
  then have "preserves keys_inv (update_rows parties put_parties P ?f)" for P
    by (intro ky.preserves_update_rows) (simp add: keys_inv_def user_ids_update del: map_map)
  then show ?thesis unfolding UpdatePersonForUser_def by (intro preserves_rule)
qed

section \<open>The step relation\<close>

text \<open>One call of an operation of \<^verbatim>\<open>PartyStore\<close>, or the engine being given another schedule of
  refusals.\<close>

inductive party_step :: "orm \<Rightarrow> db \<Rightarrow> db \<Rightarrow> bool" for orm where
  step_faults: "party_step orm s (s\<lparr>faults := fs\<rparr>)"
| step_create: "party_step orm s (snd (CreateParty uid now p s))"
| step_delete: "party_step orm s (snd (DeleteParty i s))"
| step_add: "party_step orm s (snd (AddMember orm uid now rel s))"
| step_remove: "party_step orm s (snd (RemoveMember f t n s))"
| step_role: "party_step orm s (snd (UpdateMemberRole params s))"
| step_assign: "party_step orm s (snd (AssignToProject now c p s))"
| step_unassign: "party_step orm s (snd (RemoveFromProject c p s))"
| step_person: "party_step orm s (snd (CreatePersonForUser uid now u s))"
| step_rename: "party_step orm s (snd (UpdatePersonForUser now u s))"

inductive_cases party_stepE: "party_step orm s t"

inductive party_reachable :: "orm \<Rightarrow> db \<Rightarrow> bool" for orm where
  reach_init: "party_reachable orm empty_db"
| reach_step: "party_reachable orm s \<Longrightarrow> party_step orm s t \<Longrightarrow> party_reachable orm t"

text \<open>A stable assertion is one that every operation preserves; a stable assertion that holds of the
  empty tables holds in every reachable state.\<close>

locale party_stable = table_invariant I for I :: "db \<Rightarrow> bool" +
  assumes CreateParty_ok: "preserves I (CreateParty uid now p)"
    and DeleteParty_ok: "preserves I (DeleteParty i)"
    and AddMember_ok: "preserves I (AddMember orm uid now rel)"
    and RemoveMember_ok: "preserves I (RemoveMember f t n)"
    and UpdateMemberRole_ok: "preserves I (UpdateMemberRole params)"
    and AssignToProject_ok: "preserves I (AssignToProject now c j)"
    and RemoveFromProject_ok: "preserves I (RemoveFromProject c j)"
    and CreatePersonForUser_ok: "preserves I (CreatePersonForUser uid now u)"
    and UpdatePersonForUser_ok: "preserves I (UpdatePersonForUser now u)"
begin

lemma step_keeps: "party_step orm s t \<Longrightarrow> I s \<Longrightarrow> I t"
  by (induction rule: party_step.induct)
     (simp_all add: faults_irrelevant preservesD CreateParty_ok DeleteParty_ok AddMember_ok
        RemoveMember_ok UpdateMemberRole_ok AssignToProject_ok RemoveFromProject_ok
        CreatePersonForUser_ok UpdatePersonForUser_ok)

end

locale party_invariant = party_stable I for I :: "db \<Rightarrow> bool" +
  assumes init: "I empty_db"
begin

lemma reachable_holds: "party_reachable orm s \<Longrightarrow> I s"
  by (induction rule: party_reachable.induct) (use init step_keeps in blast)+

end

interpretation closure: party_invariant closure_inv
  by unfold_locales
     (simp_all add: preserves_rule, simp add: closure_inv_def closure_pairs_def containment_def
        containment_edges_def containment_rows_def empty_db_def acyclic_def)

interpretation keys: party_invariant keys_inv
  by unfold_locales
     (simp_all add: preserves_rule, simp add: keys_inv_def empty_db_def user_ids_def)

section \<open>System parties\<close>

text \<open>\<^verbatim>\<open>has_system i k s\<close>: the row of party \<^verbatim>\<open>i\<close> exists, is a system party and has kind
  \<^verbatim>\<open>k\<close>.  Together with the unique identifiers this is kept by every operation.\<close>

definition has_system :: "string \<Rightarrow> PartyKind \<Rightarrow> db \<Rightarrow> bool" where
  "has_system i k s \<longleftrightarrow> distinct (map party_ID (parties s)) \<and>
     (\<exists>p \<in> set (parties s). party_ID p = i \<and> party_IsSystem p \<and> party_Kind p = k)"

interpretation sy: table_invariant "has_system i k" for i k
  by unfold_locales (simp add: has_system_def)

lemma has_system_cong: "has_system i k s \<Longrightarrow> parties t = parties s \<Longrightarrow> has_system i k t"
  by (simp add: has_system_def)

lemma insert_party_system [preserves_rule]: "preserves (has_system i k) (insert_party p)"
  unfolding insert_party_def
  by (rule sy.preserves_insert_row) (auto simp: has_system_def party_clash_def split: if_splits)

lemma rebuildAllClosures_system [preserves_rule]: "preserves (has_system i k) rebuildAllClosures"
  unfolding rebuildAllClosures_def
  by (intro preserves_rule sy.preserves_modify) (erule has_system_cong, simp)+

lemma DeleteParty_system: "preserves (has_system i k) (DeleteParty j)"
proof (rule preservesI)
  fix s assume I: "has_system i k s"
  obtain r s' where m: "DeleteParty j s = (r, s')" by (cases "DeleteParty j s")
  have "has_system i k s'"
  proof (cases r)
    case (Inl e)
    with m have "tables s' = tables s" unfolding DeleteParty_def by (blast intro: Transaction_unchanged)
    with I show ?thesis by (metis sy.tables_transfer)
  next
    case (Inr u)
    with m have d: "DeleteParty j s = (Inr u, s')" by simp
    from I obtain p where p: "p \<in> set (parties s)" "party_ID p = i" "party_IsSystem p" "party_Kind p = k"
      and dist: "distinct (map party_ID (parties s))" by (auto simp: has_system_def)
    have "i \<noteq> j"
      using DeleteParty_Inr(2) [OF d] first_by_key [OF dist p(1), of j] p by auto
    with p dist have "has_system i k (party_deleted j s)"
      by (auto simp: has_system_def party_deleted_def distinct_map_filter_keep)
    with DeleteParty_Inr(1) [OF d] show ?thesis by (metis sy.tables_transfer)
  qed
  with m show "has_system i k (snd (DeleteParty j s))" by simp
qed

lemma FirstOrCreate_system: "preserves (has_system i k) (FirstOrCreate_rel orm now rel)"
  unfolding FirstOrCreate_rel_def
  by (intro preserves_rule sy.preserves_query sy.preserves_insert_row) (erule has_system_cong, simp)

lemma AddMember_system: "preserves (has_system i k) (AddMember orm uid now rel)"
  unfolding AddMember_def Let_def insert_edge_def
  by (intro preserves_rule sy.preserves_Transaction sy.preserves_query FirstOrCreate_system)

lemma RemoveMember_system: "preserves (has_system i k) (RemoveMember f t n)"
  unfolding RemoveMember_def
  by (intro preserves_rule sy.preserves_Transaction sy.preserves_modify) (erule has_system_cong, simp)

lemma UpdateMemberRole_system: "preserves (has_system i k) (UpdateMemberRole params)"
  unfolding UpdateMemberRole_def update_roles_stmt_def
  by (intro preserves_rule sy.preserves_exec) (simp add: has_system_def Let_def)

lemma AssignToProject_system: "preserves (has_system i k) (AssignToProject now c j)"
  unfolding AssignToProject_def
  by (intro preserves_rule sy.preserves_query sy.preserves_insert_row) (erule has_system_cong, simp)

lemma RemoveFromProject_system: "preserves (has_system i k) (RemoveFromProject c j)"
  unfolding RemoveFromProject_def by (intro sy.preserves_modify) (erule has_system_cong, simp)

lemma CreatePersonForUser_system: "preserves (has_system i k) (CreatePersonForUser uid now u)"
  unfolding CreatePersonForUser_def by (intro preserves_rule sy.preserves_First)

lemma UpdatePersonForUser_system: "preserves (has_system i k) (UpdatePersonForUser now u)"
proof -
  let ?f = "\<lambda>p :: Party. p\<lparr>party_Name := personName u, party_UpdatedAt := now\<rparr>"
  have ids: "map party_ID (map (\<lambda>p. if P p then ?f p else p) ps) = map party_ID ps" for P ps
    by (rule map_key_update) simp
  have "preserves (has_system i k) (update_rows parties put_parties P ?f)" for P
    by (rule sy.preserves_update_rows) (auto simp: has_system_def ids simp del: map_map if_image_distrib)
  then show ?thesis unfolding UpdatePersonForUser_def by (intro preserves_rule)
qed

lemma CreateParty_system: "preserves (has_system i k) (CreateParty uid now p)"
  unfolding CreateParty_def Let_def by (intro preserves_rule)

interpretation system: party_stable "has_system i k" for i k
  by unfold_locales
     (intro CreateParty_system DeleteParty_system AddMember_system RemoveMember_system
        UpdateMemberRole_system AssignToProject_system RemoveFromProject_system
        CreatePersonForUser_system UpdatePersonForUser_system)+

section \<open>Membership changes on an engine that refuses nothing\<close>

lemma Transaction_Inr_clean:
  "faults s = [] \<Longrightarrow> body s = (Inr x, s') \<Longrightarrow> faults s' = [] \<Longrightarrow> Transaction body s = (Inr x, s')"
  by (simp add: Transaction_clean)

lemma Transaction_Inl_clean:
  "faults s = [] \<Longrightarrow> body s = (Inl e, s') \<Longrightarrow> faults s' = [] \<Longrightarrow> Transaction body s = (Inl e, s)"
  by (simp add: Transaction_clean)

lemma insert_edge_fresh:
  assumes "faults s = []" and "RelationshipName rel = ''group_member''"
    and "rel_clash rel (party_relationships s) = None"
  shows "\<exists>s'. insert_edge orm now rel s = (Inr (stamp_rel now rel), s') \<and> faults s' = []"
proof -
  from assms(3) have c: "rel_clash (stamp_rel now rel) (party_relationships s) = None"
    by (simp add: rel_clash_None) (simp add: stamp_rel_def)
  have n: "first_by rel_ID (\<lambda>r. rel_key r = rel_key rel \<and> (pk_in_lookup orm \<longrightarrow> rel_ID r = rel_ID rel))
       (party_relationships s) = None"
    using assms(3) by (auto simp: first_by_None rel_clash_None)
  show ?thesis
    using assms(1,2) c n
    by (simp add: insert_edge_def FirstOrCreate_rel_def op_defs insert_row_clean rebuildAllClosures_clean
        stamp_rel_def)
qed

lemma AddMember_clean_cases:
  fixes rel :: PartyRelationship
  defines "a \<equiv> FromPartyID rel" and "b \<equiv> ToPartyID rel"
  assumes "faults s = []" and "rel_ID rel \<noteq> ''''" and "RelationshipName rel = ''group_member''"
    and "rel_clash rel (party_relationships s) = None"
  shows "a = b \<or> (b, a) \<in> closure_pairs s \<Longrightarrow> \<exists>e. AddMember orm uid now rel s = (Inl e, s)"
    and "a \<noteq> b \<Longrightarrow> (b, a) \<notin> closure_pairs s \<Longrightarrow>
         \<exists>s'. AddMember orm uid now rel s = (Inr (stamp_rel now rel), s')"
proof -
  let ?count = "rows_matching (\<lambda>c. MemberPartyID c = b \<and> AncestorPartyID c = a) (party_group_closures s)"
  have A: "AddMember orm uid now rel = Transaction (
        if a = b then fail (errorf (''cannot add party '' @ a @ '' as member of itself''))
        else bind_op (query (\<lambda>s. rows_matching (\<lambda>c. MemberPartyID c = b \<and> AncestorPartyID c = a)
                (party_group_closures s))) ''cycle detection'' (\<lambda>count.
              if count > 0 then fail (errorf (''adding '' @ a @ arrow @ b @ '' would create a cycle''))
              else insert_edge orm now rel))"
    unfolding a_def b_def using assms(4,5) by (simp add: AddMember_def)
  have z: "?count = 0 \<longleftrightarrow> (b, a) \<notin> closure_pairs s" by (rule rows_matching_closure)
  show "\<exists>e. AddMember orm uid now rel s = (Inl e, s)" if "a = b \<or> (b, a) \<in> closure_pairs s"
    using that z assms(3) unfolding A
    by (cases "a = b") (auto simp: op_defs intro!: Transaction_Inl_clean)
  show "\<exists>s'. AddMember orm uid now rel s = (Inr (stamp_rel now rel), s')"
    if "a \<noteq> b" "(b, a) \<notin> closure_pairs s"
  proof -
    obtain s' where "insert_edge orm now rel s = (Inr (stamp_rel now rel), s')" and "faults s' = []"
      using insert_edge_fresh assms by blast
    with that z assms(3) show ?thesis unfolding A
      by (intro exI [of _ s'] Transaction_Inr_clean) (auto simp: op_defs)
  qed
qed

section \<open>Properties\<close>

text \<open>\<^bold>\<open>C1\<close>  After any sequence of calls of the party store, whichever statements the engine
  refused on the way, \<^verbatim>\<open>AncestorGroupIDs\<close> returns exactly the groups that contain the party
  through a chain of containment edges, and the containment graph has no cycle.\<close>

theorem ancestor_groups_exact:
  assumes "party_reachable orm s" and "faults s = []"
  shows "(\<exists>ids. AncestorGroupIDs i s = (Inr ids, s) \<and> set ids = {g. (i, g) \<in> (containment s)\<^sup>+}) \<and>
    acyclic (containment s)"
proof -
  have I: "closure_inv s" using assms(1) by (rule closure.reachable_holds)
  have "(i, g) \<in> (containment s)\<^sup>+ \<longleftrightarrow> g \<in> AncestorPartyID ` {c \<in> set (party_group_closures s). MemberPartyID c = i}" for g
    using I by (force simp: closure_inv_def closure_pairs_def)
  with assms(2) I show ?thesis by (auto simp: AncestorGroupIDs_def op_defs closure_inv_def)
qed


text \<open>Sample states: the edges \<^verbatim>\<open>a -> b\<close> and \<^verbatim>\<open>b -> c\<close>, added one after the other.\<close>

definition sample_orm :: orm where
  "sample_orm = \<lparr>pk_in_lookup = True, belongs_to_wins = True\<rparr>"

definition sample_edge :: "string \<Rightarrow> string \<Rightarrow> string \<Rightarrow> PartyRelationship" where
  "sample_edge i a b = \<lparr>rel_ID = i, FromPartyID = a, FromRole = ''member'', ToPartyID = b,
     ToRole = ''group'', RelationshipName = ''group_member'', rel_CreatedAt = 0\<rparr>"

definition sample_chain :: db where
  "sample_chain = snd (AddMember sample_orm ''u2'' 7 (sample_edge ''e2'' ''b'' ''c'')
     (snd (AddMember sample_orm ''u1'' 5 (sample_edge ''e1'' ''a'' ''b'') empty_db)))"

lemma sample_chain_reachable: "party_reachable sample_orm sample_chain"
  unfolding sample_chain_def by (intro reach_init reach_step [OF _ step_add])

lemma sample_chain_faults: "faults sample_chain = []"
  by code_simp

lemma ancestor_groups_exact_witness:
  "AncestorGroupIDs ''a'' sample_chain = (Inr [''b'', ''c''], sample_chain) \<and>
   {''b'', ''c''} = {g. (''a'', g) \<in> (containment sample_chain)\<^sup>+}"
proof -
  have v: "AncestorGroupIDs ''a'' sample_chain = (Inr [''b'', ''c''], sample_chain)"
    by code_simp
  with ancestor_groups_exact [OF sample_chain_reachable sample_chain_faults, of "''a''"] show ?thesis
    by auto
qed



definition sample_group :: db where
  "sample_group = snd (CreateParty ''b'' 9 \<lparr>party_ID = ''b'', party_Kind = PartyKindGroup,
     party_Name = ''B'', party_Version = 0, party_UserID = None, party_IsSystem = False,
     party_CreatedAt = 0, party_UpdatedAt = 0\<rparr> sample_chain)"

lemma sample_group_reachable: "party_reachable sample_orm sample_group"
  unfolding sample_group_def by (intro reach_step [OF sample_chain_reachable step_create])


text \<open>No operation of the party store removes a system party, changes its kind or takes
  its system flag; in particular the default project, once created, is always there.\<close>

theorem system_party_survives:
  assumes "party_reachable orm s" and "party_step orm s t"
    and "p \<in> set (parties s)" and "party_IsSystem p"
  shows "\<exists>q \<in> set (parties t). party_ID q = party_ID p \<and> party_Kind q = party_Kind p \<and> party_IsSystem q"
proof -
  have "has_system (party_ID p) (party_Kind p) s"
    using keys.reachable_holds [OF assms(1)] assms(3,4) by (auto simp: has_system_def keys_inv_def)
  from system.step_keeps [OF assms(2) this] show ?thesis by (auto simp: has_system_def)
qed

definition sample_default :: Party where
  "sample_default = \<lparr>party_ID = ''d'', party_Kind = PartyKindProject, party_Name = ''Default'',
     party_Version = 0, party_UserID = None, party_IsSystem = True, party_CreatedAt = 1,
     party_UpdatedAt = 1\<rparr>"

lemma system_party_survives_witness:
  "let s = snd (CreateParty ''x'' 1 sample_default empty_db) in
   sample_default \<in> set (parties s) \<and>
   (\<exists>q \<in> set (parties (snd (DeleteParty ''d'' s))). party_ID q = ''d'' \<and> party_Kind q = PartyKindProject \<and> party_IsSystem q)"
proof -
  define s where "s = snd (CreateParty ''x'' 1 sample_default empty_db)"
  have r: "party_reachable sample_orm s" unfolding s_def by (intro reach_init reach_step [OF _ step_create])
  have m: "sample_default \<in> set (parties s)" unfolding s_def by code_simp
  have "party_IsSystem sample_default" by (simp add: sample_default_def)
  from system_party_survives [OF r step_delete m this, of "''d''"] m show ?thesis
    unfolding Let_def s_def by (simp add: sample_default_def)
qed

text \<open>\<^bold>\<open>C35\<close>  \<^verbatim>\<open>UpdateMemberRole\<close> has three outcomes: the sentinel \<^verbatim>\<open>ErrMemberNotFound\<close> exactly
  when no edge carries the old role, a refusal by the unique index that changes nothing when a
  renamed edge would coincide with another one, and otherwise exactly the matching edges carry
  the new role.\<close>

theorem UpdateMemberRole_outcomes:
  assumes "keys_inv s" and "faults s = []"
  shows "case UpdateMemberRole params s of
      (Inl e, s') \<Rightarrow> s' = s \<and>
        (if \<exists>r \<in> set (party_relationships s). umr_matches params r
         then \<not> errors_Is e ErrMemberNotFound \<and>
           \<not> distinct (map rel_key (map (\<lambda>r. if umr_matches params r then r\<lparr>FromRole := umr_NewRole params\<rparr> else r)
                                  (party_relationships s)))
         else errors_Is e ErrMemberNotFound)
    | (Inr _, s') \<Rightarrow> keys_inv s' \<and>
        (\<exists>r \<in> set (party_relationships s). umr_matches params r) \<and>
        s' = s\<lparr>party_relationships := map (\<lambda>r. if umr_matches params r
               then r\<lparr>FromRole := umr_NewRole params\<rparr> else r) (party_relationships s)\<rparr>"
proof -
  define new where "new = map (\<lambda>r. if umr_matches params r
               then r\<lparr>FromRole := umr_NewRole params\<rparr> else r) (party_relationships s)"
  have k: "keys_inv (snd (UpdateMemberRole params s))"
    using UpdateMemberRole_keys assms(1) by (rule preservesD)
  have none: "new = party_relationships s" "distinct (map rel_key new)"
    if "rows_matching (umr_matches params) (party_relationships s) = 0"
  proof -
    show n: "new = party_relationships s"
      using that by (auto simp: new_def rows_matching_zero intro!: map_idI)
    show "distinct (map rel_key new)" using assms(1) unfolding n by (simp add: keys_inv_def)
  qed
  have u: "update_roles_stmt params s = (if distinct (map rel_key new)
        then (Inr (rows_matching (umr_matches params) (party_relationships s)), s\<lparr>party_relationships := new\<rparr>)
        else (Inl (errorf ''UNIQUE constraint failed: party_relationships.from_party_id''), s))"
    using assms(2) by (simp add: update_roles_stmt_def Let_def new_def)
  show ?thesis
    using k none unfolding new_def [symmetric] UpdateMemberRole_def
    by (auto simp: op_defs u errors_Is_def rows_matching_zero split: if_splits)
qed

lemma UpdateMemberRole_outcomes_witness:
  "keys_inv sample_chain \<and>
   map FromRole (party_relationships (snd (UpdateMemberRole \<lparr>umr_FromPartyID = ''a'', umr_ToPartyID = ''b'',
     umr_RelationshipName = ''group_member'', umr_OldRole = ''member'', umr_NewRole = ''lead''\<rparr> sample_chain)))
   = [''lead'', ''member'']"
proof -
  let ?p = "\<lparr>umr_FromPartyID = ''a'', umr_ToPartyID = ''b'',
     umr_RelationshipName = ''group_member'', umr_OldRole = ''member'', umr_NewRole = ''lead''\<rparr>"
  have k: "keys_inv sample_chain" using sample_chain_reachable by (rule keys.reachable_holds)
  have f: "fst (UpdateMemberRole ?p sample_chain) = Inr ()" by code_simp
  from UpdateMemberRole_outcomes [OF k sample_chain_faults, of ?p] f
  have "snd (UpdateMemberRole ?p sample_chain) = sample_chain\<lparr>party_relationships :=
      map (\<lambda>r. if umr_matches ?p r then r\<lparr>FromRole := umr_NewRole ?p\<rparr> else r) (party_relationships sample_chain)\<rparr>"
    by (cases "UpdateMemberRole ?p sample_chain") auto
  moreover have "map FromRole (map (\<lambda>r. if umr_matches ?p r then r\<lparr>FromRole := umr_NewRole ?p\<rparr> else r)
      (party_relationships sample_chain)) = [''lead'', ''member'']" by code_simp
  ultimately show ?thesis using k by simp
qed

end
