(* ===== verification/Catalog_Store.thy ===== *)
theory Catalog_Store
  imports Capability_Json Party_Integrity "HOL-Library.Product_Lexorder"
begin

text \<open>
  \<^verbatim>\<open>SQLStore\<close> (\<^verbatim>\<open>internal/store/sql_store.go\<close>, \<^verbatim>\<open>sql_store_query.go\<close>,
  \<^verbatim>\<open>health_store.go\<close>, \<^verbatim>\<open>provider_store.go\<close>) and the raw card store
  (\<^verbatim>\<open>plugins/cardstore/plugin.go\<close>).

  A stored row has only its columns: the fields tagged \<^verbatim>\<open>gorm:"-"\<close> and the associations are
  zero in the table and filled after a query.  Saving a struct first saves its belongs-to
  associations with \<^verbatim>\<open>ON CONFLICT DO NOTHING\<close>.  \<^verbatim>\<open>LIKE\<close> and \<^verbatim>\<open>LOWER\<close> are operators of the
  engine and an argument here; rows with equal sort keys keep their storage order.
\<close>

section \<open>Rows\<close>

abbreviation put_providers :: "Provider list \<Rightarrow> db \<Rightarrow> db" where
  "put_providers ps s \<equiv> s\<lparr>providers := ps\<rparr>"

abbreviation put_agent_types :: "AgentType list \<Rightarrow> db \<Rightarrow> db" where
  "put_agent_types ts s \<equiv> s\<lparr>agent_types := ts\<rparr>"

abbreviation put_capabilities :: "capabilityRow list \<Rightarrow> db \<Rightarrow> db" where
  "put_capabilities cs s \<equiv> s\<lparr>capabilities := cs\<rparr>"

abbreviation put_entries :: "CatalogEntry list \<Rightarrow> db \<Rightarrow> db" where
  "put_entries es s \<equiv> s\<lparr>catalog_entries := es\<rparr>"

definition provider_clash :: "Provider \<Rightarrow> Provider list \<Rightarrow> string option" where
  "provider_clash p ps =
     (if \<exists>q \<in> set ps. provider_ID q = provider_ID p then Some ''providers.id''
      else if \<exists>q \<in> set ps. Organization q = Organization p \<and> Team q = Team p
      then Some ''providers.organization, providers.team'' else None)"

definition agent_type_clash :: "AgentType \<Rightarrow> AgentType list \<Rightarrow> string option" where
  "agent_type_clash t ts =
     (if \<exists>q \<in> set ts. agent_type_ID q = agent_type_ID t then Some ''agent_types.id''
      else if \<exists>q \<in> set ts. AgentKey q = AgentKey t \<and> agent_Version q = agent_Version t
      then Some ''agent_types.agent_key, agent_types.version'' else None)"

definition capability_clash :: "capabilityRow \<Rightarrow> capabilityRow list \<Rightarrow> string option" where
  "capability_clash c cs =
     (if \<exists>q \<in> set cs. cap_ID q = cap_ID c then Some ''capabilities.id''
      else if \<exists>q \<in> set cs. cap_AgentTypeID q = cap_AgentTypeID c \<and> cap_Kind q = cap_Kind c \<and> cap_Name q = cap_Name c
      then Some ''capabilities.agent_type_id, capabilities.kind, capabilities.name'' else None)"

definition entry_clash :: "CatalogEntry \<Rightarrow> CatalogEntry list \<Rightarrow> string option" where
  "entry_clash e es = (if \<exists>q \<in> set es. entry_ID q = entry_ID e then Some ''catalog_entries.id'' else None)"

definition zero_Validity :: Validity where
  "zero_Validity = \<lparr>From = None, To = None, validity_LastSeen = zero_time\<rparr>"

definition agent_type_row :: "AgentType \<Rightarrow> AgentType" where
  "agent_type_row t = t\<lparr>agent_Provider := None, Capabilities := [], RawBytes := ''''\<rparr>"

definition entry_row :: "CatalogEntry \<Rightarrow> CatalogEntry" where
  "entry_row e = e\<lparr>entry_AgentType := None, Categories := [], Metadata := [],
     entry_Validity := zero_Validity, entry_Health := zero_Health\<rparr>"

text \<open>Column defaults and automatic time stamps of an insert.\<close>

definition stamp_entry :: "time \<Rightarrow> CatalogEntry \<Rightarrow> CatalogEntry" where
  "stamp_entry now e = e\<lparr>
     Status := (if Status e = '''' then LifecycleRegistered else Status e),
     CategoriesJSON := (if CategoriesJSON e = '''' then ''[]'' else CategoriesJSON e),
     MetadataJSON := (if MetadataJSON e = '''' then ''{}'' else MetadataJSON e),
     CreatedAt := (if IsZero (CreatedAt e) then now else CreatedAt e),
     UpdatedAt := (if IsZero (UpdatedAt e) then now else UpdatedAt e)\<rparr>"

section \<open>Statements\<close>

text \<open>\<^verbatim>\<open>INSERT ... ON CONFLICT DO NOTHING\<close>.\<close>

definition insert_or_ignore ::
  "(db \<Rightarrow> 'a list) \<Rightarrow> ('a list \<Rightarrow> db \<Rightarrow> db) \<Rightarrow> ('a \<Rightarrow> 'a list \<Rightarrow> string option) \<Rightarrow> 'a \<Rightarrow> (db, unit) op" where
  "insert_or_ignore tab put clash x = exec (\<lambda>s. case clash x (tab s) of
       Some _ \<Rightarrow> (Inr (), s) | None \<Rightarrow> (Inr (), put (tab s @ [x]) s))"

text \<open>One \<^verbatim>\<open>INSERT\<close> of several rows: each is checked against the table and the rows before it,
  and either all are stored or none.\<close>

fun batch_clash :: "('a \<Rightarrow> 'a list \<Rightarrow> string option) \<Rightarrow> 'a list \<Rightarrow> 'a list \<Rightarrow> string option" where
  "batch_clash clash [] t = None"
| "batch_clash clash (x # xs) t =
     (case clash x t of Some cols \<Rightarrow> Some cols | None \<Rightarrow> batch_clash clash xs (t @ [x]))"

definition insert_rows ::
  "(db \<Rightarrow> 'a list) \<Rightarrow> ('a list \<Rightarrow> db \<Rightarrow> db) \<Rightarrow> ('a \<Rightarrow> 'a list \<Rightarrow> string option) \<Rightarrow> 'a list \<Rightarrow> (db, unit) op" where
  "insert_rows tab put clash xs = exec (\<lambda>s. case batch_clash clash xs (tab s) of
       Some cols \<Rightarrow> (Inl (errorf (''UNIQUE constraint failed: '' @ cols)), s)
     | None \<Rightarrow> (Inr (), put (tab s @ xs) s))"

text \<open>\<^verbatim>\<open>Save\<close>: write all columns of the row with the key, or insert \<^verbatim>\<open>fresh\<close> when there is
  none; another row's unique key refuses it.\<close>

definition save_row ::
  "(db \<Rightarrow> 'a list) \<Rightarrow> ('a list \<Rightarrow> db \<Rightarrow> db) \<Rightarrow> ('a \<Rightarrow> string) \<Rightarrow>
   ('a \<Rightarrow> 'a list \<Rightarrow> string option) \<Rightarrow> 'a \<Rightarrow> 'a \<Rightarrow> (db, unit) op" where
  "save_row tab put key clash row fresh = exec (\<lambda>s.
     let others = filter (\<lambda>q. key q \<noteq> key row) (tab s)
     in case clash row others of
          Some cols \<Rightarrow> (Inl (errorf (''UNIQUE constraint failed: '' @ cols)), s)
        | None \<Rightarrow>
            if \<exists>q \<in> set (tab s). key q = key row
            then (Inr (), put (map (\<lambda>q. if key q = key row then row else q) (tab s)) s)
            else (Inr (), put (tab s @ [fresh]) s))"

section \<open>Providers and associations\<close>

definition UpsertProvider :: "string \<Rightarrow> time \<Rightarrow> Provider \<Rightarrow> (db, Provider) op" where
  "UpsertProvider uid now provider =
     try_op (First providers provider_ID
         (\<lambda>q. Organization q = Organization provider \<and> Team q = Team provider))
       (\<lambda>_. let p = provider\<lparr>provider_ID := uid,
                 provider_CreatedOn := (if IsZero (provider_CreatedOn provider) then now
                                        else provider_CreatedOn provider)\<rparr>
            in bind_op (insert_row providers put_providers provider_clash p) ''creating provider'' (\<lambda>_. ok p))
       ok"

definition save_provider_of :: "AgentType \<Rightarrow> (db, unit) op" where
  "save_provider_of t = (case agent_Provider t of None \<Rightarrow> ok ()
     | Some p \<Rightarrow> insert_or_ignore providers put_providers provider_clash p)"

text \<open>The foreign keys after the association is saved.\<close>

definition with_provider_key :: "orm \<Rightarrow> AgentType \<Rightarrow> AgentType" where
  "with_provider_key orm t = (case agent_Provider t of None \<Rightarrow> t
     | Some p \<Rightarrow> if belongs_to_wins orm then t\<lparr>ProviderID := Some (provider_ID p)\<rparr> else t)"

definition with_type_key :: "orm \<Rightarrow> CatalogEntry \<Rightarrow> CatalogEntry" where
  "with_type_key orm e = (case entry_AgentType e of None \<Rightarrow> e
     | Some t \<Rightarrow> if belongs_to_wins orm then e\<lparr>AgentTypeID := agent_type_ID t\<rparr> else e)"

definition save_type_of :: "orm \<Rightarrow> CatalogEntry \<Rightarrow> (db, unit) op" where
  "save_type_of orm e = (case entry_AgentType e of None \<Rightarrow> ok ()
     | Some t \<Rightarrow> pass_op (save_provider_of t) (\<lambda>_.
         insert_or_ignore agent_types put_agent_types agent_type_clash
           (agent_type_row (with_provider_key orm t))))"

section \<open>Creating, updating, deleting\<close>

definition capability_rows :: "(nat \<Rightarrow> string) \<Rightarrow> string \<Rightarrow> Capability list \<Rightarrow> capabilityRow list" where
  "capability_rows uids agentTypeID caps =
     map (\<lambda>(i, c). capabilityToRow (uids i) agentTypeID c) (enumerate 0 caps)"

definition insert_capabilities :: "(nat \<Rightarrow> string) \<Rightarrow> AgentType \<Rightarrow> string \<Rightarrow> (db, unit) op" where
  "insert_capabilities uids t msg =
     (if length (Capabilities t) > 0
      then bind_op (insert_rows capabilities put_capabilities capability_clash
             (capability_rows uids (agent_type_ID t) (Capabilities t))) msg ok
      else ok ())"

text \<open>The environment of the store: the mapper's choices, \<^verbatim>\<open>encoding/json\<close> on the two text
  columns, and whether \<^verbatim>\<open>WithPartyStore\<close> was called.\<close>

record store_env =
  mapper :: orm
  codec :: json_codec
  partyStore :: bool

definition create_body :: "store_env \<Rightarrow> (nat \<Rightarrow> string) \<Rightarrow> time \<Rightarrow> string \<Rightarrow> AgentType \<Rightarrow> CatalogEntry \<Rightarrow> (db, CatalogEntry) op" where
  "create_body env uids now defaultProjectID t entry =
     (let t1 = with_provider_key (mapper env) t;
          e1 = stamp_entry now (entry\<lparr>AgentTypeID := agent_type_ID t1, entry_AgentType := Some t1\<rparr>) in
      bind_op (pass_op (save_provider_of t) (\<lambda>_.
          insert_row agent_types put_agent_types agent_type_clash (agent_type_row t1))) ''creating agent_type'' (\<lambda>_.
      pass_op (insert_capabilities uids t1 ''inserting capabilities'') (\<lambda>_.
      bind_op (pass_op (save_type_of (mapper env) e1) (\<lambda>_.
          insert_row catalog_entries put_entries entry_clash (entry_row e1))) ''inserting catalog entry'' (\<lambda>_.
      (if defaultProjectID \<noteq> ''''
       then bind_op (insert_row catalog_project_memberships put_memberships cpm_clash
              \<lparr>CatalogEntryID = entry_ID e1, ProjectPartyID = defaultProjectID, cpm_CreatedAt = now\<rparr>)
            ''assigning entry to default project'' (\<lambda>_. ok e1)
       else ok e1)))))"

definition SQLStore_Create :: "store_env \<Rightarrow> (nat \<Rightarrow> string) \<Rightarrow> time \<Rightarrow> CatalogEntry \<Rightarrow> (db, CatalogEntry) op" where
  "SQLStore_Create env uids now entry = (case entry_AgentType entry of
       None \<Rightarrow> fail (errorf ''entry.AgentType must be set before Create'')
     | Some t \<Rightarrow>
         (if partyStore env
          then bind_op GetDefaultProject ''resolving default project'' (\<lambda>def.
                 Transaction (create_body env uids now (party_ID def) t (SyncToDB (codec env) entry)))
          else Transaction (create_body env uids now '''' t (SyncToDB (codec env) entry))))"

definition preload_provider :: "AgentType \<Rightarrow> (db, AgentType) op" where
  "preload_provider t = (case ProviderID t of None \<Rightarrow> ok t
     | Some pid \<Rightarrow> pass_op (query (\<lambda>s. first_by provider_ID (\<lambda>p. provider_ID p = pid) (providers s)))
         (\<lambda>p. ok (t\<lparr>agent_Provider := p\<rparr>)))"

definition type_of_entry :: "db \<Rightarrow> CatalogEntry \<Rightarrow> AgentType option" where
  "type_of_entry s e = first_by agent_type_ID (\<lambda>t. agent_type_ID t = AgentTypeID e) (agent_types s)"

definition preload_type :: "CatalogEntry \<Rightarrow> (db, CatalogEntry) op" where
  "preload_type e = pass_op (query (\<lambda>s. type_of_entry s e)) (\<lambda>t. ok (e\<lparr>entry_AgentType := t\<rparr>))"

definition preload_type_provider :: "CatalogEntry \<Rightarrow> (db, CatalogEntry) op" where
  "preload_type_provider e = pass_op (preload_type e) (\<lambda>e1. case entry_AgentType e1 of None \<Rightarrow> ok e1
     | Some t \<Rightarrow> pass_op (preload_provider t) (\<lambda>t'. ok (e1\<lparr>entry_AgentType := Some t'\<rparr>)))"

fun keep_known :: "capabilityRow list \<Rightarrow> Capability list" where
  "keep_known [] = []"
| "keep_known (row # rows) = (case rowToCapability row of
       Inl _ \<Rightarrow> keep_known rows | Inr c \<Rightarrow> c # keep_known rows)"

definition loadCapabilities :: "CatalogEntry \<Rightarrow> (db, CatalogEntry) op" where
  "loadCapabilities e = (case entry_AgentType e of None \<Rightarrow> ok e
     | Some t \<Rightarrow> bind_op (query (\<lambda>s. filter (\<lambda>c. cap_AgentTypeID c = agent_type_ID t) (capabilities s)))
         ''loading capabilities'' (\<lambda>rows.
         ok (e\<lparr>entry_AgentType := Some (t\<lparr>Capabilities := keep_known rows\<rparr>)\<rparr>)))"

text \<open>The part that \<^verbatim>\<open>Get\<close> and \<^verbatim>\<open>FindByEndpoint\<close> share.\<close>

definition first_entry :: "store_env \<Rightarrow> (db \<Rightarrow> CatalogEntry \<Rightarrow> bool) \<Rightarrow> string \<Rightarrow> (db, CatalogEntry option) op" where
  "first_entry env cond msg =
     try_op (pass_op (First (\<lambda>s. filter (cond s) (catalog_entries s)) entry_ID (\<lambda>_. True)) preload_type_provider)
       (\<lambda>e. if errors_Is e ErrRecordNotFound then ok None else fail (wrapf msg e))
       (\<lambda>entry. pass_op (loadCapabilities entry) (\<lambda>e1. ok (Some (SyncFromDB (codec env) e1))))"

definition SQLStore_Get :: "store_env \<Rightarrow> string \<Rightarrow> (db, CatalogEntry option) op" where
  "SQLStore_Get env id' = first_entry env (\<lambda>_ e. entry_ID e = id') ''getting catalog entry''"

definition FindByEndpoint :: "store_env \<Rightarrow> string \<Rightarrow> (db, CatalogEntry option) op" where
  "FindByEndpoint env endpoint = first_entry env
     (\<lambda>s e. \<exists>t \<in> set (agent_types s). agent_type_ID t = AgentTypeID e \<and> Endpoint t = endpoint)
     ''finding by endpoint''"

definition SQLStore_Update :: "store_env \<Rightarrow> (nat \<Rightarrow> string) \<Rightarrow> time \<Rightarrow> CatalogEntry \<Rightarrow> (db, unit) op" where
  "SQLStore_Update env uids now entry =
     (let e = with_type_key (mapper env) (SyncToDB (codec env) entry);
          e1 = e\<lparr>UpdatedAt := now\<rparr> in
      Transaction (
        bind_op (pass_op (save_type_of (mapper env) e1) (\<lambda>_.
            save_row catalog_entries put_entries entry_ID (\<lambda>_ _. None) (entry_row e1)
              (entry_row (stamp_entry now e1)))) ''updating catalog entry'' (\<lambda>_.
        case entry_AgentType e1 of
          None \<Rightarrow> ok ()
        | Some t \<Rightarrow> let t1 = with_provider_key (mapper env) t in
            bind_op (pass_op (save_provider_of t) (\<lambda>_.
                save_row agent_types put_agent_types agent_type_ID agent_type_clash
                  (agent_type_row t1) (agent_type_row t1))) ''updating agent_type'' (\<lambda>_.
            bind_op (modify (\<lambda>s. s\<lparr>capabilities :=
                filter (\<lambda>c. \<not> cap_AgentTypeID c = agent_type_ID t1) (capabilities s)\<rparr>)) ''deleting old capabilities'' (\<lambda>_.
            insert_capabilities uids t1 ''inserting updated capabilities'')))))"

definition SQLStore_Delete :: "string \<Rightarrow> (db, unit) op" where
  "SQLStore_Delete id' =
     bind_op (modify (\<lambda>s. s\<lparr>catalog_entries := filter (\<lambda>e. \<not> entry_ID e = id') (catalog_entries s)\<rparr>))
       ''deleting catalog entry'' ok"

section \<open>Health and lifecycle\<close>

definition write_health :: "time \<Rightarrow> Health \<Rightarrow> CatalogEntry \<Rightarrow> CatalogEntry" where
  "write_health now h e =
     (let e1 = e\<lparr>Status := State h, HealthLastProbedAt := LastProbedAt h,
           HealthLastSuccessAt := LastSuccessAt h, HealthLastError := LastError h,
           HealthLatencyMs := LatencyMs h, HealthConsecutiveFailures := ConsecutiveFailures h,
           UpdatedAt := now\<rparr>
      in case LastSuccessAt h of Some t \<Rightarrow> e1\<lparr>LastSeen := t\<rparr> | None \<Rightarrow> e1)"

definition UpdateHealth :: "time \<Rightarrow> string \<Rightarrow> Health \<Rightarrow> (db, unit) op" where
  "UpdateHealth now entryID h =
     bind_op (update_rows catalog_entries put_entries (\<lambda>e. entry_ID e = entryID) (write_health now h))
       (''updating health for '' @ entryID) (\<lambda>n.
     if n = 0 then fail (wrapf (''updating health for '' @ entryID) (Error ''entry not found'' [ErrEntryNotFound]))
     else ok ())"

definition SetLifecycle :: "time \<Rightarrow> string \<Rightarrow> LifecycleState \<Rightarrow> (db, unit) op" where
  "SetLifecycle now entryID st =
     bind_op (update_rows catalog_entries put_entries (\<lambda>e. entry_ID e = entryID)
         (\<lambda>e. e\<lparr>Status := st, UpdatedAt := now\<rparr>))
       (''setting lifecycle for '' @ entryID) (\<lambda>n.
     if n = 0 then fail (errorf (''entry '' @ entryID @ '' not found'')) else ok ())"

section \<open>Raw cards\<close>

definition maxCardBytes :: nat where "maxCardBytes = 256 * 1024"

definition StoreCard :: "time \<Rightarrow> string \<Rightarrow> string \<Rightarrow> string \<Rightarrow> (db, unit) op" where
  "StoreCard now agentTypeID data contentType =
     (if agentTypeID = '''' then fail (errorf ''agentTypeID must not be empty'')
      else let truncated = length data > maxCardBytes;
               row = \<lparr>raw_AgentTypeID = agentTypeID,
                      raw_Data = (if truncated then take maxCardBytes data else data),
                      raw_ContentType = (if contentType = '''' then ''application/json'' else contentType),
                      raw_FetchedAt = now, raw_Truncated = truncated\<rparr>
           in bind_op (modify (\<lambda>s. s\<lparr>raw_cards :=
                (if \<exists>q \<in> set (raw_cards s). raw_AgentTypeID q = agentTypeID
                 then map (\<lambda>q. if raw_AgentTypeID q = agentTypeID then row else q) (raw_cards s)
                 else raw_cards s @ [row])\<rparr>))
                (''storing raw card for '' @ agentTypeID) ok)"

definition GetCard :: "string \<Rightarrow> (db, rawCardRow) op" where
  "GetCard agentTypeID =
     try_op (First raw_cards raw_AgentTypeID (\<lambda>q. raw_AgentTypeID q = agentTypeID))
       (\<lambda>e. if errors_Is e ErrRecordNotFound
            then fail (wrapf (''no raw card stored for agent_type_id '' @ agentTypeID) e)
            else fail (wrapf (''getting raw card for '' @ agentTypeID) e))
       ok"

end
