(* ===== verification/Catalog_Query.thy ===== *)
theory Catalog_Query
  imports Catalog_Store
begin

text \<open>
  The queries of \<^verbatim>\<open>SQLStore\<close> (\<^verbatim>\<open>internal/store/sql_store_query.go\<close>): filtered and sorted
  listing, the probe queue, statistics, and the capability discovery queries.
\<close>

section \<open>Text operators\<close>

text \<open>\<^verbatim>\<open>LIKE\<close> and \<^verbatim>\<open>LOWER\<close> of the engine.  \<^verbatim>\<open>wide_lower\<close> is the part of Go's
  \<^verbatim>\<open>strings.ToLower\<close> that needs the Unicode tables: it is used on strings with a byte
  outside ASCII.\<close>

record sql_text =
  sql_like :: "string \<Rightarrow> string \<Rightarrow> bool"
  sql_lower :: "string \<Rightarrow> string"
  wide_lower :: "string \<Rightarrow> string"

definition ascii_lower :: "char \<Rightarrow> char" where
  "ascii_lower c = (let n = of_char c :: nat in if 65 \<le> n \<and> n \<le> 90 then char_of (n + 32) else c)"

definition ToLower :: "sql_text \<Rightarrow> string \<Rightarrow> string" where
  "ToLower x s = (if \<forall>c \<in> set s. (of_char c :: nat) < 128 then map ascii_lower s else wide_lower x s)"

definition like_any :: "sql_text \<Rightarrow> string \<Rightarrow> string \<Rightarrow> bool" where
  "like_any x needle text = sql_like x (''%'' @ needle @ ''%'') text"

definition lower_like :: "sql_text \<Rightarrow> string \<Rightarrow> string \<Rightarrow> bool" where
  "lower_like x needle text = like_any x needle (sql_lower x text)"

section \<open>Listing\<close>

record ListFilter =
  filter_Protocol :: "Protocol option"
  filter_States :: "LifecycleState list"
  filter_Source :: "SourceType option"
  filter_Team :: string
  filter_Query :: string
  filter_Categories :: "string list"
  filter_Limit :: int
  filter_Offset :: int
  filter_Sort :: string
  filter_ProjectID :: string

definition no_filter :: ListFilter where
  "no_filter = \<lparr>filter_Protocol = None, filter_States = [], filter_Source = None, filter_Team = '''',
     filter_Query = '''', filter_Categories = [], filter_Limit = 0, filter_Offset = 0,
     filter_Sort = '''', filter_ProjectID = ''''\<rparr>"

definition provider_of_type :: "db \<Rightarrow> AgentType \<Rightarrow> Provider option" where
  "provider_of_type s t = (case ProviderID t of None \<Rightarrow> None
     | Some pid \<Rightarrow> first_by provider_ID (\<lambda>p. provider_ID p = pid) (providers s))"

text \<open>The six alternatives of the text search; \<^verbatim>\<open>DISTINCT\<close> makes the joined capabilities an
  existential.\<close>

definition search_matches :: "sql_text \<Rightarrow> db \<Rightarrow> string \<Rightarrow> CatalogEntry \<Rightarrow> AgentType \<Rightarrow> bool" where
  "search_matches x s text e t =
     (let q = ToLower x text;
          caps = filter (\<lambda>c. cap_AgentTypeID c = agent_type_ID t) (capabilities s)
      in lower_like x q (entry_DisplayName e) \<or> lower_like x q (entry_Description e) \<or>
         (\<exists>c \<in> set caps. lower_like x q (cap_Name c)) \<or>
         (\<exists>c \<in> set caps. lower_like x q (cap_Description c)) \<or>
         lower_like x q (CategoriesJSON e) \<or>
         (case provider_of_type s t of None \<Rightarrow> False | Some p \<Rightarrow> lower_like x q (Organization p)))"

definition matches_filter :: "sql_text \<Rightarrow> db \<Rightarrow> ListFilter \<Rightarrow> CatalogEntry \<Rightarrow> bool" where
  "matches_filter x s flt e = (case type_of_entry s e of
       None \<Rightarrow> False
     | Some t \<Rightarrow>
         (case filter_Protocol flt of None \<Rightarrow> True | Some p \<Rightarrow> agent_Protocol t = p) \<and>
         (filter_States flt \<noteq> [] \<longrightarrow> Status e \<in> set (filter_States flt)) \<and>
         (case filter_Source flt of None \<Rightarrow> True | Some src \<Rightarrow> Source e = src) \<and>
         (filter_Team flt \<noteq> '''' \<longrightarrow> (case provider_of_type s t of None \<Rightarrow> False
            | Some p \<Rightarrow> like_any x (filter_Team flt) (Team p))) \<and>
         (filter_Query flt \<noteq> '''' \<longrightarrow> search_matches x s (filter_Query flt) e t) \<and>
         (\<forall>cat \<in> set (filter_Categories flt). like_any x cat (CategoriesJSON e)) \<and>
         (filter_ProjectID flt \<noteq> '''' \<longrightarrow> (\<exists>m \<in> set (catalog_project_memberships s).
            CatalogEntryID m = entry_ID e \<and> ProjectPartyID m = filter_ProjectID flt)))"

text \<open>\<^verbatim>\<open>DESC NULLS LAST\<close> and \<^verbatim>\<open>ASC NULLS FIRST\<close> on an optional time.\<close>

definition desc_nulls_last :: "time option \<Rightarrow> int \<times> int" where
  "desc_nulls_last t = (case t of Some u \<Rightarrow> (0, - u) | None \<Rightarrow> (1, 0))"

definition asc_nulls_first :: "time option \<Rightarrow> int \<times> int" where
  "asc_nulls_first t = (case t of None \<Rightarrow> (0, 0) | Some u \<Rightarrow> (1, u))"

definition applyListSort :: "string \<Rightarrow> CatalogEntry list \<Rightarrow> CatalogEntry list" where
  "applyListSort srt es =
     (if srt = ''displayName_asc'' then sort_key entry_DisplayName es
      else if srt = ''createdAt_desc'' then sort_key (\<lambda>e. - CreatedAt e) es
      else sort_key (\<lambda>e. (desc_nulls_last (HealthLastSuccessAt e), entry_DisplayName e)) es)"

definition page :: "int \<Rightarrow> int \<Rightarrow> 'a list \<Rightarrow> 'a list" where
  "page limit offset xs =
     (let rest = (if offset > 0 then drop (nat offset) xs else xs)
      in if limit > 0 then take (nat limit) rest else rest)"

text \<open>\<^verbatim>\<open>Preload\<close> on a slice: one statement per association, none when there is no key to look
  up.\<close>

definition preload_types :: "CatalogEntry list \<Rightarrow> (db, CatalogEntry list) op" where
  "preload_types es = (if es = [] then ok []
     else query (\<lambda>s. map (\<lambda>e. e\<lparr>entry_AgentType := type_of_entry s e\<rparr>) es))"

definition has_provider_key :: "CatalogEntry \<Rightarrow> bool" where
  "has_provider_key e \<longleftrightarrow> (case entry_AgentType e of None \<Rightarrow> False | Some t \<Rightarrow> ProviderID t \<noteq> None)"

definition attach_provider :: "db \<Rightarrow> CatalogEntry \<Rightarrow> CatalogEntry" where
  "attach_provider s e = (case entry_AgentType e of None \<Rightarrow> e
          | Some t \<Rightarrow> e\<lparr>entry_AgentType := Some (case ProviderID t of None \<Rightarrow> t
         | Some _ \<Rightarrow> t\<lparr>agent_Provider := provider_of_type s t\<rparr>)\<rparr>)"

definition preload_providers :: "CatalogEntry list \<Rightarrow> (db, CatalogEntry list) op" where
  "preload_providers es = (if \<exists>e \<in> set es. has_provider_key e then query (\<lambda>s. map (attach_provider s) es) else ok es)"

definition preload_all :: "CatalogEntry list \<Rightarrow> (db, CatalogEntry list) op" where
  "preload_all es = pass_op (preload_types es) preload_providers"

definition listed :: "sql_text \<Rightarrow> db \<Rightarrow> ListFilter \<Rightarrow> CatalogEntry list" where
  "listed x s flt = page (filter_Limit flt) (filter_Offset flt)
     (applyListSort (filter_Sort flt) (filter (matches_filter x s flt) (catalog_entries s)))"

definition SQLStore_List :: "store_env \<Rightarrow> sql_text \<Rightarrow> ListFilter \<Rightarrow> (db, CatalogEntry list) op" where
  "SQLStore_List env x flt =
     bind_op (pass_op (query (\<lambda>s. listed x s flt)) preload_all)
       ''listing catalog entries'' (\<lambda>entries.
     pass_op (each_op loadCapabilities entries) (\<lambda>es. ok (map (SyncFromDB (codec env)) es)))"

section \<open>The probe queue\<close>

definition due_for_probe :: "db \<Rightarrow> time \<Rightarrow> CatalogEntry \<Rightarrow> bool" where
  "due_for_probe s olderThan e \<longleftrightarrow> type_of_entry s e \<noteq> None \<and> Status e \<noteq> LifecycleDeprecated \<and>
     (case HealthLastProbedAt e of None \<Rightarrow> True | Some t \<Rightarrow> t < olderThan)"

definition probe_queue :: "db \<Rightarrow> time \<Rightarrow> int \<Rightarrow> CatalogEntry list" where
  "probe_queue s olderThan limit =
     (let es = sort_key (\<lambda>e. asc_nulls_first (HealthLastProbedAt e))
                 (filter (due_for_probe s olderThan) (catalog_entries s))
      in if limit \<ge> 0 then take (nat limit) es else es)"

definition ListForProbing :: "store_env \<Rightarrow> time \<Rightarrow> int \<Rightarrow> (db, CatalogEntry list) op" where
  "ListForProbing env olderThan limit =
     bind_op (pass_op (query (\<lambda>s. probe_queue s olderThan limit)) preload_types)
       ''listing for probing'' (\<lambda>entries. ok (map (SyncFromDB (codec env)) entries))"

section \<open>Statistics\<close>

record StoreStats =
  Total :: int
  ByStatus :: "(string \<times> int) list"
  BySource :: "(string \<times> int) list"

definition group_counts :: "('a \<Rightarrow> string) \<Rightarrow> 'a list \<Rightarrow> (string \<times> int) list" where
  "group_counts key xs =
     map (\<lambda>k. (k, int (length (filter (\<lambda>x. key x = k) xs)))) (sort (remdups (map key xs)))"

text \<open>\<^verbatim>\<open>m[strings.ToLower(r.Key)] = r.Count\<close> for each group.\<close>

fun count_map :: "sql_text \<Rightarrow> (string \<times> int) list \<Rightarrow> (string \<times> int) list \<Rightarrow> (string \<times> int) list" where
  "count_map x [] m = m"
| "count_map x ((k, n) # rest) m = count_map x rest (AList.update (ToLower x k) n m)"

definition SQLStore_Stats :: "sql_text \<Rightarrow> (db, StoreStats) op" where
  "SQLStore_Stats x =
     bind_op (query (\<lambda>s. int (length (catalog_entries s)))) ''counting catalog entries'' (\<lambda>total.
     bind_op (query (\<lambda>s. group_counts Status (catalog_entries s))) ''counting by status'' (\<lambda>statusCounts.
     bind_op (query (\<lambda>s. group_counts Source (catalog_entries s))) ''counting by source'' (\<lambda>sourceCounts.
     ok \<lparr>Total = total, ByStatus = count_map x statusCounts [], BySource = count_map x sourceCounts []\<rparr>)))"

section \<open>Capability discovery\<close>

record CapabilityFilter =
  cf_Query :: string
  cf_Kind :: string
  cf_Limit :: int
  cf_Offset :: int
  cf_Sort :: string

record capabilityInstanceRow =
  cir_Kind :: string
  cir_Name :: string
  cir_Description :: string
  cir_Properties :: json
  cir_AgentID :: string
  cir_AgentName :: string
  cir_Protocol :: string
  cir_SpecVersion :: string
  cir_Status :: string
  cir_ProviderOrg :: "string option"
  cir_ProviderURL :: "string option"
  cir_LatencyMs :: int
  cir_HealthState :: string

record CapabilityInstance =
  ci_Kind :: string
  ci_Name :: string
  ci_Description :: string
  ci_Tags :: "string list"
  ci_InputModes :: "string list"
  ci_OutputModes :: "string list"
  ci_AgentID :: string
  ci_AgentName :: string
  ci_Protocol :: Protocol
  ci_Status :: LifecycleState
  ci_SpecVersion :: string
  ci_ProviderOrg :: "string option"
  ci_ProviderURL :: "string option"
  ci_HealthState :: LifecycleState
  ci_LatencyMs :: int

record CapabilityListResult =
  clr_Total :: int
  clr_Items :: "CapabilityInstance list"

definition anyStrings :: "json option \<Rightarrow> string list" where
  "anyStrings v = (case v of Some (JArr slice) \<Rightarrow> any_strings slice | _ \<Rightarrow> [])"

definition enrichA2ASkillFields :: "CapabilityInstance \<Rightarrow> json \<Rightarrow> CapabilityInstance" where
  "enrichA2ASkillFields inst properties = (case properties of
       JObj props \<Rightarrow> inst\<lparr>ci_Tags := ci_Tags inst @ anyStrings (map_of props ''tags''),
         ci_InputModes := ci_InputModes inst @ anyStrings (map_of props ''inputModes''),
         ci_OutputModes := ci_OutputModes inst @ anyStrings (map_of props ''outputModes'')\<rparr>
     | _ \<Rightarrow> inst)"

definition toCapabilityInstance :: "capabilityInstanceRow \<Rightarrow> CapabilityInstance" where
  "toCapabilityInstance row =
     (let inst = \<lparr>ci_Kind = cir_Kind row, ci_Name = cir_Name row, ci_Description = cir_Description row,
            ci_Tags = [], ci_InputModes = [], ci_OutputModes = [], ci_AgentID = cir_AgentID row,
            ci_AgentName = cir_AgentName row, ci_Protocol = cir_Protocol row, ci_Status = cir_Status row,
            ci_SpecVersion = cir_SpecVersion row, ci_ProviderOrg = cir_ProviderOrg row,
            ci_ProviderURL = cir_ProviderURL row, ci_HealthState = cir_HealthState row,
            ci_LatencyMs = cir_LatencyMs row\<rparr>
      in if cir_Kind row = ''a2a.skill'' then enrichA2ASkillFields inst (cir_Properties row) else inst)"

text \<open>The joined rows, before the filters: one per capability and catalog entry of its agent
  type.\<close>

definition instance_row :: "db \<Rightarrow> capabilityRow \<Rightarrow> AgentType \<Rightarrow> CatalogEntry \<Rightarrow> capabilityInstanceRow" where
  "instance_row s c t e =
     \<lparr>cir_Kind = cap_Kind c, cir_Name = cap_Name c, cir_Description = cap_Description c,
      cir_Properties = cap_Properties c, cir_AgentID = entry_ID e, cir_AgentName = entry_DisplayName e,
      cir_Protocol = agent_Protocol t, cir_SpecVersion = agent_SpecVersion t, cir_Status = Status e,
      cir_ProviderOrg = map_option Organization (provider_of_type s t),
      cir_ProviderURL = map_option provider_URL (provider_of_type s t),
      cir_LatencyMs = HealthLatencyMs e, cir_HealthState = Status e\<rparr>"

definition instance_rows :: "db \<Rightarrow> capabilityInstanceRow list" where
  "instance_rows s = concat (map (\<lambda>c. concat (map (\<lambda>t. map (instance_row s c t)
       (filter (\<lambda>e. AgentTypeID e = agent_type_ID t) (catalog_entries s)))
     (filter (\<lambda>t. agent_type_ID t = cap_AgentTypeID c) (agent_types s)))) (capabilities s))"

text \<open>\<^verbatim>\<open>json_text\<close> is the text of the properties column.\<close>

definition instance_matches :: "sql_text \<Rightarrow> (json \<Rightarrow> string) \<Rightarrow> CapabilityFilter \<Rightarrow> capabilityInstanceRow \<Rightarrow> bool" where
  "instance_matches x json_text flt row \<longleftrightarrow>
     cir_Kind row \<in> set DiscoverableKinds \<and> cir_Status row \<in> {LifecycleActive, LifecycleDegraded} \<and>
     (cf_Query flt \<noteq> '''' \<longrightarrow> (let lq = ToLower x (cf_Query flt) in
        lower_like x lq (cir_Name row) \<or> lower_like x lq (cir_Description row) \<or>
        lower_like x lq (json_text (cir_Properties row)))) \<and>
     (cf_Kind flt \<noteq> '''' \<longrightarrow> cir_Kind row = cf_Kind flt)"

definition sort_instances :: "sql_text \<Rightarrow> string \<Rightarrow> capabilityInstanceRow list \<Rightarrow> capabilityInstanceRow list" where
  "sort_instances x srt rows =
     (if srt = ''agentName_asc''
      then sort_key (\<lambda>r. (sql_lower x (cir_AgentName r), sql_lower x (cir_Name r))) rows
      else sort_key (\<lambda>r. (sql_lower x (cir_Name r), sql_lower x (cir_AgentName r))) rows)"

definition ListCapabilities :: "sql_text \<Rightarrow> (json \<Rightarrow> string) \<Rightarrow> CapabilityFilter \<Rightarrow> (db, CapabilityListResult) op" where
  "ListCapabilities x json_text flt =
     (if length DiscoverableKinds = 0 then ok \<lparr>clr_Total = 0, clr_Items = []\<rparr>
      else
        bind_op (query (\<lambda>s. int (length (filter (instance_matches x json_text flt) (instance_rows s)))))
          ''count capabilities'' (\<lambda>total.
        bind_op (query (\<lambda>s. page (cf_Limit flt) (cf_Offset flt)
            (sort_instances x (cf_Sort flt) (filter (instance_matches x json_text flt) (instance_rows s)))))
          ''query capabilities'' (\<lambda>rows.
        ok \<lparr>clr_Total = total, clr_Items = map toCapabilityInstance rows\<rparr>)))"

definition agents_offering :: "db \<Rightarrow> string \<Rightarrow> string \<Rightarrow> CatalogEntry list" where
  "agents_offering s kind name = concat (map (\<lambda>e. case type_of_entry s e of None \<Rightarrow> []
     | Some t \<Rightarrow> map (\<lambda>_. e) (filter (\<lambda>c. cap_AgentTypeID c = agent_type_ID t \<and>
         cap_Kind c = kind \<and> cap_Name c = name) (capabilities s))) (catalog_entries s))"

definition ListAgentsByCapability :: "store_env \<Rightarrow> string \<Rightarrow> string \<Rightarrow> (db, CatalogEntry list) op" where
  "ListAgentsByCapability env kind name =
     bind_op (pass_op (query (\<lambda>s. agents_offering s kind name)) preload_all)
       ''query agents by capability'' (\<lambda>entries.
     pass_op (each_op (\<lambda>e. bind_op (loadCapabilities e) (''load capabilities for agent '' @ entry_ID e) ok) entries)
       (\<lambda>es. ok (map (SyncFromDB (codec env)) es)))"

end
