(* ===== verification/Catalog_View.thy ===== *)
theory Catalog_View
  imports Catalog_Query
begin

text \<open>
  What the catalog store promises.  Abstractly the catalog is a finite map from identifiers to
  loaded entries; \<^verbatim>\<open>catalog env s\<close> is the map that a database state stands for.  The lemmas
  below show that every operation of \<^verbatim>\<open>SQLStore\<close> acts on that map as its contract says,
  and that the rows behind it stay well formed.
\<close>

section \<open>The abstract catalog\<close>

definition with_capabilities :: "db \<Rightarrow> CatalogEntry \<Rightarrow> CatalogEntry" where
  "with_capabilities s e = (case entry_AgentType e of None \<Rightarrow> e
     | Some t \<Rightarrow> e\<lparr>entry_AgentType := Some (t\<lparr>Capabilities :=
         keep_known (filter (\<lambda>c. cap_AgentTypeID c = agent_type_ID t) (capabilities s))\<rparr>)\<rparr>)"

definition entry_view :: "store_env \<Rightarrow> db \<Rightarrow> CatalogEntry \<Rightarrow> CatalogEntry" where
  "entry_view env s e = SyncFromDB (codec env)
     (with_capabilities s (attach_provider s (e\<lparr>entry_AgentType := type_of_entry s e\<rparr>)))"

definition catalog :: "store_env \<Rightarrow> db \<Rightarrow> string \<Rightarrow> CatalogEntry option" where
  "catalog env s id' = map_option (entry_view env s)
     (first_by entry_ID (\<lambda>e. entry_ID e = id') (catalog_entries s))"

section \<open>Loading\<close>

lemma first_by_filter: "first_by key (\<lambda>_. True) (filter P xs) = first_by key P xs"
proof -
  have *: "find (\<lambda>_. True) (filter P ys) = find P ys" for ys
    by (induction ys) auto
  show ?thesis unfolding first_by_def by (simp add: filter_sort [symmetric] *)
qed

lemma preload_type_provider_clean:
  assumes "faults s = []"
  shows "preload_type_provider e s =
    (Inr (attach_provider s (e\<lparr>entry_AgentType := type_of_entry s e\<rparr>)), s)"
  using assms
  by (auto simp: preload_type_provider_def preload_type_def preload_provider_def attach_provider_def
      provider_of_type_def op_defs split: option.splits)

lemma loadCapabilities_clean:
  "faults s = [] \<Longrightarrow> loadCapabilities e s = (Inr (with_capabilities s e), s)"
  by (auto simp: loadCapabilities_def with_capabilities_def op_defs split: option.splits)

lemma first_entry_clean:
  assumes "faults s = []"
  shows "first_entry env cond msg s =
    (Inr (map_option (entry_view env s) (first_by entry_ID (cond s) (catalog_entries s))), s)"
  using assms
  by (auto simp: first_entry_def First_clean first_by_filter preload_type_provider_clean
      loadCapabilities_clean entry_view_def op_defs split: option.splits)

lemma Get_clean: "faults s = [] \<Longrightarrow> SQLStore_Get env id' s = (Inr (catalog env s id'), s)"
  by (simp add: SQLStore_Get_def first_entry_clean catalog_def)

lemma preload_all_clean:
  assumes "faults s = []"
  shows "preload_all es s =
    (Inr (map (\<lambda>e. attach_provider s (e\<lparr>entry_AgentType := type_of_entry s e\<rparr>)) es), s)"
proof -
  have skip: "map (attach_provider s) xs = xs" if "\<forall>e \<in> set xs. \<not> has_provider_key e" for xs
    using that by (induction xs) (auto simp: attach_provider_def has_provider_key_def split: option.splits)
  let ?xs = "map (\<lambda>e. e\<lparr>entry_AgentType := type_of_entry s e\<rparr>) es"
  have "preload_types es s = (Inr ?xs, s)" using assms by (simp add: preload_types_def)
  moreover have "preload_providers ?xs s = (Inr (map (attach_provider s) ?xs), s)"
    using assms skip [of ?xs] by (auto simp: preload_providers_def comp_def)
  ultimately show ?thesis by (simp add: preload_all_def op_defs comp_def)
qed

lemma each_op_pure:
  "(\<And>x. x \<in> set xs \<Longrightarrow> f x s = (Inr (g x), s)) \<Longrightarrow> each_op f xs s = (Inr (map g xs), s)"
  by (induction xs) (auto simp: op_defs)

lemma List_clean:
  "faults s = [] \<Longrightarrow> SQLStore_List env x flt s = (Inr (map (entry_view env s) (listed x s flt)), s)"
  by (simp add: SQLStore_List_def op_defs preload_all_clean
      each_op_pure [where g = "with_capabilities s"] loadCapabilities_clean entry_view_def comp_def)

lemma ListForProbing_clean:
  "faults s = [] \<Longrightarrow> ListForProbing env olderThan limit s =
   (Inr (map (\<lambda>e. SyncFromDB (codec env) (e\<lparr>entry_AgentType := type_of_entry s e\<rparr>))
      (probe_queue s olderThan limit)), s)"
  by (auto simp: ListForProbing_def op_defs preload_types_def comp_def)

lemma ListAgentsByCapability_clean:
  "faults s = [] \<Longrightarrow> ListAgentsByCapability env kind name s =
   (Inr (map (entry_view env s) (agents_offering s kind name)), s)"
  by (simp add: ListAgentsByCapability_def op_defs preload_all_clean
      each_op_pure [where g = "with_capabilities s"] loadCapabilities_clean entry_view_def comp_def)

section \<open>How statements change the abstract catalog\<close>

lemma sort_key_map:
  assumes "\<And>x. key (g x) = key x"
  shows "sort_key key (map g xs) = map g (sort_key key xs)"
proof -
  have "insort_key key (g x) (map g ys) = map g (insort_key key x ys)" for x ys
    by (induction ys) (simp_all add: assms)
  then show ?thesis by (induction xs) (simp_all add: sort_key_def)
qed

lemma find_map_key:
  "(\<And>x. key (g x) = key x) \<Longrightarrow> find (\<lambda>x. key x = v) (map g xs) = map_option g (find (\<lambda>x. key x = v) xs)"
  by (induction xs) auto

lemma first_by_map:
  "(\<And>x. key (g x) = key x) \<Longrightarrow>
   first_by key (\<lambda>x. key x = v) (map g xs) = map_option g (first_by key (\<lambda>x. key x = v) xs)"
  by (simp add: first_by_def sort_key_map find_map_key)

lemma entry_view_tables [simp]:
  "entry_view env (s\<lparr>catalog_entries := es\<rparr>) = entry_view env s"
  "entry_view env (s\<lparr>faults := fs\<rparr>) = entry_view env s"
  "entry_view env (s\<lparr>catalog_project_memberships := ms\<rparr>) = entry_view env s"
  "entry_view env (s\<lparr>raw_cards := rc\<rparr>) = entry_view env s"
  by (rule ext, simp add: entry_view_def with_capabilities_def attach_provider_def type_of_entry_def
      provider_of_type_def cong: option.case_cong)+

lemma catalog_tables [simp]:
  "catalog env (s\<lparr>faults := fs\<rparr>) = catalog env s"
  "catalog env (s\<lparr>catalog_project_memberships := ms\<rparr>) = catalog env s"
  "catalog env (s\<lparr>raw_cards := rc\<rparr>) = catalog env s"
  by (rule ext, simp add: catalog_def)+

lemma catalog_entry_ID: "catalog env s i = Some e \<Longrightarrow> entry_ID e = i"
  by (auto simp: catalog_def entry_view_def with_capabilities_def attach_provider_def
      dest!: first_by_Some split: option.splits)

lemma catalog_update_entries:
  assumes "\<And>e. entry_ID (f e) = entry_ID e"
  shows "catalog env (s\<lparr>catalog_entries := map (\<lambda>e. if entry_ID e = i then f e else e) (catalog_entries s)\<rparr>) =
    (catalog env s)(i := map_option (\<lambda>e. entry_view env s (f e))
       (first_by entry_ID (\<lambda>e. entry_ID e = i) (catalog_entries s)))"
proof (rule ext)
  fix j
  have "first_by entry_ID (\<lambda>e. entry_ID e = j) (map (\<lambda>e. if entry_ID e = i then f e else e) (catalog_entries s)) =
    map_option (\<lambda>e. if entry_ID e = i then f e else e) (first_by entry_ID (\<lambda>e. entry_ID e = j) (catalog_entries s))"
    by (rule first_by_map) (simp add: assms)
  then show "catalog env (s\<lparr>catalog_entries := map (\<lambda>e. if entry_ID e = i then f e else e) (catalog_entries s)\<rparr>) j =
    ((catalog env s)(i := map_option (\<lambda>e. entry_view env s (f e))
       (first_by entry_ID (\<lambda>e. entry_ID e = i) (catalog_entries s)))) j"
    by (auto simp: catalog_def option.map_comp comp_def dest!: first_by_Some
        split: if_splits intro!: option.map_cong0)
qed

text \<open>The effect of a probe result on a loaded entry.\<close>

definition health_view :: "time \<Rightarrow> Health \<Rightarrow> CatalogEntry \<Rightarrow> CatalogEntry" where
  "health_view now h v =
     (let v1 = (write_health now h v)\<lparr>entry_Health := h\<rparr>
      in v1\<lparr>entry_Validity := (entry_Validity v1)\<lparr>validity_LastSeen := LastSeen v1\<rparr>\<rparr>)"

text \<open>A loaded entry is its row with four fields computed from the columns.\<close>

definition loaded_type :: "db \<Rightarrow> string \<Rightarrow> AgentType option" where
  "loaded_type s tid = map_option (\<lambda>t.
     (case ProviderID t of None \<Rightarrow> t | Some _ \<Rightarrow> t\<lparr>agent_Provider := provider_of_type s t\<rparr>)\<lparr>Capabilities :=
        keep_known (filter (\<lambda>c. cap_AgentTypeID c = agent_type_ID t) (capabilities s))\<rparr>)
     (first_by agent_type_ID (\<lambda>t. agent_type_ID t = tid) (agent_types s))"

definition loaded_list :: "(string \<Rightarrow> 'a list option) \<Rightarrow> string \<Rightarrow> 'a list \<Rightarrow> 'a list" where
  "loaded_list dec text old = (if text \<noteq> '''' then (case dec text of Some v \<Rightarrow> v | None \<Rightarrow> old) else old)"

lemma SyncFromDB_alt: "SyncFromDB j e = e\<lparr>
    Categories := loaded_list (unmarshal_strings j) (CategoriesJSON e) (Categories e),
    Metadata := loaded_list (unmarshal_map j) (MetadataJSON e) (Metadata e),
    entry_Validity := \<lparr>From = ValidFrom e, To = ValidTo e, validity_LastSeen = LastSeen e\<rparr>,
    entry_Health := \<lparr>State = Status e, LastProbedAt = HealthLastProbedAt e,
      LastSuccessAt = HealthLastSuccessAt e, LastError = HealthLastError e,
      LatencyMs = HealthLatencyMs e, ConsecutiveFailures = HealthConsecutiveFailures e\<rparr>\<rparr>"
  by (simp add: SyncFromDB_def loaded_list_def Let_def split: option.split)

lemma entry_view_alt:
  "entry_view env s e = SyncFromDB (codec env) (e\<lparr>entry_AgentType := loaded_type s (AgentTypeID e)\<rparr>)"
  by (simp add: entry_view_def with_capabilities_def attach_provider_def type_of_entry_def loaded_type_def
      split: option.split)

lemma entry_view_write_health: "entry_view env s (write_health now h e) = health_view now h (entry_view env s e)"
  by (simp add: entry_view_alt SyncFromDB_alt health_view_def write_health_def Let_def split: option.split)

definition lifecycle_view :: "time \<Rightarrow> LifecycleState \<Rightarrow> CatalogEntry \<Rightarrow> CatalogEntry" where
  "lifecycle_view now st v = v\<lparr>Status := st, UpdatedAt := now, entry_Health := (entry_Health v)\<lparr>State := st\<rparr>\<rparr>"

lemma entry_view_set_lifecycle:
  "entry_view env s (e\<lparr>Status := st, UpdatedAt := now\<rparr>) = lifecycle_view now st (entry_view env s e)"
  by (simp add: entry_view_alt SyncFromDB_alt lifecycle_view_def)

lemma write_health_ID [simp]: "entry_ID (write_health now h e) = entry_ID e"
  by (simp add: write_health_def Let_def split: option.split)

section \<open>The operations refine map updates\<close>

lemma catalog_None_iff: "catalog env s i = None \<longleftrightarrow> (\<forall>e \<in> set (catalog_entries s). entry_ID e \<noteq> i)"
  by (simp add: catalog_def first_by_None)

lemma catalog_after_update:
  assumes "\<And>e. entry_ID (f e) = entry_ID e" and "\<And>e. entry_view env s (f e) = g (entry_view env s e)"
  shows "catalog env (s\<lparr>catalog_entries := map (\<lambda>e. if entry_ID e = i then f e else e) (catalog_entries s)\<rparr>) =
    (catalog env s)(i := map_option g (catalog env s i))"
  by (simp add: catalog_update_entries [OF assms(1)] assms(2) catalog_def option.map_comp comp_def)

lemma UpdateHealth_clean:
  assumes "faults s = []"
  shows "UpdateHealth now i h s = (if catalog env s i = None
     then (Inl (wrapf (''updating health for '' @ i) (Error ''entry not found'' [ErrEntryNotFound])),
       s\<lparr>catalog_entries := map (\<lambda>e. if entry_ID e = i then write_health now h e else e) (catalog_entries s)\<rparr>)
     else (Inr (),
       s\<lparr>catalog_entries := map (\<lambda>e. if entry_ID e = i then write_health now h e else e) (catalog_entries s)\<rparr>))"
  using assms by (auto simp: UpdateHealth_def op_defs update_rows_clean rows_matching_zero catalog_None_iff)

lemma UpdateHealth_refines:
  assumes "faults s = []" and "UpdateHealth now i h s = (r, s')"
  shows "faults s' = [] \<and> catalog env s' = (catalog env s)(i := map_option (health_view now h) (catalog env s i)) \<and>
    (r = Inr () \<longleftrightarrow> catalog env s i \<noteq> None) \<and>
    (\<forall>e. r = Inl e \<longrightarrow> errors_Is e ErrEntryNotFound)"
  using assms UpdateHealth_clean [OF assms(1), of now i h env]
    catalog_after_update [of "write_health now h" env s "health_view now h" i]
  by (auto simp: entry_view_write_health errors_Is_def split: if_splits)

lemma SetLifecycle_refines:
  assumes "faults s = []" and "SetLifecycle now i st s = (r, s')"
  shows "faults s' = [] \<and> catalog env s' = (catalog env s)(i := map_option (lifecycle_view now st) (catalog env s i)) \<and>
    (r = Inr () \<longleftrightarrow> catalog env s i \<noteq> None) \<and>
    (\<forall>e. r = Inl e \<longrightarrow> \<not> errors_Is e ErrEntryNotFound)"
  using assms
    catalog_after_update [of "\<lambda>e. e\<lparr>Status := st, UpdatedAt := now\<rparr>" env s "lifecycle_view now st" i]
  by (auto simp: SetLifecycle_def op_defs update_rows_clean rows_matching_zero catalog_None_iff
      entry_view_set_lifecycle split: if_splits)

lemma find_filter_neq: "find (\<lambda>x. key x = j) (filter (\<lambda>x. key x \<noteq> i) xs) =
   (if j = i then None else find (\<lambda>x. key x = j) xs)"
  by (induction xs) auto

lemma Delete_refines:
  assumes "faults s = []"
  shows "fst (SQLStore_Delete i s) = Inr () \<and> faults (snd (SQLStore_Delete i s)) = [] \<and>
    catalog env (snd (SQLStore_Delete i s)) = (catalog env s)(i := None)"
  using assms
  by (auto simp: SQLStore_Delete_def op_defs catalog_def first_by_def filter_sort [symmetric] find_filter_neq)

section \<open>Creating an entry\<close>

lemma insert_or_ignore_clean: "faults s = [] \<Longrightarrow> insert_or_ignore tab put clash x s =
   (Inr (), case clash x (tab s) of Some _ \<Rightarrow> s | None \<Rightarrow> put (tab s @ [x]) s)"
  by (simp add: insert_or_ignore_def split: option.split)

lemma insert_rows_clean: "faults s = [] \<Longrightarrow> insert_rows tab put clash xs s =
   (case batch_clash clash xs (tab s) of
      Some cols \<Rightarrow> (Inl (errorf (''UNIQUE constraint failed: '' @ cols)), s)
    | None \<Rightarrow> (Inr (), put (tab s @ xs) s))"
  by (simp add: insert_rows_def split: option.split)

definition providers_with :: "Provider option \<Rightarrow> Provider list \<Rightarrow> Provider list" where
  "providers_with po ps = (case po of None \<Rightarrow> ps
     | Some p \<Rightarrow> if provider_clash p ps = None then ps @ [p] else ps)"

lemma save_provider_of_clean: "faults s = [] \<Longrightarrow>
   save_provider_of t s = (Inr (), s\<lparr>providers := providers_with (agent_Provider t) (providers s)\<rparr>)"
  by (auto simp: save_provider_of_def providers_with_def insert_or_ignore_clean split: option.split)

lemma providers_with_again [simp]: "providers_with po (providers_with po ps) = providers_with po ps"
  by (auto simp: providers_with_def provider_clash_def split: option.splits if_splits)

lemma with_provider_key_fields [simp]:
  "agent_Provider (with_provider_key orm t) = agent_Provider t"
  "agent_type_ID (with_provider_key orm t) = agent_type_ID t"
  "Capabilities (with_provider_key orm t) = Capabilities t"
  "AgentKey (with_provider_key orm t) = AgentKey t"
  "agent_Version (with_provider_key orm t) = agent_Version t"
  "Endpoint (with_provider_key orm t) = Endpoint t"
  "with_provider_key orm (with_provider_key orm t) = with_provider_key orm t"
  by (auto simp: with_provider_key_def split: option.split)

lemma agent_type_row_fields [simp]:
  "agent_type_ID (agent_type_row t) = agent_type_ID t" "AgentKey (agent_type_row t) = AgentKey t"
  "agent_Version (agent_type_row t) = agent_Version t" "Endpoint (agent_type_row t) = Endpoint t"
  "ProviderID (agent_type_row t) = ProviderID t"
  by (simp_all add: agent_type_row_def)

lemma entry_row_fields [simp]:
  "entry_ID (entry_row e) = entry_ID e" "AgentTypeID (entry_row e) = AgentTypeID e"
  "Status (entry_row e) = Status e"
  by (simp_all add: entry_row_def)

lemma stamp_entry_fields [simp]:
  "entry_ID (stamp_entry now e) = entry_ID e" "AgentTypeID (stamp_entry now e) = AgentTypeID e"
  "entry_AgentType (stamp_entry now e) = entry_AgentType e"
  by (simp_all add: stamp_entry_def)

lemma save_type_again:
  assumes "faults s = []" and "agent_type_row (with_provider_key orm t) \<in> set (agent_types s)"
    and "providers s = providers_with (agent_Provider t) ps" and "entry_AgentType e = Some (with_provider_key orm t)"
  shows "save_type_of orm e s = (Inr (), s)"
proof -
  have "agent_type_clash (agent_type_row (with_provider_key orm t)) (agent_types s) \<noteq> None"
    using assms(2) by (auto simp: agent_type_clash_def)
  moreover have "s\<lparr>providers := providers_with (agent_Provider t) (providers s)\<rparr> = s"
    by (simp add: assms(3))
  ultimately show ?thesis
    using assms by (auto simp: save_type_of_def op_defs save_provider_of_clean insert_or_ignore_clean split: option.split)
qed

text \<open>The tables after a successful \<^verbatim>\<open>Create\<close> of entry \<^verbatim>\<open>e\<close> with type \<^verbatim>\<open>t\<close>.\<close>

definition created :: "(nat \<Rightarrow> string) \<Rightarrow> time \<Rightarrow> string \<Rightarrow> AgentType \<Rightarrow> CatalogEntry \<Rightarrow> db \<Rightarrow> db" where
  "created uids now project t e s = s\<lparr>
     providers := providers_with (agent_Provider t) (providers s),
     agent_types := agent_types s @ [agent_type_row t],
     capabilities := capabilities s @ capability_rows uids (agent_type_ID t) (Capabilities t),
     catalog_entries := catalog_entries s @ [entry_row e],
     catalog_project_memberships := catalog_project_memberships s @
       (if project = '''' then [] else
         [\<lparr>CatalogEntryID = entry_ID e, ProjectPartyID = project, cpm_CreatedAt = now\<rparr>])\<rparr>"

lemma create_body_clean:
  assumes "faults s = []"
    and t1: "t1 = with_provider_key (mapper env) t"
    and e1: "e1 = stamp_entry now (entry\<lparr>AgentTypeID := agent_type_ID t1, entry_AgentType := Some t1\<rparr>)"
    and run: "create_body env uids now project t entry s = (Inr r, s')"
  shows "r = e1 \<and> s' = created uids now project t1 e1 s \<and>
    agent_type_clash t1 (agent_types s) = None \<and>
    batch_clash capability_clash (capability_rows uids (agent_type_ID t1) (Capabilities t1)) (capabilities s) = None \<and>
    entry_clash e1 (catalog_entries s) = None"
proof -
  let ?s1 = "s\<lparr>providers := providers_with (agent_Provider t) (providers s)\<rparr>"
  let ?s2 = "?s1\<lparr>agent_types := agent_types s @ [agent_type_row t1]\<rparr>"
  let ?rows = "capability_rows uids (agent_type_ID t1) (Capabilities t1)"
  let ?s3 = "?s2\<lparr>capabilities := capabilities s @ ?rows\<rparr>"
  have clash: "agent_type_clash (agent_type_row t1) = agent_type_clash t1"
    by (rule ext) (simp add: agent_type_clash_def)
  have eclash: "entry_clash (entry_row e1) = entry_clash e1"
    by (rule ext) (simp add: entry_clash_def)
  have again: "save_type_of (mapper env) e1 ?s3 = (Inr (), ?s3)"
    by (rule save_type_again [where t = t]) (simp_all add: assms(1) t1 e1)
  have prov: "agent_Provider t1 = agent_Provider t" by (simp add: t1)
  have rows0: "?rows = [] \<longleftrightarrow> Capabilities t1 = []"
    by (simp add: capability_rows_def enumerate_eq_zip)
  have caps: "insert_capabilities uids t1 msg ?s2 =
      (case batch_clash capability_clash ?rows (capabilities s) of
         Some cols \<Rightarrow> (Inl (wrapf msg (errorf (''UNIQUE constraint failed: '' @ cols))), ?s2)
       | None \<Rightarrow> (Inr (), ?s3))" for msg
    using assms(1) rows0 by (auto simp: insert_capabilities_def op_defs insert_rows_clean split: option.split)
  show ?thesis
    using run assms(1) again caps
    by (auto simp: create_body_def Let_def t1 [symmetric] e1 [symmetric] op_defs save_provider_of_clean
        insert_row_clean clash eclash created_def prov split: option.splits if_splits)
qed

text \<open>Well-formed catalog tables: identifiers are unique, and every capability and every entry belongs to
  a stored agent type.\<close>

definition catalog_inv :: "db \<Rightarrow> bool" where
  "catalog_inv s \<longleftrightarrow> distinct (map entry_ID (catalog_entries s)) \<and> distinct (map agent_type_ID (agent_types s)) \<and>
     (\<forall>c \<in> set (capabilities s). cap_AgentTypeID c \<in> agent_type_ID ` set (agent_types s)) \<and>
     (\<forall>e \<in> set (catalog_entries s). AgentTypeID e \<in> agent_type_ID ` set (agent_types s))"

interpretation ci: table_invariant catalog_inv
  by unfold_locales (simp add: catalog_inv_def)

lemma clash_None_key:
  "agent_type_clash t ts = None \<Longrightarrow> agent_type_ID t \<notin> agent_type_ID ` set ts"
  "entry_clash e es = None \<Longrightarrow> entry_ID e \<notin> entry_ID ` set es"
  by (auto simp: agent_type_clash_def entry_clash_def split: if_splits)

lemma capability_rows_type: "c \<in> set (capability_rows uids tid caps) \<Longrightarrow> cap_AgentTypeID c = tid"
  by (auto simp: capability_rows_def capabilityToRow_def Let_def)

lemma created_inv:
  assumes "catalog_inv s" and "agent_type_clash t (agent_types s) = None" and "entry_clash e (catalog_entries s) = None"
    and "AgentTypeID e = agent_type_ID t"
  shows "catalog_inv (created uids now project t e s)"
  using assms(1,4) clash_None_key(1) [OF assms(2)] clash_None_key(2) [OF assms(3)]
  by (auto simp: catalog_inv_def created_def dest: capability_rows_type)

lemma first_by_append:
  assumes "key x \<notin> key ` set xs"
  shows "first_by key (\<lambda>y. key y = v) (xs @ [x]) =
    (if v = key x then Some x else first_by key (\<lambda>y. key y = v) xs)"
proof (cases "v = key x")
  case True
  then show ?thesis using assms by (auto intro!: first_by_unique) (metis imageI)
next
  case False
  have *: "find (\<lambda>y. key y = v) (insort_key key x ys) = find (\<lambda>y. key y = v) ys" for ys
    using False by (induction ys) auto
  have "sort_key key (xs @ [x]) = insort_key key x (sort_key key xs)"
    using assms by (induction xs) (auto intro: insort_key_left_comm)
  with False * show ?thesis by (simp add: first_by_def)
qed

lemma keep_known_rows:
  assumes "\<forall>c \<in> set caps. Validate c = None"
  shows "keep_known (capability_rows uids tid caps) = map stored_form caps"
proof -
  have "keep_known (map (\<lambda>(i, c). capabilityToRow (uids i) tid c) (enumerate n caps)) = map stored_form caps" for n
    using assms by (induction caps arbitrary: n) (auto simp: rowToCapability_written)
  then show ?thesis by (simp add: capability_rows_def)
qed

lemma filter_created_capabilities:
  assumes "catalog_inv s" and "agent_type_ID t \<notin> agent_type_ID ` set (agent_types s)"
  shows "filter (\<lambda>c. cap_AgentTypeID c = tid) (capabilities (created uids now project t e s)) =
    (if tid = agent_type_ID t then capability_rows uids tid (Capabilities t)
     else filter (\<lambda>c. cap_AgentTypeID c = tid) (capabilities s))"
proof -
  have "filter (\<lambda>c. cap_AgentTypeID c = agent_type_ID t) (capabilities s) = []"
    using assms unfolding catalog_inv_def filter_empty_conv by metis
  moreover have "filter (\<lambda>c. cap_AgentTypeID c = tid) (capability_rows uids (agent_type_ID t) (Capabilities t)) =
      (if tid = agent_type_ID t then capability_rows uids tid (Capabilities t) else [])"
    by (auto simp: filter_empty_conv filter_id_conv dest: capability_rows_type)
  ultimately show ?thesis by (simp add: created_def)
qed

text \<open>The provider of a new type is already stored, which \<^verbatim>\<open>UpsertProvider\<close> sees to.\<close>

definition provider_stored :: "AgentType \<Rightarrow> db \<Rightarrow> bool" where
  "provider_stored t s \<longleftrightarrow> (case agent_Provider t of None \<Rightarrow> ProviderID t = None
     | Some p \<Rightarrow> p \<in> set (providers s) \<and> ProviderID t = Some (provider_ID p)) \<and>
     distinct (map provider_ID (providers s))"

lemma provider_stored_simps:
  assumes "provider_stored t s"
  shows "providers_with (agent_Provider t) (providers s) = providers s"
    and "with_provider_key orm t = t"
    and "provider_of_type s t = agent_Provider t"
    and "provider_of_type s (t\<lparr>agent_Provider := po, Capabilities := cs, RawBytes := rb\<rparr>) = agent_Provider t"
  using assms
  by (auto simp: provider_stored_def providers_with_def with_provider_key_def provider_of_type_def
      provider_clash_def first_by_key split: option.splits)

lemma loaded_type_created:
  assumes inv: "catalog_inv s" and fresh: "agent_type_ID t \<notin> agent_type_ID ` set (agent_types s)"
    and prov: "provider_stored t s" and valid: "\<forall>c \<in> set (Capabilities t). Validate c = None"
  shows "loaded_type (created uids now project t e s) tid =
    (if tid = agent_type_ID t then Some (t\<lparr>Capabilities := map stored_form (Capabilities t), RawBytes := ''''\<rparr>)
     else loaded_type s tid)"
proof -
  have p: "provider_of_type (created uids now project t e s) = provider_of_type s"
    by (rule ext) (simp add: created_def provider_of_type_def provider_stored_simps [OF prov] cong: option.case_cong)
  have none: "agent_Provider t = None" if "ProviderID t = None"
    using prov that by (auto simp: provider_stored_def split: option.splits)
  have "first_by agent_type_ID (\<lambda>t. agent_type_ID t = tid) (agent_types (created uids now project t e s)) =
    (if tid = agent_type_ID t then Some (agent_type_row t)
     else first_by agent_type_ID (\<lambda>t. agent_type_ID t = tid) (agent_types s))"
    using first_by_append [of agent_type_ID "agent_type_row t"] fresh by (simp add: created_def)
  then show ?thesis
    using none by (auto simp: loaded_type_def p filter_created_capabilities [OF inv fresh]
        provider_stored_simps [OF prov] keep_known_rows [OF valid] agent_type_row_def
        dest: first_by_Some split: option.splits intro!: option.map_cong)
qed

lemma GetDefaultProject_InrE:
  assumes "GetDefaultProject s = (Inr p, s')"
  obtains fs where "s' = s\<lparr>faults := fs\<rparr>"
  using assms unfolding GetDefaultProject_def
  by (elim try_opE) (auto split: if_splits elim: First_InrE)

lemma GetDefaultProject_InlE:
  assumes "GetDefaultProject s = (Inl e, s')"
  obtains fs where "s' = s\<lparr>faults := fs\<rparr>"
  using assms unfolding GetDefaultProject_def
  by (elim try_opE) (auto split: if_splits elim: First_InlE)

text \<open>A \<^verbatim>\<open>Create\<close> that reports an error has stored nothing, whichever statement failed.\<close>

lemma Create_atomic:
  assumes "SQLStore_Create env uids now entry s = (Inl e, s')"
  obtains fs where "s' = s\<lparr>faults := fs\<rparr>"
proof (cases "entry_AgentType entry")
  case None
  then show ?thesis using assms that [of "faults s"] by (simp add: SQLStore_Create_def)
next
  case (Some t)
  show ?thesis
  proof (cases "partyStore env")
    case False
    then show ?thesis using assms Some that by (auto simp: SQLStore_Create_def elim: Transaction_InlE)
  next
    case True
    then show ?thesis using assms Some that
      by (fastforce simp: SQLStore_Create_def bind_op_def
          elim!: try_opE elim: Transaction_InlE GetDefaultProject_InlE GetDefaultProject_InrE)
  qed
qed

definition new_entry :: "store_env \<Rightarrow> time \<Rightarrow> AgentType \<Rightarrow> CatalogEntry \<Rightarrow> CatalogEntry" where
  "new_entry env now t entry =
     stamp_entry now ((SyncToDB (codec env) entry)\<lparr>AgentTypeID := agent_type_ID t, entry_AgentType := Some t\<rparr>)"

lemma Create_clean:
  assumes clean: "faults s = []" and t: "entry_AgentType entry = Some t" and prov: "provider_stored t s"
    and run: "SQLStore_Create env uids now entry s = (Inr r, s')"
  shows "\<exists>project. r = new_entry env now t entry \<and> s' = created uids now project t (new_entry env now t entry) s \<and>
    agent_type_clash t (agent_types s) = None \<and> entry_clash (new_entry env now t entry) (catalog_entries s) = None \<and>
    (partyStore env \<longrightarrow> (\<exists>p \<in> set (parties s). party_Kind p = PartyKindProject \<and> party_IsSystem p \<and> project = party_ID p)) \<and>
    (\<not> partyStore env \<longrightarrow> project = '''')"
proof -
  from run t obtain project s1 where tx:
      "Transaction (create_body env uids now project t (SyncToDB (codec env) entry)) s1 = (Inr r, s')"
    and s1: "s1 = s" and pj: "partyStore env \<longrightarrow> (\<exists>p \<in> set (parties s). party_Kind p = PartyKindProject \<and>
      party_IsSystem p \<and> project = party_ID p)" "\<not> partyStore env \<longrightarrow> project = ''''"
    using clean
    by (auto simp: SQLStore_Create_def GetDefaultProject_def op_defs First_clean dest!: first_by_Some
        split: if_splits option.splits)
  from tx s1 clean obtain s2 where body: "create_body env uids now project t (SyncToDB (codec env) entry) s = (Inr r, s2)"
    and s2: "s' = s2 \<or> faults s2 \<noteq> []"
    by (auto simp: Transaction_def split: prod.splits sum.splits) (metis modify_clean prod.inject)
  note w = provider_stored_simps(2) [OF prov]
  have "r = new_entry env now t entry \<and> s2 = created uids now project t (new_entry env now t entry) s \<and>
    agent_type_clash t (agent_types s) = None \<and> entry_clash (new_entry env now t entry) (catalog_entries s) = None"
    using create_body_clean [OF clean refl refl body] by (simp add: new_entry_def w)
  moreover from this have "faults s2 = []" using clean by (simp add: created_def)
  ultimately show ?thesis using s2 pj by auto
qed

text \<open>What a reader finds under the identifier of a new entry.\<close>

definition stored_entry :: "store_env \<Rightarrow> time \<Rightarrow> AgentType \<Rightarrow> CatalogEntry \<Rightarrow> CatalogEntry" where
  "stored_entry env now t entry =
     (let e = new_entry env now t entry in
      e\<lparr>entry_AgentType := Some (t\<lparr>Capabilities := map stored_form (Capabilities t), RawBytes := ''''\<rparr>),
        entry_Health := \<lparr>State = Status e, LastProbedAt = HealthLastProbedAt e,
          LastSuccessAt = HealthLastSuccessAt e, LastError = HealthLastError e,
          LatencyMs = HealthLatencyMs e, ConsecutiveFailures = HealthConsecutiveFailures e\<rparr>\<rparr>)"

lemma SyncToDB_fields [simp]:
  "entry_AgentType (SyncToDB j e) = entry_AgentType e" "entry_Validity (SyncToDB j e) = entry_Validity e"
  by (auto simp: SyncToDB_def Let_def split: option.splits)

lemma entry_view_created:
  assumes "codec_ok (codec env) (Categories entry) (Metadata entry)"
    and "loaded_type s' (agent_type_ID t) = Some (t\<lparr>Capabilities := map stored_form (Capabilities t), RawBytes := ''''\<rparr>)"
  shows "entry_view env s' (entry_row (new_entry env now t entry)) = stored_entry env now t entry"
proof -
  let ?e = "SyncToDB (codec env) entry"
  have j: "CategoriesJSON ?e \<noteq> ''''" "unmarshal_strings (codec env) (CategoriesJSON ?e) = Some (Categories entry)"
    "MetadataJSON ?e \<noteq> ''''" "unmarshal_map (codec env) (MetadataJSON ?e) = Some (Metadata entry)"
    using SyncToDB_JSON [OF assms(1)] by auto
  have "Categories ?e = Categories entry" "Metadata ?e = Metadata entry" by simp_all
  then show ?thesis
    using j assms(2) by (simp add: entry_view_alt SyncFromDB_alt stored_entry_def new_entry_def entry_row_def
        stamp_entry_def loaded_list_def Let_def)
qed

lemma Create_refines:
  assumes clean: "faults s = []" and inv: "catalog_inv s" and t: "entry_AgentType entry = Some t"
    and prov: "provider_stored t s" and valid: "\<forall>c \<in> set (Capabilities t). Validate c = None"
    and json: "codec_ok (codec env) (Categories entry) (Metadata entry)"
    and run: "SQLStore_Create env uids now entry s = (Inr r, s')"
  shows "faults s' = [] \<and> catalog_inv s' \<and> catalog env s (entry_ID entry) = None \<and>
    catalog env s' = (catalog env s)(entry_ID entry \<mapsto> stored_entry env now t entry)"
proof -
  let ?e = "new_entry env now t entry"
  obtain project where s': "s' = created uids now project t ?e s"
    and tc: "agent_type_clash t (agent_types s) = None" and ec: "entry_clash ?e (catalog_entries s) = None"
    using Create_clean [OF clean t prov run] by blast
  note fresh = clash_None_key(1) [OF tc] and efresh = clash_None_key(2) [OF ec]
  have id: "entry_ID ?e = entry_ID entry" by (simp add: new_entry_def)
  note lt = loaded_type_created [OF inv fresh prov valid, of uids now project ?e]
  have look: "first_by entry_ID (\<lambda>e. entry_ID e = i) (catalog_entries s') =
      (if i = entry_ID entry then Some (entry_row ?e)
       else first_by entry_ID (\<lambda>e. entry_ID e = i) (catalog_entries s))" for i
    using first_by_append [of entry_ID "entry_row ?e"] efresh id by (simp add: s' created_def)
  have "catalog env s' i = catalog env s i"
    if "i \<noteq> entry_ID entry" for i
  proof -
    have "entry_view env s' e = entry_view env s e" if "e \<in> set (catalog_entries s)" for e
    proof -
      have "AgentTypeID e \<noteq> agent_type_ID t" using that inv fresh unfolding catalog_inv_def by metis
      then show ?thesis by (simp add: entry_view_alt s' lt)
    qed
    then show ?thesis using that look [of i]
      by (auto simp: catalog_def dest: first_by_Some intro!: option.map_cong)
  qed
  moreover have "catalog env s' (entry_ID entry) = Some (stored_entry env now t entry)"
    using entry_view_created [OF json, of s' t now] look [of "entry_ID entry"] by (simp add: catalog_def s' lt)
  moreover have "catalog env s (entry_ID entry) = None"
    using efresh id unfolding catalog_None_iff by (metis imageI)
  moreover have "faults s' = []" using clean by (simp add: s' created_def)
  moreover have "AgentTypeID ?e = agent_type_ID t" by (simp add: new_entry_def)
  ultimately show ?thesis using created_inv [OF inv tc ec] by (auto simp: s')
qed

section \<open>Refinement\<close>

text \<open>The calls that change the catalog, and what each means for the abstract map.\<close>

datatype catalog_call =
    CallCreate "nat \<Rightarrow> string" time CatalogEntry
  | CallDelete string
  | CallHealth time string Health
  | CallLifecycle time string LifecycleState

fun run_call :: "store_env \<Rightarrow> catalog_call \<Rightarrow> (db, unit) op" where
  "run_call env (CallCreate uids now entry) = pass_op (SQLStore_Create env uids now entry) (\<lambda>_. ok ())"
| "run_call env (CallDelete i) = SQLStore_Delete i"
| "run_call env (CallHealth now i h) = UpdateHealth now i h"
| "run_call env (CallLifecycle now i st) = SetLifecycle now i st"

fun spec_call :: "store_env \<Rightarrow> catalog_call \<Rightarrow> (string \<rightharpoonup> CatalogEntry) \<Rightarrow> (string \<rightharpoonup> CatalogEntry)" where
  "spec_call env (CallCreate uids now entry) m =
     m(entry_ID entry \<mapsto> stored_entry env now (the (entry_AgentType entry)) entry)"
| "spec_call env (CallDelete i) m = m(i := None)"
| "spec_call env (CallHealth now i h) m = m(i := map_option (health_view now h) (m i))"
| "spec_call env (CallLifecycle now i st) m = m(i := map_option (lifecycle_view now st) (m i))"

text \<open>What the callers of \<^verbatim>\<open>Create\<close> see to: the provider has been upserted, the capabilities are
  valid, and the two text columns encode.\<close>

fun call_ok :: "store_env \<Rightarrow> catalog_call \<Rightarrow> db \<Rightarrow> bool" where
  "call_ok env (CallCreate uids now entry) s = (case entry_AgentType entry of None \<Rightarrow> False
     | Some t \<Rightarrow> provider_stored t s \<and> list_all (\<lambda>c. Validate c = None) (Capabilities t) \<and>
         codec_ok (codec env) (Categories entry) (Metadata entry))"
| "call_ok env _ s = True"

lemma inv_update_entries:
  "catalog_inv s \<Longrightarrow> (\<And>e. entry_ID (f e) = entry_ID e) \<Longrightarrow> (\<And>e. AgentTypeID (f e) = AgentTypeID e) \<Longrightarrow>
   catalog_inv (s\<lparr>catalog_entries := map (\<lambda>e. if P e then f e else e) (catalog_entries s)\<rparr>)"
  by (auto simp: catalog_inv_def comp_def if_distrib [of entry_ID] cong: if_cong split: if_splits)

lemma write_health_type [simp]: "AgentTypeID (write_health now h e) = AgentTypeID e"
  by (simp add: write_health_def Let_def split: option.split)

lemma run_call_inv:
  assumes "faults s = []" and "catalog_inv s" and "run_call env c s = (r, s')"
    and "\<nexists>uids now entry. c = CallCreate uids now entry"
  shows "catalog_inv s'"
proof (cases c)
  case (CallDelete i)
  then show ?thesis using assms
    by (auto simp: SQLStore_Delete_def op_defs catalog_inv_def intro: distinct_map_filter_keep)
next
  case (CallHealth now i h)
  then show ?thesis using assms inv_update_entries [OF assms(2), of "write_health now h"]
    by (auto simp: UpdateHealth_def op_defs update_rows_clean split: if_splits)
next
  case (CallLifecycle now i st)
  then show ?thesis using assms inv_update_entries [OF assms(2), of "\<lambda>e. e\<lparr>Status := st, UpdatedAt := now\<rparr>"]
    by (auto simp: SetLifecycle_def op_defs update_rows_clean split: if_splits)
qed (use assms in auto)

text \<open>A call that reports an error leaves the catalog as it was, under every schedule.\<close>

lemma update_entries_refused:
  assumes "bind_op (update_rows catalog_entries put_entries (\<lambda>e. entry_ID e = i) f) msg
      (\<lambda>n. if n = 0 then fail err else ok ()) s = (Inl e, s')"
  shows "catalog env s' = catalog env s"
  using assms unfolding bind_op_def
proof (elim try_opE)
  fix e0 s1
  assume "update_rows catalog_entries put_entries (\<lambda>e. entry_ID e = i) f s = (Inl e0, s1)"
    and "ret (Inl (wrapf msg e0)) s1 = (Inl e, s')"
  then show ?thesis unfolding update_rows_def by (elim exec_cases) auto
next
  fix n s1
  assume u: "update_rows catalog_entries put_entries (\<lambda>e. entry_ID e = i) f s = (Inr n, s1)"
    and k: "(if n = 0 then fail err else ok ()) s1 = (Inl e, s')"
  from u obtain fs where n: "n = rows_matching (\<lambda>e. entry_ID e = i) (catalog_entries (s\<lparr>faults := fs\<rparr>))"
    and s1: "s1 = put_entries (map (\<lambda>x. if entry_ID x = i then f x else x) (catalog_entries (s\<lparr>faults := fs\<rparr>)))
      (s\<lparr>faults := fs\<rparr>)"
    by (rule update_rows_InrE)
  from k have "n = 0" and s': "s' = s1" by (auto split: if_splits)
  then have "map (\<lambda>x. if entry_ID x = i then f x else x) (catalog_entries s) = catalog_entries s"
    using n by (intro map_idI) (simp add: rows_matching_zero)
  then have "s1 = s\<lparr>faults := fs\<rparr>" unfolding s1 by (simp cong: if_cong)
  then show ?thesis using s' by simp
qed

lemma run_call_refused:
  assumes "run_call env c s = (Inl e, s')"
  shows "catalog env s' = catalog env s"
proof (cases c)
  case (CallCreate uids now entry)
  then obtain e0 where "SQLStore_Create env uids now entry s = (Inl e0, s')"
    using assms by (auto simp: pass_op_def elim: try_opE)
  then show ?thesis by (rule Create_atomic) simp
next
  case (CallDelete i)
  then show ?thesis using assms
    by (auto simp: SQLStore_Delete_def bind_op_def elim!: try_opE modify_InlE)
next
  case (CallHealth now i h)
  then show ?thesis using assms by (auto simp: UpdateHealth_def intro: update_entries_refused)
next
  case (CallLifecycle now i st)
  then show ?thesis using assms by (auto simp: SetLifecycle_def intro: update_entries_refused)
qed


definition sample_codec :: json_codec where
  "sample_codec = \<lparr>marshal_strings = \<lambda>_. Some ''[]'', marshal_map = \<lambda>_. Some ''{}'',
     unmarshal_strings = \<lambda>_. Some [], unmarshal_map = \<lambda>_. Some []\<rparr>"

definition sample_store_env :: store_env where
  "sample_store_env = \<lparr>mapper = sample_orm, codec = sample_codec, partyStore = False\<rparr>"

definition sample_type :: AgentType where
  "sample_type = \<lparr>agent_type_ID = ''t1'', AgentKey = ''k1'', agent_Protocol = ProtocolA2A,
     Endpoint = ''http://agent'', agent_Version = ''1'', agent_SpecVersion = '''', ProviderID = None,
     agent_Provider = None, CreatedOn = 0,
     Capabilities = [CapSkill \<lparr>skill_Name = ''echo'', skill_Description = '''', skill_Tags = [''x''],
       skill_InputModes = [], skill_OutputModes = []\<rparr>], RawBytes = ''''\<rparr>"

definition sample_entry :: CatalogEntry where
  "sample_entry = \<lparr>entry_ID = ''e1'', AgentTypeID = '''', entry_AgentType = Some sample_type,
     entry_DisplayName = ''Agent'', entry_Description = '''', Status = '''', Source = SourcePush,
     CreatedAt = 5, UpdatedAt = 5, Categories = [], Metadata = [], entry_Validity = zero_Validity,
     CategoriesJSON = '''', MetadataJSON = '''', ValidFrom = None, ValidTo = None, LastSeen = 0,
     HealthLastProbedAt = None, HealthLastSuccessAt = None, HealthLastError = '''',
     HealthLatencyMs = 0, HealthConsecutiveFailures = 0, entry_Health = zero_Health\<rparr>"

definition sample_uids :: "nat \<Rightarrow> string" where
  "sample_uids n = replicate (Suc n) (CHR ''c'')"

definition sample_catalog_db :: db where
  "sample_catalog_db = snd (run_call sample_store_env (CallCreate sample_uids 7 sample_entry) empty_db)"

lemma sample_catalog_run:
  "run_call sample_store_env (CallCreate sample_uids 7 sample_entry) empty_db = (Inr (), sample_catalog_db)"
proof -
  have "fst (run_call sample_store_env (CallCreate sample_uids 7 sample_entry) empty_db) = Inr ()"
    by code_simp
  then show ?thesis unfolding sample_catalog_db_def by (metis prod.collapse)
qed

lemma sample_call_ok:
  "faults empty_db = []" "catalog_inv empty_db"
  "call_ok sample_store_env (CallCreate sample_uids 7 sample_entry) empty_db"
  by (simp_all add: empty_db_def catalog_inv_def sample_entry_def sample_type_def provider_stored_def
      codec_ok_def sample_store_env_def sample_codec_def)

lemma sample_catalog_live:
  "faults sample_catalog_db = [] \<and> catalog_inv sample_catalog_db \<and>
   catalog sample_store_env sample_catalog_db ''e1'' = Some (stored_entry sample_store_env 7 sample_type sample_entry)"
proof -
  have "\<exists>e'. SQLStore_Create sample_store_env sample_uids 7 sample_entry empty_db = (Inr e', sample_catalog_db)"
    using sample_catalog_run by (auto simp: pass_op_def elim!: try_opE)
  then show ?thesis
    using Create_refines [of empty_db sample_entry sample_type sample_store_env] sample_call_ok
    by (auto simp: list_all_iff sample_entry_def)
qed


end
