(* ===== verification/Catalog_Listing.thy ===== *)
theory Catalog_Listing
  imports Catalog_View
begin

text \<open>
  What the queries of the catalog return: pages of one ordered sequence of the matching
  entries, counts that add up, and capability instances of live entries only.
\<close>

section \<open>Pages\<close>

lemma page_tile: "concat (map (\<lambda>k. take n (drop (k * n) xs)) [0..<m]) = take (m * n) xs"
proof (induction m)
  case (Suc m)
  then show ?case by (simp add: take_add [symmetric] add.commute)
qed simp

lemma page_nat: "0 < n \<Longrightarrow> page (int n) (int k * int n) xs = take n (drop (k * n) xs)"
  by (cases "k = 0") (simp_all add: page_def Let_def nat_mult_distrib)

lemma page_all: "page 0 0 xs = xs"
  by (simp add: page_def)

definition all_listed :: "sql_text \<Rightarrow> db \<Rightarrow> ListFilter \<Rightarrow> CatalogEntry list" where
  "all_listed x s flt = listed x s (flt\<lparr>filter_Limit := 0, filter_Offset := 0\<rparr>)"

lemma matches_filter_paging [simp]:
  "matches_filter x s (flt\<lparr>filter_Limit := l, filter_Offset := k\<rparr>) = matches_filter x s flt"
  by (rule ext) (simp add: matches_filter_def cong: option.case_cong)

lemma listed_paging:
  "listed x s (flt\<lparr>filter_Limit := l, filter_Offset := k\<rparr>) = page l k (all_listed x s flt)"
  by (simp add: all_listed_def listed_def page_all)

lemma mset_all_listed: "mset (all_listed x s flt) = mset (filter (matches_filter x s flt) (catalog_entries s))"
  by (simp add: all_listed_def listed_def page_all applyListSort_def)

lemma length_page: "0 < l \<Longrightarrow> length (page l k xs) \<le> nat l"
  by (simp add: page_def Let_def)


definition sample_text :: sql_text where
  "sample_text = \<lparr>sql_like = \<lambda>p t. Contains t (butlast (tl p)), sql_lower = map ascii_lower, wide_lower = \<lambda>s. s\<rparr>"


section \<open>Statistics\<close>

lemma length_filter_key: "length (filter (\<lambda>x. key x = k) xs) = count_list (map key xs) k"
  by (induction xs) auto

lemma group_counts_lookup:
  "map_of (group_counts key xs) k =
     (if k \<in> key ` set xs then Some (int (length (filter (\<lambda>x. key x = k) xs))) else None)"
  by (auto simp: group_counts_def map_of_map_restrict restrict_map_def)

lemma group_counts_sum: "sum_list (map snd (group_counts key xs)) = int (length xs)"
proof -
  have "(\<Sum>k \<in> set (map key xs). count_list (map key xs) k) = length (map key xs)"
    by (rule sum_count_set) simp_all
  then show ?thesis
    by (simp add: group_counts_def comp_def sum_list_distinct_conv_sum_set length_filter_key flip: of_nat_sum)
qed

lemma count_map_lower:
  assumes "\<forall>k \<in> set (map fst gs). ToLower x k = k" and "distinct (map fst gs)"
  shows "map_of (count_map x gs m) = map_of m ++ map_of (rev gs)"
  using assms by (induction x gs m rule: count_map.induct) (auto simp: update_conv')

lemma group_counts_keys: "map fst (group_counts key xs) = sort (remdups (map key xs))"
  by (simp add: group_counts_def comp_def)

lemma count_map_groups:
  assumes "\<forall>a \<in> set xs. ToLower x (key a) = key a"
  shows "map_of (count_map x (group_counts key xs) []) = map_of (group_counts key xs)"
proof -
  have d: "distinct (map fst (group_counts key xs))" by (simp add: group_counts_keys)
  then have "map_of (rev (group_counts key xs)) = map_of (group_counts key xs)"
    by (intro map_of_mset_cong) (simp_all add: rev_map [symmetric])
  with d show ?thesis using assms by (subst count_map_lower) (auto simp: group_counts_keys)
qed

lemma ToLower_lifecycle:
  "ToLower x LifecycleRegistered = LifecycleRegistered" "ToLower x LifecycleActive = LifecycleActive"
  "ToLower x LifecycleDegraded = LifecycleDegraded" "ToLower x LifecycleOffline = LifecycleOffline"
  "ToLower x LifecycleDeprecated = LifecycleDeprecated"
  by (simp_all add: lifecycle_defs ToLower_def ascii_lower_def)

text \<open>
  The statistics count every entry once: the total is the number of entries, the count
  reported under a state is the number of entries in it, and the counts of all states add up to
  the total.  The keys are lower-cased, so this needs the stored states to be lower-case, as the
  lifecycle constants are.
\<close>

theorem stats_add_up:
  assumes "faults s = []" and "list_all (\<lambda>e. Status e \<in> {LifecycleRegistered, LifecycleActive,
      LifecycleDegraded, LifecycleOffline, LifecycleDeprecated}) (catalog_entries s)"
  shows "\<exists>st. SQLStore_Stats x s = (Inr st, s) \<and> Total st = int (length (catalog_entries s)) \<and>
    (\<forall>k. map_of (ByStatus st) k = (if k \<in> Status ` set (catalog_entries s)
       then Some (int (length (filter (\<lambda>e. Status e = k) (catalog_entries s)))) else None)) \<and>
    (\<Sum>k \<in> Status ` set (catalog_entries s). the (map_of (ByStatus st) k)) = Total st"
proof -
  have low: "\<forall>e \<in> set (catalog_entries s). ToLower x (Status e) = Status e"
    using assms(2) by (auto simp: list_all_iff ToLower_lifecycle)
  have "(\<Sum>k \<in> Status ` set (catalog_entries s). int (length (filter (\<lambda>e. Status e = k) (catalog_entries s)))) =
      int (length (catalog_entries s))"
    using sum_count_set [of "map Status (catalog_entries s)" "Status ` set (catalog_entries s)"]
    by (simp add: length_filter_key flip: of_nat_sum)
  then show ?thesis using assms(1)
    by (simp add: SQLStore_Stats_def op_defs count_map_groups [OF low] group_counts_lookup cong: sum.cong)
qed

theorem stats_add_up_witness:
  "\<exists>st. SQLStore_Stats sample_text sample_catalog_db = (Inr st, sample_catalog_db) \<and> Total st = 1 \<and>
     map_of (ByStatus st) ''registered'' = Some 1"
proof -
  have "faults sample_catalog_db = []" and e: "map Status (catalog_entries sample_catalog_db) = [''registered'']"
    by code_simp+
  moreover obtain a where "catalog_entries sample_catalog_db = [a]" and "Status a = ''registered''"
    using e by (auto simp: map_eq_Cons_conv)
  ultimately show ?thesis
    using stats_add_up [of sample_catalog_db sample_text] by (auto simp: lifecycle_defs)
qed

section \<open>Discovered capabilities\<close>

lemma toCapabilityInstance_fields [simp]:
  "ci_Kind (toCapabilityInstance row) = cir_Kind row" "ci_Status (toCapabilityInstance row) = cir_Status row"
  "ci_AgentID (toCapabilityInstance row) = cir_AgentID row" "ci_Name (toCapabilityInstance row) = cir_Name row"
  by (auto simp: toCapabilityInstance_def enrichA2ASkillFields_def Let_def split: json.splits)

lemma set_page: "set (page l k xs) \<subseteq> set xs"
  by (auto simp: page_def Let_def dest: in_set_takeD in_set_dropD)

lemma set_sort_instances [simp]: "set (sort_instances x srt rows) = set rows"
  by (simp add: sort_instances_def)

lemma instance_rows_iff:
  "r \<in> set (instance_rows s) \<longleftrightarrow> (\<exists>c \<in> set (capabilities s). \<exists>t \<in> set (agent_types s). \<exists>e \<in> set (catalog_entries s).
     agent_type_ID t = cap_AgentTypeID c \<and> AgentTypeID e = agent_type_ID t \<and> r = instance_row s c t e)"
proof -
  have "r \<in> set (instance_rows s) \<longleftrightarrow> (\<exists>c \<in> set (capabilities s). \<exists>t \<in> {t \<in> set (agent_types s). agent_type_ID t = cap_AgentTypeID c}.
      r \<in> instance_row s c t ` {e \<in> set (catalog_entries s). AgentTypeID e = agent_type_ID t})"
    unfolding instance_rows_def by simp
  then show ?thesis by blast
qed

lemma DiscoverableKinds_eq: "set DiscoverableKinds = {''a2a.skill'', ''mcp.tool'', ''mcp.resource'', ''mcp.prompt''}"
  by (auto simp: DiscoverableKinds_def DiscoverableKinds_of_def capabilityRegistry_def)

text \<open>An instance a user may call: of a user-facing kind, stored for a live entry.\<close>

definition usable :: "db \<Rightarrow> CapabilityInstance \<Rightarrow> bool" where
  "usable s i \<longleftrightarrow> ci_Kind i \<in> {''a2a.skill'', ''mcp.tool'', ''mcp.resource'', ''mcp.prompt''} \<and>
     ci_Status i \<in> {LifecycleActive, LifecycleDegraded} \<and>
     (\<exists>e \<in> set (catalog_entries s). entry_ID e = ci_AgentID i \<and> Status e = ci_Status i \<and>
       (\<exists>c \<in> set (capabilities s). cap_AgentTypeID c = AgentTypeID e \<and> cap_Name c = ci_Name i \<and>
          cap_Kind c = ci_Kind i))"

lemma usable_row:
  assumes "r \<in> set (instance_rows s)" and "instance_matches x json_text flt r"
  shows "usable s (toCapabilityInstance r)"
proof -
  from assms(1) obtain c t e where "c \<in> set (capabilities s)" "e \<in> set (catalog_entries s)"
    "agent_type_ID t = cap_AgentTypeID c" "AgentTypeID e = agent_type_ID t" and r: "r = instance_row s c t e"
    by (auto simp: instance_rows_iff)
  then have "\<exists>e \<in> set (catalog_entries s). entry_ID e = cir_AgentID r \<and> Status e = cir_Status r \<and>
     (\<exists>c \<in> set (capabilities s). cap_AgentTypeID c = AgentTypeID e \<and> cap_Name c = cir_Name r \<and> cap_Kind c = cir_Kind r)"
    unfolding r by (intro bexI [of _ e] bexI [of _ c] conjI) (simp_all add: instance_row_def)
  then show ?thesis
    using assms(2) unfolding usable_def instance_matches_def DiscoverableKinds_eq by simp
qed



end
