(* ===== verification/Json_Columns.thy ===== *)
theory Json_Columns
  imports Capability_Json
begin

text \<open>
  The types that are kept as JSON text in one column: \<^verbatim>\<open>JSONSlice\<close> and \<^verbatim>\<open>JSONMap\<close> of
  \<^verbatim>\<open>internal/model/json_types.go\<close> and \<^verbatim>\<open>migrationPerms\<close> of \<^verbatim>\<open>internal/db/migrations.go\<close>, which is the first of
  them written out again.  The permissions of a role are such a column.  JSON text is read and written by the JSON package,
  an argument; a nil slice or map is \<^verbatim>\<open>None\<close>.
\<close>

record json_package =
  json_Marshal :: "json \<Rightarrow> error + string"
  json_Unmarshal :: "string \<Rightarrow> error + json"

text \<open>What a driver hands to \<^verbatim>\<open>Scan\<close>.\<close>

datatype driver_value = NullValue | TextValue string | BytesValue string | OtherValue string

definition Value_column :: "json_package \<Rightarrow> string \<Rightarrow> string \<Rightarrow> json option \<Rightarrow> error + driver_value" where
  "Value_column lib empty_text what j = (case j of
       None \<Rightarrow> Inr (TextValue empty_text)
     | Some v \<Rightarrow> (case json_Marshal lib v of Inl e \<Rightarrow> Inl (wrapf (''marshaling '' @ what) e) | Inr b \<Rightarrow> Inr (TextValue b)))"

text \<open>The receiver of \<^verbatim>\<open>Scan\<close> is a new value; \<^verbatim>\<open>decode\<close> is what the JSON package makes of a value of its type.\<close>

definition Scan_column :: "json_package \<Rightarrow> string \<Rightarrow> (json \<Rightarrow> 'a option) \<Rightarrow> driver_value \<Rightarrow> error + 'a option" where
  "Scan_column lib what decode value =
     (let unmarshal = (\<lambda>bytes. case json_Unmarshal lib bytes of
            Inl e \<Rightarrow> Inl e
          | Inr v \<Rightarrow> if v = JNull then Inr None
              else (case decode v of Some x \<Rightarrow> Inr (Some x) | None \<Rightarrow> Inl json_error))
      in case value of
           NullValue \<Rightarrow> Inr None
         | TextValue bytes \<Rightarrow> unmarshal bytes
         | BytesValue bytes \<Rightarrow> unmarshal bytes
         | OtherValue ty \<Rightarrow> Inl (errorf (what @ ''.Scan: unsupported type '' @ ty)))"

definition strings_json :: "string list \<Rightarrow> json" where
  "strings_json xs = JArr (map JStr xs)"

definition strings_of :: "json \<Rightarrow> string list option" where
  "strings_of v = (case v of JArr xs \<Rightarrow> str_items xs | _ \<Rightarrow> None)"

definition labels_of :: "json \<Rightarrow> (string \<times> string) list option" where
  "labels_of v = (case v of JObj kvs \<Rightarrow> str_values kvs | _ \<Rightarrow> None)"

text \<open>A map is written with its keys in order.\<close>

definition labels_json :: "(string \<times> string) list \<Rightarrow> json" where
  "labels_json m = JObj (map (\<lambda>(k, v). (k, JStr v)) (sort_key fst m))"

definition JSONSlice_Value :: "json_package \<Rightarrow> string list option \<Rightarrow> error + driver_value" where
  "JSONSlice_Value lib j = Value_column lib ''[]'' ''JSONSlice'' (map_option strings_json j)"

definition JSONSlice_Scan :: "json_package \<Rightarrow> driver_value \<Rightarrow> error + string list option" where
  "JSONSlice_Scan lib = Scan_column lib ''JSONSlice'' strings_of"

definition JSONMap_Value :: "json_package \<Rightarrow> (string \<times> string) list option \<Rightarrow> error + driver_value" where
  "JSONMap_Value lib j = Value_column lib ''{}'' ''JSONMap'' (map_option labels_json j)"

definition JSONMap_Scan :: "json_package \<Rightarrow> driver_value \<Rightarrow> error + (string \<times> string) list option" where
  "JSONMap_Scan lib = Scan_column lib ''JSONMap'' labels_of"

definition migrationPerms_Value :: "json_package \<Rightarrow> string list option \<Rightarrow> error + driver_value" where
  "migrationPerms_Value lib p = Value_column lib ''[]'' ''permissions'' (map_option strings_json p)"

definition migrationPerms_Scan :: "json_package \<Rightarrow> driver_value \<Rightarrow> error + string list option" where
  "migrationPerms_Scan lib = Scan_column lib ''migrationPerms'' strings_of"

section \<open>Properties\<close>

text \<open>What the package documents: valid text comes back, and the two literals are what they look like.\<close>

definition package_ok :: "json_package \<Rightarrow> bool" where
  "package_ok lib \<longleftrightarrow> (\<forall>v b. json_Marshal lib v = Inr b \<longrightarrow> json_Unmarshal lib b = Inr v) \<and>
     json_Unmarshal lib ''[]'' = Inr (JArr []) \<and> json_Unmarshal lib ''{}'' = Inr (JObj [])"

lemma decoders:
  "strings_of (strings_json xs) = Some xs" "labels_of (labels_json m) = Some (sort_key fst m)"
  "strings_of (JArr []) = Some []" "labels_of (JObj []) = Some []"
  by (simp_all add: strings_of_def strings_json_def labels_of_def labels_json_def str_items_map str_values_map)

lemma column_back:
  assumes "package_ok lib" and "Value_column lib empty_text what j = Inr v"
    and "json_Unmarshal lib empty_text = Inr z" and "z \<noteq> JNull" and "decode z = Some x"
    and "\<And>u. j = Some u \<Longrightarrow> u \<noteq> JNull \<and> decode u = Some y"
  shows "Scan_column lib ty decode v = Inr (Some (if j = None then x else y))"
proof (cases j)
  case None
  then have "v = TextValue empty_text" using assms(2) by (simp add: Value_column_def)
  then show ?thesis using None assms(3-5) by (simp add: Scan_column_def)
next
  case (Some u)
  then obtain b where b: "v = TextValue b" "json_Marshal lib u = Inr b"
    using assms(2) by (auto simp: Value_column_def split: sum.splits)
  then have "json_Unmarshal lib b = Inr u" using assms(1) by (auto simp: package_ok_def)
  then show ?thesis using Some b(1) assms(6) [OF Some] by (simp add: Scan_column_def)
qed

text \<open>A value comes back as it was written, a map with its keys in order, and nil as the empty value.\<close>

lemma JSONSlice_back:
  assumes "package_ok lib" and "JSONSlice_Value lib j = Inr v"
  shows "JSONSlice_Scan lib v = Inr (Some (case j of None \<Rightarrow> [] | Some xs \<Rightarrow> xs))"
proof -
  have "Scan_column lib ''JSONSlice'' strings_of v =
      Inr (Some (if map_option strings_json j = None then [] else case j of None \<Rightarrow> [] | Some xs \<Rightarrow> xs))"
    by (rule column_back [OF assms(1) assms(2) [unfolded JSONSlice_Value_def]])
      (use assms(1) decoders in \<open>auto simp: package_ok_def strings_json_def [symmetric]\<close>, simp_all add: strings_json_def)
  then show ?thesis by (cases j) (simp_all add: JSONSlice_Scan_def)
qed

lemma JSONMap_back:
  assumes "package_ok lib" and "JSONMap_Value lib j = Inr v"
  shows "JSONMap_Scan lib v = Inr (Some (case j of None \<Rightarrow> [] | Some m \<Rightarrow> sort_key fst m))"
proof -
  have "Scan_column lib ''JSONMap'' labels_of v =
      Inr (Some (if map_option labels_json j = None then [] else case j of None \<Rightarrow> [] | Some m \<Rightarrow> sort_key fst m))"
    by (rule column_back [OF assms(1) assms(2) [unfolded JSONMap_Value_def]])
      (use assms(1) decoders in \<open>auto simp: package_ok_def labels_json_def [symmetric]\<close>, simp_all add: labels_json_def)
  then show ?thesis by (cases j) (simp_all add: JSONMap_Scan_def)
qed

lemma sorted_same_map: "distinct (map fst m) \<Longrightarrow> map_of (sort_key fst m) = map_of m"
  by (rule map_of_mset_cong) (simp_all add: distinct_map_fst_sort)

text \<open>What a migration seeds, the model reads: the two types write the same text and read it alike.\<close>

lemma migrationPerms_same:
  "migrationPerms_Value lib p = Inr v \<longleftrightarrow> JSONSlice_Value lib p = Inr v"
  "(\<And>ty. v \<noteq> OtherValue ty) \<Longrightarrow> migrationPerms_Scan lib v = JSONSlice_Scan lib v"
  by (auto simp: migrationPerms_Value_def JSONSlice_Value_def Value_column_def migrationPerms_Scan_def JSONSlice_Scan_def
      Scan_column_def Let_def split: option.splits sum.splits driver_value.split)

end
