(* ===== verification/Health.thy ===== *)
theory Health
  imports Catalog_View
begin

text \<open>
  Health probing (\<^verbatim>\<open>plugins/health/health.go\<close>, \<^verbatim>\<open>health_prober.go\<close>,
  \<^verbatim>\<open>internal/api/health_handlers.go\<close>, \<^verbatim>\<open>internal/health/checker.go\<close>): the classification of
  a probe, the batch loop, on-demand probes behind a rate limiter, and manual lifecycle changes.

  The prober knows its store only through the interface \<^verbatim>\<open>proberStore\<close>, a record of operations
  here.  The HTTP client is an argument: what a request to a URL ends in.  The goroutines of a
  batch only share the store, and each makes one statement; a batch is therefore a sequence of
  updates in some order, which is an argument too.  Metrics and spans are left out.
\<close>

section \<open>The plugin\<close>

record HealthCheckConfig =
  hc_Enabled :: bool
  hc_Interval :: duration
  hc_Timeout :: duration
  hc_Concurrency :: int
  hc_DegradedLatency :: duration
  hc_FailureThreshold :: int

record 's proberStore =
  ps_Get :: "string \<Rightarrow> ('s, CatalogEntry option) op"
  ps_UpdateHealth :: "time \<Rightarrow> string \<Rightarrow> Health \<Rightarrow> ('s, unit) op"
  ps_ListForProbing :: "time \<Rightarrow> int \<Rightarrow> ('s, CatalogEntry list) op"

record HealthPlugin =
  interval :: duration
  timeout :: duration
  concurrency :: int
  degradedLatency :: duration
  failureThreshold :: int

definition Health_New :: "HealthCheckConfig \<Rightarrow> HealthPlugin" where
  "Health_New cfg = \<lparr>interval = hc_Interval cfg, timeout = hc_Timeout cfg,
     concurrency = (if hc_Concurrency cfg < 1 then 1 else hc_Concurrency cfg),
     degradedLatency = hc_DegradedLatency cfg, failureThreshold = hc_FailureThreshold cfg\<rparr>"

text \<open>What becomes of a request: the URL does not parse, the client fails (the timeout
  included), or a response arrives with a status code after some time.\<close>

datatype http_result =
    InvalidURL string
  | ClientError string
  | Response int duration

section \<open>One probe\<close>

definition successHealth :: "HealthPlugin \<Rightarrow> time \<Rightarrow> duration \<Rightarrow> Health" where
  "successHealth p now latency =
     \<lparr>State = (if latency > degradedLatency p then LifecycleDegraded else LifecycleActive),
      LastProbedAt = Some now, LastSuccessAt = Some now, LastError = '''',
      LatencyMs = Milliseconds latency, ConsecutiveFailures = 0\<rparr>"

definition failureHealth :: "HealthPlugin \<Rightarrow> time \<Rightarrow> Health \<Rightarrow> string \<Rightarrow> Health" where
  "failureHealth p now current errMsg =
     (let failures = ConsecutiveFailures current + 1
      in \<lparr>State = (if failures \<ge> failureThreshold p then LifecycleOffline else LifecycleDegraded),
          LastProbedAt = Some now, LastSuccessAt = LastSuccessAt current, LastError = errMsg,
          LatencyMs = 0, ConsecutiveFailures = failures\<rparr>)"

definition noURLHealth :: "time \<Rightarrow> Health \<Rightarrow> Health" where
  "noURLHealth now current =
     \<lparr>State = LifecycleOffline, LastProbedAt = Some now, LastSuccessAt = LastSuccessAt current,
      LastError = ''no probeable endpoint'', LatencyMs = 0,
      ConsecutiveFailures = ConsecutiveFailures current + 1\<rparr>"

definition resolveProbURL :: "CatalogEntry \<Rightarrow> string" where
  "resolveProbURL entry = (case entry_AgentType entry of None \<Rightarrow> '''' | Some t \<Rightarrow> Endpoint t)"

definition truncateStr :: "string \<Rightarrow> nat \<Rightarrow> string" where
  "truncateStr s maxLen = (if length s \<le> maxLen then s else take maxLen s)"

definition probeResultString :: "LifecycleState \<Rightarrow> string" where
  "probeResultString st =
     (if st = LifecycleActive then ''success'' else if st = LifecycleDegraded then ''degraded''
      else if st = LifecycleOffline then ''failure'' else ''unknown'')"

definition probeOne :: "HealthPlugin \<Rightarrow> (string \<Rightarrow> http_result) \<Rightarrow> time \<Rightarrow> CatalogEntry \<Rightarrow> Health" where
  "probeOne p http now entry =
     (if Status entry = LifecycleDeprecated then entry_Health entry
      else let url = resolveProbURL entry in
        if url = '''' then noURLHealth now (entry_Health entry)
        else (case http url of
            InvalidURL msg \<Rightarrow> failureHealth p now (entry_Health entry) (truncateStr (''invalid URL: '' @ msg) 512)
          | ClientError msg \<Rightarrow> failureHealth p now (entry_Health entry) (truncateStr msg 512)
          | Response code latency \<Rightarrow>
              if \<not> (code \<ge> 200 \<and> code < 300)
              then failureHealth p now (entry_Health entry) (''HTTP '' @ decimal code)
              else successHealth p now latency))"

section \<open>Batches and single entries\<close>

text \<open>\<^verbatim>\<open>clock i\<close> is the time at which the probe of entry \<^verbatim>\<open>i\<close> ends.\<close>

fun probe_batch :: "'s proberStore \<Rightarrow> HealthPlugin \<Rightarrow> (string \<Rightarrow> http_result) \<Rightarrow> (string \<Rightarrow> time) \<Rightarrow>
    CatalogEntry list \<Rightarrow> ('s, unit) act" where
  "probe_batch st p http clock [] = ret ()"
| "probe_batch st p http clock (e # es) =
     ignore_op (ps_UpdateHealth st (clock (entry_ID e)) (entry_ID e) (probeOne p http (clock (entry_ID e)) e))
       (probe_batch st p http clock es)"

definition checkAll :: "'s proberStore \<Rightarrow> HealthPlugin \<Rightarrow> (string \<Rightarrow> http_result) \<Rightarrow> (string \<Rightarrow> time) \<Rightarrow>
    (CatalogEntry list \<Rightarrow> CatalogEntry list) \<Rightarrow> time \<Rightarrow> ('s, unit) act" where
  "checkAll st p http clock order now =
     (let olderThan = now - interval p; batchSize = concurrency p * 4
      in try_op (ps_ListForProbing st olderThan batchSize) (\<lambda>_. ret ())
           (\<lambda>entries. probe_batch st p http clock (order entries)))"

definition ProbeEntry :: "'s proberStore \<Rightarrow> HealthPlugin \<Rightarrow> (string \<Rightarrow> http_result) \<Rightarrow> time \<Rightarrow> string \<Rightarrow> ('s, Health) op" where
  "ProbeEntry st p http now id' =
     bind_op (ps_Get st id') ''getting entry for probe'' (\<lambda>entry. case entry of
       None \<Rightarrow> fail (Error ''entry not found'' [ErrEntryNotFound])
     | Some e \<Rightarrow> let h = probeOne p http now e in ignore_op (ps_UpdateHealth st now id' h) (ok h))"

section \<open>The handlers\<close>

record probeRateLimiter =
  lastCall :: "string \<rightharpoonup> time"
  lastCleanup :: time

definition new_limiter :: probeRateLimiter where
  "new_limiter = \<lparr>lastCall = Map.empty, lastCleanup = zero_time\<rparr>"

definition evict :: "time \<Rightarrow> duration \<Rightarrow> (string \<rightharpoonup> time) \<Rightarrow> (string \<rightharpoonup> time)" where
  "evict now window m = (\<lambda>i. case m i of None \<Rightarrow> None | Some prev \<Rightarrow> if now - prev \<ge> window then None else Some prev)"

definition allow :: "time \<Rightarrow> string \<Rightarrow> duration \<Rightarrow> (probeRateLimiter, bool) act" where
  "allow now id' window = (\<lambda>r.
     let r1 = (if IsZero (lastCleanup r) \<or> now - lastCleanup r \<ge> window
               then r\<lparr>lastCall := evict now window (lastCall r), lastCleanup := now\<rparr> else r)
     in if (case lastCall r1 id' of Some prev \<Rightarrow> now - prev < window | None \<Rightarrow> False)
        then (False, r1)
        else (True, r1\<lparr>lastCall := (lastCall r1)(id' \<mapsto> now)\<rparr>))"

record healthDTO =
  dto_state :: string
  dto_lastProbedAt :: "time option"
  dto_lastSuccessAt :: "time option"
  dto_latencyMs :: int
  dto_consecutiveFailures :: int
  dto_lastError :: string

definition healthToDTO :: "Health \<Rightarrow> healthDTO" where
  "healthToDTO h = \<lparr>dto_state = State h, dto_lastProbedAt = LastProbedAt h, dto_lastSuccessAt = LastSuccessAt h,
     dto_latencyMs = LatencyMs h, dto_consecutiveFailures = ConsecutiveFailures h, dto_lastError = LastError h\<rparr>"

text \<open>The handler's limiter and the store change independently; \<^verbatim>\<open>prober\<close> is \<^verbatim>\<open>None\<close> when health
  checks are disabled.\<close>

definition HealthHandler_ProbeEntry ::
  "'s proberStore \<Rightarrow> HealthPlugin option \<Rightarrow> (string \<Rightarrow> http_result) \<Rightarrow> time \<Rightarrow> string \<Rightarrow>
   (probeRateLimiter \<times> 's, healthDTO reply) act" where
  "HealthHandler_ProbeEntry st prober http now id' = (\<lambda>(r, s).
     case allow now id' (5 * Second) r of
       (False, r1) \<Rightarrow> (ErrorResponse 429 ''probe rate limit: max 1 request per entry per 5s'', (r1, s))
     | (True, r1) \<Rightarrow> (case prober of
           None \<Rightarrow> (ErrorResponse 503 ''health prober not available'', (r1, s))
         | Some p \<Rightarrow> (case ProbeEntry st p http now id' s of
               (Inl e, s1) \<Rightarrow> if errors_Is e ErrEntryNotFound
                 then (ErrorResponse 404 ''catalog entry not found'', (r1, s1))
                 else (ErrorResponse 500 ''probe failed'', (r1, s1))
             | (Inr h, s1) \<Rightarrow> (JSONResponse 200 (healthToDTO h), (r1, s1)))))"

definition PatchLifecycle :: "store_env \<Rightarrow> time \<Rightarrow> string \<Rightarrow> string option \<Rightarrow> (db, CatalogEntry reply) act" where
  "PatchLifecycle env now id' body = (case body of
       None \<Rightarrow> ret (ErrorResponse 400 ''invalid request body'')
     | Some st \<Rightarrow>
        if \<not> (st = LifecycleDeprecated \<or> st = LifecycleActive)
        then ret (ErrorResponse 400 ''state must be one of: deprecated, active'')
        else try_op (SQLStore_Get env id') (\<lambda>_. ret (ErrorResponse 500 ''failed to get entry'')) (\<lambda>entry.
          case entry of None \<Rightarrow> ret (ErrorResponse 404 ''catalog entry not found'')
          | Some _ \<Rightarrow>
            try_op (SetLifecycle now id' st) (\<lambda>_. ret (ErrorResponse 500 ''failed to update lifecycle state'')) (\<lambda>_.
            try_op (SQLStore_Get env id') (\<lambda>_. ret (ErrorResponse 500 ''failed to retrieve updated entry'')) (\<lambda>updated.
              case updated of None \<Rightarrow> ret (ErrorResponse 500 ''failed to retrieve updated entry'')
              | Some u \<Rightarrow> ret (JSONResponse 200 u)))))"

section \<open>The older checker\<close>

text \<open>\<^verbatim>\<open>internal/health/checker.go\<close>: every entry in turn, no deprecation check, one request each.\<close>

record Checker =
  ck_interval :: duration
  ck_timeout :: duration
  ck_concurrency :: int

definition NewChecker :: "duration \<Rightarrow> duration \<Rightarrow> int \<Rightarrow> Checker" where
  "NewChecker ivl tmo conc = \<lparr>ck_interval = ivl, ck_timeout = tmo,
     ck_concurrency = (if conc < 1 then 1 else conc)\<rparr>"

definition updateStatus :: "store_env \<Rightarrow> (nat \<Rightarrow> string) \<Rightarrow> time \<Rightarrow> CatalogEntry \<Rightarrow> LifecycleState \<Rightarrow> (db, unit) act" where
  "updateStatus env uids now entry st =
     (let e = entry\<lparr>Status := st, entry_Validity := (entry_Validity entry)\<lparr>validity_LastSeen := now\<rparr>, UpdatedAt := now\<rparr>
      in ignore_op (SQLStore_Update env uids now e) (ret ()))"

definition checkOne :: "store_env \<Rightarrow> (nat \<Rightarrow> string) \<Rightarrow> (string \<Rightarrow> http_result) \<Rightarrow> time \<Rightarrow> CatalogEntry \<Rightarrow> (db, unit) act" where
  "checkOne env uids http now entry = (case entry_AgentType entry of
       None \<Rightarrow> ret ()
     | Some t \<Rightarrow>
         if Endpoint t = '''' then ret ()
         else (case http (Endpoint t) of
             InvalidURL _ \<Rightarrow> updateStatus env uids now entry LifecycleOffline
           | ClientError _ \<Rightarrow> updateStatus env uids now entry LifecycleOffline
           | Response code _ \<Rightarrow> updateStatus env uids now entry
               (if code \<ge> 200 \<and> code < 300 then LifecycleActive
                else if code \<ge> 500 then LifecycleDegraded else LifecycleRegistered)))"

fun check_batch :: "store_env \<Rightarrow> (string \<Rightarrow> nat \<Rightarrow> string) \<Rightarrow> (string \<Rightarrow> http_result) \<Rightarrow> (string \<Rightarrow> time) \<Rightarrow>
    CatalogEntry list \<Rightarrow> (db, unit) act" where
  "check_batch env uids http clock [] = ret ()"
| "check_batch env uids http clock (e # es) = (\<lambda>s.
     check_batch env uids http clock es (snd (checkOne env (uids (entry_ID e)) http (clock (entry_ID e)) e s)))"

definition Checker_checkAll :: "store_env \<Rightarrow> sql_text \<Rightarrow> (string \<Rightarrow> nat \<Rightarrow> string) \<Rightarrow> (string \<Rightarrow> http_result) \<Rightarrow>
    (string \<Rightarrow> time) \<Rightarrow> (CatalogEntry list \<Rightarrow> CatalogEntry list) \<Rightarrow> (db, unit) act" where
  "Checker_checkAll env x uids http clock order =
     try_op (SQLStore_List env x no_filter) (\<lambda>_. ret ()) (\<lambda>entries. check_batch env uids http clock (order entries))"

section \<open>What the prober relies on\<close>

text \<open>
  The contract of \<^verbatim>\<open>proberStore\<close>.  \<^verbatim>\<open>abs\<close> is the catalog that a state stands for and
  \<^verbatim>\<open>live\<close> holds while the store answers.  A queue item shows what a probe reads of its entry;
  it need not be fully loaded.
\<close>

definition shows_entry :: "CatalogEntry \<Rightarrow> CatalogEntry \<Rightarrow> bool" where
  "shows_entry e v \<longleftrightarrow> entry_ID e = entry_ID v \<and> Status e = Status v \<and> entry_Health e = entry_Health v \<and>
     resolveProbURL e = resolveProbURL v"

text \<open>An item of the queue: a known entry that is not deprecated and was not probed since.\<close>

definition queue_item :: "(string \<rightharpoonup> CatalogEntry) \<Rightarrow> time \<Rightarrow> CatalogEntry \<Rightarrow> bool" where
  "queue_item m olderThan e \<longleftrightarrow> (\<exists>v. m (entry_ID e) = Some v \<and> shows_entry e v \<and> Status v \<noteq> LifecycleDeprecated \<and>
     (case LastProbedAt (entry_Health v) of None \<Rightarrow> True | Some t \<Rightarrow> t < olderThan))"

text \<open>The catalog after the probes of a batch.\<close>

definition probed :: "HealthPlugin \<Rightarrow> (string \<Rightarrow> http_result) \<Rightarrow> (string \<Rightarrow> time) \<Rightarrow> CatalogEntry list \<Rightarrow>
    (string \<rightharpoonup> CatalogEntry) \<Rightarrow> (string \<rightharpoonup> CatalogEntry)" where
  "probed p http clock es m = (\<lambda>i. case find (\<lambda>e. entry_ID e = i) es of
       None \<Rightarrow> m i
     | Some e \<Rightarrow> map_option (health_view (clock i) (probeOne p http (clock i) e)) (m i))"

lemma probed_Cons:
  assumes "entry_ID e \<notin> entry_ID ` set es"
  shows "probed p http clock es (m(entry_ID e := map_option (health_view (clock (entry_ID e))
      (probeOne p http (clock (entry_ID e)) e)) (m (entry_ID e)))) = probed p http clock (e # es) m"
proof (rule ext)
  fix i
  have "find (\<lambda>e'. entry_ID e' = entry_ID e) es = None"
    using assms unfolding find_None_set by (metis imageI)
  then show "probed p http clock es (m(entry_ID e := map_option (health_view (clock (entry_ID e))
      (probeOne p http (clock (entry_ID e)) e)) (m (entry_ID e)))) i = probed p http clock (e # es) m i"
    by (auto simp: probed_def split: option.split)
qed

lemma find_order:
  assumes "mset xs = mset ys" and "distinct (map entry_ID ys)"
  shows "find (\<lambda>e. entry_ID e = i) xs = find (\<lambda>e. entry_ID e = i) ys"
proof -
  have set: "set xs = set ys" by (rule mset_eq_setD [OF assms(1)])
  have d: "distinct (map entry_ID xs)"
    using assms(2) arg_cong [OF assms(1), of "image_mset entry_ID"]
      mset_eq_imp_distinct_iff [of "map entry_ID xs" "map entry_ID ys"] by simp
  show ?thesis
  proof (cases "find (\<lambda>e. entry_ID e = i) ys")
    case None
    then have "find (\<lambda>e. entry_ID e = i) xs = None" unfolding find_None_set set .
    with None show ?thesis by simp
  next
    case (Some e)
    then have "e \<in> set xs" and "entry_ID e = i" using find_Some_set [OF Some] set by simp_all
    with Some show ?thesis using find_by_key [OF d, of e] by simp
  qed
qed

lemma probed_order:
  assumes "mset xs = mset ys" and "distinct (map entry_ID ys)"
  shows "probed p http clock xs = probed p http clock ys"
  unfolding probed_def find_order [OF assms] ..

locale prober_store =
  fixes st :: "'s proberStore" and abs :: "'s \<Rightarrow> string \<Rightarrow> CatalogEntry option" and live :: "'s \<Rightarrow> bool"
  assumes get: "live s \<Longrightarrow> ps_Get st i s = (Inr (abs s i), s)"
    and update: "live s \<Longrightarrow> ps_UpdateHealth st now i h s = (r, s') \<Longrightarrow>
      live s' \<and> abs s' = (abs s)(i := map_option (health_view now h) (abs s i)) \<and>
      (r = Inr () \<longleftrightarrow> abs s i \<noteq> None)"
    and queue: "live s \<Longrightarrow> \<exists>es. ps_ListForProbing st olderThan n s = (Inr es, s) \<and>
      (0 \<le> n \<longrightarrow> length es \<le> nat n) \<and> distinct (map entry_ID es) \<and> list_all (queue_item (abs s) olderThan) es"
    and state_shown: "live s \<Longrightarrow> abs s i = Some e \<Longrightarrow> State (entry_Health e) = Status e"
begin

lemma ProbeEntry_found:
  assumes "live s" and "abs s i = Some e"
  obtains s' where "ProbeEntry st p http now i s = (Inr (probeOne p http now e), s')" and "live s'"
    and "abs s' = (abs s)(i \<mapsto> health_view now (probeOne p http now e) e)"
proof -
  obtain r s' where u: "ps_UpdateHealth st now i (probeOne p http now e) s = (r, s')"
    by (cases "ps_UpdateHealth st now i (probeOne p http now e) s")
  have "ProbeEntry st p http now i s = (Inr (probeOne p http now e), s')"
    using assms u by (cases r) (simp_all add: ProbeEntry_def op_defs get Let_def)
  moreover have "live s'" "abs s' = (abs s)(i \<mapsto> health_view now (probeOne p http now e) e)"
    using update [OF assms(1) u] assms(2) by simp_all
  ultimately show ?thesis by (rule that)
qed

lemma ProbeEntry_missing:
  "live s \<Longrightarrow> abs s i = None \<Longrightarrow>
   ProbeEntry st p http now i s = (Inl (Error ''entry not found'' [ErrEntryNotFound]), s)"
  by (simp add: ProbeEntry_def op_defs get)

text \<open>The effect of a batch does not depend on the order in which its probes finish.\<close>

lemma batch_effect:
  assumes "live s" and "distinct (map entry_ID es)"
  shows "live (snd (probe_batch st p http clock es s)) \<and>
    abs (snd (probe_batch st p http clock es s)) = probed p http clock es (abs s)"
  using assms
proof (induction es arbitrary: s)
  case Nil
  then show ?case by (simp add: probed_def)
next
  case (Cons e es)
  let ?i = "entry_ID e"
  obtain r s1 where u: "ps_UpdateHealth st (clock ?i) ?i (probeOne p http (clock ?i) e) s = (r, s1)"
    by (cases "ps_UpdateHealth st (clock ?i) ?i (probeOne p http (clock ?i) e) s")
  then have step: "probe_batch st p http clock (e # es) s = probe_batch st p http clock es s1"
    by (cases r) (simp_all add: op_defs)
  have l: "live s1" using update [OF Cons.prems(1) u] by (elim conjE)
  have a: "abs s1 = (abs s)(?i :=
      map_option (health_view (clock ?i) (probeOne p http (clock ?i) e)) (abs s ?i))"
    using update [OF Cons.prems(1) u] by (elim conjE)
  have d: "distinct (map entry_ID es)" and f: "?i \<notin> entry_ID ` set es" using Cons.prems(2) by simp_all
  from Cons.IH [OF l d] show ?case
    unfolding step a probed_Cons [OF f] .
qed

lemma checkAll_effect:
  assumes "live s" and order: "\<And>es. mset (order es) = mset es"
  obtains es s' where "ps_ListForProbing st (now - interval p) (concurrency p * 4) s = (Inr es, s)"
    and "checkAll st p http clock order now s = ((), s')" and "live s'"
    and "0 \<le> concurrency p \<longrightarrow> length es \<le> nat (concurrency p * 4)"
    and "list_all (queue_item (abs s) (now - interval p)) es"
    and "abs s' = probed p http clock es (abs s)"
proof -
  from queue [OF assms(1)] obtain es where es: "ps_ListForProbing st (now - interval p) (concurrency p * 4) s = (Inr es, s) \<and>
      (0 \<le> concurrency p * 4 \<longrightarrow> length es \<le> nat (concurrency p * 4)) \<and> distinct (map entry_ID es) \<and>
      list_all (queue_item (abs s) (now - interval p)) es"
    by (rule exE)
  have q: "ps_ListForProbing st (now - interval p) (concurrency p * 4) s = (Inr es, s)"
    using es by (elim conjE)
  have len: "0 \<le> concurrency p * 4 \<longrightarrow> length es \<le> nat (concurrency p * 4)" using es by (elim conjE)
  have d: "distinct (map entry_ID es)" using es by (elim conjE)
  have due: "list_all (queue_item (abs s) (now - interval p)) es" using es by (elim conjE)
  have "distinct (map entry_ID (order es))"
    using d order by (metis mset_eq_imp_distinct_iff mset_map)
  note eff = batch_effect [OF assms(1) this, of p http clock]
  have run: "checkAll st p http clock order now s = ((), snd (probe_batch st p http clock (order es) s))"
    by (simp add: checkAll_def try_op_def q Let_def prod_eq_iff)
  show ?thesis
    by (rule that [OF q run]) (use eff len due probed_order [OF order d] in simp_all)
qed

end

section \<open>The SQL store meets the contract\<close>

definition sql_prober :: "store_env \<Rightarrow> db proberStore" where
  "sql_prober env = \<lparr>ps_Get = SQLStore_Get env, ps_UpdateHealth = UpdateHealth, ps_ListForProbing = ListForProbing env\<rparr>"

definition live_catalog :: "db \<Rightarrow> bool" where
  "live_catalog s \<longleftrightarrow> faults s = [] \<and> catalog_inv s"

lemma entry_view_fields [simp]:
  "entry_ID (entry_view env s e) = entry_ID e" "Status (entry_view env s e) = Status e"
  "entry_AgentType (entry_view env s e) = loaded_type s (AgentTypeID e)"
  "entry_Health (entry_view env s e) = \<lparr>State = Status e, LastProbedAt = HealthLastProbedAt e,
     LastSuccessAt = HealthLastSuccessAt e, LastError = HealthLastError e,
     LatencyMs = HealthLatencyMs e, ConsecutiveFailures = HealthConsecutiveFailures e\<rparr>"
  by (simp_all add: entry_view_alt)

lemma catalog_of_row:
  "distinct (map entry_ID (catalog_entries s)) \<Longrightarrow> e \<in> set (catalog_entries s) \<Longrightarrow>
   catalog env s (entry_ID e) = Some (entry_view env s e)"
  by (simp add: catalog_def first_by_key)

lemma probe_queue_props:
  assumes "distinct (map entry_ID (catalog_entries s))"
  shows "0 \<le> n \<Longrightarrow> length (probe_queue s t n) \<le> nat n"
    and "distinct (map entry_ID (probe_queue s t n))"
    and "e \<in> set (probe_queue s t n) \<Longrightarrow> e \<in> set (catalog_entries s) \<and> due_for_probe s t e"
proof -
  let ?q = "sort_key (\<lambda>e. asc_nulls_first (HealthLastProbedAt e)) (filter (due_for_probe s t) (catalog_entries s))"
  have "distinct (map entry_ID ?q)"
    using assms distinct_map_filter_keep [of entry_ID "catalog_entries s" "due_for_probe s t"]
    by (simp add: distinct_map)
  then show "distinct (map entry_ID (probe_queue s t n))"
    by (simp add: probe_queue_def Let_def take_map [symmetric])
  show "0 \<le> n \<Longrightarrow> length (probe_queue s t n) \<le> nat n" by (simp add: probe_queue_def Let_def)
  show "e \<in> set (probe_queue s t n) \<Longrightarrow> e \<in> set (catalog_entries s) \<and> due_for_probe s t e"
    by (auto simp: probe_queue_def Let_def split: if_splits dest: in_set_takeD)
qed

lemma resolveProbURL_view:
  "resolveProbURL (SyncFromDB j (e\<lparr>entry_AgentType := type_of_entry s e\<rparr>)) = resolveProbURL (entry_view env s e)"
  by (auto simp: resolveProbURL_def loaded_type_def type_of_entry_def split: option.split)

lemma sql_queue:
  assumes "live_catalog s"
  shows "\<exists>es. ListForProbing env olderThan n s = (Inr es, s) \<and> (0 \<le> n \<longrightarrow> length es \<le> nat n) \<and>
    distinct (map entry_ID es) \<and> list_all (queue_item (catalog env s) olderThan) es"
proof -
  have d: "distinct (map entry_ID (catalog_entries s))" and f: "faults s = []"
    using assms by (simp_all add: live_catalog_def catalog_inv_def)
  let ?load = "\<lambda>e. SyncFromDB (codec env) (e\<lparr>entry_AgentType := type_of_entry s e\<rparr>)"
  have item: "queue_item (catalog env s) olderThan (?load e)" if "e \<in> set (probe_queue s olderThan n)" for e
    using probe_queue_props(3) [OF d that] catalog_of_row [OF d, of e env]
      resolveProbURL_view [of "codec env" s e env]
    by (simp add: queue_item_def shows_entry_def due_for_probe_def)
  have "map entry_ID (map ?load (probe_queue s olderThan n)) = map entry_ID (probe_queue s olderThan n)"
    by simp
  with item show ?thesis
    using f probe_queue_props [OF d] by (simp add: ListForProbing_clean list_all_iff comp_def)
qed

interpretation sql: prober_store "sql_prober env" "catalog env" live_catalog for env
proof
  fix s :: db and i :: string and now :: time and h :: Health and r s'
  assume l: "live_catalog s" and u: "ps_UpdateHealth (sql_prober env) now i h s = (r, s')"
  from u have u': "UpdateHealth now i h s = (r, s')" by (simp add: sql_prober_def)
  then have "run_call env (CallHealth now i h) s = (r, s')" by simp
  then have "catalog_inv s'" using run_call_inv [of s env "CallHealth now i h"] l
    by (simp add: live_catalog_def)
  with UpdateHealth_refines [of s now i h r s' env] u' l
  show "live_catalog s' \<and> catalog env s' = (catalog env s)(i := map_option (health_view now h) (catalog env s i)) \<and>
      (r = Inr () \<longleftrightarrow> catalog env s i \<noteq> None)"
    by (simp add: live_catalog_def)
next
  fix s :: db and i e
  assume "live_catalog s" "catalog env s i = Some e"
  then show "State (entry_Health e) = Status e" by (auto simp: catalog_def)
qed (simp_all add: sql_prober_def live_catalog_def Get_clean sql_queue [unfolded live_catalog_def])

section \<open>Probing rules\<close>

lemma health_view_fields [simp]:
  "entry_ID (health_view now h e) = entry_ID e" "Status (health_view now h e) = State h"
  "entry_Health (health_view now h e) = h" "entry_AgentType (health_view now h e) = entry_AgentType e"
  "entry_DisplayName (health_view now h e) = entry_DisplayName e"
  by (simp_all add: health_view_def write_health_def Let_def split: option.split)

lemma probeOne_deprecated: "Status e = LifecycleDeprecated \<Longrightarrow> probeOne p http now e = entry_Health e"
  by (simp add: probeOne_def)

text \<open>Whether a request ends in a 2xx response.\<close>

fun answered :: "http_result \<Rightarrow> bool" where
  "answered (Response code _) = (200 \<le> code \<and> code < 300)"
| "answered _ = False"

lemma probeOne_failed:
  assumes "Status e \<noteq> LifecycleDeprecated" and "resolveProbURL e \<noteq> ''''" and "\<not> answered (http (resolveProbURL e))"
  shows "ConsecutiveFailures (probeOne p http now e) = ConsecutiveFailures (entry_Health e) + 1 \<and>
    State (probeOne p http now e) =
      (if ConsecutiveFailures (entry_Health e) + 1 \<ge> failureThreshold p then LifecycleOffline else LifecycleDegraded) \<and>
    LastSuccessAt (probeOne p http now e) = LastSuccessAt (entry_Health e) \<and>
    LastProbedAt (probeOne p http now e) = Some now"
  using assms
  by (cases "http (resolveProbURL e)") (auto simp: probeOne_def failureHealth_def Let_def)

lemma probeOne_answered:
  assumes "Status e \<noteq> LifecycleDeprecated" and "resolveProbURL e \<noteq> ''''"
    and "http (resolveProbURL e) = Response code latency" and "200 \<le> code" and "code < 300"
  shows "probeOne p http now e = successHealth p now latency"
  using assms by (simp add: probeOne_def)

section \<open>Properties of probing\<close>

lemma probed_deprecated:
  assumes "list_all (queue_item m t) es" and "m i = Some v" and "Status v = LifecycleDeprecated"
  shows "probed p http clock es m i = Some v"
proof -
  have "find (\<lambda>e. entry_ID e = i) es = None"
    using assms by (auto simp: find_None_set list_all_iff queue_item_def)
  then show ?thesis using assms(2) by (simp add: probed_def)
qed

lemma probeOne_not_deprecated:
  "Status e \<noteq> LifecycleDeprecated \<Longrightarrow> State (probeOne p http now e) \<noteq> LifecycleDeprecated"
  by (auto simp: probeOne_def noURLHealth_def failureHealth_def successHealth_def Let_def split: http_result.split)


text \<open>
  \<^bold>\<open>C28\<close> A batch probes at most four entries per worker, each of them known, not deprecated and
  not probed during the last interval.  The catalog it leaves does not depend on the order in which
  the concurrent probes finish: exactly the probed entries have the health their probe computed, and
  all others are unchanged.
\<close>

theorem batch_order_irrelevant:
  assumes "live_catalog s" and "\<And>es. mset (order es) = mset es" and "\<And>es. mset (order' es) = mset es"
  shows "catalog env (snd (checkAll (sql_prober env) (Health_New cfg) http clock order now s)) =
      catalog env (snd (checkAll (sql_prober env) (Health_New cfg) http clock order' now s)) \<and>
    (\<exists>es. length es \<le> nat (concurrency (Health_New cfg) * 4) \<and>
       list_all (queue_item (catalog env s) (now - interval (Health_New cfg))) es \<and>
       catalog env (snd (checkAll (sql_prober env) (Health_New cfg) http clock order now s)) =
         probed (Health_New cfg) http clock es (catalog env s))"
proof -
  let ?p = "Health_New cfg"
  have pos: "0 \<le> concurrency ?p" by (simp add: Health_New_def)
  obtain es s1 where q: "ps_ListForProbing (sql_prober env) (now - interval ?p) (concurrency ?p * 4) s = (Inr es, s)"
    and c: "checkAll (sql_prober env) ?p http clock order now s = ((), s1)"
    and len: "0 \<le> concurrency ?p \<longrightarrow> length es \<le> nat (concurrency ?p * 4)"
    and due: "list_all (queue_item (catalog env s) (now - interval ?p)) es"
    and cat: "catalog env s1 = probed ?p http clock es (catalog env s)"
    using sql.checkAll_effect [OF assms(1,2), of env now ?p http clock] by metis
  obtain es' s2 where q': "ps_ListForProbing (sql_prober env) (now - interval ?p) (concurrency ?p * 4) s = (Inr es', s)"
    and c': "checkAll (sql_prober env) ?p http clock order' now s = ((), s2)"
    and cat': "catalog env s2 = probed ?p http clock es' (catalog env s)"
    using sql.checkAll_effect [OF assms(1,3), of env now ?p http clock] by metis
  from q q' have "es' = es" by simp
  with c c' cat cat' len due pos show ?thesis by auto
qed

text \<open>Probing one entry again and again: a list of what the endpoint answers, and when.\<close>

fun probes :: "'s proberStore \<Rightarrow> HealthPlugin \<Rightarrow> string \<Rightarrow> ((string \<Rightarrow> http_result) \<times> time) list \<Rightarrow> 's \<Rightarrow> 's" where
  "probes st p i [] s = s"
| "probes st p i ((http, now) # rest) s = probes st p i rest (snd (ProbeEntry st p http now i s))"

lemma probes_append: "probes st p i (xs @ ys) s = probes st p i ys (probes st p i xs s)"
  by (induction st p i xs s rule: probes.induct) simp_all

lemma resolveProbURL_health [simp]: "resolveProbURL (health_view now h e) = resolveProbURL e"
  by (simp add: resolveProbURL_def)

lemma probes_failing:
  assumes "live_catalog s" and "catalog env s i = Some e" and "Status e \<noteq> LifecycleDeprecated"
    and "resolveProbURL e = url" and "url \<noteq> ''''" and "list_all (\<lambda>(http, _). \<not> answered (http url)) run"
  shows "live_catalog (probes (sql_prober env) p i run s) \<and>
    (\<exists>v. catalog env (probes (sql_prober env) p i run s) i = Some v \<and> resolveProbURL v = url \<and>
      Status v = (if run = [] then Status e
        else if ConsecutiveFailures (entry_Health e) + int (length run) \<ge> failureThreshold p then LifecycleOffline
        else LifecycleDegraded) \<and>
      ConsecutiveFailures (entry_Health v) = ConsecutiveFailures (entry_Health e) + int (length run) \<and>
      LastSuccessAt (entry_Health v) = LastSuccessAt (entry_Health e))"
  using assms
proof (induction run arbitrary: s e)
  case Nil
  then show ?case by simp
next
  case (Cons a run)
  obtain http now where a: "a = (http, now)" by (cases a)
  let ?h = "probeOne p http now e"
  obtain s2 where pr: "ProbeEntry (sql_prober env) p http now i s = (Inr ?h, s2)" and l: "live_catalog s2"
    and cat2: "catalog env s2 = (catalog env s)(i \<mapsto> health_view now ?h e)"
    using sql.ProbeEntry_found [OF Cons.prems(1,2)] by metis
  have h: "ConsecutiveFailures ?h = ConsecutiveFailures (entry_Health e) + 1"
    "State ?h = (if ConsecutiveFailures (entry_Health e) + 1 \<ge> failureThreshold p then LifecycleOffline else LifecycleDegraded)"
    "LastSuccessAt ?h = LastSuccessAt (entry_Health e)"
    using probeOne_failed [of e http p now] Cons.prems a by auto
  have "Status (health_view now ?h e) \<noteq> LifecycleDeprecated" using h(2) by simp
  from Cons.IH [OF l _ this] cat2 h Cons.prems a pr show ?case
    by (cases "run = []") (auto simp: add.assoc)
qed

text \<open>
  \<^bold>\<open>C21\<close> An entry whose endpoint stops answering is degraded first and goes offline exactly when
  the consecutive failures reach the threshold, keeping the time of its last success; the first
  answer brings it back, with the failure count reset, to active or, when it was slow, degraded.
\<close>

theorem offline_at_threshold_and_recovery:
  assumes "live_catalog s" and "catalog env s i = Some e" and "Status e \<noteq> LifecycleDeprecated"
    and "resolveProbURL e = url" and "url \<noteq> ''''" and "run \<noteq> []"
    and "list_all (\<lambda>(http, _). \<not> answered (http url)) run"
    and "http url = Response code latency" and "200 \<le> code" and "code < 300"
  shows "(\<exists>v. catalog env (probes (sql_prober env) p i run s) i = Some v \<and>
      (Status v = LifecycleOffline \<longleftrightarrow> ConsecutiveFailures (entry_Health e) + int (length run) \<ge> failureThreshold p) \<and>
      (Status v = LifecycleDegraded \<longleftrightarrow> ConsecutiveFailures (entry_Health e) + int (length run) < failureThreshold p) \<and>
      LastSuccessAt (entry_Health v) = LastSuccessAt (entry_Health e)) \<and>
    (\<exists>v. catalog env (probes (sql_prober env) p i (run @ [(http, now)]) s) i = Some v \<and>
      Status v = (if latency > degradedLatency p then LifecycleDegraded else LifecycleActive) \<and>
      ConsecutiveFailures (entry_Health v) = 0 \<and> LastSuccessAt (entry_Health v) = Some now)"
proof -
  let ?s = "probes (sql_prober env) p i run s"
  obtain v where l: "live_catalog ?s" and v: "catalog env ?s i = Some v" "resolveProbURL v = url"
    "Status v = (if ConsecutiveFailures (entry_Health e) + int (length run) \<ge> failureThreshold p
       then LifecycleOffline else LifecycleDegraded)"
    "LastSuccessAt (entry_Health v) = LastSuccessAt (entry_Health e)"
    using probes_failing [OF assms(1-5,7), of p] assms(6) by auto
  have nd: "Status v \<noteq> LifecycleDeprecated" using v(3) by simp
  obtain s2 where pr: "ProbeEntry (sql_prober env) p http now i ?s = (Inr (probeOne p http now v), s2)"
    and cat2: "catalog env s2 = (catalog env ?s)(i \<mapsto> health_view now (probeOne p http now v) v)"
    using sql.ProbeEntry_found [OF l v(1)] by metis
  have "probeOne p http now v = successHealth p now latency"
    by (rule probeOne_answered [OF nd _ _ assms(9,10)]) (simp_all add: v assms)
  with pr cat2 v show ?thesis by (auto simp: probes_append successHealth_def)
qed

text \<open>A concrete catalog with one entry, whose endpoint times out and then answers.\<close>

definition sample_plugin :: HealthPlugin where
  "sample_plugin = Health_New \<lparr>hc_Enabled = True, hc_Interval = 30 * Second, hc_Timeout = 5 * Second,
     hc_Concurrency = 0, hc_DegradedLatency = 2 * Second, hc_FailureThreshold = 3\<rparr>"

abbreviation sample_stored :: CatalogEntry where
  "sample_stored \<equiv> stored_entry sample_store_env 7 sample_type sample_entry"

lemma sample_live: "live_catalog sample_catalog_db"
  and sample_found: "catalog sample_store_env sample_catalog_db ''e1'' = Some sample_stored"
  using sample_catalog_live by (simp_all add: live_catalog_def)

lemma sample_stored_facts:
  "Status sample_stored = LifecycleRegistered" "resolveProbURL sample_stored = ''http://agent''"
  "ConsecutiveFailures (entry_Health sample_stored) = 0"
  by (simp_all add: stored_entry_def new_entry_def stamp_entry_def SyncToDB_def resolveProbURL_def
      sample_entry_def sample_type_def sample_store_env_def sample_codec_def Let_def)


theorem batch_order_irrelevant_witness:
  "catalog sample_store_env (snd (checkAll (sql_prober sample_store_env) sample_plugin (\<lambda>_. ClientError ''timeout'')
       (\<lambda>_. 9) rev 100 sample_catalog_db)) =
   catalog sample_store_env (snd (checkAll (sql_prober sample_store_env) sample_plugin (\<lambda>_. ClientError ''timeout'')
       (\<lambda>_. 9) (\<lambda>es. es) 100 sample_catalog_db))"
  unfolding sample_plugin_def using batch_order_irrelevant [OF sample_live, of rev "\<lambda>es. es"] by simp

theorem offline_at_threshold_and_recovery_witness:
  "(\<exists>v. catalog sample_store_env (probes (sql_prober sample_store_env) sample_plugin ''e1''
       (replicate 3 (\<lambda>_. ClientError ''timeout'', 9)) sample_catalog_db) ''e1'' = Some v \<and> Status v = LifecycleOffline) \<and>
   (\<exists>v. catalog sample_store_env (probes (sql_prober sample_store_env) sample_plugin ''e1''
       (replicate 3 (\<lambda>_. ClientError ''timeout'', 9) @ [(\<lambda>_. Response 204 5, 12)]) sample_catalog_db) ''e1'' = Some v \<and>
       Status v = LifecycleActive)"
  using offline_at_threshold_and_recovery [OF sample_live sample_found _ sample_stored_facts(2) _ _ _,
      of "replicate 3 (\<lambda>_. ClientError ''timeout'', 9)" "\<lambda>_. Response 204 5" 204 5 sample_plugin 12]
  by (auto simp: sample_stored_facts sample_plugin_def Health_New_def Second_def list_all_iff)

section \<open>A running probe and a manual change\<close>

text \<open>
  \<^bold>\<open>C39\<close> A probe reads the entry before the request and writes the result after it.  When an
  administrator deprecates the entry in between, the write puts a probed state back: the
  deprecation, answered with success, is lost.
\<close>

theorem deprecation_lost_to_running_probe:
  assumes "live_catalog s" and "catalog env s i = Some e" and "Status e \<noteq> LifecycleDeprecated"
  shows "\<exists>s1 s2. SQLStore_Get env i s = (Inr (Some e), s) \<and>
    PatchLifecycle env now1 i (Some LifecycleDeprecated) s =
      (JSONResponse 200 (lifecycle_view now1 LifecycleDeprecated e), s1) \<and>
    UpdateHealth now2 i (probeOne p http now2 e) s1 = (Inr (), s2) \<and>
    map_option (\<lambda>v. Status v = LifecycleDeprecated) (catalog env s1 i) = Some True \<and>
    map_option (\<lambda>v. Status v = LifecycleDeprecated) (catalog env s2 i) = Some False"
proof -
  have clean: "faults s = []" using assms(1) by (simp add: live_catalog_def)
  obtain r s1 where sl: "SetLifecycle now1 i LifecycleDeprecated s = (r, s1)"
    by (cases "SetLifecycle now1 i LifecycleDeprecated s")
  from SetLifecycle_refines [OF clean sl, of env] assms(2)
  have r: "r = Inr ()" and f1: "faults s1 = []"
    and c1: "catalog env s1 = (catalog env s)(i \<mapsto> lifecycle_view now1 LifecycleDeprecated e)" by simp_all
  obtain r2 s2 where up: "UpdateHealth now2 i (probeOne p http now2 e) s1 = (r2, s2)"
    by (cases "UpdateHealth now2 i (probeOne p http now2 e) s1")
  from UpdateHealth_refines [OF f1 up, of env] c1
  have r2: "r2 = Inr ()" and c2: "catalog env s2 = (catalog env s1)(i := map_option (health_view now2 (probeOne p http now2 e)) (catalog env s1 i))"
    by simp_all
  have "PatchLifecycle env now1 i (Some LifecycleDeprecated) s =
      (JSONResponse 200 (lifecycle_view now1 LifecycleDeprecated e), s1)"
    using sl r f1 c1 clean assms(2) by (simp add: PatchLifecycle_def op_defs Get_clean)
  with up r2 c1 c2 clean assms show ?thesis
    by (intro exI [of _ s1] exI [of _ s2]) (simp add: Get_clean lifecycle_view_def probeOne_not_deprecated)
qed

theorem deprecation_lost_to_running_probe_witness:
  "\<exists>s1 s2. PatchLifecycle sample_store_env 8 ''e1'' (Some LifecycleDeprecated) sample_catalog_db =
      (JSONResponse 200 (lifecycle_view 8 LifecycleDeprecated sample_stored), s1) \<and>
    UpdateHealth 9 ''e1'' (probeOne sample_plugin (\<lambda>_. Response 200 5) 9 sample_stored) s1 = (Inr (), s2) \<and>
    map_option (\<lambda>v. Status v = LifecycleDeprecated) (catalog sample_store_env s2 ''e1'') = Some False"
  using deprecation_lost_to_running_probe [OF sample_live sample_found, of 8 9 sample_plugin "\<lambda>_. Response 200 5"]
  by (auto simp: sample_stored_facts)

section \<open>The rate limiter\<close>

text \<open>
  The specification remembers every granted call and grants a call when the window has passed
  since every granted call of the same entry.  The code remembers one time per entry and forgets
  expired ones now and then.
\<close>

definition spec_allow :: "time \<Rightarrow> string \<Rightarrow> duration \<Rightarrow> ((string \<times> time) list, bool) act" where
  "spec_allow now i window = (\<lambda>hist.
     if list_all (\<lambda>(j, t). j = i \<longrightarrow> window \<le> now - t) hist then (True, (i, now) # hist) else (False, hist))"

text \<open>Granted calls that the limiter may have forgotten are older than the window.\<close>

definition limits :: "duration \<Rightarrow> time \<Rightarrow> (string \<times> time) list \<Rightarrow> probeRateLimiter \<Rightarrow> bool" where
  "limits window now hist r \<longleftrightarrow> (\<forall>i. case lastCall r i of
       Some t \<Rightarrow> (i, t) \<in> set hist \<and> (\<forall>t'. (i, t') \<in> set hist \<longrightarrow> t' \<le> t)
     | None \<Rightarrow> (\<forall>t'. (i, t') \<in> set hist \<longrightarrow> window \<le> now - t')) \<and>
     (\<forall>(i, t) \<in> set hist. t \<le> now)"

lemma limits_later: "limits window now hist r \<Longrightarrow> now \<le> now' \<Longrightarrow> limits window now' hist r"
  unfolding limits_def by (fastforce split: option.splits)

lemma limits_evict:
  "limits window now hist r \<Longrightarrow> limits window now hist (r\<lparr>lastCall := evict now window (lastCall r), lastCleanup := c\<rparr>)"
  unfolding limits_def evict_def by (fastforce split: option.splits)

lemma limits_decides:
  assumes "limits window now hist r"
  shows "list_all (\<lambda>(j, t). j = i \<longrightarrow> window \<le> now - t) hist \<longleftrightarrow>
    \<not> (case lastCall r i of Some prev \<Rightarrow> now - prev < window | None \<Rightarrow> False)"
proof (cases "lastCall r i")
  case None
  then show ?thesis using assms unfolding limits_def list_all_iff
    by (auto dest!: spec [of _ i])
next
  case (Some t)
  then have "(i, t) \<in> set hist" and "\<forall>t'. (i, t') \<in> set hist \<longrightarrow> t' \<le> t"
    using assms unfolding limits_def by (auto dest!: spec [of _ i])
  with Some show ?thesis unfolding list_all_iff by fastforce
qed

lemma limits_grant:
  "limits window now hist r \<Longrightarrow> limits window now ((i, now) # hist) (r\<lparr>lastCall := (lastCall r)(i \<mapsto> now)\<rparr>)"
  unfolding limits_def by (auto split: option.splits) (metis option.distinct(1))

lemma allow_refines:
  assumes R: "limits window now0 hist r" and "now0 \<le> now"
  shows "fst (allow now i window r) = fst (spec_allow now i window hist) \<and>
    limits window now (snd (spec_allow now i window hist)) (snd (allow now i window r))"
proof -
  define r1 where "r1 = (if IsZero (lastCleanup r) \<or> now - lastCleanup r \<ge> window
     then r\<lparr>lastCall := evict now window (lastCall r), lastCleanup := now\<rparr> else r)"
  have R1: "limits window now hist r1"
    using limits_later [OF assms] limits_evict unfolding r1_def by auto
  have "allow now i window r =
      (if (case lastCall r1 i of Some prev \<Rightarrow> now - prev < window | None \<Rightarrow> False) then (False, r1)
       else (True, r1\<lparr>lastCall := (lastCall r1)(i \<mapsto> now)\<rparr>))"
    by (simp add: allow_def r1_def Let_def)
  then show ?thesis
    using limits_decides [OF R1, of i] R1 limits_grant [OF R1, of i] by (simp add: spec_allow_def)
qed

text \<open>The map never holds a call older than two windows.\<close>

definition recent :: "duration \<Rightarrow> time \<Rightarrow> probeRateLimiter \<Rightarrow> bool" where
  "recent window now r \<longleftrightarrow>
     (\<forall>i t. lastCall r i = Some t \<longrightarrow> \<not> IsZero (lastCleanup r) \<and> lastCleanup r - t < window \<and> t \<le> now) \<and>
     (IsZero (lastCleanup r) \<or> lastCleanup r \<le> now)"

lemma allow_recent:
  assumes "recent window now0 r" and "now0 \<le> now" and "0 < window" and "zero_time < now"
  shows "recent window now (snd (allow now i window r)) \<and>
    (\<forall>j t. lastCall (snd (allow now i window r)) j = Some t \<longrightarrow> now - t < 2 * window)"
proof -
  define r1 where "r1 = (if IsZero (lastCleanup r) \<or> now - lastCleanup r \<ge> window
     then r\<lparr>lastCall := evict now window (lastCall r), lastCleanup := now\<rparr> else r)"
  have r1: "recent window now r1 \<and> \<not> IsZero (lastCleanup r1) \<and> now - lastCleanup r1 < window"
    using assms unfolding r1_def recent_def evict_def IsZero_def by (force split: option.splits if_splits)
  have "snd (allow now i window r) = r1 \<or> snd (allow now i window r) = r1\<lparr>lastCall := (lastCall r1)(i \<mapsto> now)\<rparr>"
    by (simp add: allow_def r1_def Let_def)
  then show ?thesis using r1 assms(3) unfolding recent_def by (force split: if_splits)
qed

text \<open>A sequence of requests, each an entry and a time.\<close>

fun answers :: "(time \<Rightarrow> string \<Rightarrow> ('r, bool) act) \<Rightarrow> (string \<times> time) list \<Rightarrow> 'r \<Rightarrow> bool list \<times> 'r" where
  "answers f [] r = ([], r)"
| "answers f ((i, now) # calls) r =
     (case f now i r of (b, r1) \<Rightarrow> (case answers f calls r1 of (bs, r2) \<Rightarrow> (b # bs, r2)))"

abbreviation limiter :: "duration \<Rightarrow> time \<Rightarrow> string \<Rightarrow> (probeRateLimiter, bool) act" where
  "limiter window now i \<equiv> allow now i window"

lemma answers_refine:
  assumes "limits window now0 hist r" and "recent window now0 r" and "0 < window" and "zero_time < now0"
    and "sorted (now0 # map snd calls)"
  shows "fst (answers (limiter window) calls r) = fst (answers (\<lambda>now i. spec_allow now i window) calls hist) \<and>
    recent window (List.last (now0 # map snd calls)) (snd (answers (limiter window) calls r)) \<and>
    (calls \<noteq> [] \<longrightarrow> (\<forall>j t. lastCall (snd (answers (limiter window) calls r)) j = Some t \<longrightarrow>
       snd (List.last calls) - t < 2 * window))"
  using assms
proof (induction calls arbitrary: now0 hist r)
  case Nil
  then show ?case by simp
next
  case (Cons c calls)
  obtain i now where c: "c = (i, now)" by (cases c)
  obtain b r1 where a: "allow now i window r = (b, r1)" by (cases "allow now i window r")
  obtain b' hist1 where sp: "spec_allow now i window hist = (b', hist1)" by (cases "spec_allow now i window hist")
  have le: "now0 \<le> now" and so: "sorted (now # map snd calls)" using Cons.prems(5) c by auto
  have step: "b = b'" "limits window now hist1 r1"
    using allow_refines [OF Cons.prems(1) le, of i] a sp by simp_all
  have rec: "recent window now r1" "\<forall>j t. lastCall r1 j = Some t \<longrightarrow> now - t < 2 * window"
    using allow_recent [OF Cons.prems(2) le Cons.prems(3), of i] Cons.prems(4) le a by auto
  from Cons.IH [OF step(2) rec(1) Cons.prems(3) _ so] Cons.prems(4) le show ?case
    using a sp step(1) rec(2) by (auto simp: c split: prod.splits)
qed

text \<open>
  \<^bold>\<open>C22\<close> For any sequence of requests with non-decreasing times the limiter answers as its
  specification, which remembers every granted call, would: a request is granted exactly when no
  request for the same entry was granted within the window.  Forgetting expired calls is invisible,
  and the map stays bounded: after each request it holds only calls granted within the last two
  windows.
\<close>

theorem rate_limiter_refines_history:
  assumes "0 < window" and "sorted (map snd calls)" and "calls \<noteq> []" and "zero_time < snd (hd calls)"
  shows "fst (answers (limiter window) calls new_limiter) = fst (answers (\<lambda>now i. spec_allow now i window) calls []) \<and>
    (\<forall>j t. lastCall (snd (answers (limiter window) calls new_limiter)) j = Some t \<longrightarrow>
       snd (List.last calls) - t < 2 * window)"
proof -
  let ?t = "snd (hd calls)"
  have "limits window ?t [] new_limiter" "recent window ?t new_limiter"
    by (simp_all add: limits_def recent_def new_limiter_def IsZero_def)
  moreover have "sorted (?t # map snd calls)"
    using assms(2,3) by (cases calls) (auto simp: sorted_iff_nth_mono)
  ultimately show ?thesis using answers_refine [of window ?t "[]" new_limiter calls] assms by simp
qed

theorem rate_limiter_refines_history_witness:
  "fst (answers (limiter (5 * Second)) [(''a'', 0), (''a'', 4 * Second), (''b'', 4 * Second), (''a'', 5 * Second)] new_limiter) =
     [True, False, True, True]"
  using rate_limiter_refines_history [of "5 * Second" "[(''a'', 0), (''a'', 4 * Second), (''b'', 4 * Second), (''a'', 5 * Second)]"]
  by (simp add: Second_def zero_time_def spec_allow_def)

end
