(* ===== verification/Parsers.thy ===== *)
theory Parsers
  imports Capability_Json
begin

text \<open>
  The card parsers (\<^verbatim>\<open>plugins/parsers/a2a\<close>, \<^verbatim>\<open>plugins/parsers/mcp\<close>) behind the interface
  \<^verbatim>\<open>ParserPlugin\<close> of \<^verbatim>\<open>internal/kernel/plugin.go\<close>: structural validation and the translation
  of a card into an agent type with its capabilities.

  A card arrives as bytes; \<^verbatim>\<open>unmarshal_json\<close> is the syntactic half of \<^verbatim>\<open>encoding/json\<close>
  (text to value, \<^verbatim>\<open>None\<close> for malformed text) and \<^verbatim>\<open>sha256_hex\<close> the digest that
  \<^verbatim>\<open>ComputeAgentKey\<close> uses.  The other half, decoding a value into a struct, is modelled: keys
  match struct fields without regard to ASCII case, the last occurrence of a key counts (Go merges a
  nested object that is given twice, which is not modelled), null leaves
  a field alone, and a value of the wrong type is an error.  Spans, metrics and log lines are left out.
\<close>

section \<open>Decoding a card\<close>

record parser_env =
  unmarshal_json :: "string \<Rightarrow> json option"
  sha256_hex :: "string \<Rightarrow> string"

definition ComputeAgentKey :: "parser_env \<Rightarrow> Protocol \<Rightarrow> string \<Rightarrow> string" where
  "ComputeAgentKey env protocol endpoint = sha256_hex env (protocol @ endpoint)"

definition fold_char :: "char \<Rightarrow> char" where
  "fold_char c = (let n = of_char c :: nat in if 65 \<le> n \<and> n \<le> 90 then char_of (n + 32) else c)"

definition fold_key :: "string \<Rightarrow> string" where
  "fold_key = map fold_char"

definition raw_lookup :: "(string \<times> json) list \<Rightarrow> object" where
  "raw_lookup l = (\<lambda>k. map_of (rev (map (\<lambda>(k, v). (fold_key k, v)) l)) (fold_key k))"

definition struct_lookup :: "(string \<times> json) list \<Rightarrow> object" where
  "struct_lookup l = raw_lookup (filter (\<lambda>(_, v). v \<noteq> JNull) l)"

text \<open>A JSON object read as a Go map: exact keys, the last occurrence counts.\<close>

definition go_map :: "(string \<times> 'a) list \<Rightarrow> (string \<times> 'a) list" where
  "go_map l = AList.clearjunk (rev l)"

definition bool_ptr :: "object \<Rightarrow> string \<Rightarrow> bool option option" where
  "bool_ptr m k = (case m k of None \<Rightarrow> Some None | Some JNull \<Rightarrow> Some None | Some (JBool b) \<Rightarrow> Some (Some b) | _ \<Rightarrow> None)"

text \<open>A slice of structs, and a struct behind a pointer; null decodes into the zero struct.\<close>

definition object_of :: "json \<Rightarrow> (string \<times> json) list option" where
  "object_of j = (case j of JObj l \<Rightarrow> Some l | JNull \<Rightarrow> Some [] | _ \<Rightarrow> None)"

fun structs :: "((string \<times> json) list \<Rightarrow> 'a option) \<Rightarrow> json list \<Rightarrow> 'a list option" where
  "structs d [] = Some []"
| "structs d (j # js) = do { l \<leftarrow> object_of j; x \<leftarrow> d l; xs \<leftarrow> structs d js; Some (x # xs) }"

definition structs_field :: "((string \<times> json) list \<Rightarrow> 'a option) \<Rightarrow> object \<Rightarrow> string \<Rightarrow> 'a list option" where
  "structs_field d m k = Option.bind (list_field m k) (structs d)"

definition struct_ptr :: "((string \<times> json) list \<Rightarrow> 'a option) \<Rightarrow> object \<Rightarrow> string \<Rightarrow> 'a option option" where
  "struct_ptr d m k = (case m k of None \<Rightarrow> Some None | Some JNull \<Rightarrow> Some None
     | Some (JObj l) \<Rightarrow> map_option Some (d l) | _ \<Rightarrow> None)"

section \<open>A2A cards\<close>

record a2aProvider =
  ap_Organization :: string
  ap_URL :: string

record fullSkill =
  fs_ID :: string
  fs_Name :: string
  fs_Description :: string
  fs_Tags :: "string list"
  fs_InputModes :: "string list"
  fs_OutputModes :: "string list"
  fs_SecurityRequirements :: "json list"

record fullInterface =
  fi_URL :: string
  fi_Binding :: string

record fullSignature =
  fg_Algorithm :: string
  fg_KeyID :: string

record capExtension =
  ce_URI :: string
  ce_Required :: bool

record card_capabilities =
  cc_Extensions :: "capExtension list"
  cc_SupportsExtendedAgentCard :: "bool option"

text \<open>\<^verbatim>\<open>card_SecuritySchemes\<close> is a raw message: \<^verbatim>\<open>None\<close> when the field is absent.\<close>

record fullCard =
  card_Name :: string
  card_Description :: string
  card_URL :: string
  card_Version :: string
  card_Provider :: "a2aProvider option"
  card_Skills :: "fullSkill list"
  card_SupportedInterfaces :: "fullInterface list"
  card_SecuritySchemes :: "json option"
  card_SecurityRequirements :: "json list"
  card_Signatures :: "fullSignature list"
  card_SupportsExtendedAgentCard :: "bool option"
  card_Capabilities :: "card_capabilities option"
  card_StateTransitionHistory :: "bool option"

definition provider_of_json :: "(string \<times> json) list \<Rightarrow> a2aProvider option" where
  "provider_of_json l = (let m = struct_lookup l in do {
     g \<leftarrow> str_field m ''organization''; u \<leftarrow> str_field m ''url'';
     Some \<lparr>ap_Organization = g, ap_URL = u\<rparr>})"

definition skill_of_json :: "(string \<times> json) list \<Rightarrow> fullSkill option" where
  "skill_of_json l = (let m = struct_lookup l in do {
     i \<leftarrow> str_field m ''id''; n \<leftarrow> str_field m ''name''; d \<leftarrow> str_field m ''description'';
     t \<leftarrow> strs_field m ''tags''; im \<leftarrow> strs_field m ''inputModes''; om \<leftarrow> strs_field m ''outputModes'';
     r \<leftarrow> list_field m ''securityRequirements'';
     Some \<lparr>fs_ID = i, fs_Name = n, fs_Description = d, fs_Tags = t, fs_InputModes = im,
           fs_OutputModes = om, fs_SecurityRequirements = r\<rparr>})"

definition interface_of_json :: "(string \<times> json) list \<Rightarrow> fullInterface option" where
  "interface_of_json l = (let m = struct_lookup l in do {
     u \<leftarrow> str_field m ''url''; b \<leftarrow> str_field m ''binding''; Some \<lparr>fi_URL = u, fi_Binding = b\<rparr>})"

definition signature_of_json :: "(string \<times> json) list \<Rightarrow> fullSignature option" where
  "signature_of_json l = (let m = struct_lookup l in do {
     a \<leftarrow> str_field m ''algorithm''; k \<leftarrow> str_field m ''keyId''; Some \<lparr>fg_Algorithm = a, fg_KeyID = k\<rparr>})"

definition extension_of_json :: "(string \<times> json) list \<Rightarrow> capExtension option" where
  "extension_of_json l = (let m = struct_lookup l in do {
     u \<leftarrow> str_field m ''uri''; r \<leftarrow> bool_field m ''required''; Some \<lparr>ce_URI = u, ce_Required = r\<rparr>})"

definition capabilities_of_json :: "(string \<times> json) list \<Rightarrow> card_capabilities option" where
  "capabilities_of_json l = (let m = struct_lookup l in do {
     e \<leftarrow> structs_field extension_of_json m ''extensions'';
     x \<leftarrow> bool_ptr m ''supportsExtendedAgentCard'';
     Some \<lparr>cc_Extensions = e, cc_SupportsExtendedAgentCard = x\<rparr>})"

definition card_of_json :: "(string \<times> json) list \<Rightarrow> fullCard option" where
  "card_of_json l = (let m = struct_lookup l in do {
     n \<leftarrow> str_field m ''name''; d \<leftarrow> str_field m ''description''; u \<leftarrow> str_field m ''url'';
     v \<leftarrow> str_field m ''version'';
     p \<leftarrow> struct_ptr provider_of_json m ''provider'';
     sk \<leftarrow> structs_field skill_of_json m ''skills'';
     si \<leftarrow> structs_field interface_of_json m ''supportedInterfaces'';
     sr \<leftarrow> list_field m ''securityRequirements'';
     sg \<leftarrow> structs_field signature_of_json m ''signatures'';
     sx \<leftarrow> bool_ptr m ''supportsExtendedAgentCard'';
     cc \<leftarrow> struct_ptr capabilities_of_json m ''capabilities'';
     sh \<leftarrow> bool_ptr m ''stateTransitionHistory'';
     Some \<lparr>card_Name = n, card_Description = d, card_URL = u, card_Version = v, card_Provider = p,
           card_Skills = sk, card_SupportedInterfaces = si,
           card_SecuritySchemes = raw_lookup l ''securitySchemes'', card_SecurityRequirements = sr,
           card_Signatures = sg, card_SupportsExtendedAgentCard = sx, card_Capabilities = cc,
           card_StateTransitionHistory = sh\<rparr>})"

definition decode_card :: "parser_env \<Rightarrow> string \<Rightarrow> fullCard option" where
  "decode_card env raw = do { j \<leftarrow> unmarshal_json env raw; l \<leftarrow> object_of j; card_of_json l }"

section \<open>Validation of A2A cards\<close>

record ValidationError =
  ve_Field :: string
  ve_Message :: string

record ValidationResult =
  Valid :: bool
  vr_SpecVersion :: string
  Errors :: "ValidationError list"
  Warnings :: "string list"
  Preview :: "(string \<times> json) list option"

abbreviation verr :: "string \<Rightarrow> string \<Rightarrow> ValidationError" where
  "verr f m \<equiv> \<lparr>ve_Field = f, ve_Message = m\<rparr>"

fun itoa_loop :: "nat \<Rightarrow> string \<Rightarrow> string" where
  "itoa_loop n acc = (if n > 0 then itoa_loop (n div 10) (char_of (48 + n mod 10) # acc) else acc)"

declare itoa_loop.simps [simp del]

definition itoa :: "nat \<Rightarrow> string" where
  "itoa n = (if n = 0 then ''0'' else itoa_loop n '''')"

definition detectSpecVersion :: "fullCard \<Rightarrow> string" where
  "detectSpecVersion ac =
     (if card_SupportsExtendedAgentCard ac \<noteq> None then ''0.3''
      else if (case card_Capabilities ac of None \<Rightarrow> False | Some c \<Rightarrow> cc_SupportsExtendedAgentCard c \<noteq> None)
      then ''1.0'' else '''')"

definition card_extensions :: "fullCard \<Rightarrow> capExtension list" where
  "card_extensions ac = (case card_Capabilities ac of None \<Rightarrow> [] | Some c \<Rightarrow> cc_Extensions c)"

definition validateRequiredFields :: "fullCard \<Rightarrow> ValidationError list" where
  "validateRequiredFields ac =
     (if card_Name ac = '''' then [verr ''name'' ''name is required''] else []) @
     (if card_Description ac = '''' then [verr ''description'' ''description is required''] else []) @
     (if card_Version ac = '''' then [verr ''version'' ''version is required''] else []) @
     (if length (card_SupportedInterfaces ac) = 0 \<and> card_URL ac = ''''
      then [verr ''url'' ''url or supportedInterfaces is required''] else []) @
     concat (map (\<lambda>(i, ext). if ce_URI ext = ''''
        then [verr (''capabilities.extensions['' @ itoa i @ ''].uri'') ''extension uri is required''] else [])
       (enumerate 0 (card_extensions ac)))"

definition validateSkills :: "fullCard \<Rightarrow> ValidationError list" where
  "validateSkills ac = concat (map (\<lambda>(i, s). let prefix = ''skills['' @ itoa i @ '']'' in
       (if fs_ID s = '''' then [verr (prefix @ ''.id'') ''skill id is required''] else []) @
       (if fs_Name s = '''' then [verr (prefix @ ''.name'') ''skill name is required''] else []) @
       (if fs_Description s = '''' then [verr (prefix @ ''.description'') ''skill description is required''] else []))
     (enumerate 0 (card_Skills ac)))"

definition collectWarnings :: "fullCard \<Rightarrow> string \<Rightarrow> string list" where
  "collectWarnings ac specVersion =
     (if card_StateTransitionHistory ac \<noteq> None \<and> (specVersion = ''1.0'' \<or> specVersion = '''')
      then [''stateTransitionHistory is deprecated in v1.0''] else [])"

definition type_of_scheme :: "(string \<times> json) list \<Rightarrow> string option" where
  "type_of_scheme l = str_field (struct_lookup l) ''type''"

definition buildSecurityPreviewNames :: "json option \<Rightarrow> string list" where
  "buildSecurityPreviewNames raw = (case raw of
       None \<Rightarrow> []
     | Some JNull \<Rightarrow> []
     | Some (JObj l) \<Rightarrow> sort (map fst (go_map l))
     | Some (JArr js) \<Rightarrow> (case structs type_of_scheme js of Some ns \<Rightarrow> ns | None \<Rightarrow> [])
     | Some _ \<Rightarrow> [])"

definition buildPreview :: "fullCard \<Rightarrow> string \<Rightarrow> (string \<times> json) list" where
  "buildPreview ac specVersion =
     [(''display_name'', JStr (card_Name ac)), (''description'', JStr (card_Description ac)),
      (''protocol'', JStr ''a2a''), (''spec_version'', JStr specVersion),
      (''skills_count'', JNum (decimal (int (length (card_Skills ac))))),
      (''extensions_count'', JNum (decimal (int (length (card_extensions ac))))),
      (''security_schemes'', JArr (map JStr (buildSecurityPreviewNames (card_SecuritySchemes ac)))),
      (''interfaces'', JArr (map (\<lambda>i. JStr (if fi_Binding i \<noteq> '''' then fi_Binding i else fi_URL i))
         (card_SupportedInterfaces ac)))]"

definition invalid_json :: ValidationResult where
  "invalid_json = \<lparr>Valid = False, vr_SpecVersion = '''',
     Errors = [verr ''json'' (''invalid JSON: '' @ error_string json_error)], Warnings = [], Preview = None\<rparr>"

definition ValidateCard :: "parser_env \<Rightarrow> string \<Rightarrow> ValidationResult" where
  "ValidateCard env raw = (case decode_card env raw of
       None \<Rightarrow> invalid_json
     | Some ac \<Rightarrow>
         (let specVersion = detectSpecVersion ac;
              errs = validateRequiredFields ac @ validateSkills ac;
              warnings = collectWarnings ac specVersion
          in if length errs > 0
             then \<lparr>Valid = False, vr_SpecVersion = specVersion, Errors = errs, Warnings = warnings, Preview = None\<rparr>
             else \<lparr>Valid = True, vr_SpecVersion = specVersion, Errors = [], Warnings = warnings,
                   Preview = Some (buildPreview ac specVersion)\<rparr>))"

text \<open>The plugin method copies the result into the kernel's types.\<close>

definition A2A_Validate :: "parser_env \<Rightarrow> string \<Rightarrow> ValidationResult" where
  "A2A_Validate env raw = (let vr = ValidateCard env raw in
     \<lparr>Valid = Valid vr, vr_SpecVersion = vr_SpecVersion vr,
      Errors = map (\<lambda>e. verr (ve_Field e) (ve_Message e)) (Errors vr), Warnings = Warnings vr,
      Preview = Preview vr\<rparr>)"

lemma A2A_Validate_eq [simp]: "A2A_Validate env = ValidateCard env"
proof
  have "map (\<lambda>e. verr (ve_Field e) (ve_Message e)) es = es" for es :: "ValidationError list"
    by (induction es) auto
  then show "A2A_Validate env raw = ValidateCard env raw" for raw by (simp add: A2A_Validate_def Let_def)
qed

section \<open>Parsing A2A cards\<close>

definition countSecuritySchemes :: "json option \<Rightarrow> nat" where
  "countSecuritySchemes raw = (case raw of Some (JObj l) \<Rightarrow> length (go_map l) | Some (JArr js) \<Rightarrow> length js | _ \<Rightarrow> 0)"

definition resolveEndpoint :: "fullCard \<Rightarrow> error + string" where
  "resolveEndpoint ac =
     (let endpoint = (case card_SupportedInterfaces ac of
            i # _ \<Rightarrow> if fi_URL i \<noteq> '''' then fi_URL i else card_URL ac
          | [] \<Rightarrow> card_URL ac)
      in if endpoint = '''' then Inl (errorf ''a2a card missing required field: url or supportedInterfaces'')
         else Inr endpoint)"

text \<open>\<^verbatim>\<open>json.Unmarshal(reqData, &schemes)\<close> into \<^verbatim>\<open>map[string][]string\<close>.\<close>

definition requirement_schemes :: "json \<Rightarrow> (string \<times> string list) list option" where
  "requirement_schemes reqData = (case reqData of
       JNull \<Rightarrow> Some [] | JObj l \<Rightarrow> map_option go_map (strs_values l) | _ \<Rightarrow> None)"

fun requirements :: "string \<Rightarrow> json list \<Rightarrow> Capability list" where
  "requirements skillRef [] = []"
| "requirements skillRef (r # rs) = (case requirement_schemes r of
       None \<Rightarrow> requirements skillRef rs
     | Some ss \<Rightarrow> CapSecurityRequirement \<lparr>Schemes = ss, SkillRef = skillRef\<rparr> # requirements skillRef rs)"

definition parseSkillSecurityRequirements :: "string \<Rightarrow> fullSkill \<Rightarrow> Capability list" where
  "parseSkillSecurityRequirements skillName skill = requirements skillName (fs_SecurityRequirements skill)"

definition buildSecurityRequirements :: "fullCard \<Rightarrow> Capability list" where
  "buildSecurityRequirements ac = requirements '''' (card_SecurityRequirements ac)"

definition buildSkills :: "fullCard \<Rightarrow> Capability list" where
  "buildSkills ac = concat (map (\<lambda>s.
     CapSkill \<lparr>skill_Name = fs_Name s, skill_Description = fs_Description s, skill_Tags = fs_Tags s,
       skill_InputModes = fs_InputModes s, skill_OutputModes = fs_OutputModes s\<rparr> #
     (if length (fs_SecurityRequirements s) > 0 then parseSkillSecurityRequirements (fs_Name s) s else []))
     (card_Skills ac))"

definition buildProvider :: "fullCard \<Rightarrow> Provider" where
  "buildProvider ac = (case card_Provider ac of
       None \<Rightarrow> \<lparr>provider_ID = '''', Organization = '''', Team = '''', provider_URL = '''', provider_CreatedOn = zero_time\<rparr>
     | Some p \<Rightarrow> \<lparr>provider_ID = '''', Organization = ap_Organization p, Team = ap_Organization p,
         provider_URL = ap_URL p, provider_CreatedOn = zero_time\<rparr>)"

definition buildA2AMetaCaps :: "fullCard \<Rightarrow> Capability list" where
  "buildA2AMetaCaps ac =
     map (\<lambda>e. CapExtension \<lparr>ext_URI = ce_URI e, ext_Required = ce_Required e\<rparr>) (card_extensions ac) @
     map (\<lambda>i. CapInterface \<lparr>iface_URL = fi_URL i, iface_Binding = fi_Binding i\<rparr>) (card_SupportedInterfaces ac) @
     map (\<lambda>g. CapSignature \<lparr>sig_Algorithm = fg_Algorithm g, sig_KeyID = fg_KeyID g\<rparr>) (card_Signatures ac)"

text \<open>\<^verbatim>\<open>raw[k].(string)\<close>, and the strings of a JSON object.\<close>

definition str_at :: "object \<Rightarrow> string \<Rightarrow> string option" where
  "str_at m k = (case m k of Some (JStr s) \<Rightarrow> Some s | _ \<Rightarrow> None)"

definition str_or :: "object \<Rightarrow> string \<Rightarrow> string" where
  "str_or m k = (case str_at m k of Some s \<Rightarrow> s | None \<Rightarrow> '''')"

fun string_pairs :: "(string \<times> json) list \<Rightarrow> (string \<times> string) list" where
  "string_pairs [] = []"
| "string_pairs ((k, JStr s) # l) = (k, s) # string_pairs l"
| "string_pairs (_ # l) = string_pairs l"

definition oauth_flow :: "string \<Rightarrow> object \<Rightarrow> A2AOAuthFlow" where
  "oauth_flow flowType m =
     \<lparr>FlowType = flowType, AuthorizationURL = str_or m ''authorizationUrl'', TokenURL = str_or m ''tokenUrl'',
      RefreshURL = str_or m ''refreshUrl'', DeviceAuthURL = str_or m ''deviceAuthorizationUrl'',
      Scopes = (case m ''scopes'' of Some (JObj l) \<Rightarrow> string_pairs (go_map l) | _ \<Rightarrow> []),
      Deprecated = (flowType = ''implicit'' \<or> flowType = ''password'')\<rparr>"

fun oauth_flows :: "object \<Rightarrow> string list \<Rightarrow> A2AOAuthFlow list" where
  "oauth_flows flows [] = []"
| "oauth_flows flows (ft # fts) = (case flows ft of
       Some (JObj l) \<Rightarrow> oauth_flow ft (map_of (go_map l)) # oauth_flows flows fts
     | _ \<Rightarrow> oauth_flows flows fts)"

definition applyOAuthFlows :: "object \<Rightarrow> A2ASecurityScheme \<Rightarrow> A2ASecurityScheme" where
  "applyOAuthFlows raw scheme = (case raw ''flows'' of
       Some (JObj l) \<Rightarrow> scheme\<lparr>OAuthFlows := OAuthFlows scheme @
         oauth_flows (map_of (go_map l)) (sort (map fst (go_map l)))\<rparr>
     | _ \<Rightarrow> scheme)"

definition new_scheme :: "string \<Rightarrow> string \<Rightarrow> object \<Rightarrow> A2ASecurityScheme" where
  "new_scheme schemeName schemeType raw =
     \<lparr>SchemeName = schemeName, scheme_Type = schemeType, scheme_Description = str_or raw ''description'',
      APIKeyLocation = '''', APIKeyName = '''', HTTPScheme = '''', BearerFormat = '''', OAuthFlows = [],
      OAuth2MetadataURL = '''', OpenIDConnectURL = '''', scheme_Method = '''', scheme_Name = schemeName\<rparr>"

definition parseSecurityScheme :: "string \<Rightarrow> json \<Rightarrow> A2ASecurityScheme option" where
  "parseSecurityScheme schemeName data = (case object_of data of None \<Rightarrow> None | Some l \<Rightarrow>
     (let raw = map_of (go_map l); schemeType = str_or raw ''type'' in
      if schemeType = '''' then None
      else let scheme = new_scheme schemeName schemeType raw in Some (
        if schemeType = ''apiKey'' then scheme\<lparr>APIKeyLocation := str_or raw ''in'', APIKeyName := str_or raw ''name''\<rparr>
        else if schemeType = ''http'' then scheme\<lparr>HTTPScheme := str_or raw ''scheme'', BearerFormat := str_or raw ''bearerFormat''\<rparr>
        else if schemeType = ''oauth2'' then
          (applyOAuthFlows raw scheme)\<lparr>OAuth2MetadataURL := str_or raw ''oauth2MetadataUrl''\<rparr>
        else if schemeType = ''openIdConnect'' then scheme\<lparr>OpenIDConnectURL := str_or raw ''openIdConnectUrl''\<rparr>
        else scheme)))"

definition parseSecuritySchemeV03 :: "string \<Rightarrow> json \<Rightarrow> A2ASecurityScheme option" where
  "parseSecuritySchemeV03 schemeName data = (case object_of data of None \<Rightarrow> None | Some l \<Rightarrow>
     (let raw = map_of (go_map l) in
      case str_at raw ''type'' of None \<Rightarrow> None
      | Some schemeType \<Rightarrow>
        let scheme = new_scheme schemeName schemeType raw;
            s1 = (case str_at raw ''method'' of None \<Rightarrow> scheme
                  | Some mth \<Rightarrow> let t = scheme\<lparr>scheme_Method := mth\<rparr> in
                      if schemeType = ''http'' then t\<lparr>HTTPScheme := mth\<rparr> else t)
        in Some (case str_at raw ''name'' of None \<Rightarrow> s1
                 | Some name \<Rightarrow> if schemeType = ''apiKey'' then s1\<lparr>APIKeyName := name\<rparr> else s1)))"

fun schemes_v10 :: "object \<Rightarrow> string list \<Rightarrow> Capability list" where
  "schemes_v10 m [] = []"
| "schemes_v10 m (n # ns) = (case parseSecurityScheme n (case m n of Some j \<Rightarrow> j | None \<Rightarrow> JNull) of
       None \<Rightarrow> schemes_v10 m ns | Some c \<Rightarrow> CapSecurityScheme c # schemes_v10 m ns)"

fun schemes_v03 :: "nat \<Rightarrow> json list \<Rightarrow> Capability list" where
  "schemes_v03 i [] = []"
| "schemes_v03 i (j # js) = (case Option.bind (object_of j) type_of_scheme of
       None \<Rightarrow> schemes_v03 (Suc i) js
     | Some ty \<Rightarrow> (case parseSecuritySchemeV03 (ty @ ''Auth'' @ decimal (int i)) j of
           None \<Rightarrow> schemes_v03 (Suc i) js
         | Some c \<Rightarrow> CapSecurityScheme c # schemes_v03 (Suc i) js))"

definition buildSecurityCaps :: "fullCard \<Rightarrow> error + Capability list" where
  "buildSecurityCaps ac = (case card_SecuritySchemes ac of
       None \<Rightarrow> Inr []
     | Some JNull \<Rightarrow> Inr []
     | Some (JObj l) \<Rightarrow> Inr (schemes_v10 (map_of (go_map l)) (sort (map fst (go_map l))))
     | Some (JArr js) \<Rightarrow> Inr (schemes_v03 0 js)
     | Some _ \<Rightarrow> Inl (errorf ''securitySchemes is neither v1.0 map nor v0.3 array''))"

definition card_caps :: "fullCard \<Rightarrow> Capability list" where
  "card_caps ac = buildSkills ac @ buildA2AMetaCaps ac @
     (case buildSecurityCaps ac of Inl _ \<Rightarrow> [] | Inr cs \<Rightarrow> cs) @ buildSecurityRequirements ac"

definition parsed_type :: "parser_env \<Rightarrow> Protocol \<Rightarrow> string \<Rightarrow> string \<Rightarrow> string \<Rightarrow> Provider option \<Rightarrow> time \<Rightarrow>
    Capability list \<Rightarrow> string \<Rightarrow> AgentType" where
  "parsed_type env protocol endpoint version specVersion provider created caps raw =
     \<lparr>agent_type_ID = '''', AgentKey = ComputeAgentKey env protocol endpoint, agent_Protocol = protocol,
      Endpoint = endpoint, agent_Version = version, agent_SpecVersion = specVersion, ProviderID = None,
      agent_Provider = provider, CreatedOn = created, Capabilities = caps, RawBytes = raw\<rparr>"

definition A2A_Parse :: "parser_env \<Rightarrow> string \<Rightarrow> error + AgentType" where
  "A2A_Parse env raw = (case decode_card env raw of
       None \<Rightarrow> Inl (wrapf ''parsing a2a card'' json_error)
     | Some ac \<Rightarrow>
         if card_Name ac = '''' then Inl (errorf ''a2a card missing required field: name'')
         else (case resolveEndpoint ac of
             Inl e \<Rightarrow> Inl e
           | Inr endpoint \<Rightarrow> Inr (parsed_type env ProtocolA2A endpoint (card_Version ac)
               (detectSpecVersion ac) (Some (buildProvider ac)) zero_time (card_caps ac) raw)))"

section \<open>MCP cards\<close>

record mcpCard =
  mcp_Name :: string
  mcp_Description :: string
  mcp_Version :: string
  mcp_Remotes :: "string list"
  mcp_Tools :: "MCPTool list"
  mcp_Resources :: "MCPResource list"
  mcp_Prompts :: "MCPPrompt list"

definition remote_of_json :: "(string \<times> json) list \<Rightarrow> string option" where
  "remote_of_json l = str_field (struct_lookup l) ''url''"

definition tool_of_json :: "(string \<times> json) list \<Rightarrow> MCPTool option" where
  "tool_of_json l = (let m = struct_lookup l in do {
     n \<leftarrow> str_field m ''name''; d \<leftarrow> str_field m ''description'';
     Some \<lparr>tool_Name = n, tool_Description = d,
           InputSchema = (case m ''inputSchema'' of Some v \<Rightarrow> v | None \<Rightarrow> JNull)\<rparr>})"

definition resource_of_json :: "(string \<times> json) list \<Rightarrow> MCPResource option" where
  "resource_of_json l = (let m = struct_lookup l in do {
     n \<leftarrow> str_field m ''name''; u \<leftarrow> str_field m ''uri''; d \<leftarrow> str_field m ''description'';
     Some \<lparr>resource_Name = n, resource_URI = u, resource_Description = d\<rparr>})"

definition prompt_of_json :: "(string \<times> json) list \<Rightarrow> MCPPrompt option" where
  "prompt_of_json l = (let m = struct_lookup l in do {
     n \<leftarrow> str_field m ''name''; d \<leftarrow> str_field m ''description''; a \<leftarrow> list_field m ''arguments'';
     Some \<lparr>prompt_Name = n, prompt_Description = d, Arguments = a\<rparr>})"

definition mcp_of_json :: "(string \<times> json) list \<Rightarrow> mcpCard option" where
  "mcp_of_json l = (let m = struct_lookup l in do {
     n \<leftarrow> str_field m ''name''; d \<leftarrow> str_field m ''description''; v \<leftarrow> str_field m ''version'';
     r \<leftarrow> structs_field remote_of_json m ''remotes''; t \<leftarrow> structs_field tool_of_json m ''tools'';
     rs \<leftarrow> structs_field resource_of_json m ''resources''; p \<leftarrow> structs_field prompt_of_json m ''prompts'';
     Some \<lparr>mcp_Name = n, mcp_Description = d, mcp_Version = v, mcp_Remotes = r, mcp_Tools = t,
           mcp_Resources = rs, mcp_Prompts = p\<rparr>})"

definition decode_mcp :: "parser_env \<Rightarrow> string \<Rightarrow> mcpCard option" where
  "decode_mcp env raw = do { j \<leftarrow> unmarshal_json env raw; l \<leftarrow> object_of j; mcp_of_json l }"

definition no_remote :: "mcpCard \<Rightarrow> bool" where
  "no_remote ac \<longleftrightarrow> (case mcp_Remotes ac of [] \<Rightarrow> True | u # _ \<Rightarrow> u = '''')"

definition MCP_Parse :: "parser_env \<Rightarrow> time \<Rightarrow> string \<Rightarrow> error + AgentType" where
  "MCP_Parse env now raw = (case decode_mcp env raw of
       None \<Rightarrow> Inl (wrapf ''parsing mcp card'' json_error)
     | Some ac \<Rightarrow>
         if mcp_Name ac = '''' then Inl (errorf ''mcp card missing required field: name'')
         else if no_remote ac then Inl (errorf ''mcp card missing required field: remotes[0].url'')
         else Inr (parsed_type env ProtocolMCP (hd (mcp_Remotes ac)) (mcp_Version ac) '''' None now
             (map CapTool (mcp_Tools ac) @ map CapResource (mcp_Resources ac) @ map CapPrompt (mcp_Prompts ac)) raw))"

definition MCP_Validate :: "parser_env \<Rightarrow> string \<Rightarrow> ValidationResult" where
  "MCP_Validate env raw = (case decode_mcp env raw of
       None \<Rightarrow> invalid_json
     | Some ac \<Rightarrow>
         (let errs = (if mcp_Name ac = '''' then [verr ''name'' ''name is required''] else []) @
                     (if no_remote ac then [verr ''remotes'' ''remotes[0].url is required''] else [])
          in if length errs > 0
             then \<lparr>Valid = False, vr_SpecVersion = '''', Errors = errs, Warnings = [], Preview = None\<rparr>
             else \<lparr>Valid = True, vr_SpecVersion = '''', Errors = [], Warnings = [],
                   Preview = Some [(''display_name'', JStr (mcp_Name ac)), (''description'', JStr (mcp_Description ac)),
                     (''protocol'', JStr ''mcp''), (''tools_count'', JNum (decimal (int (length (mcp_Tools ac)))))]\<rparr>))"

section \<open>The plugin interface\<close>

record ParserPlugin =
  pp_Protocol :: Protocol
  pp_Parse :: "time \<Rightarrow> string \<Rightarrow> error + AgentType"
  pp_Validate :: "string \<Rightarrow> ValidationResult"
  pp_CardPath :: string

definition a2a_plugin :: "parser_env \<Rightarrow> ParserPlugin" where
  "a2a_plugin env = \<lparr>pp_Protocol = ProtocolA2A, pp_Parse = \<lambda>_ raw. A2A_Parse env raw,
     pp_Validate = A2A_Validate env, pp_CardPath = ''/.well-known/agent-card.json''\<rparr>"

definition mcp_plugin :: "parser_env \<Rightarrow> ParserPlugin" where
  "mcp_plugin env = \<lparr>pp_Protocol = ProtocolMCP, pp_Parse = MCP_Parse env,
     pp_Validate = MCP_Validate env, pp_CardPath = ''/.well-known/mcp/server.json''\<rparr>"

text \<open>What the callers of a parser rely on: a parsed card is of the parser's protocol, has an
  endpoint and the key computed from both, and carries the bytes it came from; a validation result
  is valid exactly when it lists no errors, and then has a preview.\<close>

locale parser_plugin =
  fixes pp :: ParserPlugin and env :: parser_env
  assumes parsed: "pp_Parse pp now raw = Inr t \<Longrightarrow> agent_Protocol t = pp_Protocol pp \<and> Endpoint t \<noteq> '''' \<and>
      AgentKey t = ComputeAgentKey env (pp_Protocol pp) (Endpoint t) \<and> ProviderID t = None \<and> RawBytes t = raw"
    and valid_iff: "Valid (pp_Validate pp raw) \<longleftrightarrow> Errors (pp_Validate pp raw) = []"
    and valid_preview: "Valid (pp_Validate pp raw) \<longleftrightarrow> Preview (pp_Validate pp raw) \<noteq> None"
begin

lemma same_endpoint_same_key:
  "pp_Parse pp now raw = Inr t \<Longrightarrow> pp_Parse pp now' raw' = Inr t' \<Longrightarrow> Endpoint t = Endpoint t' \<Longrightarrow> AgentKey t = AgentKey t'"
  by (simp add: parsed)

end

lemma resolveEndpoint_nonempty: "resolveEndpoint ac = Inr e \<Longrightarrow> e \<noteq> ''''"
  by (auto simp: resolveEndpoint_def Let_def split: if_splits)

lemma A2A_Parse_InrD:
  assumes "A2A_Parse env raw = Inr t"
  shows "\<exists>ac endpoint. decode_card env raw = Some ac \<and> endpoint \<noteq> '''' \<and>
    t = parsed_type env ProtocolA2A endpoint (card_Version ac) (detectSpecVersion ac) (Some (buildProvider ac))
          zero_time (card_caps ac) raw"
  using assms
  by (auto simp: A2A_Parse_def dest: resolveEndpoint_nonempty split: option.splits if_splits sum.splits)

lemma MCP_Parse_InrD:
  assumes "MCP_Parse env now raw = Inr t"
  shows "\<exists>ac caps. decode_mcp env raw = Some ac \<and> hd (mcp_Remotes ac) \<noteq> '''' \<and>
    t = parsed_type env ProtocolMCP (hd (mcp_Remotes ac)) (mcp_Version ac) '''' None now caps raw"
proof -
  obtain ac where "decode_mcp env raw = Some ac" using assms by (auto simp: MCP_Parse_def split: option.splits)
  moreover from this have "\<not> no_remote ac" using assms by (auto simp: MCP_Parse_def split: if_splits)
  ultimately show ?thesis using assms
    by (cases "mcp_Remotes ac") (auto simp: MCP_Parse_def no_remote_def split: if_splits)
qed

lemma ValidateCard_iff:
  "Valid (ValidateCard env raw) \<longleftrightarrow> Errors (ValidateCard env raw) = []"
  "Valid (ValidateCard env raw) \<longleftrightarrow> Preview (ValidateCard env raw) \<noteq> None"
  by (cases "decode_card env raw"; simp add: ValidateCard_def invalid_json_def Let_def)+

lemma MCP_Validate_iff:
  "Valid (MCP_Validate env raw) \<longleftrightarrow> Errors (MCP_Validate env raw) = []"
  "Valid (MCP_Validate env raw) \<longleftrightarrow> Preview (MCP_Validate env raw) \<noteq> None"
  by (cases "decode_mcp env raw"; simp add: MCP_Validate_def invalid_json_def Let_def)+

interpretation a2a: parser_plugin "a2a_plugin env" env for env
proof
  fix now raw t assume "pp_Parse (a2a_plugin env) now raw = Inr t"
  then show "agent_Protocol t = pp_Protocol (a2a_plugin env) \<and> Endpoint t \<noteq> '''' \<and>
      AgentKey t = ComputeAgentKey env (pp_Protocol (a2a_plugin env)) (Endpoint t) \<and> ProviderID t = None \<and> RawBytes t = raw"
    by (auto simp: a2a_plugin_def parsed_type_def dest!: A2A_Parse_InrD)
next
  fix raw
  show "Valid (pp_Validate (a2a_plugin env) raw) \<longleftrightarrow> Errors (pp_Validate (a2a_plugin env) raw) = []"
    using ValidateCard_iff(1) [of env raw] by (simp add: a2a_plugin_def)
  show "Valid (pp_Validate (a2a_plugin env) raw) \<longleftrightarrow> Preview (pp_Validate (a2a_plugin env) raw) \<noteq> None"
    using ValidateCard_iff(2) [of env raw] by (simp add: a2a_plugin_def)
qed

interpretation mcp: parser_plugin "mcp_plugin env" env for env
proof
  fix now raw t assume "pp_Parse (mcp_plugin env) now raw = Inr t"
  then show "agent_Protocol t = pp_Protocol (mcp_plugin env) \<and> Endpoint t \<noteq> '''' \<and>
      AgentKey t = ComputeAgentKey env (pp_Protocol (mcp_plugin env)) (Endpoint t) \<and> ProviderID t = None \<and> RawBytes t = raw"
    by (auto simp: mcp_plugin_def parsed_type_def dest!: MCP_Parse_InrD)
next
  fix raw
  show "Valid (pp_Validate (mcp_plugin env) raw) \<longleftrightarrow> Errors (pp_Validate (mcp_plugin env) raw) = []"
    using MCP_Validate_iff(1) [of env raw] by (simp add: mcp_plugin_def)
  show "Valid (pp_Validate (mcp_plugin env) raw) \<longleftrightarrow> Preview (pp_Validate (mcp_plugin env) raw) \<noteq> None"
    using MCP_Validate_iff(2) [of env raw] by (simp add: mcp_plugin_def)
qed

section \<open>Validation and parsing\<close>

lemma validateRequiredFields_Nil:
  "validateRequiredFields ac = [] \<Longrightarrow> card_Name ac \<noteq> '''' \<and>
     \<not> (length (card_SupportedInterfaces ac) = 0 \<and> card_URL ac = '''')"
  by (auto simp: validateRequiredFields_def split: if_splits)

lemma concat_map_Nil: "concat (map f xs) = [] \<Longrightarrow> x \<in> set xs \<Longrightarrow> f x = []"
  by (induction xs) auto

lemma validateSkills_Nil:
  assumes "validateSkills ac = []"
  shows "\<forall>s \<in> set (card_Skills ac). fs_Name s \<noteq> ''''"
proof
  fix s assume "s \<in> set (card_Skills ac)"
  then obtain i where "i < length (card_Skills ac)" and "card_Skills ac ! i = s"
    by (auto simp: in_set_conv_nth)
  then have "(i, s) \<in> set (enumerate 0 (card_Skills ac))"
    by (simp add: in_set_enumerate_eq)
  from concat_map_Nil [OF assms [unfolded validateSkills_def] this] show "fs_Name s \<noteq> ''''"
    by (auto simp: Let_def split: if_splits)
qed

lemma resolveEndpoint_fails:
  "(\<exists>e. resolveEndpoint ac = Inl e) \<longleftrightarrow> card_URL ac = '''' \<and>
     (case card_SupportedInterfaces ac of [] \<Rightarrow> True | i # _ \<Rightarrow> fi_URL i = '''')"
  by (auto simp: resolveEndpoint_def Let_def split: list.split)

text \<open>
  \<^bold>\<open>C26\<close> Validation and parsing agree, with one gap.  An MCP card validates exactly when it
  parses.  An A2A card that validates parses, and its skills are valid capabilities, unless it has
  no URL and its first interface has none either: the validator only counts the interfaces, and
  parsing such a card fails.
\<close>

theorem validated_card_parses:
  assumes "decode_card env raw = Some ac" and "Valid (ValidateCard env raw)"
  shows "((\<exists>e. A2A_Parse env raw = Inl e) \<longleftrightarrow>
      card_URL ac = '''' \<and> (\<exists>i rest. card_SupportedInterfaces ac = i # rest \<and> fi_URL i = '''')) \<and>
    list_all (\<lambda>s. Validate (CapSkill \<lparr>skill_Name = fs_Name s, skill_Description = fs_Description s,
       skill_Tags = fs_Tags s, skill_InputModes = fs_InputModes s, skill_OutputModes = fs_OutputModes s\<rparr>) = None)
      (card_Skills ac) \<and>
    (\<forall>env2 raw2 now. Valid (MCP_Validate env2 raw2) \<longleftrightarrow> (\<exists>t. MCP_Parse env2 now raw2 = Inr t))"
proof -
  have "validateRequiredFields ac = []" "validateSkills ac = []"
    using assms by (auto simp: ValidateCard_def Let_def split: if_splits)
  note n = validateRequiredFields_Nil [OF this(1)] validateSkills_Nil [OF this(2)]
  have "(\<exists>e. A2A_Parse env raw = Inl e) \<longleftrightarrow> (\<exists>e. resolveEndpoint ac = Inl e)"
    using n(1) by (auto simp: A2A_Parse_def assms(1) split: sum.split)
  also have "\<dots> \<longleftrightarrow> card_URL ac = '''' \<and> (\<exists>i rest. card_SupportedInterfaces ac = i # rest \<and> fi_URL i = '''')"
    using n(1) unfolding resolveEndpoint_fails by (auto split: list.split)
  finally show ?thesis using n(2)
    by (auto simp: list_all_iff MCP_Validate_def MCP_Parse_def invalid_json_def Let_def split: option.split)
qed

definition sample_card_json :: json where
  "sample_card_json = JObj [(''name'', JStr ''A''), (''description'', JStr ''d''), (''version'', JStr ''1''),
     (''supportedInterfaces'', JArr [JObj [(''binding'', JStr ''grpc'')]])]"

definition sample_parser_env :: parser_env where
  "sample_parser_env = \<lparr>unmarshal_json = \<lambda>_. Some sample_card_json, sha256_hex = \<lambda>s. s\<rparr>"

lemma sample_card_decodes:
  "map_option (\<lambda>ac. (card_URL ac, map fi_URL (card_SupportedInterfaces ac)))
     (decode_card sample_parser_env ''card'') = Some ('''', [''''])"
  by code_simp

theorem validated_card_parses_witness:
  "Valid (ValidateCard sample_parser_env ''card'') \<and> (\<exists>e. A2A_Parse sample_parser_env ''card'' = Inl e)"
proof -
  have "Valid (ValidateCard sample_parser_env ''card'')" by code_simp
  moreover obtain ac where "decode_card sample_parser_env ''card'' = Some ac" "card_URL ac = ''''"
     "map fi_URL (card_SupportedInterfaces ac) = ['''']"
    using sample_card_decodes by auto
  ultimately show ?thesis using validated_card_parses [of sample_parser_env "''card''" ac]
    by (auto simp: map_eq_Cons_conv)
qed

end
