(* ===== verification/Card_Fetcher.thy ===== *)
theory Card_Fetcher
  imports Parsers Catalog_Query "HOL-Library.Word"
begin

text \<open>
  Fetching cards from user-supplied URLs (\<^verbatim>\<open>internal/service/card_fetcher.go\<close>): URL
  validation, the address filter of the dialer, redirects, and protocol detection.

  IP addresses are words: the 16 bytes of a \<^verbatim>\<open>net.IP\<close> are one \<^verbatim>\<open>128 word\<close>, and the textual
  syntax that \<^verbatim>\<open>net.ParseIP\<close>, \<^verbatim>\<open>net.ParseCIDR\<close> and \<^verbatim>\<open>net.SplitHostPort\<close> accept is written
  out.  The network is an argument: what the name server answers, which addresses the dialer tries
  and reaches, what a server replies, and the text syntax of URLs; it may answer differently at
  every hop, so a host name can be rebound between validation and connection.
\<close>

unbundle bit_operations_syntax

section \<open>IP addresses\<close>

type_synonym IP = "128 word"

definition code :: "char \<Rightarrow> nat" where "code c = of_char c"

definition is_dec :: "char \<Rightarrow> bool" where "is_dec c \<longleftrightarrow> 48 \<le> code c \<and> code c \<le> 57"

definition hex_value :: "char \<Rightarrow> nat option" where
  "hex_value c = (let n = code c in
     if 48 \<le> n \<and> n \<le> 57 then Some (n - 48)
     else if 97 \<le> n \<and> n \<le> 102 then Some (n - 87)
     else if 65 \<le> n \<and> n \<le> 70 then Some (n - 55) else None)"

definition is_hex :: "char \<Rightarrow> bool" where "is_hex c \<longleftrightarrow> hex_value c \<noteq> None"

definition dec_number :: "string \<Rightarrow> nat" where
  "dec_number = foldl (\<lambda>n c. n * 10 + (code c - 48)) 0"

definition hex_number :: "string \<Rightarrow> nat" where
  "hex_number = foldl (\<lambda>n c. n * 16 + (case hex_value c of Some v \<Rightarrow> v | None \<Rightarrow> 0)) 0"

text \<open>The substrings between the occurrences of a byte.\<close>

fun split_at :: "char \<Rightarrow> string \<Rightarrow> string list" where
  "split_at d [] = [[]]"
| "split_at d (c # s) = (if c = d then [] # split_at d s
     else (case split_at d s of [] \<Rightarrow> [[c]] | f # fs \<Rightarrow> (c # f) # fs))"

text \<open>Four decimal fields, each at most 255 and without a leading zero.\<close>

definition octet :: "string \<Rightarrow> nat option" where
  "octet f = (if f \<noteq> [] \<and> list_all is_dec f \<and> (length f = 1 \<or> hd f \<noteq> CHR ''0'') \<and>
                 length f \<le> 3 \<and> dec_number f \<le> 255
              then Some (dec_number f) else None)"

definition ipv4_fields :: "string \<Rightarrow> nat list option" where
  "ipv4_fields s = (case map octet (split_at (CHR ''.'') s) of
       [Some a, Some b, Some c, Some d] \<Rightarrow> Some [a, b, c, d] | _ \<Rightarrow> None)"

definition word_of_bytes :: "nat list \<Rightarrow> IP" where
  "word_of_bytes = foldl (\<lambda>w b. w * 256 + of_nat b) 0"

text \<open>An IPv4 address is kept in its 16-byte form.\<close>

definition v4_in_v6 :: "nat list \<Rightarrow> IP" where
  "v4_in_v6 bs = word_of_bytes (replicate 10 0 @ [255, 255] @ bs)"

lemma dropWhile_shorter: "takeWhile P s \<noteq> [] \<Longrightarrow> length (dropWhile P s) < length s"
  by (cases s) (auto simp: le_imp_less_Suc length_dropWhile_le split: if_splits)

text \<open>The groups of an IPv6 text: bytes so far, and where the ellipsis was.\<close>

function v6_groups :: "nat list \<Rightarrow> nat option \<Rightarrow> string \<Rightarrow> (nat list \<times> nat option) option" where
  "v6_groups bs ellipsis s =
     (if length bs \<ge> 16 then (if s = [] then Some (bs, ellipsis) else None)
      else let g = takeWhile is_hex s; rest = dropWhile is_hex s in
        if g = [] \<or> length g > 4 then None
        else if rest \<noteq> [] \<and> hd rest = CHR ''.'' then
          (if ellipsis = None \<and> length bs \<noteq> 12 \<or> length bs + 4 > 16 then None
           else map_option (\<lambda>v4. (bs @ v4, ellipsis)) (ipv4_fields s))
        else let bs1 = bs @ [hex_number g div 256, hex_number g mod 256] in
          if rest = [] then Some (bs1, ellipsis)
          else if hd rest \<noteq> CHR '':'' \<or> tl rest = [] then None
          else if hd (tl rest) = CHR '':'' then
            (if ellipsis \<noteq> None then None
             else if tl (tl rest) = [] then Some (bs1, Some (length bs1))
             else v6_groups bs1 (Some (length bs1)) (tl (tl rest)))
          else v6_groups bs1 ellipsis (tl rest))"
  by pat_completeness auto

termination
proof (relation "measure (\<lambda>(bs, ellipsis, s). length s)")
  fix bs :: "nat list" and ellipsis :: "nat option" and s g rest bs1
  assume "g = takeWhile is_hex s" "rest = dropWhile is_hex s" "\<not> (g = [] \<or> 4 < length g)"
  then have "length rest < length s" using dropWhile_shorter by blast
  then show "((bs1, Some (length bs1), tl (tl rest)), bs, ellipsis, s) \<in> measure (\<lambda>(bs, ellipsis, s). length s)"
    and "((bs1, ellipsis, tl rest), bs, ellipsis, s) \<in> measure (\<lambda>(bs, ellipsis, s). length s)"
    by auto
qed simp

declare v6_groups.simps [simp del]

definition ipv6_bytes :: "string \<Rightarrow> nat list option" where
  "ipv6_bytes s =
     (let lead = HasPrefix s ''::''; s1 = (if lead then drop 2 s else s) in
      if lead \<and> s1 = [] then Some (replicate 16 0)
      else (case v6_groups [] (if lead then Some 0 else None) s1 of
          None \<Rightarrow> None
        | Some (bs, ellipsis) \<Rightarrow>
            if length bs < 16 then
              (case ellipsis of None \<Rightarrow> None
               | Some k \<Rightarrow> Some (take k bs @ replicate (16 - length bs) 0 @ drop k bs))
            else if ellipsis \<noteq> None then None else Some bs))"

text \<open>\<^verbatim>\<open>net.ParseIP\<close>: the first of dot, colon and percent sign decides the syntax; a zone is
  refused.\<close>

definition ParseIP :: "string \<Rightarrow> IP option" where
  "ParseIP s = (case find (\<lambda>c. c \<in> {CHR ''.'', CHR '':'', CHR ''%''}) s of
       Some c \<Rightarrow>
         if c = CHR ''.'' then map_option v4_in_v6 (ipv4_fields s)
         else if c = CHR '':'' then
           (if CHR ''%'' \<in> set s then None else map_option word_of_bytes (ipv6_bytes s))
         else None
     | None \<Rightarrow> None)"

definition To4 :: "IP \<Rightarrow> 32 word option" where
  "To4 ip = (if drop_bit 32 ip = 0xFFFF then Some (ucast ip) else None)"

datatype IPNet = IPNet4 "32 word" nat | IPNet6 "128 word" nat

text \<open>\<^verbatim>\<open>net.ParseCIDR\<close>, and \<^verbatim>\<open>network.Contains(ip)\<close>: the bytes under the mask agree.\<close>

definition ParseCIDR :: "string \<Rightarrow> IPNet option" where
  "ParseCIDR s = (case split_at (CHR ''/'') s of
       [addr, bits] \<Rightarrow>
         if bits = [] \<or> \<not> list_all is_dec bits then None
         else (case ParseIP addr of
             None \<Rightarrow> None
           | Some ip \<Rightarrow> (case (if CHR '':'' \<in> set addr then None else To4 ip) of
                 Some v4 \<Rightarrow> if dec_number bits \<le> 32 then Some (IPNet4 v4 (dec_number bits)) else None
               | None \<Rightarrow> if dec_number bits \<le> 128 then Some (IPNet6 ip (dec_number bits)) else None))
     | _ \<Rightarrow> None)"

fun IPNet_Contains :: "IPNet \<Rightarrow> IP \<Rightarrow> bool" where
  "IPNet_Contains (IPNet4 nw n) ip = (case To4 ip of None \<Rightarrow> False
     | Some x \<Rightarrow> x AND NOT (mask (32 - n)) = nw AND NOT (mask (32 - n)))"
| "IPNet_Contains (IPNet6 nw n) ip = (case To4 ip of Some _ \<Rightarrow> False
     | None \<Rightarrow> ip AND NOT (mask (128 - n)) = nw AND NOT (mask (128 - n)))"

definition private_ranges :: "string list" where
  "private_ranges = [''127.0.0.0/8'', ''10.0.0.0/8'', ''172.16.0.0/12'', ''192.168.0.0/16'',
     ''169.254.0.0/16'', ''::1/128'', ''fc00::/7'', ''fe80::/10'']"

definition isPrivateIP :: "IP \<Rightarrow> bool" where
  "isPrivateIP ip = list_ex (\<lambda>cidr. case ParseCIDR cidr of None \<Rightarrow> False
     | Some network \<Rightarrow> IPNet_Contains network ip) private_ranges"

section \<open>The private ranges\<close>

lemma hex_values:
  "hex_value CHR ''1'' = Some 1" "hex_value CHR ''f'' = Some 15" "hex_value CHR ''c'' = Some 12"
  "hex_value CHR ''e'' = Some 14" "hex_value CHR ''8'' = Some 8" "hex_value CHR ''0'' = Some 0"
  "hex_value CHR '':'' = None"
  by code_simp+

lemma hex_numbers: "hex_number ''1'' = 1" "hex_number ''fc00'' = 0xfc00" "hex_number ''fe80'' = 0xfe80"
  by (simp_all add: hex_number_def hex_values)

lemma zeros: "replicate 14 (0::nat) = [0,0,0,0,0,0,0,0,0,0,0,0,0,0]" "replicate 10 (0::nat) = [0,0,0,0,0,0,0,0,0,0]"
  by (simp_all add: numeral_eq_Suc)

lemmas parse_simps = ParseCIDR_def ParseIP_def ipv6_bytes_def v6_groups.simps is_hex_def hex_values hex_numbers
  zeros v4_in_v6_def word_of_bytes_def To4_def

lemma dec_texts:
  "is_dec CHR ''0''" "is_dec CHR ''1''" "is_dec CHR ''2''" "is_dec CHR ''6''" "is_dec CHR ''7''" "is_dec CHR ''8''"
  "dec_number ''8'' = 8" "dec_number ''12'' = 12" "dec_number ''16'' = 16" "dec_number ''128'' = 128"
  "dec_number ''7'' = 7" "dec_number ''10'' = 10"
  by code_simp+

lemma v4_networks:
  "ipv4_fields ''127.0.0.0'' = Some [127, 0, 0, 0]" "ipv4_fields ''10.0.0.0'' = Some [10, 0, 0, 0]"
  "ipv4_fields ''172.16.0.0'' = Some [172, 16, 0, 0]" "ipv4_fields ''192.168.0.0'' = Some [192, 168, 0, 0]"
  "ipv4_fields ''169.254.0.0'' = Some [169, 254, 0, 0]"
  by code_simp+

lemma private_networks:
  "ParseCIDR ''127.0.0.0/8'' = Some (IPNet4 0x7F000000 8)" "ParseCIDR ''10.0.0.0/8'' = Some (IPNet4 0x0A000000 8)"
  "ParseCIDR ''172.16.0.0/12'' = Some (IPNet4 0xAC100000 12)"
  "ParseCIDR ''192.168.0.0/16'' = Some (IPNet4 0xC0A80000 16)"
  "ParseCIDR ''169.254.0.0/16'' = Some (IPNet4 0xA9FE0000 16)" "ParseCIDR ''::1/128'' = Some (IPNet6 1 128)"
  "ParseCIDR ''fc00::/7'' = Some (IPNet6 0xfc000000000000000000000000000000 7)"
  "ParseCIDR ''fe80::/10'' = Some (IPNet6 0xfe800000000000000000000000000000 10)"
  by (simp_all add: parse_simps dec_texts v4_networks)

text \<open>Agreeing under a network mask is agreeing on the leading bits, an interval of addresses.\<close>

lemma masked_eq_iff:
  fixes x y :: "'a::len word"
  shows "x AND NOT (mask k) = y AND NOT (mask k) \<longleftrightarrow> unat x div 2 ^ k = unat y div 2 ^ k"
proof -
  have "x AND NOT (mask k) = y AND NOT (mask k) \<longleftrightarrow> drop_bit k x = drop_bit k y"
  proof
    assume "x AND NOT (mask k) = y AND NOT (mask k)"
    then have "drop_bit k (x AND NOT (mask k)) = drop_bit k (y AND NOT (mask k))" by simp
    moreover have "drop_bit k (z AND NOT (mask k)) = drop_bit k z" for z :: "'a word"
      by (rule bit_word_eqI) (auto simp: bit_simps dest: bit_imp_le_length)
    ultimately show "drop_bit k x = drop_bit k y" by simp
  next
    assume d: "drop_bit k x = drop_bit k y"
    have "bit x n = bit y n" if "k \<le> n" for n
      using arg_cong [OF d, of "\<lambda>w. bit w (n - k)"] that by (simp add: bit_simps)
    then show "x AND NOT (mask k) = y AND NOT (mask k)"
      by (intro bit_word_eqI) (auto simp: bit_simps)
  qed
  also have "\<dots> \<longleftrightarrow> unat x div 2 ^ k = unat y div 2 ^ k"
    by (simp add: word_unat_eq_iff unat_drop_bit_eq del: drop_bit_eq_div flip: drop_bit_eq_div)
  finally show ?thesis .
qed

lemma quotient_iff_bounds: "n div 2 ^ k = c \<longleftrightarrow> c * 2 ^ k \<le> n \<and> n < Suc c * 2 ^ k" for n k c :: nat
proof -
  have "n < 2 ^ k + 2 ^ k * (n div 2 ^ k)" by (rule dividend_less_times_div) simp
  then show ?thesis
    by (auto intro: div_nat_eqI simp: div_times_less_eq_dividend mult.commute)
qed

lemma quotient_range: "n div 2 ^ k = c \<longleftrightarrow> c * 2 ^ k \<le> n \<and> n \<le> Suc c * 2 ^ k - 1" for n k c :: nat
proof -
  have "n < Suc c * 2 ^ k \<longleftrightarrow> n \<le> Suc c * 2 ^ k - 1" by (metis Suc_pred' less_Suc_eq_le mult_pos_pos zero_less_Suc zero_less_numeral zero_less_power)
  then show ?thesis by (simp only: quotient_iff_bounds)
qed

text \<open>The address as a number: of the 32-bit address when there is one, and which numbers are
  private.\<close>

definition private_v4 :: "nat \<Rightarrow> bool" where
  "private_v4 n \<longleftrightarrow>
     0x7F000000 \<le> n \<and> n \<le> 0x7FFFFFFF \<or> 0x0A000000 \<le> n \<and> n \<le> 0x0AFFFFFF \<or>
     0xAC100000 \<le> n \<and> n \<le> 0xAC1FFFFF \<or> 0xC0A80000 \<le> n \<and> n \<le> 0xC0A8FFFF \<or>
     0xA9FE0000 \<le> n \<and> n \<le> 0xA9FEFFFF"

definition private_v6 :: "nat \<Rightarrow> bool" where
  "private_v6 n \<longleftrightarrow> n = 1 \<or>
     0xfc000000000000000000000000000000 \<le> n \<and> n \<le> 0xfdffffffffffffffffffffffffffffff \<or>
     0xfe800000000000000000000000000000 \<le> n \<and> n \<le> 0xfebfffffffffffffffffffffffffffff"

lemma isPrivateIP_numbers:
  "isPrivateIP ip \<longleftrightarrow> (case To4 ip of Some x \<Rightarrow> private_v4 (unat x) | None \<Rightarrow> private_v6 (unat ip))"
proof (cases "To4 ip")
  case None
  have "isPrivateIP ip \<longleftrightarrow> unat ip = 1 \<or> unat ip div 2 ^ 121 = 0x7E \<or> unat ip div 2 ^ 118 = 0x3FA"
    by (simp add: isPrivateIP_def private_ranges_def private_networks None masked_eq_iff word_unat_eq_iff [of ip 1])
  then show ?thesis unfolding quotient_range by (simp add: None private_v6_def)
next
  case (Some x)
  have "isPrivateIP ip \<longleftrightarrow> unat x div 2 ^ 24 = 0x7F \<or> unat x div 2 ^ 24 = 0x0A \<or> unat x div 2 ^ 20 = 0xAC1 \<or>
      unat x div 2 ^ 16 = 0xC0A8 \<or> unat x div 2 ^ 16 = 0xA9FE"
    by (simp add: isPrivateIP_def private_ranges_def private_networks Some masked_eq_iff)
  then show ?thesis unfolding quotient_range by (simp add: Some private_v4_def)
qed

section \<open>URLs and the network\<close>

record url =
  url_Scheme :: string
  url_Host :: string
  url_Path :: string
  url_RawQuery :: string
  url_User :: string
  url_Fragment :: string

text \<open>\<^verbatim>\<open>hr_Body\<close> is what reading the body yields.\<close>

record http_reply =
  hr_StatusCode :: int
  hr_Location :: string
  hr_Body :: "error + string"

text \<open>The first argument of the network functions counts the requests already made.\<close>

record net_env =
  parse_url :: "string \<Rightarrow> error + url"
  url_String :: "url \<Rightarrow> string"
  resolve_url :: "url \<Rightarrow> string \<Rightarrow> error + url"
  lookup_host :: "nat \<Rightarrow> string \<Rightarrow> string list option"
  dial_addresses :: "nat \<Rightarrow> url \<Rightarrow> string list"
  reachable :: "nat \<Rightarrow> string \<Rightarrow> bool"
  http_answer :: "nat \<Rightarrow> url \<Rightarrow> string \<Rightarrow> error + http_reply"
  net_text :: sql_text
  net_json :: parser_env

definition last_index :: "char \<Rightarrow> string \<Rightarrow> nat option" where
  "last_index c s = (case filter (\<lambda>i. s ! i = c) [0..<length s] of [] \<Rightarrow> None | is \<Rightarrow> Some (List.last is))"

definition validOptionalPort :: "string \<Rightarrow> bool" where
  "validOptionalPort port \<longleftrightarrow> port = '''' \<or> hd port = CHR '':'' \<and> list_all is_dec (tl port)"

text \<open>\<^verbatim>\<open>u.Hostname()\<close>: the host without port and brackets.\<close>

definition url_Hostname :: "url \<Rightarrow> string" where
  "url_Hostname u =
     (let h = url_Host u;
          h1 = (case last_index (CHR '':'') h of
                  Some i \<Rightarrow> if validOptionalPort (drop i h) then take i h else h
                | None \<Rightarrow> h)
      in if HasPrefix h1 ''['' \<and> List.last h1 = CHR '']'' then butlast (tl h1) else h1)"

text \<open>\<^verbatim>\<open>net.SplitHostPort\<close>, the host part.\<close>

definition SplitHost :: "string \<Rightarrow> error + string" where
  "SplitHost a = (case last_index (CHR '':'') a of
       None \<Rightarrow> Inl (errorf ''missing port in address'')
     | Some i \<Rightarrow>
         if HasPrefix a ''['' then
           (if CHR '']'' \<notin> set a then Inl (errorf ''missing ']' in address'')
            else let e = length (takeWhile (\<lambda>c. c \<noteq> CHR '']'') a) in
              if Suc e \<noteq> i then Inl (errorf ''too many colons in address'')
              else if CHR ''['' \<in> set (tl a) then Inl (errorf ''unexpected '[' in address'')
              else if CHR '']'' \<in> set (drop (Suc e) a) then Inl (errorf ''unexpected ']' in address'')
              else Inr (tl (take e a)))
         else if CHR '':'' \<in> set (take i a) then Inl (errorf ''too many colons in address'')
         else if CHR ''['' \<in> set a then Inl (errorf ''unexpected '[' in address'')
         else if CHR '']'' \<in> set a then Inl (errorf ''unexpected ']' in address'')
         else Inr (take i a))"

section \<open>URL validation\<close>

definition maxBodyBytes :: nat where "maxBodyBytes = 2 ^ 20"
definition maxRedirects :: nat where "maxRedirects = 3"

definition isPrivateHostname :: "sql_text \<Rightarrow> string \<Rightarrow> bool" where
  "isPrivateHostname x hostname =
     (let lower = ToLower x hostname in
      if lower = ''localhost'' \<or> lower = ''localhost.'' then True
      else (case ParseIP hostname of Some ip \<Rightarrow> isPrivateIP ip | None \<Rightarrow> False))"

definition checkPrivateHost :: "net_env \<Rightarrow> nat \<Rightarrow> string \<Rightarrow> error option" where
  "checkPrivateHost env n hostname =
     (if isPrivateHostname (net_text env) hostname
      then Some (errorf ''url points to a private or reserved address'')
      else (case lookup_host env n hostname of
          None \<Rightarrow> None
        | Some addrs \<Rightarrow>
            if list_ex (\<lambda>addr. case ParseIP addr of None \<Rightarrow> False | Some ip \<Rightarrow> isPrivateIP ip) addrs
            then Some (errorf ''url resolves to a private or reserved address'') else None))"

definition ValidateURL :: "net_env \<Rightarrow> nat \<Rightarrow> string \<Rightarrow> error option" where
  "ValidateURL env n rawURL =
     (if TrimSpace rawURL = '''' then Some (errorf ''url is required'')
      else (case parse_url env rawURL of
          Inl e \<Rightarrow> Some (wrapf ''invalid url'' e)
        | Inr u \<Rightarrow>
            if url_Scheme u \<noteq> ''http'' \<and> url_Scheme u \<noteq> ''https''
            then Some (errorf ''url scheme must be http or https'')
            else if url_Host u = '''' then Some (errorf ''url must include a host'')
            else checkPrivateHost env n (url_Hostname u)))"

section \<open>The client\<close>

text \<open>The \<^verbatim>\<open>Control\<close> hook of the dialer, which sees every address before the connection.\<close>

definition dial_Control :: "string \<Rightarrow> error option" where
  "dial_Control address = (case SplitHost address of
       Inl e \<Rightarrow> Some (wrapf ''invalid dial address'' e)
     | Inr host \<Rightarrow> (case ParseIP host of
           None \<Rightarrow> Some (errorf (''dial address is not an IP literal: '' @ host))
         | Some ip \<Rightarrow> if isPrivateIP ip then Some (errorf (''refusing to connect to private address '' @ host))
                      else None))"

definition dial :: "net_env \<Rightarrow> nat \<Rightarrow> url \<Rightarrow> string option" where
  "dial env n u = find (\<lambda>a. dial_Control a = None \<and> reachable env n a) (dial_addresses env n u)"

definition CheckRedirect :: "net_env \<Rightarrow> url list \<Rightarrow> url \<Rightarrow> error option" where
  "CheckRedirect env via req =
     (if length via \<ge> maxRedirects then Some (errorf ''too many redirects'')
      else map_option (wrapf ''unsafe redirect target'') (ValidateURL env (length via) (url_String env req)))"

definition is_redirect :: "http_reply \<Rightarrow> bool" where
  "is_redirect r \<longleftrightarrow> hr_StatusCode r \<in> {301, 302, 303, 307, 308} \<and> hr_Location r \<noteq> ''''"

text \<open>\<^verbatim>\<open>http.Client.Do\<close> with the dialer and the redirect policy of \<^verbatim>\<open>NewCardFetcher\<close>: the
  connections made, each with the request it served, and the final reply.\<close>

function client_Do :: "net_env \<Rightarrow> url list \<Rightarrow> url \<Rightarrow> (url \<times> string) list \<times> (error + http_reply)" where
  "client_Do env via req = (case dial env (length via) req of
       None \<Rightarrow> ([], Inl (errorf ''dial failed''))
     | Some a \<Rightarrow> (case http_answer env (length via) req a of
           Inl e \<Rightarrow> ([(req, a)], Inl e)
         | Inr r \<Rightarrow>
             if is_redirect r then (case resolve_url env req (hr_Location r) of
                 Inl e \<Rightarrow> ([(req, a)], Inl e)
               | Inr target \<Rightarrow> (case CheckRedirect env (via @ [req]) target of
                     Some e \<Rightarrow> ([(req, a)], Inl e)
                   | None \<Rightarrow> (let (cs, out) = client_Do env (via @ [req]) target in ((req, a) # cs, out))))
             else ([(req, a)], Inr r)))"
  by pat_completeness auto

termination
  by (relation "measure (\<lambda>(env, via, req). maxRedirects - length via)")
     (auto simp: CheckRedirect_def split: if_splits)

declare client_Do.simps [simp del]

record FetchResult =
  RawJSON :: string
  DetectedProtocol :: string

definition detectProtocol :: "net_env \<Rightarrow> string \<Rightarrow> string \<Rightarrow> string" where
  "detectProtocol env rawURL body =
     (let lower = ToLower (net_text env) rawURL in
      if Contains lower ''/.well-known/agent'' then ''a2a''
      else if Contains lower ''/mcp'' then ''mcp''
      else (case unmarshal_json (net_json env) body of
          Some (JObj l) \<Rightarrow>
            if map_of l ''skills'' \<noteq> None then ''a2a''
            else if map_of l ''tools'' \<noteq> None then ''mcp'' else ''''
        | _ \<Rightarrow> ''''))"

definition safe_url :: "url \<Rightarrow> url" where
  "safe_url parsed = \<lparr>url_Scheme = url_Scheme parsed, url_Host = url_Host parsed,
     url_Path = url_Path parsed, url_RawQuery = url_RawQuery parsed,
     url_User = '''', url_Fragment = ''''\<rparr>"

definition read_card :: "net_env \<Rightarrow> string \<Rightarrow> http_reply \<Rightarrow> error + FetchResult" where
  "read_card env safeURL resp =
     (if hr_StatusCode resp < 200 \<or> hr_StatusCode resp \<ge> 300
      then Inl (errorf (''remote server returned status '' @ decimal (hr_StatusCode resp)))
      else (case hr_Body resp of
          Inl e \<Rightarrow> Inl (wrapf ''reading response body'' e)
        | Inr sent \<Rightarrow>
            let body = take maxBodyBytes sent in
            if unmarshal_json (net_json env) body = None then Inl (errorf ''response is not valid JSON'')
            else Inr \<lparr>RawJSON = body, DetectedProtocol = detectProtocol env safeURL body\<rparr>))"

definition Fetch :: "net_env \<Rightarrow> string \<Rightarrow> (url \<times> string) list \<times> (error + FetchResult)" where
  "Fetch env rawURL = (case ValidateURL env 0 rawURL of
       Some e \<Rightarrow> ([], Inl e)
     | None \<Rightarrow> (case parse_url env rawURL of
           Inl e \<Rightarrow> ([], Inl (wrapf ''invalid url'' e))
         | Inr parsed \<Rightarrow>
             (let safeURL = url_String env (safe_url parsed) in
              case parse_url env safeURL of
                Inl e \<Rightarrow> ([], Inl (wrapf ''creating request'' e))
              | Inr req \<Rightarrow> (case client_Do env [] req of
                    (cs, Inl e) \<Rightarrow> (cs, Inl (wrapf ''fetching url'' e))
                  | (cs, Inr resp) \<Rightarrow> (cs, read_card env safeURL resp)))))"

text \<open>The interface \<^verbatim>\<open>Fetcher\<close> as the handlers see it.\<close>

record Fetcher =
  fetcher_ValidateURL :: "string \<Rightarrow> error option"
  fetcher_Fetch :: "string \<Rightarrow> error + FetchResult"

definition NewCardFetcher :: "net_env \<Rightarrow> Fetcher" where
  "NewCardFetcher env = \<lparr>fetcher_ValidateURL = ValidateURL env 0, fetcher_Fetch = snd \<circ> Fetch env\<rparr>"

section \<open>What the guards achieve\<close>

definition public_address :: "string \<Rightarrow> bool" where
  "public_address a \<longleftrightarrow> (case SplitHost a of Inl _ \<Rightarrow> False
     | Inr h \<Rightarrow> (case ParseIP h of None \<Rightarrow> False | Some ip \<Rightarrow> \<not> isPrivateIP ip))"

lemma dial_Control_None: "dial_Control a = None \<longleftrightarrow> public_address a"
  by (simp add: dial_Control_def public_address_def split: sum.split option.split)

lemma dial_public: "dial env n u = Some a \<Longrightarrow> public_address a"
  unfolding dial_def by (drule find_Some_set) (simp add: dial_Control_None)

lemma CheckRedirect_None:
  "CheckRedirect env via u = None \<longleftrightarrow> length via < maxRedirects \<and> ValidateURL env (length via) (url_String env u) = None"
  by (auto simp: CheckRedirect_def)

text \<open>Connections go to public addresses, there are at most three, and every request after the first
  was validated.\<close>

lemma client_Do_confined:
  assumes "client_Do env via req = (cs, r)" and "length via < maxRedirects"
  shows "length via + length cs \<le> maxRedirects \<and> (\<forall>c \<in> set cs. public_address (snd c)) \<and>
    (\<forall>c \<in> set (tl cs). \<exists>n. ValidateURL env n (url_String env (fst c)) = None) \<and>
    (cs \<noteq> [] \<longrightarrow> fst (hd cs) = req)"
  using assms
proof (induction env via req arbitrary: cs r rule: client_Do.induct)
  case (1 env via req)
  show ?case
  proof (cases "\<exists>a reply target. dial env (length via) req = Some a \<and> http_answer env (length via) req a = Inr reply \<and>
      is_redirect reply \<and> resolve_url env req (hr_Location reply) = Inr target \<and>
      CheckRedirect env (via @ [req]) target = None")
    case True
    then obtain a reply target where *: "dial env (length via) req = Some a" "http_answer env (length via) req a = Inr reply"
      "is_redirect reply" "resolve_url env req (hr_Location reply) = Inr target"
      "CheckRedirect env (via @ [req]) target = None" by blast
    obtain cs' out where rec: "client_Do env (via @ [req]) target = (cs', out)" by fastforce
    have cs: "cs = (req, a) # cs'" using "1.prems"(1) * rec by (simp add: client_Do.simps [of env via])
    have len: "length (via @ [req]) < maxRedirects" and ok: "ValidateURL env (Suc (length via)) (url_String env target) = None"
      using *(5) by (simp_all add: CheckRedirect_None)
    from "1.IH" [OF * rec len] have IH: "length (via @ [req]) + length cs' \<le> maxRedirects"
      "\<forall>c \<in> set cs'. public_address (snd c)"
      "\<forall>c \<in> set (tl cs'). \<exists>n. ValidateURL env n (url_String env (fst c)) = None"
      "cs' \<noteq> [] \<longrightarrow> fst (hd cs') = target" by simp_all
    have "\<forall>c \<in> set cs'. \<exists>n. ValidateURL env n (url_String env (fst c)) = None"
      using IH(3,4) ok by (cases cs') auto
    then show ?thesis using IH(1,2) dial_public [OF *(1)] by (simp add: cs)
  next
    case False
    then have "cs = [] \<or> (\<exists>a. cs = [(req, a)] \<and> dial env (length via) req = Some a)"
      using "1.prems"(1) by (auto simp: client_Do.simps [of env via] split: option.splits sum.splits if_splits)
    then show ?thesis using "1.prems"(2) by (auto dest: dial_public)
  qed
qed

lemma read_card_Inr:
  "read_card env u resp = Inr res \<Longrightarrow> length (RawJSON res) \<le> maxBodyBytes \<and> unmarshal_json (net_json env) (RawJSON res) \<noteq> None"
  by (auto simp: read_card_def Let_def split: if_splits sum.splits)

text \<open>
  \<^bold>\<open>C4\<close> Fetching a card is confined.  Whatever the name server and the servers answer, at
  every hop: all connections of one fetch, redirects included, go to IP literals outside the private
  ranges; there are at most three; none is made unless the URL was validated, and every redirect
  target was validated again; and a card that is returned is valid JSON of at most one megabyte.
\<close>

theorem fetch_is_confined:
  assumes "Fetch env rawURL = (cs, r)"
  shows "length cs \<le> maxRedirects \<and>
    (\<forall>c \<in> set cs. \<exists>h ip. SplitHost (snd c) = Inr h \<and> ParseIP h = Some ip \<and> \<not> isPrivateIP ip) \<and>
    (cs \<noteq> [] \<longrightarrow> ValidateURL env 0 rawURL = None) \<and>
    (\<forall>c \<in> set (tl cs). \<exists>n. ValidateURL env n (url_String env (fst c)) = None) \<and>
    (\<forall>res. r = Inr res \<longrightarrow> length (RawJSON res) \<le> maxBodyBytes \<and> unmarshal_json (net_json env) (RawJSON res) \<noteq> None)"
proof -
  have pub: "public_address a \<longleftrightarrow> (\<exists>h ip. SplitHost a = Inr h \<and> ParseIP h = Some ip \<and> \<not> isPrivateIP ip)" for a
    by (auto simp: public_address_def split: sum.split option.split)
  have "cs = [] \<and> (\<exists>e. r = Inl e) \<or> (ValidateURL env 0 rawURL = None \<and>
      (\<exists>req out. client_Do env [] req = (cs, out) \<and> (\<forall>res. r = Inr res \<longrightarrow> (\<exists>u resp. read_card env u resp = Inr res))))"
    using assms by (fastforce simp: Fetch_def Let_def split: option.splits sum.splits prod.splits)
  then show ?thesis
  proof (elim disjE conjE exE)
    fix req out
    assume v: "ValidateURL env 0 rawURL = None" and run: "client_Do env [] req = (cs, out)"
      and rd: "\<forall>res. r = Inr res \<longrightarrow> (\<exists>u resp. read_card env u resp = Inr res)"
    note c = client_Do_confined [OF run, unfolded pub]
    show ?thesis
    proof (intro conjI)
      show "\<forall>res. r = Inr res \<longrightarrow> length (RawJSON res) \<le> maxBodyBytes \<and> unmarshal_json (net_json env) (RawJSON res) \<noteq> None"
        using rd read_card_Inr by blast
    qed (use c v in \<open>simp_all add: maxRedirects_def\<close>)
  qed simp
qed

definition sample_url :: "string \<Rightarrow> url" where
  "sample_url host = \<lparr>url_Scheme = ''http'', url_Host = host, url_Path = '''', url_RawQuery = '''',
     url_User = '''', url_Fragment = ''''\<rparr>"

text \<open>A network of one server, which redirects once.\<close>

definition sample_net :: net_env where
  "sample_net = \<lparr>parse_url = \<lambda>s. Inr (sample_url s), url_String = url_Host,
     resolve_url = \<lambda>u l. Inr (sample_url l), lookup_host = \<lambda>n h. Some [''8.8.8.8''],
     dial_addresses = \<lambda>n u. [''127.0.0.1:80'', ''8.8.8.8:80''], reachable = \<lambda>n a. True,
     http_answer = \<lambda>n u a. Inr \<lparr>hr_StatusCode = (if n = 0 then 302 else 200), hr_Location = ''b'', hr_Body = Inr ''{}''\<rparr>,
     net_text = \<lparr>sql_like = \<lambda>p t. True, sql_lower = \<lambda>s. s, wide_lower = \<lambda>s. s\<rparr>,
     net_json = \<lparr>unmarshal_json = \<lambda>_. Some (JObj []), sha256_hex = \<lambda>s. s\<rparr>\<rparr>"

lemma sample_addresses:
  "SplitHost ''127.0.0.1:80'' = Inr ''127.0.0.1''" "SplitHost ''8.8.8.8:80'' = Inr ''8.8.8.8''"
  "SplitHost ''0.0.0.0:80'' = Inr ''0.0.0.0''"
  "ipv4_fields ''127.0.0.1'' = Some [127, 0, 0, 1]" "ipv4_fields ''8.8.8.8'' = Some [8, 8, 8, 8]"
  "ipv4_fields ''0.0.0.0'' = Some [0, 0, 0, 0]"
  by code_simp+

lemma sample_ips:
  "ParseIP ''8.8.8.8'' = Some 0xFFFF08080808" "ParseIP ''127.0.0.1'' = Some 0xFFFF7F000001"
  "ParseIP ''0.0.0.0'' = Some 0xFFFF00000000" "ParseIP ''a'' = None" "ParseIP ''b'' = None"
  by (simp_all add: ParseIP_def sample_addresses v4_in_v6_def word_of_bytes_def zeros)

lemma sample_private:
  "\<not> isPrivateIP 0xFFFF08080808" "isPrivateIP 0xFFFF7F000001" "\<not> isPrivateIP 0xFFFF00000000" "\<not> isPrivateIP 0"
  by (simp_all add: isPrivateIP_numbers To4_def private_v4_def private_v6_def)

lemma sample_fetch: "Fetch sample_net ''a'' =
   ([(sample_url ''a'', ''8.8.8.8:80''), (sample_url ''b'', ''8.8.8.8:80'')], Inr \<lparr>RawJSON = ''{}'', DetectedProtocol = ''''\<rparr>)"
proof -
  have t: "TrimSpace ''a'' = ''a''" "TrimSpace ''b'' = ''b''" "ToLower (net_text sample_net) ''a'' = ''a''"
    "ToLower (net_text sample_net) ''b'' = ''b''" "url_Hostname (sample_url ''a'') = ''a''" "url_Hostname (sample_url ''b'') = ''b''"
    "Contains ''a'' ''/.well-known/agent'' = False" "Contains ''a'' ''/mcp'' = False"
    by code_simp+
  have v: "ValidateURL sample_net n u = None" if "u = ''a'' \<or> u = ''b''" for n u
    using that t by (auto simp: ValidateURL_def checkPrivateHost_def isPrivateHostname_def sample_net_def
        sample_url_def sample_ips sample_private)
  have d: "dial sample_net n u = Some ''8.8.8.8:80''" for n u
    by (simp add: dial_def sample_net_def dial_Control_def sample_addresses sample_ips sample_private)
  have us: "url_String sample_net (sample_url h) = h" for h by (simp add: sample_net_def sample_url_def)
  have "client_Do sample_net [sample_url ''a''] (sample_url ''b'') =
     ([(sample_url ''b'', ''8.8.8.8:80'')], Inr \<lparr>hr_StatusCode = 200, hr_Location = ''b'', hr_Body = Inr ''{}''\<rparr>)"
    by (simp add: client_Do.simps [of _ "[_]"] d) (simp add: sample_net_def is_redirect_def)
  moreover have "CheckRedirect sample_net [sample_url ''a''] (sample_url ''b'') = None"
    unfolding CheckRedirect_None by (simp add: maxRedirects_def us v)
  ultimately have "client_Do sample_net [] (sample_url ''a'') =
     ([(sample_url ''a'', ''8.8.8.8:80''), (sample_url ''b'', ''8.8.8.8:80'')],
      Inr \<lparr>hr_StatusCode = 200, hr_Location = ''b'', hr_Body = Inr ''{}''\<rparr>)"
    by (simp add: client_Do.simps [of _ "[]"] d) (simp add: sample_net_def is_redirect_def)
  moreover have "parse_url sample_net u = Inr (sample_url u)" "url_String sample_net (safe_url (sample_url u)) = u" for u
    by (simp_all add: sample_net_def sample_url_def safe_url_def)
  moreover have "take maxBodyBytes ''{}'' = ''{}''" by (simp add: maxBodyBytes_def)
  moreover have "unmarshal_json (net_json sample_net) b = Some (JObj [])" for b by (simp add: sample_net_def)
  ultimately show ?thesis
    by (simp add: Fetch_def v read_card_def detectProtocol_def t Let_def)
qed

theorem fetch_is_confined_witness:
  "\<exists>h ip. SplitHost ''8.8.8.8:80'' = Inr h \<and> ParseIP h = Some ip \<and> \<not> isPrivateIP ip"
  using fetch_is_confined [OF sample_fetch] by simp

text \<open>
  \<^bold>\<open>C18\<close> The address filter blocks exactly the numbers of eight intervals: an IPv4 address in
  loopback, the three private blocks or link-local, also in its IPv6-mapped form, and otherwise the
  IPv6 loopback, unique local and link-local addresses.  The unspecified addresses 0.0.0.0 and :: are
  in none of them: a URL whose host is 0.0.0.0 validates and the dialer connects to it, and the
  operating system takes it for the local machine.
\<close>

theorem address_filter_exact:
  "(\<forall>ip. isPrivateIP ip = (case To4 ip of Some x \<Rightarrow> private_v4 (unat x) | None \<Rightarrow> private_v6 (unat ip))) \<and>
   ParseIP ''0.0.0.0'' = Some 0xFFFF00000000 \<and> \<not> isPrivateIP 0xFFFF00000000 \<and> \<not> isPrivateIP 0 \<and>
   dial_Control ''0.0.0.0:80'' = None \<and>
   checkPrivateHost (env\<lparr>lookup_host := \<lambda>n h. Some [h]\<rparr>) n ''0.0.0.0'' = None"
proof -
  have "ToLower x ''0.0.0.0'' = ''0.0.0.0''" for x
  proof -
    have "\<forall>c \<in> set ''0.0.0.0''. (of_char c :: nat) < 128" "map ascii_lower ''0.0.0.0'' = ''0.0.0.0''" by code_simp+
    then show ?thesis unfolding ToLower_def by presburger
  qed
  then have "checkPrivateHost (env\<lparr>lookup_host := \<lambda>n h. Some [h]\<rparr>) n ''0.0.0.0'' = None"
    by (simp add: checkPrivateHost_def isPrivateHostname_def sample_ips sample_private)
  then show ?thesis
    by (intro conjI allI isPrivateIP_numbers) (simp_all add: dial_Control_def sample_addresses sample_ips sample_private)
qed

end
