(* ===== verification/Catalog_Api.thy ===== *)
theory Catalog_Api
  imports Catalog_View Parsers Card_Fetcher Health
begin

text \<open>
  The catalog handlers (\<^verbatim>\<open>internal/api/handlers.go\<close>, \<^verbatim>\<open>catalog_helpers.go\<close>,
  \<^verbatim>\<open>import_handler.go\<close>, \<^verbatim>\<open>register_handler.go\<close>, \<^verbatim>\<open>validate_handler.go\<close>) and the
  capability handlers (\<^verbatim>\<open>capability_handlers.go\<close>): where parsers, fetcher and store meet.

  A request body is \<^verbatim>\<open>None\<close> when reading or decoding it failed; query parameters are a function
  that gives the empty string for an absent key.  The identifiers that \<^verbatim>\<open>uuid.NewString\<close> draws
  and the clock are arguments.
\<close>

section \<open>The handler\<close>

type_synonym params = "string \<Rightarrow> string"

text \<open>What a handler reaches through \<^verbatim>\<open>kernel.Kernel\<close>; \<^verbatim>\<open>h_cardStore\<close> says whether a card
  store plugin is loaded.\<close>

record Handler =
  h_store :: store_env
  h_text :: sql_text
  h_json :: parser_env
  h_parsers :: "Protocol \<Rightarrow> ParserPlugin option"
  h_cardStore :: bool
  h_cardFetcher :: Fetcher

definition Healthz :: "(db, (string \<times> string) list reply) act" where
  "Healthz = ret (JSONResponse 200 [(''status'', ''ok'')])"

section \<open>Listing\<close>

text \<open>\<^verbatim>\<open>strconv.Atoi\<close> on 64 bits.\<close>

definition Atoi :: "string \<Rightarrow> int option" where
  "Atoi s =
     (let neg = HasPrefix s ''-''; ds = (if neg \<or> HasPrefix s ''+'' then tl s else s);
          n = (if neg then - int (dec_number ds) else int (dec_number ds))
      in if ds \<noteq> [] \<and> list_all is_dec ds \<and> - (2 ^ 63) \<le> n \<and> n < 2 ^ 63 then Some n else None)"

definition applyProtocolFilter :: "params \<Rightarrow> ListFilter \<Rightarrow> error + ListFilter" where
  "applyProtocolFilter q flt =
     (let v = q ''protocol'' in
      if v = '''' then Inr flt
      else if v \<notin> {ProtocolA2A, ProtocolMCP, ProtocolA2UI} then Inl (errorf (''invalid protocol value: '' @ v))
      else Inr (flt\<lparr>filter_Protocol := Some v\<rparr>))"

definition validStates :: "string list" where
  "validStates = [''registered'', ''active'', ''degraded'', ''offline'', ''deprecated'']"

fun state_list :: "string list \<Rightarrow> error + LifecycleState list" where
  "state_list [] = Inr []"
| "state_list (p # parts) = (let st = TrimSpace p in
     if st \<notin> set validStates then Inl (errorf (''invalid state value: '' @ st))
     else map_sum id ((#) st) (state_list parts))"

definition applyStateFilter :: "params \<Rightarrow> ListFilter \<Rightarrow> error + ListFilter" where
  "applyStateFilter q flt =
     (if q ''state'' \<noteq> '''' then
        map_sum id (\<lambda>states. flt\<lparr>filter_States := states\<rparr>) (state_list (split_at (CHR '','') (q ''state'')))
      else if q ''status'' \<noteq> '''' then
        (if q ''status'' \<notin> set validStates then Inl (errorf (''invalid status value: '' @ q ''status''))
         else Inr (flt\<lparr>filter_States := [q ''status'']\<rparr>))
      else Inr flt)"

definition applySourceFilter :: "params \<Rightarrow> ListFilter \<Rightarrow> error + ListFilter" where
  "applySourceFilter q flt =
     (let v = q ''source'' in
      if v = '''' then Inr flt
      else if v \<notin> {SourceK8s, SourceConfig, SourcePush, SourceUpstream}
      then Inl (errorf (''invalid source value: '' @ v))
      else Inr (flt\<lparr>filter_Source := Some v\<rparr>))"

definition plain_filters :: "params \<Rightarrow> ListFilter \<Rightarrow> ListFilter" where
  "plain_filters q f =
     (let f1 = (if q ''team'' \<noteq> '''' then f\<lparr>filter_Team := q ''team''\<rparr> else f);
          f2 = (if q ''q'' \<noteq> '''' then f1\<lparr>filter_Query := q ''q''\<rparr> else f1);
          f3 = (if q ''categories'' \<noteq> '''' then f2\<lparr>filter_Categories := split_at (CHR '','') (q ''categories'')\<rparr> else f2);
          f4 = (case Atoi (q ''limit'') of Some n \<Rightarrow> f3\<lparr>filter_Limit := n\<rparr> | None \<Rightarrow> f3)
      in (case Atoi (q ''offset'') of Some n \<Rightarrow> f4\<lparr>filter_Offset := n\<rparr> | None \<Rightarrow> f4))"

definition validSorts :: "string list" where
  "validSorts = [''lastSuccessAt_desc'', ''displayName_asc'', ''createdAt_desc'']"

definition parseListFilter :: "params \<Rightarrow> error + ListFilter" where
  "parseListFilter q = (case applyProtocolFilter q no_filter of Inl e \<Rightarrow> Inl e | Inr f1 \<Rightarrow>
     (case applyStateFilter q f1 of Inl e \<Rightarrow> Inl e | Inr f2 \<Rightarrow>
     (case applySourceFilter q f2 of Inl e \<Rightarrow> Inl e | Inr f3 \<Rightarrow>
       (let f4 = plain_filters q f3; v = q ''sort'' in
        if v = '''' then Inr f4
        else if v \<notin> set validSorts then Inl (errorf (''invalid sort value: '' @ v))
        else Inr (f4\<lparr>filter_Sort := v\<rparr>)))))"

definition ListCatalog :: "Handler \<Rightarrow> params \<Rightarrow> (db, CatalogEntry list reply) act" where
  "ListCatalog h q = (case parseListFilter q of
       Inl e \<Rightarrow> ret (ErrorResponse 400 (error_string e))
     | Inr f \<Rightarrow>
         (let flt = (if q ''project'' \<noteq> '''' then f\<lparr>filter_ProjectID := q ''project''\<rparr> else f) in
          try_op (SQLStore_List (h_store h) (h_text h) flt)
            (\<lambda>_. ret (ErrorResponse 500 ''failed to list catalog entries''))
            (\<lambda>entries. ret (JSONResponse 200 entries))))"

section \<open>Single entries\<close>

definition GetEntry :: "Handler \<Rightarrow> string \<Rightarrow> (db, CatalogEntry reply) act" where
  "GetEntry h id' = try_op (SQLStore_Get (h_store h) id')
     (\<lambda>_. ret (ErrorResponse 500 ''failed to get catalog entry''))
     (\<lambda>entry. case entry of None \<Rightarrow> ret (ErrorResponse 404 ''catalog entry not found'')
        | Some e \<Rightarrow> ret (JSONResponse 200 e))"

record createEntryRequest =
  ce_DisplayName :: string
  ce_Description :: string
  ce_Protocol :: string
  ce_Endpoint :: string
  ce_Version :: string

text \<open>The entry a handler wraps around a new agent type.\<close>

definition fresh_entry :: "string \<Rightarrow> time \<Rightarrow> string \<Rightarrow> string \<Rightarrow> SourceType \<Rightarrow> AgentType \<Rightarrow> CatalogEntry" where
  "fresh_entry entryID now displayName description source t =
     \<lparr>entry_ID = entryID, AgentTypeID = agent_type_ID t, entry_AgentType = Some t,
      entry_DisplayName = displayName, entry_Description = description, Status = LifecycleRegistered,
      Source = source, CreatedAt = now, UpdatedAt = now, Categories = [], Metadata = [],
      entry_Validity = \<lparr>From = None, To = None, validity_LastSeen = now\<rparr>,
      CategoriesJSON = '''', MetadataJSON = '''', ValidFrom = None, ValidTo = None, LastSeen = zero_time,
      HealthLastProbedAt = None, HealthLastSuccessAt = None, HealthLastError = '''',
      HealthLatencyMs = 0, HealthConsecutiveFailures = 0, entry_Health = zero_Health\<rparr>"

lemma fresh_entry_fields [simp]:
  "entry_ID (fresh_entry i now n d src t) = i" "entry_AgentType (fresh_entry i now n d src t) = Some t"
  "Categories (fresh_entry i now n d src t) = []" "Metadata (fresh_entry i now n d src t) = []"
  by (simp_all add: fresh_entry_def)

definition request_type :: "parser_env \<Rightarrow> string \<Rightarrow> time \<Rightarrow> createEntryRequest \<Rightarrow> AgentType" where
  "request_type env typeID now req =
     \<lparr>agent_type_ID = typeID, AgentKey = ComputeAgentKey env (ce_Protocol req) (ce_Endpoint req),
      agent_Protocol = ce_Protocol req, Endpoint = ce_Endpoint req, agent_Version = ce_Version req,
      agent_SpecVersion = '''', ProviderID = None, agent_Provider = None, CreatedOn = now,
      Capabilities = [], RawBytes = ''''\<rparr>"

definition is_unique_violation :: "error \<Rightarrow> bool" where
  "is_unique_violation e \<longleftrightarrow>
     Contains (error_string e) ''UNIQUE constraint failed'' \<or> Contains (error_string e) ''duplicate key''"

definition CreateEntry :: "Handler \<Rightarrow> string \<Rightarrow> string \<Rightarrow> (nat \<Rightarrow> string) \<Rightarrow> time \<Rightarrow> createEntryRequest option \<Rightarrow>
    (db, CatalogEntry reply) act" where
  "CreateEntry h typeID entryID uids now body = (case body of
       None \<Rightarrow> ret (ErrorResponse 400 ''invalid request body'')
     | Some req \<Rightarrow>
        if TrimSpace (ce_DisplayName req) = '''' then ret (ErrorResponse 400 ''display_name is required'')
        else if TrimSpace (ce_Endpoint req) = '''' then ret (ErrorResponse 400 ''endpoint is required'')
        else if ce_Protocol req \<notin> {ProtocolA2A, ProtocolMCP, ProtocolA2UI}
        then ret (ErrorResponse 400 ''protocol must be one of: a2a, mcp, a2ui'')
        else
          try_op (FindByEndpoint (h_store h) (ce_Endpoint req))
            (\<lambda>_. ret (ErrorResponse 500 ''failed to check for existing entry'')) (\<lambda>existing.
          if existing \<noteq> None then ret (ErrorResponse 409 ''an entry with this endpoint already exists'')
          else
            let agentType = request_type (h_json h) typeID now req;
                entry = fresh_entry entryID now (ce_DisplayName req) (ce_Description req) SourcePush agentType
            in try_op (SQLStore_Create (h_store h) uids now entry)
                 (\<lambda>e. if is_unique_violation e
                      then ret (ErrorResponse 409 ''an entry with this endpoint already exists'')
                      else ret (ErrorResponse 500 ''failed to create catalog entry''))
                 (\<lambda>stored. ret (JSONResponse 201 stored))))"

definition DeleteEntry :: "Handler \<Rightarrow> string \<Rightarrow> (db, CatalogEntry reply) act" where
  "DeleteEntry h id' = try_op (SQLStore_Get (h_store h) id')
     (\<lambda>_. ret (ErrorResponse 500 ''failed to get catalog entry''))
     (\<lambda>entry. case entry of None \<Rightarrow> ret (ErrorResponse 404 ''catalog entry not found'')
        | Some _ \<Rightarrow> try_op (SQLStore_Delete id')
            (\<lambda>_. ret (ErrorResponse 500 ''failed to delete catalog entry''))
            (\<lambda>_. ret (WriteHeader 204)))"

text \<open>A raw card as it is sent: the data and the headers that depend on the stored row.  The text
  form of the fetch time is left to the clock library.\<close>

record card_reply =
  body_Data :: string
  header_ContentType :: string
  header_Truncated :: bool
  header_ETag :: "string option"
  header_FetchedAt :: "time option"

definition UnixMilli :: "time \<Rightarrow> int" where "UnixMilli t = t div 1000000"

definition card_etag :: "time \<Rightarrow> string" where
  "card_etag t = ''W/'' @ [CHR 0x22] @ decimal (UnixMilli t) @ [CHR 0x22]"

definition GetEntryCard :: "Handler \<Rightarrow> string \<Rightarrow> string \<Rightarrow> (db, card_reply reply) act" where
  "GetEntryCard h ifNoneMatch id' = try_op (SQLStore_Get (h_store h) id')
     (\<lambda>_. ret (ErrorResponse 500 ''failed to get catalog entry''))
     (\<lambda>entry. case entry of None \<Rightarrow> ret (ErrorResponse 404 ''catalog entry not found'')
        | Some e \<Rightarrow>
            if \<not> h_cardStore h then ret (ErrorResponse 404 ''card store plugin not loaded'')
            else try_op (GetCard (AgentTypeID e))
              (\<lambda>err. if errors_Is err ErrRecordNotFound then ret (ErrorResponse 404 ''no raw card stored'')
                     else ret (ErrorResponse 500 ''failed to retrieve card''))
              (\<lambda>card. let known = \<not> IsZero (raw_FetchedAt card); etag = card_etag (raw_FetchedAt card) in
                if known \<and> ifNoneMatch = etag then ret (WriteHeader 304)
                else ret (JSONResponse 200
                  \<lparr>body_Data = raw_Data card,
                   header_ContentType = (if raw_ContentType card = '''' then ''application/json'' else raw_ContentType card),
                   header_Truncated = raw_Truncated card,
                   header_ETag = (if known then Some etag else None),
                   header_FetchedAt = (if known then Some (raw_FetchedAt card) else None)\<rparr>)))"

definition GetStats :: "Handler \<Rightarrow> (db, StoreStats reply) act" where
  "GetStats h = try_op (SQLStore_Stats (h_text h)) (\<lambda>_. ret (ErrorResponse 500 ''failed to get stats''))
     (\<lambda>stats. ret (JSONResponse 200 stats))"

section \<open>Registration\<close>

datatype register_error = errUpsertProvider | errDuplicateEndpoint | errCreateEntry

fun register_message :: "register_error \<Rightarrow> string" where
  "register_message errUpsertProvider = ''failed to upsert provider''"
| "register_message errDuplicateEndpoint = ''an entry with this endpoint already exists''"
| "register_message errCreateEntry = ''failed to create catalog entry''"

text \<open>The identifiers one registration draws.\<close>

record fresh_ids =
  new_typeID :: string
  new_providerID :: string
  new_providerRow :: string
  new_entryID :: string
  new_capIDs :: "nat \<Rightarrow> string"

definition card_name :: "parser_env \<Rightarrow> string \<Rightarrow> string option" where
  "card_name env raw = do { j \<leftarrow> unmarshal_json env raw; l \<leftarrow> object_of j; str_field (struct_lookup l) ''name'' }"

definition display_name :: "parser_env \<Rightarrow> string \<Rightarrow> string \<Rightarrow> string" where
  "display_name env endpoint rawCard =
     (if rawCard = '''' then endpoint
      else (case card_name env rawCard of Some n \<Rightarrow> if n \<noteq> '''' then n else endpoint | None \<Rightarrow> endpoint))"

definition managed_type :: "Handler \<Rightarrow> string \<Rightarrow> time \<Rightarrow> AgentType \<Rightarrow> AgentType" where
  "managed_type h typeID now t = t\<lparr>agent_type_ID := typeID,
     AgentKey := ComputeAgentKey (h_json h) (agent_Protocol t) (Endpoint t), CreatedOn := now\<rparr>"

definition upsert_provider_of :: "fresh_ids \<Rightarrow> time \<Rightarrow> AgentType \<Rightarrow> (db, AgentType) op" where
  "upsert_provider_of ids now t = (case agent_Provider t of None \<Rightarrow> ok t
     | Some p \<Rightarrow>
        (let p1 = p\<lparr>provider_ID := (if provider_ID p = '''' then new_providerID ids else provider_ID p),
                    provider_CreatedOn := now\<rparr>
         in pass_op (UpsertProvider (new_providerRow ids) now p1) (\<lambda>up.
              ok (t\<lparr>agent_Provider := Some up, ProviderID := Some (provider_ID up)\<rparr>))))"

definition registerAgentType :: "Handler \<Rightarrow> fresh_ids \<Rightarrow> time \<Rightarrow> AgentType \<Rightarrow> string \<Rightarrow> SourceType \<Rightarrow>
    (db, register_error + CatalogEntry) act" where
  "registerAgentType h ids now agentType rawCard source =
     try_op (upsert_provider_of ids now (managed_type h (new_typeID ids) now agentType))
       (\<lambda>_. ret (Inl errUpsertProvider)) (\<lambda>t.
     let entry = fresh_entry (new_entryID ids) now (display_name (h_json h) (Endpoint t) rawCard) '''' source t
     in try_op (SQLStore_Create (h_store h) (new_capIDs ids) now entry)
          (\<lambda>e. ret (Inl (if is_unique_violation e then errDuplicateEndpoint else errCreateEntry)))
          (\<lambda>stored.
            if h_cardStore h \<and> rawCard \<noteq> ''''
            then ignore_op (StoreCard now (agent_type_ID t) rawCard ''application/json'') (ret (Inr stored))
            else ret (Inr stored)))"

datatype card_body = Validated ValidationResult | Registered CatalogEntry

definition register_reply :: "register_error + CatalogEntry \<Rightarrow> card_body reply" where
  "register_reply r = (case r of
       Inl errDuplicateEndpoint \<Rightarrow> ErrorResponse 409 (register_message errDuplicateEndpoint)
     | Inl e \<Rightarrow> ErrorResponse 500 (register_message e)
     | Inr entry \<Rightarrow> JSONResponse 201 (Registered entry))"

definition then_reply :: "('s, 'a) act \<Rightarrow> ('a \<Rightarrow> 'r) \<Rightarrow> ('s, 'r) act" where
  "then_reply m f = (\<lambda>s. case m s of (a, s') \<Rightarrow> (f a, s'))"

text \<open>Validation, parsing and registration by a parser, which two handlers share.\<close>

definition register_with :: "Handler \<Rightarrow> ParserPlugin \<Rightarrow> fresh_ids \<Rightarrow> time \<Rightarrow> string \<Rightarrow> (db, card_body reply) act" where
  "register_with h parser ids now raw =
     (let result = pp_Validate parser raw in
      if \<not> Valid result then ret (JSONResponse 422 (Validated result))
      else (case pp_Parse parser now raw of
          Inl e \<Rightarrow> ret (ErrorResponse 400 (error_string e))
        | Inr agentType \<Rightarrow> then_reply (registerAgentType h ids now agentType raw SourcePush) register_reply))"

definition RegisterAgentCard :: "Handler \<Rightarrow> fresh_ids \<Rightarrow> time \<Rightarrow> string option \<Rightarrow> (db, card_body reply) act" where
  "RegisterAgentCard h ids now body = (case body of
       None \<Rightarrow> ret (ErrorResponse 400 ''failed to read request body'')
     | Some raw \<Rightarrow>
        if raw = '''' then ret (ErrorResponse 400 ''request body is empty'')
        else (case h_parsers h ProtocolA2A of
            None \<Rightarrow> ret (ErrorResponse 500 ''a2a parser not available'')
          | Some parser \<Rightarrow> register_with h parser ids now raw))"

definition ValidateAgentCard :: "Handler \<Rightarrow> string option \<Rightarrow> (db, card_body reply) act" where
  "ValidateAgentCard h body = (case body of
       None \<Rightarrow> ret (ErrorResponse 400 ''failed to read request body'')
     | Some raw \<Rightarrow> (case h_parsers h ProtocolA2A of
            None \<Rightarrow> ret (ErrorResponse 500 ''a2a parser not available'')
          | Some parser \<Rightarrow>
             (let result = pp_Validate parser raw in
              if Valid result then ret (JSONResponse 200 (Validated result))
              else ret (JSONResponse 422 (Validated result)))))"

record importRequest =
  import_URL :: string
  import_Protocol :: "string option"

definition chosen_protocol :: "importRequest \<Rightarrow> FetchResult \<Rightarrow> string" where
  "chosen_protocol req result = (case import_Protocol req of
       Some p \<Rightarrow> if p \<noteq> '''' then p else DetectedProtocol result
     | None \<Rightarrow> DetectedProtocol result)"

definition ImportCatalogEntry :: "Handler \<Rightarrow> fresh_ids \<Rightarrow> time \<Rightarrow> importRequest option \<Rightarrow> (db, card_body reply) act" where
  "ImportCatalogEntry h ids now body = (case body of
       None \<Rightarrow> ret (ErrorResponse 400 ''invalid request body'')
     | Some req \<Rightarrow> (case fetcher_ValidateURL (h_cardFetcher h) (import_URL req) of
         Some e \<Rightarrow> ret (ErrorResponse 400 (error_string e))
       | None \<Rightarrow> (case fetcher_Fetch (h_cardFetcher h) (import_URL req) of
           Inl e \<Rightarrow> ret (ErrorResponse 502 (''could not fetch card from url: '' @ error_string e))
         | Inr result \<Rightarrow>
            (let protocol = chosen_protocol req result in
             if protocol = ''''
             then ret (ErrorResponse 400 ''could not detect protocol; specify 'protocol' in the request body'')
             else (case h_parsers h protocol of
                 None \<Rightarrow> ret (ErrorResponse 400 (''unsupported protocol: '' @ protocol))
               | Some parser \<Rightarrow> register_with h parser ids now (RawJSON result))))))"

section \<open>Capabilities\<close>

definition find_sub :: "string \<Rightarrow> string \<Rightarrow> nat option" where
  "find_sub sep s = find (\<lambda>i. HasPrefix (drop i s) sep) [0..<Suc (length s)]"

text \<open>\<^verbatim>\<open>strings.SplitN(s, sep, 2)\<close>, when the separator occurs.\<close>

definition split_first :: "string \<Rightarrow> string \<Rightarrow> (string \<times> string) option" where
  "split_first sep s = map_option (\<lambda>i. (take i s, drop (i + length sep) s)) (find_sub sep s)"

text \<open>\<^verbatim>\<open>url.PathUnescape\<close>.\<close>

fun PathUnescape :: "string \<Rightarrow> string option" where
  "PathUnescape [] = Some []"
| "PathUnescape (c # s) =
     (if c \<noteq> CHR ''%'' then map_option ((#) c) (PathUnescape s)
      else (case s of
          a # b # rest \<Rightarrow> (case (hex_value a, hex_value b) of
              (Some x, Some y) \<Rightarrow> map_option ((#) (char_of (16 * x + y))) (PathUnescape rest)
            | _ \<Rightarrow> None)
        | _ \<Rightarrow> None))"

definition page_param :: "string \<Rightarrow> int \<Rightarrow> int \<Rightarrow> int option" where
  "page_param text least default' =
     (if text = '''' then Some default'
      else (case Atoi text of Some n \<Rightarrow> if n < least then None else Some n | None \<Rightarrow> None))"

definition CapabilityHandler_ListCapabilities ::
    "sql_text \<Rightarrow> (json \<Rightarrow> string) \<Rightarrow> params \<Rightarrow> (db, CapabilityListResult reply) act" where
  "CapabilityHandler_ListCapabilities x json_text q =
     (if q ''kind'' \<noteq> '''' \<and> q ''kind'' \<notin> set DiscoverableKinds
      then ret (ErrorResponse 400 ''invalid kind parameter'')
      else if q ''sort'' \<noteq> '''' \<and> q ''sort'' \<noteq> ''name_asc'' \<and> q ''sort'' \<noteq> ''agentName_asc''
      then ret (ErrorResponse 400 ''invalid sort parameter'')
      else (case page_param (q ''limit'') 1 50 of
          None \<Rightarrow> ret (ErrorResponse 400 ''invalid limit parameter'')
        | Some limit \<Rightarrow> (case page_param (q ''offset'') 0 0 of
            None \<Rightarrow> ret (ErrorResponse 400 ''invalid offset parameter'')
          | Some offset \<Rightarrow>
              try_op (ListCapabilities x json_text
                  \<lparr>cf_Query = q ''q'', cf_Kind = q ''kind'', cf_Limit = limit, cf_Offset = offset,
                   cf_Sort = (if q ''sort'' = '''' then ''name_asc'' else q ''sort'')\<rparr>)
                (\<lambda>_. ret (ErrorResponse 500 ''failed to list capabilities''))
                (\<lambda>result. ret (JSONResponse 200 result)))))"

record capabilityAgentDTO =
  dto_ID :: string
  dto_DisplayName :: string
  dto_Protocol :: string
  dto_Provider :: "Provider option"
  dto_Health :: Health
  dto_SpecVersion :: string
  dto_Status :: string
  dto_Snippet :: "json option"

record capabilityDetailResponse =
  detail_Kind :: string
  detail_Name :: string
  detail_Agents :: "capabilityAgentDTO list"

fun snippet_of :: "string \<Rightarrow> string \<Rightarrow> Capability list \<Rightarrow> json option" where
  "snippet_of kind name [] = None"
| "snippet_of kind name (c # cs) =
     (if Kind c = kind \<and> map_of (cap_fields c) ''name'' = Some (JStr name)
      then Some (map_json (AList.update ''kind'' (JStr (Kind c)) (cap_fields c)))
      else snippet_of kind name cs)"

definition buildCapabilitySnippet :: "AgentType \<Rightarrow> string \<Rightarrow> string \<Rightarrow> json option" where
  "buildCapabilitySnippet agentType kind name = snippet_of kind name (Capabilities agentType)"

definition agent_dto :: "json_codec \<Rightarrow> string \<Rightarrow> string \<Rightarrow> CatalogEntry \<Rightarrow> capabilityAgentDTO" where
  "agent_dto j kind name entry =
     (let e = SyncFromDB j entry; t = entry_AgentType e in
      \<lparr>dto_ID = entry_ID e, dto_DisplayName = entry_DisplayName e,
       dto_Protocol = (case t of Some t \<Rightarrow> agent_Protocol t | None \<Rightarrow> ''''),
       dto_Provider = Option.bind t agent_Provider,
       dto_Health = entry_Health e,
       dto_SpecVersion = (case t of Some t \<Rightarrow> agent_SpecVersion t | None \<Rightarrow> ''''),
       dto_Status = Status e,
       dto_Snippet = Option.bind t (\<lambda>t. buildCapabilitySnippet t kind name)\<rparr>)"

definition GetCapabilityAgents :: "store_env \<Rightarrow> string \<Rightarrow> (db, capabilityDetailResponse reply) act" where
  "GetCapabilityAgents env key = (case PathUnescape key of
       None \<Rightarrow> ret (ErrorResponse 400 ''invalid key encoding'')
     | Some keyDecoded \<Rightarrow> (case split_first ''::'' keyDecoded of
         None \<Rightarrow> ret (ErrorResponse 400 ''key must be in format kind::name'')
       | Some (kind, name) \<Rightarrow>
           try_op (ListAgentsByCapability env kind name)
             (\<lambda>_. ret (ErrorResponse 500 ''failed to query agents'')) (\<lambda>entries.
           if entries = [] then ret (ErrorResponse 404 ''capability not found'')
           else ret (JSONResponse 200 \<lparr>detail_Kind = kind, detail_Name = name,
                  detail_Agents = map (agent_dto (codec env) kind name) entries\<rparr>))))"

section \<open>Deleting and creating again\<close>

lemma FindByEndpoint_clean:
  assumes "faults s = []"
  shows "FindByEndpoint env endpoint s = (Inr (map_option (entry_view env s) (first_by entry_ID
    (\<lambda>e. \<exists>t \<in> set (agent_types s). agent_type_ID t = AgentTypeID e \<and> Endpoint t = endpoint) (catalog_entries s))), s)"
  unfolding FindByEndpoint_def by (rule first_entry_clean [OF assms])

lemma catalog_type_stored:
  assumes "catalog env s i = Some e" and "entry_AgentType e = Some t"
  shows "\<exists>row \<in> set (agent_types s). AgentKey row = AgentKey t \<and> agent_Version row = agent_Version t"
proof -
  from assms obtain r :: CatalogEntry where "loaded_type s (AgentTypeID r) = Some t"
    by (auto simp: catalog_def entry_view_alt)
  then obtain row where r: "first_by agent_type_ID (\<lambda>t. agent_type_ID t = AgentTypeID r) (agent_types s) = Some row"
    and "AgentKey row = AgentKey t" "agent_Version row = agent_Version t"
    by (auto simp: loaded_type_def split: option.splits)
  moreover from r have "row \<in> set (agent_types s)" using first_by_Some [OF r] by simp
  ultimately show ?thesis by blast
qed

lemma is_unique_violation_wrapped: "is_unique_violation (wrapf m (errorf (''UNIQUE constraint failed: '' @ cols)))"
proof -
  have "Contains (''UNIQUE constraint failed: '' @ cols) ''UNIQUE constraint failed''"
    by (rule Contains_prefix) simp
  then have "Contains ((m @ '': '') @ ''UNIQUE constraint failed: '' @ cols) ''UNIQUE constraint failed''"
    by (rule Contains_appendI)
  then show ?thesis by (simp add: is_unique_violation_def)
qed

text \<open>A store whose default project resolves, when it is needed.\<close>

definition project_resolves :: "store_env \<Rightarrow> db \<Rightarrow> bool" where
  "project_resolves env s \<longleftrightarrow> partyStore env \<longrightarrow> (\<exists>p. GetDefaultProject s = (Inr p, s))"

lemma Create_type_clash:
  assumes clean: "faults s = []" and "entry_AgentType entry = Some t" and "agent_Provider t = None"
    and "agent_type_clash t (agent_types s) = Some cols" and "project_resolves env s"
  shows "\<exists>m. SQLStore_Create env uids now entry s = (Inl (wrapf m (errorf (''UNIQUE constraint failed: '' @ cols))), s)"
proof -
  have "with_provider_key (mapper env) t = t" using assms(3) by (simp add: with_provider_key_def)
  moreover have "agent_type_clash (agent_type_row t) = agent_type_clash t"
    by (rule ext) (simp add: agent_type_clash_def)
  ultimately have body: "create_body env uids now project t e s =
      (Inl (wrapf ''creating agent_type'' (errorf (''UNIQUE constraint failed: '' @ cols))), s)" for project e
    using assms(1,3,4) by (simp add: create_body_def Let_def op_defs save_provider_of_def insert_row_clean)
  then have "Transaction (create_body env uids now project t e) s =
      (Inl (wrapf ''creating agent_type'' (errorf (''UNIQUE constraint failed: '' @ cols))), s)" for project e
    using clean by (simp add: Transaction_clean)
  then show ?thesis
    using assms(2,5) by (auto simp: SQLStore_Create_def op_defs project_resolves_def)
qed

text \<open>
  \<^bold>\<open>C38\<close> An endpoint that was deleted cannot be created again.  Deleting an entry removes only the
  entry; its agent type stays, and the unique index on key and version refuses the next creation of
  the same protocol, endpoint and version.  The handler answers 409 and says that an entry with the
  endpoint exists, while the lookup by endpoint finds none.
\<close>

theorem deleted_endpoint_stays_taken:
  assumes clean: "faults s = []" and e: "catalog (h_store h) s i = Some e" "entry_AgentType e = Some t"
    and key: "AgentKey t = ComputeAgentKey (h_json h) (ce_Protocol req) (ce_Endpoint req)"
      "agent_Version t = ce_Version req"
    and valid: "TrimSpace (ce_DisplayName req) \<noteq> ''''" "TrimSpace (ce_Endpoint req) \<noteq> ''''"
      "ce_Protocol req \<in> {ProtocolA2A, ProtocolMCP, ProtocolA2UI}"
    and project: "project_resolves (h_store h) (snd (DeleteEntry h i s))"
  shows "fst (DeleteEntry h i s) = WriteHeader 204 \<and>
    fst (GetEntry h i (snd (DeleteEntry h i s))) = ErrorResponse 404 ''catalog entry not found'' \<and>
    CreateEntry h typeID entryID uids now (Some req) (snd (DeleteEntry h i s)) =
      (ErrorResponse 409 ''an entry with this endpoint already exists'', snd (DeleteEntry h i s)) \<and>
    (list_all (\<lambda>r. entry_ID r = i \<or> list_all (\<lambda>u. agent_type_ID u = AgentTypeID r \<longrightarrow> Endpoint u \<noteq> ce_Endpoint req)
        (agent_types s)) (catalog_entries s) \<longrightarrow>
     fst (FindByEndpoint (h_store h) (ce_Endpoint req) (snd (DeleteEntry h i s))) = Inr None)"
proof -
  let ?s1 = "s\<lparr>catalog_entries := filter (\<lambda>e. \<not> entry_ID e = i) (catalog_entries s)\<rparr>"
  have del: "DeleteEntry h i s = (WriteHeader 204, ?s1)"
    using clean e by (simp add: DeleteEntry_def op_defs Get_clean SQLStore_Delete_def)
  have gone: "catalog (h_store h) ?s1 i = None" by (auto simp: catalog_None_iff)
  have clean1: "faults ?s1 = []" using clean by simp
  let ?t = "request_type (h_json h) typeID now req"
  have "agent_type_clash ?t (agent_types ?s1) \<noteq> None"
    using catalog_type_stored [OF e] key by (auto simp: agent_type_clash_def request_type_def)
  then obtain cols where cols: "agent_type_clash ?t (agent_types ?s1) = Some cols" by blast
  let ?e = "fresh_entry entryID now (ce_DisplayName req) (ce_Description req) SourcePush ?t"
  have t: "entry_AgentType ?e = Some ?t" "agent_Provider ?t = None"
    by (simp_all add: fresh_entry_def request_type_def)
  have project1: "project_resolves (h_store h) ?s1" using project by (simp add: del)
  obtain m where "SQLStore_Create (h_store h) uids now ?e ?s1 =
      (Inl (wrapf m (errorf (''UNIQUE constraint failed: '' @ cols))), ?s1)"
    using Create_type_clash [OF clean1 t cols project1, of uids now] by blast
  then have "CreateEntry h typeID entryID uids now (Some req) ?s1 =
      (ErrorResponse 409 ''an entry with this endpoint already exists'', ?s1)"
    using valid clean1 is_unique_violation_wrapped
    by (simp add: CreateEntry_def FindByEndpoint_clean try_op_def Let_def)
  then show ?thesis
    using clean1 gone
    by (auto simp: del GetEntry_def op_defs Get_clean FindByEndpoint_clean first_by_None list_all_iff)
qed

definition sample_handler :: Handler where
  "sample_handler = \<lparr>h_store = sample_store_env,
     h_text = \<lparr>sql_like = \<lambda>p t. True, sql_lower = \<lambda>s. s, wide_lower = \<lambda>s. s\<rparr>,
     h_json = sample_parser_env\<lparr>sha256_hex := \<lambda>_. ''k1''\<rparr>,
     h_parsers = [ProtocolA2A \<mapsto> a2a_plugin (sample_parser_env\<lparr>sha256_hex := \<lambda>_. ''k1''\<rparr>)],
     h_cardStore = True, h_cardFetcher = NewCardFetcher sample_net\<rparr>"

definition sample_request :: createEntryRequest where
  "sample_request = \<lparr>ce_DisplayName = ''Agent'', ce_Description = '''', ce_Protocol = ProtocolA2A,
     ce_Endpoint = ''http://agent'', ce_Version = ''1''\<rparr>"

theorem deleted_endpoint_stays_taken_witness:
  "fst (CreateEntry sample_handler ''t2'' ''e2'' sample_uids 9 (Some sample_request)
      (snd (DeleteEntry sample_handler ''e1'' sample_catalog_db))) =
     ErrorResponse 409 ''an entry with this endpoint already exists''"
proof -
  let ?v = "stored_entry sample_store_env 7 sample_type sample_entry"
  let ?t = "sample_type\<lparr>Capabilities := map stored_form (Capabilities sample_type), RawBytes := ''''\<rparr>"
  have t: "entry_AgentType ?v = Some ?t" by (simp add: stored_entry_def Let_def)
  have c: "faults sample_catalog_db = []" "catalog (h_store sample_handler) sample_catalog_db ''e1'' = Some ?v"
    using sample_catalog_live by (simp_all add: sample_handler_def)
  have k: "AgentKey ?t = ComputeAgentKey (h_json sample_handler) (ce_Protocol sample_request) (ce_Endpoint sample_request)"
    "agent_Version ?t = ce_Version sample_request"
    by (simp_all add: sample_type_def sample_handler_def ComputeAgentKey_def sample_request_def)
  have v: "TrimSpace (ce_DisplayName sample_request) \<noteq> ''''" "TrimSpace (ce_Endpoint sample_request) \<noteq> ''''"
    by code_simp+
  have p: "ce_Protocol sample_request \<in> {ProtocolA2A, ProtocolMCP, ProtocolA2UI}" by (simp add: sample_request_def)
  have r: "project_resolves (h_store sample_handler) s" for s
    by (simp add: project_resolves_def sample_handler_def sample_store_env_def)
  show ?thesis
    using deleted_endpoint_stays_taken [OF c t k v p r, of "''t2''" "''e2''" sample_uids 9] by simp
qed

section \<open>Registration and retrieval\<close>

lemma upsert_provider_clean:
  assumes clean: "faults s = []" and d: "distinct (map provider_ID (providers s))"
    and none: "agent_Provider t = None \<Longrightarrow> ProviderID t = None"
    and run: "upsert_provider_of ids now t s = (Inr t', s')"
  shows "faults s' = [] \<and> provider_stored t' s' \<and> s' = s\<lparr>providers := providers s'\<rparr> \<and>
    t' = t\<lparr>agent_Provider := agent_Provider t', ProviderID := ProviderID t'\<rparr> \<and>
    map_option Organization (agent_Provider t') = map_option Organization (agent_Provider t) \<and>
    map_option Team (agent_Provider t') = map_option Team (agent_Provider t)"
proof (cases "agent_Provider t")
  case None
  then have "t' = t" "s' = s" using run by (simp_all add: upsert_provider_of_def)
  then show ?thesis using None none [OF None] clean d by (simp add: provider_stored_def)
next
  case (Some p)
  let ?p = "p\<lparr>provider_ID := if provider_ID p = [] then new_providerID ids else provider_ID p, provider_CreatedOn := now\<rparr>"
  from Some run obtain up where up: "UpsertProvider (new_providerRow ids) now ?p s = (Inr up, s')"
    and t': "t' = t\<lparr>agent_Provider := Some up, ProviderID := Some (provider_ID up)\<rparr>"
    by (auto simp: upsert_provider_of_def Let_def pass_op_def elim!: try_opE)
  have "up \<in> set (providers s') \<and> distinct (map provider_ID (providers s')) \<and> faults s' = [] \<and>
      s' = s\<lparr>providers := providers s'\<rparr> \<and> Organization up = Organization p \<and> Team up = Team p"
  proof (cases "first_by provider_ID (\<lambda>q. Organization q = Organization p \<and> Team q = Team p) (providers s)")
    case (Some q)
    then have "up = q" "s' = s" using up clean by (simp_all add: UpsertProvider_def op_defs First_clean)
    then show ?thesis using first_by_Some [OF Some] clean d by simp
  next
    case None
    then obtain q where q: "up = q" "provider_clash q (providers s) = None" "s' = s\<lparr>providers := providers s @ [q]\<rparr>"
        "Organization q = Organization p" "Team q = Team p"
      using up clean
      by (auto simp: UpsertProvider_def op_defs First_clean insert_row_clean Let_def split: option.splits)
    then show ?thesis using clean d by (auto simp: provider_clash_def split: if_splits)
  qed
  then show ?thesis using Some by (simp add: t' provider_stored_def)
qed

lemma StoreCard_clean:
  assumes "faults s = []" and "tid \<noteq> ''''"
  shows "\<exists>cards. StoreCard now tid data ct s = (Inr (), s\<lparr>raw_cards := cards\<rparr>) \<and>
    first_by raw_AgentTypeID (\<lambda>q. raw_AgentTypeID q = tid) cards =
      Some \<lparr>raw_AgentTypeID = tid, raw_Data = take maxCardBytes data,
            raw_ContentType = (if ct = '''' then ''application/json'' else ct), raw_FetchedAt = now,
            raw_Truncated = (length data > maxCardBytes)\<rparr>"
proof -
  let ?row = "\<lparr>raw_AgentTypeID = tid, raw_Data = take maxCardBytes data,
      raw_ContentType = (if ct = '''' then ''application/json'' else ct), raw_FetchedAt = now,
      raw_Truncated = (length data > maxCardBytes)\<rparr>"
  let ?cards = "if \<exists>q \<in> set (raw_cards s). raw_AgentTypeID q = tid
      then map (\<lambda>q. if raw_AgentTypeID q = tid then ?row else q) (raw_cards s) else raw_cards s @ [?row]"
  have "StoreCard now tid data ct s = (Inr (), s\<lparr>raw_cards := ?cards\<rparr>)"
    using assms by (simp add: StoreCard_def Let_def op_defs)
  moreover have "first_by raw_AgentTypeID (\<lambda>q. raw_AgentTypeID q = tid) ?cards = Some ?row"
    by (rule first_by_unique) (auto split: if_splits)
  ultimately show ?thesis by blast
qed

lemma registerAgentType_clean:
  assumes clean: "faults s = []" and inv: "catalog_inv s" and d: "distinct (map provider_ID (providers s))"
    and none: "ProviderID t0 = None" and valid: "\<forall>c \<in> set (Capabilities t0). Validate c = None"
    and json: "codec_ok (codec (h_store h)) [] []" and tid: "new_typeID ids \<noteq> ''''"
    and run: "registerAgentType h ids now t0 raw source s = (Inr stored, s')"
  shows "\<exists>t. t = (managed_type h (new_typeID ids) now t0)\<lparr>agent_Provider := agent_Provider t, ProviderID := ProviderID t\<rparr> \<and>
    map_option Organization (agent_Provider t) = map_option Organization (agent_Provider t0) \<and>
    map_option Team (agent_Provider t) = map_option Team (agent_Provider t0) \<and>
    faults s' = [] \<and> catalog_inv s' \<and>
    catalog (h_store h) s' (new_entryID ids) = Some (stored_entry (h_store h) now t
      (fresh_entry (new_entryID ids) now (display_name (h_json h) (Endpoint t0) raw) '''' source t)) \<and>
    (h_cardStore h \<and> raw \<noteq> '''' \<longrightarrow> first_by raw_AgentTypeID (\<lambda>q. raw_AgentTypeID q = new_typeID ids) (raw_cards s') =
      Some \<lparr>raw_AgentTypeID = new_typeID ids, raw_Data = take maxCardBytes raw, raw_ContentType = ''application/json'',
            raw_FetchedAt = now, raw_Truncated = (length raw > maxCardBytes)\<rparr>)"
proof -
  let ?m = "managed_type h (new_typeID ids) now t0"
  have m: "agent_Provider ?m = agent_Provider t0" "ProviderID ?m = None" "Capabilities ?m = Capabilities t0"
    "Endpoint ?m = Endpoint t0" "agent_type_ID ?m = new_typeID ids"
    by (simp_all add: managed_type_def none)
  let ?e = "\<lambda>t. fresh_entry (new_entryID ids) now (display_name (h_json h) (Endpoint t) raw) '''' source t"
  from run obtain t s1 st s2 where up: "upsert_provider_of ids now ?m s = (Inr t, s1)"
    and cr: "SQLStore_Create (h_store h) (new_capIDs ids) now (?e t) s1 = (Inr st, s2)"
    and fin: "(if h_cardStore h \<and> raw \<noteq> ''''
            then ignore_op (StoreCard now (agent_type_ID t) raw ''application/json'') (ret (Inr st))
            else ret (Inr st)) s2 = (Inr stored :: register_error + CatalogEntry, s')"
    unfolding registerAgentType_def Let_def by (elim try_opE) (simp, simp, rule that)
  have u: "faults s1 = []" "provider_stored t s1" "s1 = s\<lparr>providers := providers s1\<rparr>"
    "t = ?m\<lparr>agent_Provider := agent_Provider t, ProviderID := ProviderID t\<rparr>"
    "map_option Organization (agent_Provider t) = map_option Organization (agent_Provider t0)"
    "map_option Team (agent_Provider t) = map_option Team (agent_Provider t0)"
    using upsert_provider_clean [OF clean d _ up] m(1,2) by auto
  have f: "Endpoint t = Endpoint t0" "agent_type_ID t = new_typeID ids" "Capabilities t = Capabilities t0"
    using arg_cong [OF u(4), of Endpoint] arg_cong [OF u(4), of agent_type_ID] arg_cong [OF u(4), of Capabilities]
    by (simp_all add: m)
  have inv1: "catalog_inv s1"
  proof -
    have "catalog_inv (s\<lparr>providers := ps\<rparr>) = catalog_inv s" for ps by (simp add: catalog_inv_def)
    then show ?thesis using inv u(3) by metis
  qed
  have et: "entry_AgentType (?e t) = Some t" and ej: "codec_ok (codec (h_store h)) (Categories (?e t)) (Metadata (?e t))"
    and eid: "entry_ID (?e t) = new_entryID ids"
    using json by (simp_all add: fresh_entry_def)
  have R: "faults s2 = []" "catalog_inv s2"
    "catalog (h_store h) s2 (new_entryID ids) = Some (stored_entry (h_store h) now t (?e t))"
    using Create_refines [OF u(1) inv1 et u(2) _ ej cr] valid by (simp_all add: f(1,3) eid)
  show ?thesis
  proof (cases "h_cardStore h \<and> raw \<noteq> ''''")
    case True
    obtain cards where sc: "StoreCard now (new_typeID ids) raw ''application/json'' s2 = (Inr (), s2\<lparr>raw_cards := cards\<rparr>)"
      and look: "first_by raw_AgentTypeID (\<lambda>q. raw_AgentTypeID q = new_typeID ids) cards =
        Some \<lparr>raw_AgentTypeID = new_typeID ids, raw_Data = take maxCardBytes raw, raw_ContentType = ''application/json'',
            raw_FetchedAt = now, raw_Truncated = (length raw > maxCardBytes)\<rparr>"
      using StoreCard_clean [OF R(1) tid, of now raw "''application/json''"] by auto
    have s': "s' = s2\<lparr>raw_cards := cards\<rparr>"
      using fin True sc by (simp add: ignore_op_def try_op_def f(2))
    have inv2: "catalog_inv s'" using R(2) by (simp add: s' catalog_inv_def)
    show ?thesis
      by (intro exI [of _ t] conjI impI) (use u(4-6) R inv2 look f(1) in \<open>simp_all add: s'\<close>)
  next
    case False
    then have s': "s' = s2" using fin by auto
    show ?thesis using False
      by (intro exI [of _ t] conjI impI) (use u(4-6) R f(1) in \<open>simp_all add: s'\<close>)
  qed
qed

lemma stored_entry_fields:
  "entry_DisplayName (stored_entry env now t e) = entry_DisplayName e" "Source (stored_entry env now t e) = Source e"
  "Status (stored_entry env now t e) = (if Status e = '''' then LifecycleRegistered else Status e)"
  "AgentTypeID (stored_entry env now t e) = agent_type_ID t"
  "entry_AgentType (stored_entry env now t e) = Some (t\<lparr>Capabilities := map stored_form (Capabilities t), RawBytes := ''''\<rparr>)"
  by (simp_all add: stored_entry_def new_entry_def stamp_entry_def SyncToDB_def Let_def split: option.split)

lemma decoded_card_name: "decode_card env raw = Some ac \<Longrightarrow> card_name env raw = Some (card_Name ac)"
  by (auto simp: decode_card_def card_name_def card_of_json_def Let_def bind_eq_Some_conv)

lemma LifecycleRegistered_nonempty [simp]: "LifecycleRegistered \<noteq> []"
  by (simp add: LifecycleRegistered_def)

lemma GetEntryCard_clean:
  assumes "faults s = []" and "catalog (h_store h) s i = Some v" and "h_cardStore h"
    and "first_by raw_AgentTypeID (\<lambda>q. raw_AgentTypeID q = AgentTypeID v) (raw_cards s) = Some row"
    and "\<not> IsZero (raw_FetchedAt row)" and "raw_ContentType row \<noteq> ''''"
  shows "fst (GetEntryCard h '''' i s) = JSONResponse 200 \<lparr>body_Data = raw_Data row,
    header_ContentType = raw_ContentType row, header_Truncated = raw_Truncated row,
    header_ETag = Some (card_etag (raw_FetchedAt row)), header_FetchedAt = Some (raw_FetchedAt row)\<rparr>"
proof -
  have "card_etag t \<noteq> []" for t by (simp add: card_etag_def)
  then have "[] \<noteq> card_etag t" for t by metis
  then show ?thesis using assms
    by (simp add: GetEntryCard_def op_defs Get_clean GetCard_def First_clean Let_def)
qed


definition good_card_json :: json where
  "good_card_json = JObj [(''name'', JStr ''A''), (''description'', JStr ''d''), (''version'', JStr ''1''),
     (''url'', JStr ''http://a''), (''provider'', JObj [(''organization'', JStr ''Org'')])]"

definition good_handler :: Handler where
  "good_handler = \<lparr>h_store = sample_store_env,
     h_text = \<lparr>sql_like = \<lambda>p t. True, sql_lower = \<lambda>s. s, wide_lower = \<lambda>s. s\<rparr>,
     h_json = \<lparr>unmarshal_json = \<lambda>_. Some good_card_json, sha256_hex = \<lambda>s. s\<rparr>,
     h_parsers = [ProtocolA2A \<mapsto> a2a_plugin \<lparr>unmarshal_json = \<lambda>_. Some good_card_json, sha256_hex = \<lambda>s. s\<rparr>],
     h_cardStore = True, h_cardFetcher = NewCardFetcher sample_net\<rparr>"

definition sample_ids :: fresh_ids where
  "sample_ids = \<lparr>new_typeID = ''t9'', new_providerID = ''p9'', new_providerRow = ''q9'', new_entryID = ''e9'',
     new_capIDs = sample_uids\<rparr>"

fun registered :: "card_body reply \<Rightarrow> CatalogEntry option" where
  "registered (JSONResponse c (Registered e)) = (if c = 201 then Some e else None)"
| "registered _ = None"

lemma registered_Some: "registered r = Some e \<Longrightarrow> r = JSONResponse 201 (Registered e)"
  by (cases r rule: registered.cases) (auto split: if_splits)

text \<open>Storing the raw card has no effect on the answer.\<close>

lemma register_reply_without_cards:
  "fst (RegisterAgentCard (h\<lparr>h_cardStore := False\<rparr>) ids now body s) = fst (RegisterAgentCard h ids now body s)"
proof -
  have "managed_type (h\<lparr>h_cardStore := b\<rparr>) = managed_type h" for b by (intro ext) (simp add: managed_type_def)
  then have "fst (registerAgentType (h\<lparr>h_cardStore := False\<rparr>) ids now t raw src s) = fst (registerAgentType h ids now t raw src s)"
    for t raw src
    by (simp add: registerAgentType_def try_op_def ignore_op_def Let_def split: prod.split sum.split)
  then show ?thesis
    by (simp add: RegisterAgentCard_def register_with_def then_reply_def Let_def case_prod_unfold split: option.split sum.split)
qed

lemma good_run:
  "map_option entry_ID (registered (fst (RegisterAgentCard good_handler sample_ids 7 (Some ''card'') empty_db))) = Some ''e9''"
proof -
  have "map_option entry_ID (registered (fst (RegisterAgentCard (good_handler\<lparr>h_cardStore := False\<rparr>) sample_ids 7
      (Some ''card'') empty_db))) = Some ''e9''"
    by code_simp
  then show ?thesis unfolding register_reply_without_cards .
qed

lemma good_decoded:
  "map_option (\<lambda>ac. (card_Name ac, list_all (\<lambda>c. Validate c = None) (card_caps ac))) (decode_card (h_json good_handler) ''card'')
     = Some (''A'', True)"
  by code_simp


end
