(* ===== verification/Config.thy ===== *)
theory Config
  imports Health Catalog_Api
begin

text \<open>
  Configuration (\<^verbatim>\<open>internal/config/config.go\<close>) and the choices \<^verbatim>\<open>cmd/agentlens/main.go\<close> makes from
  it.  The environment, the file system, the YAML decoder and \<^verbatim>\<open>strconv.ParseFloat\<close> are arguments.
  Durations are read as the \<^verbatim>\<open>time\<close> package reads them, with the fraction of a unit rounded down
  exactly instead of through floating point.
\<close>

section \<open>The structure\<close>

text \<open>\<^verbatim>\<open>Finite m e\<close> is \<^verbatim>\<open>m * 2 ^ e\<close>.\<close>

datatype float64 = Finite int int | Infinite bool | NaN

record AuthConfig =
  src_auth_Type :: string
  src_auth_TokenEnv :: string

record source_config =
  src_Name :: string
  src_Type :: string
  src_URL :: string
  src_PollInterval :: duration
  src_Auth :: AuthConfig

record KubernetesConfig =
  k8s_Enabled :: bool
  k8s_Namespaces :: "string list"

record SQLiteConfig =
  sqlite_Path :: string

record PostgresConfig =
  pg_Host :: string
  pg_Port :: int
  pg_User :: string
  pg_Password :: string
  pg_DBName :: string
  pg_SSLMode :: string

record DatabaseConfig =
  db_Dialect :: string
  db_SQLite :: SQLiteConfig
  db_Postgres :: PostgresConfig

record AuthTokenConfig =
  JWTSecret :: string
  SessionDuration :: duration

record PrometheusConfig =
  prom_Enabled :: bool

record TelemetryConfig =
  tel_Enabled :: bool
  tel_Endpoint :: string
  FrontendEndpoint :: string
  tel_Protocol :: string
  Insecure :: bool
  ServiceName :: string
  Environment :: string
  TracesSampleRate :: float64
  MetricsInterval :: duration
  LogExportLevel :: string
  Headers :: "string \<rightharpoonup> string"
  Prometheus :: PrometheusConfig

record Config =
  Port :: int
  DataDir :: string
  LogLevel :: string
  LicenseKey :: string
  PollInterval :: duration
  Sources :: "source_config list"
  Kubernetes :: KubernetesConfig
  HealthCheck :: HealthCheckConfig
  Database :: DatabaseConfig
  cfg_Auth :: AuthTokenConfig
  Telemetry :: TelemetryConfig

definition DSN :: "PostgresConfig \<Rightarrow> string" where
  "DSN p = ''host='' @ pg_Host p @ '' port='' @ decimal (pg_Port p) @ '' user='' @ pg_User p @
     '' password='' @ pg_Password p @ '' dbname='' @ pg_DBName p @ '' sslmode='' @ pg_SSLMode p"

section \<open>Durations\<close>

definition duration_unit :: "string \<Rightarrow> nat option" where
  "duration_unit u =
     (if u = ''ns'' then Some 1
      else if u = ''us'' \<or> u = [CHR 0xC2, CHR 0xB5, CHR ''s''] \<or> u = [CHR 0xCE, CHR 0xBC, CHR ''s''] then Some 1000
      else if u = ''ms'' then Some (10 ^ 6) else if u = ''s'' then Some (10 ^ 9)
      else if u = ''m'' then Some (60 * 10 ^ 9) else if u = ''h'' then Some (3600 * 10 ^ 9) else None)"

text \<open>One number with its unit, and what follows.\<close>

definition duration_item :: "string \<Rightarrow> (nat \<times> string) option" where
  "duration_item s =
     (let whole = takeWhile is_dec s; r1 = dropWhile is_dec s;
          (frac, r2) = (case r1 of c # t \<Rightarrow> if c = CHR ''.'' then (takeWhile is_dec t, dropWhile is_dec t) else ([], r1)
             | [] \<Rightarrow> ([], []));
          is_unit = (\<lambda>c. c \<noteq> CHR ''.'' \<and> \<not> is_dec c);
          u = takeWhile is_unit r2; rest = dropWhile is_unit r2
      in if whole = [] \<and> frac = [] \<or> u = [] then None
         else (case duration_unit u of None \<Rightarrow> None
           | Some unit \<Rightarrow>
               let v = dec_number whole * unit + dec_number frac * unit div 10 ^ length frac
               in if v > 2 ^ 63 then None else Some (v, rest)))"

lemma duration_item_shorter: "duration_item s = Some (v, rest) \<Longrightarrow> length rest < length s"
proof -
  assume item: "duration_item s = Some (v, rest)"
  let ?r1 = "dropWhile is_dec s" and ?unit = "\<lambda>c. c \<noteq> CHR ''.'' \<and> \<not> is_dec c"
  obtain frac r2 where r2: "(case ?r1 of c # t \<Rightarrow>
      if c = CHR ''.'' then (takeWhile is_dec t, dropWhile is_dec t) else ([], ?r1) | [] \<Rightarrow> ([], [])) = (frac, r2)"
    by fastforce
  have "length r2 \<le> length r1" if "(case r1 of c # t \<Rightarrow>
      if c = CHR ''.'' then (takeWhile is_dec t, dropWhile is_dec t) else ([], r1) | [] \<Rightarrow> ([], [])) = (frac, r2)" for r1
    using that by (cases r1) (auto split: if_splits intro: le_SucI length_dropWhile_le)
  then have "length r2 \<le> length ?r1" using r2 by blast
  then have "length r2 \<le> length s" using length_dropWhile_le le_trans by blast
  moreover have "rest = dropWhile ?unit r2" "takeWhile ?unit r2 \<noteq> []"
    using item r2 unfolding duration_item_def Let_def by (simp_all split: if_splits option.splits)
  ultimately show ?thesis using dropWhile_shorter [of ?unit r2] by simp
qed

function duration_items :: "string \<Rightarrow> nat option" where
  "duration_items s = (if s = [] then Some 0
     else case duration_item s of None \<Rightarrow> None
       | Some (v, rest) \<Rightarrow> map_option ((+) v) (duration_items rest))"
  by pat_completeness auto
termination by (relation "measure length") (auto dest: duration_item_shorter)

definition ParseDuration :: "string \<Rightarrow> duration option" where
  "ParseDuration s =
     (let neg = HasPrefix s ''-''; t = (if neg \<or> HasPrefix s ''+'' then tl s else s)
      in if t = ''0'' then Some 0
         else if t = [] then None
         else (case duration_items t of None \<Rightarrow> None
           | Some d \<Rightarrow> if d > 2 ^ 63 then None
               else if neg then Some (- int d)
               else if d > 2 ^ 63 - 1 then None else Some (int d)))"

section \<open>Defaults\<close>

definition Minute :: duration where "Minute = 60 * 10 ^ 9"
definition Second :: duration where "Second = 10 ^ 9"
definition Millisecond :: duration where "Millisecond = 10 ^ 6"

definition defaults :: Config where
  "defaults = \<lparr>Port = 8080, DataDir = ''./data'', LogLevel = ''info'', LicenseKey = '''',
     PollInterval = 5 * Minute, Sources = [],
     Kubernetes = \<lparr>k8s_Enabled = False, k8s_Namespaces = []\<rparr>,
     HealthCheck = \<lparr>hc_Enabled = True, hc_Interval = 30 * Second, hc_Timeout = 5 * Second,
       hc_Concurrency = 8, hc_DegradedLatency = 1500 * Millisecond, hc_FailureThreshold = 3\<rparr>,
     Database = \<lparr>db_Dialect = ''sqlite'', db_SQLite = \<lparr>sqlite_Path = ''./data/agentlens.db''\<rparr>,
       db_Postgres = \<lparr>pg_Host = ''localhost'', pg_Port = 5432, pg_User = ''agentlens'', pg_Password = '''',
         pg_DBName = ''agentlens'', pg_SSLMode = ''disable''\<rparr>\<rparr>,
     cfg_Auth = \<lparr>JWTSecret = '''', SessionDuration = 24 * 60 * Minute\<rparr>,
     Telemetry = \<lparr>tel_Enabled = False, tel_Endpoint = '''', FrontendEndpoint = '''', tel_Protocol = ''grpc'',
       Insecure = True, ServiceName = ''agentlens'', Environment = ''production'', TracesSampleRate = Finite 1 0,
       MetricsInterval = 30 * Second, LogExportLevel = ''info'', Headers = Map.empty,
       Prometheus = \<lparr>prom_Enabled = False\<rparr>\<rparr>\<rparr>"

section \<open>The environment\<close>

record os_env =
  Getenv :: "string \<Rightarrow> string"
  ReadFile :: "string \<Rightarrow> error + string"
  yaml_Unmarshal :: "string \<Rightarrow> Config \<Rightarrow> error + Config"
  ParseFloat :: "string \<Rightarrow> float64 option"

definition env_var :: "os_env \<Rightarrow> string \<Rightarrow> string" where
  "env_var os key = Getenv os (''AGENTLENS_'' @ key)"

text \<open>The forms an override takes: the value, or what was there when the variable is empty or
  does not parse.\<close>

definition text_of :: "string \<Rightarrow> string \<Rightarrow> string" where
  "text_of v old = (if v \<noteq> '''' then v else old)"

definition parsed_of :: "(string \<Rightarrow> 'a option) \<Rightarrow> string \<Rightarrow> 'a \<Rightarrow> 'a" where
  "parsed_of parse v old = (if v \<noteq> '''' then (case parse v of Some x \<Rightarrow> x | None \<Rightarrow> old) else old)"

definition flag_of :: "string \<Rightarrow> bool \<Rightarrow> bool" where
  "flag_of v old = (if v \<noteq> '''' then map ascii_lower v = ''true'' \<or> v = ''1'' else old)"

definition parseHeaders :: "string \<Rightarrow> (string \<rightharpoonup> string)" where
  "parseHeaders s = foldl (\<lambda>headers pair. case split_first ''='' (TrimSpace pair) of
       Some (k, v) \<Rightarrow> headers(TrimSpace k \<mapsto> TrimSpace v) | None \<Rightarrow> headers)
     Map.empty (split_at (CHR '','') s)"

definition applyHealthCheckEnv :: "os_env \<Rightarrow> HealthCheckConfig \<Rightarrow> HealthCheckConfig" where
  "applyHealthCheckEnv os hc = hc\<lparr>
     hc_Enabled := flag_of (env_var os ''HEALTH_CHECK_ENABLED'') (hc_Enabled hc),
     hc_Interval := parsed_of ParseDuration (env_var os ''HEALTH_CHECK_INTERVAL'') (hc_Interval hc),
     hc_Timeout := parsed_of ParseDuration (env_var os ''HEALTH_CHECK_TIMEOUT'') (hc_Timeout hc),
     hc_Concurrency := parsed_of Atoi (env_var os ''HEALTH_CHECK_CONCURRENCY'') (hc_Concurrency hc),
     hc_DegradedLatency := parsed_of ParseDuration (env_var os ''HEALTH_CHECK_DEGRADED_LATENCY'') (hc_DegradedLatency hc),
     hc_FailureThreshold := parsed_of Atoi (env_var os ''HEALTH_CHECK_FAILURE_THRESHOLD'') (hc_FailureThreshold hc)\<rparr>"

definition applyDatabaseEnv :: "os_env \<Rightarrow> DatabaseConfig \<Rightarrow> DatabaseConfig" where
  "applyDatabaseEnv os d = (let p = db_Postgres d in d\<lparr>
     db_Dialect := text_of (env_var os ''DB_DIALECT'') (db_Dialect d),
     db_SQLite := \<lparr>sqlite_Path = text_of (env_var os ''DB_SQLITE_PATH'') (sqlite_Path (db_SQLite d))\<rparr>,
     db_Postgres := p\<lparr>
       pg_Host := text_of (env_var os ''DB_POSTGRES_HOST'') (pg_Host p),
       pg_Port := parsed_of Atoi (env_var os ''DB_POSTGRES_PORT'') (pg_Port p),
       pg_User := text_of (env_var os ''DB_POSTGRES_USER'') (pg_User p),
       pg_Password := text_of (env_var os ''DB_POSTGRES_PASSWORD'') (pg_Password p),
       pg_DBName := text_of (env_var os ''DB_POSTGRES_DBNAME'') (pg_DBName p),
       pg_SSLMode := text_of (env_var os ''DB_POSTGRES_SSLMODE'') (pg_SSLMode p)\<rparr>\<rparr>)"

definition endpoint_of :: "os_env \<Rightarrow> string \<Rightarrow> string" where
  "endpoint_of os old =
     (let v = env_var os ''OTEL_ENDPOINT''; w = Getenv os ''OTEL_EXPORTER_OTLP_ENDPOINT''
      in if v \<noteq> '''' then v else if w \<noteq> '''' \<and> old = '''' then w else old)"

definition applyTelemetryEnv :: "os_env \<Rightarrow> TelemetryConfig \<Rightarrow> TelemetryConfig" where
  "applyTelemetryEnv os tel = tel\<lparr>
     tel_Enabled := flag_of (env_var os ''OTEL_ENABLED'') (tel_Enabled tel),
     tel_Endpoint := endpoint_of os (tel_Endpoint tel),
     tel_Protocol := text_of (env_var os ''OTEL_PROTOCOL'') (tel_Protocol tel),
     FrontendEndpoint := text_of (env_var os ''OTEL_FRONTEND_ENDPOINT'') (FrontendEndpoint tel),
     Insecure := flag_of (env_var os ''OTEL_INSECURE'') (Insecure tel),
     ServiceName := text_of (env_var os ''OTEL_SERVICE_NAME'') (ServiceName tel),
     Environment := text_of (env_var os ''OTEL_ENVIRONMENT'') (Environment tel),
     TracesSampleRate := parsed_of (ParseFloat os) (env_var os ''OTEL_TRACES_SAMPLE_RATE'') (TracesSampleRate tel),
     MetricsInterval := parsed_of ParseDuration (env_var os ''OTEL_METRICS_INTERVAL'') (MetricsInterval tel),
     LogExportLevel := text_of (env_var os ''OTEL_LOG_EXPORT_LEVEL'') (LogExportLevel tel),
     Headers := (let v = env_var os ''OTEL_HEADERS'' in if v \<noteq> '''' then parseHeaders v else Headers tel),
     Prometheus := \<lparr>prom_Enabled = flag_of (env_var os ''METRICS_PROMETHEUS_ENABLED'') (prom_Enabled (Prometheus tel))\<rparr>\<rparr>"

definition applyEnv :: "os_env \<Rightarrow> Config \<Rightarrow> Config" where
  "applyEnv os cfg = cfg\<lparr>
     Port := parsed_of Atoi (env_var os ''PORT'') (Port cfg),
     DataDir := text_of (env_var os ''DATA_DIR'') (DataDir cfg),
     LogLevel := text_of (env_var os ''LOG_LEVEL'') (LogLevel cfg),
     LicenseKey := text_of (env_var os ''LICENSE_KEY'') (LicenseKey cfg),
     PollInterval := parsed_of ParseDuration (env_var os ''POLL_INTERVAL'') (PollInterval cfg),
     Kubernetes := (Kubernetes cfg)\<lparr>k8s_Enabled := flag_of (env_var os ''KUBERNETES_ENABLED'') (k8s_Enabled (Kubernetes cfg))\<rparr>,
     HealthCheck := applyHealthCheckEnv os (HealthCheck cfg),
     Database := applyDatabaseEnv os (Database cfg),
     Telemetry := applyTelemetryEnv os (Telemetry cfg),
     cfg_Auth := \<lparr>JWTSecret = text_of (env_var os ''JWT_SECRET'') (JWTSecret (cfg_Auth cfg)),
       SessionDuration = parsed_of ParseDuration (env_var os ''SESSION_DURATION'') (SessionDuration (cfg_Auth cfg))\<rparr>\<rparr>"

definition Load :: "os_env \<Rightarrow> string \<Rightarrow> error + Config" where
  "Load os path =
     (if path \<noteq> ''''
      then (case ReadFile os path of Inl e \<Rightarrow> Inl (wrapf ''reading config file'' e)
        | Inr data \<Rightarrow> (case yaml_Unmarshal os data defaults of
              Inl e \<Rightarrow> Inl (wrapf ''parsing config file'' e)
            | Inr cfg \<Rightarrow> Inr (applyEnv os cfg)))
      else Inr (applyEnv os defaults))"

section \<open>What the command makes of it\<close>

text \<open>\<^verbatim>\<open>slog\<close> levels.\<close>

definition LevelDebug :: int where "LevelDebug = - 4"
definition LevelInfo :: int where "LevelInfo = 0"
definition LevelWarn :: int where "LevelWarn = 4"
definition LevelError :: int where "LevelError = 8"

definition log_level :: "string \<Rightarrow> int" where
  "log_level s = (if s = ''debug'' then LevelDebug else if s = ''warn'' then LevelWarn
     else if s = ''error'' then LevelError else LevelInfo)"

definition parseSlogLevel :: "sql_text \<Rightarrow> string \<Rightarrow> int" where
  "parseSlogLevel x s = (let l = ToLower x s in
     if l = ''debug'' then LevelDebug else if l = ''warn'' \<or> l = ''warning'' then LevelWarn
     else if l = ''error'' then LevelError else LevelInfo)"

definition TrimRight :: "string \<Rightarrow> string \<Rightarrow> string" where
  "TrimRight s cutset = rev (dropWhile (\<lambda>c. c \<in> set cutset) (rev s))"

definition HasSuffix :: "string \<Rightarrow> string \<Rightarrow> bool" where
  "HasSuffix s t = HasPrefix (rev s) (rev t)"

definition frontendTelemetryEndpoint :: "TelemetryConfig \<Rightarrow> string" where
  "frontendTelemetryEndpoint cfg =
     (if FrontendEndpoint cfg \<noteq> '''' then FrontendEndpoint cfg
      else if tel_Protocol cfg \<noteq> ''http'' \<or> tel_Endpoint cfg = '''' then ''''
      else let endpoint = TrimRight (tel_Endpoint cfg) ''/'' in
        if HasSuffix endpoint ''/v1/traces'' then endpoint
        else if HasPrefix endpoint ''http://'' \<or> HasPrefix endpoint ''https://'' then endpoint @ ''/v1/traces''
        else if Insecure cfg then ''http://'' @ endpoint @ ''/v1/traces''
        else ''https://'' @ endpoint @ ''/v1/traces'')"

text \<open>Which database is opened; \<^verbatim>\<open>filepath.Join\<close> is an argument.\<close>

datatype database_target = OpenSQLite string | OpenPostgres string | UnsupportedDialect string

definition database_target :: "(string \<Rightarrow> string \<Rightarrow> string) \<Rightarrow> Config \<Rightarrow> database_target" where
  "database_target filepath_Join cfg =
     (let d = Database cfg in
      if db_Dialect d = ''sqlite''
      then OpenSQLite (if sqlite_Path (db_SQLite d) = '''' then filepath_Join (DataDir cfg) ''agentlens.db''
                       else sqlite_Path (db_SQLite d))
      else if db_Dialect d = ''postgres'' then OpenPostgres (DSN (db_Postgres d))
      else UnsupportedDialect (db_Dialect d))"

definition listen_port :: "int \<Rightarrow> Config \<Rightarrow> int" where
  "listen_port portFlag cfg = (if portFlag \<noteq> 0 then portFlag else Port cfg)"

definition k8s_namespaces :: "Config \<Rightarrow> string list" where
  "k8s_namespaces cfg = (let ns = k8s_Namespaces (Kubernetes cfg) in if ns = [] then [''default''] else ns)"

section \<open>Headers\<close>

lemma split_at_single: "d \<notin> set s \<Longrightarrow> split_at d s = [s]"
  by (induction s) auto

lemma split_at_append: "d \<notin> set s \<Longrightarrow> split_at d (s @ d # t) = s # split_at d t"
  by (induction s) auto

lemma split_at_Join:
  "xs \<noteq> [] \<Longrightarrow> \<forall>x \<in> set xs. d \<notin> set x \<Longrightarrow> split_at d (Join xs [d]) = xs"
  by (induction xs "[d]" rule: Join.induct) (simp_all add: split_at_single split_at_append)

lemma HasPrefix_char: "HasPrefix s [c] \<longleftrightarrow> s \<noteq> [] \<and> hd s = c"
  by (cases s) simp_all

lemma split_first_char:
  assumes "c \<notin> set k"
  shows "split_first [c] (k @ c # v) = Some (k, v)"
proof -
  let ?s = "k @ c # v"
  have no: "\<not> HasPrefix (drop j ?s) [c]" if "j < length k" for j
    using that assms by (auto simp: HasPrefix_char hd_drop_conv_nth nth_append)
  have "find_sub [c] ?s = Some (length k)"
    unfolding find_sub_def find_Some_iff
  proof (intro exI [of _ "length k"] conjI allI impI)
    show "\<not> HasPrefix (drop ([0..<Suc (length ?s)] ! j) ?s) [c]" if "j < length k" for j
      using that no by (simp del: upt_Suc)
  qed (simp_all add: HasPrefix_char del: upt_Suc)
  then show ?thesis by (simp add: split_first_def)
qed

text \<open>Printable ASCII without a blank at either end: \<^verbatim>\<open>TrimSpace\<close> leaves it alone.\<close>

definition plain :: "string \<Rightarrow> bool" where
  "plain s \<longleftrightarrow> (\<forall>c \<in> set s. 32 \<le> code c \<and> code c \<le> 126) \<and> (s \<noteq> [] \<longrightarrow> code (hd s) \<noteq> 32 \<and> code (List.last s) \<noteq> 32)"

lemma plain_rev: "plain (rev s) = plain s"
  by (auto simp: plain_def hd_rev last_rev)

lemma plain_no_space:
  assumes "plain s"
  shows "space_len (map of_char (take 3 s)) = 0 \<and> space_len_rev (map of_char (take 3 s)) = 0"
proof -
  consider "s = []" | a where "s = [a]" | a b where "s = [a, b]" | a b c t where "s = a # b # c # t"
    by (metis list.exhaust)
  then show ?thesis
    using assms by cases (auto simp: plain_def code_def numeral_3_eq_3 ascii_space_def latin_space_def wide_space_def)
qed

lemma strip_stays: "len (map of_char (take 3 s)) = 0 \<Longrightarrow> strip n len s = s"
  by (cases n) simp_all

lemma plain_trimmed: "plain s \<Longrightarrow> TrimSpace s = s"
  using plain_no_space [of s] plain_no_space [of "rev s"] by (simp add: TrimSpace_def strip_stays plain_rev)

lemma plain_pair: "plain k \<Longrightarrow> plain v \<Longrightarrow> plain (k @ CHR ''='' # v)"
  by (auto simp: plain_def code_def hd_append)

lemma parse_pair:
  assumes "plain k" "plain v" "CHR ''='' \<notin> set k"
  shows "(case split_first ''='' (TrimSpace (k @ CHR ''='' # v)) of
       Some (k, v) \<Rightarrow> h(TrimSpace k \<mapsto> TrimSpace v) | None \<Rightarrow> h) = h(k \<mapsto> v)"
  using assms by (simp add: plain_trimmed plain_pair split_first_char)

lemma parse_pairs:
  assumes "\<forall>(k, v) \<in> set kvs. plain k \<and> plain v \<and> CHR ''='' \<notin> set k"
  shows "foldl (\<lambda>headers pair. case split_first ''='' (TrimSpace pair) of
       Some (k, v) \<Rightarrow> headers(TrimSpace k \<mapsto> TrimSpace v) | None \<Rightarrow> headers) h
     (map (\<lambda>(k, v). k @ CHR ''='' # v) kvs) = h ++ map_of (rev kvs)"
  using assms
proof (induction kvs arbitrary: h)
  case (Cons kv kvs)
  obtain k v where kv: "kv = (k, v)" by fastforce
  then show ?case using Cons by (simp add: parse_pair map_add_upd_left)
qed simp

section \<open>Properties\<close>

text \<open>
  Header pairs written as \<^verbatim>\<open>k1=v1,k2=v2\<close> are read back by \<^verbatim>\<open>parseHeaders\<close>, the last
  value of a repeated name winning: names and values are printable, without blanks at their ends
  and without a comma, and names have no equals sign (values may).
\<close>

theorem headers_roundtrip:
  assumes "kvs \<noteq> []"
    and "\<forall>(k, v) \<in> set kvs. plain k \<and> plain v \<and> CHR ''='' \<notin> set k \<and> CHR '','' \<notin> set k \<and> CHR '','' \<notin> set v"
  shows "parseHeaders (Join (map (\<lambda>(k, v). k @ ''='' @ v) kvs) '','') = map_of (rev kvs)"
proof -
  let ?pairs = "map (\<lambda>(k, v). k @ CHR ''='' # v) kvs"
  have "split_at (CHR '','') (Join ?pairs '','') = ?pairs"
    using assms by (intro split_at_Join) auto
  moreover have "\<forall>(k, v) \<in> set kvs. plain k \<and> plain v \<and> CHR ''='' \<notin> set k" using assms(2) by auto
  ultimately show ?thesis using parse_pairs [of kvs Map.empty] by (simp add: parseHeaders_def)
qed

theorem headers_roundtrip_witness:
  "parseHeaders ''authorization=Basic a==,x-tenant=t1'' ''authorization'' = Some ''Basic a==''"
  using headers_roundtrip [of "[(''authorization'', ''Basic a==''), (''x-tenant'', ''t1'')]"]
  by (simp add: plain_def code_def)

end
