(* ===== verification/Party_Roles.thy ===== *)
theory Party_Roles
  imports Party_Integrity "HOL-Library.AList"
begin

text \<open>
  Project roles: the ranking and resolution of \<^verbatim>\<open>internal/store/party_store_role_resolution.go\<close>,
  the permission tables of \<^verbatim>\<open>internal/auth\<close>, and the middleware of
  \<^verbatim>\<open>internal/api/party_middleware.go\<close> and \<^verbatim>\<open>internal/api/auth_middleware.go\<close> that decides
  on them.  The theorems show that the listing of a user's projects and the middleware agree: the
  single role the listing keeps grants exactly what the union of all roles grants.
\<close>

section \<open>Permissions\<close>

definition PermCatalogRead :: string where "PermCatalogRead = ''catalog:read''"
definition PermCatalogWrite :: string where "PermCatalogWrite = ''catalog:write''"
definition PermCatalogDelete :: string where "PermCatalogDelete = ''catalog:delete''"
definition PermUsersRead :: string where "PermUsersRead = ''users:read''"
definition PermUsersWrite :: string where "PermUsersWrite = ''users:write''"
definition PermUsersDelete :: string where "PermUsersDelete = ''users:delete''"
definition PermRolesRead :: string where "PermRolesRead = ''roles:read''"
definition PermRolesWrite :: string where "PermRolesWrite = ''roles:write''"
definition PermSettingsRead :: string where "PermSettingsRead = ''settings:read''"
definition PermSettingsWrite :: string where "PermSettingsWrite = ''settings:write''"

lemmas perm_defs = PermCatalogRead_def PermCatalogWrite_def PermCatalogDelete_def PermUsersRead_def
  PermUsersWrite_def PermUsersDelete_def PermRolesRead_def PermRolesWrite_def PermSettingsRead_def
  PermSettingsWrite_def

fun HasPermission :: "string list \<Rightarrow> string \<Rightarrow> bool" where
  "HasPermission [] required = False"
| "HasPermission (p # perms) required = (if p = required then True else HasPermission perms required)"

lemma HasPermission_iff [simp]: "HasPermission perms p \<longleftrightarrow> p \<in> set perms"
  by (induction perms) auto

definition projectRolePermissions :: "(string \<times> string list) list" where
  "projectRolePermissions =
     [(''project:owner'', [PermCatalogRead, PermCatalogWrite, PermCatalogDelete]),
      (''project:developer'', [PermCatalogRead, PermCatalogWrite]),
      (''project:viewer'', [PermCatalogRead])]"

definition ProjectRoleHasPermission :: "string \<Rightarrow> string \<Rightarrow> bool" where
  "ProjectRoleHasPermission role permission =
     (case map_of projectRolePermissions role of
        None \<Rightarrow> False
      | Some perms \<Rightarrow> HasPermission perms permission)"

definition ValidProjectRoles :: "string list" where
  "ValidProjectRoles = sort (map fst projectRolePermissions)"

section \<open>Role resolution\<close>

definition projectRoleRank :: "(string \<times> int) list" where
  "projectRoleRank = [(''project:owner'', 2), (''project:developer'', 1), (''project:viewer'', 0)]"

definition rankRole :: "string \<Rightarrow> int" where
  "rankRole role = (case map_of projectRoleRank role of Some r \<Rightarrow> r | None \<Rightarrow> -1)"

text \<open>The loop that fills \<^verbatim>\<open>bestRole\<close> from the rows \<^verbatim>\<open>(to_party_id, from_role)\<close>.\<close>

fun bestRole_loop :: "(string \<times> string) list \<Rightarrow> (string \<times> string) list \<Rightarrow> (string \<times> string) list" where
  "bestRole_loop [] best = best"
| "bestRole_loop ((to, role) # rows) best =
     bestRole_loop rows
       (case map_of best to of
          None \<Rightarrow> AList.update to role best
        | Some existing \<Rightarrow> if rankRole role > rankRole existing then AList.update to role best else best)"

text \<open>The join of relationships with their target parties.\<close>

definition project_rows :: "string list \<Rightarrow> db \<Rightarrow> (string \<times> string) list" where
  "project_rows reachable s =
     concat (map (\<lambda>pr. map (\<lambda>_. (ToPartyID pr, FromRole pr))
        (filter (\<lambda>p. party_ID p = ToPartyID pr \<and> party_Kind p = PartyKindProject) (parties s)))
       (filter (\<lambda>pr. FromPartyID pr \<in> set reachable \<and> RelationshipName pr = ''project_member'')
          (party_relationships s)))"

definition ResolveUserProjects :: "string \<Rightarrow> (db, UserProjectMembership list) op" where
  "ResolveUserProjects userID =
     bind_op (GetPartyByUserID userID) (''looking up person for user '' @ userID) (\<lambda>person.
       case person of
         None \<Rightarrow> ok []
       | Some person \<Rightarrow>
           bind_op (query (\<lambda>s. map AncestorPartyID
               (filter (\<lambda>c. MemberPartyID c = party_ID person) (party_group_closures s))))
             ''reading closure ancestors'' (\<lambda>ancestors.
           let reachable = party_ID person # ancestors in
           bind_op (query (project_rows reachable)) ''reading project memberships'' (\<lambda>rows.
           let bestRole = bestRole_loop rows [] in
           if length bestRole = 0 then ok []
           else
             let projectIDs = map fst bestRole in
             bind_op (query (\<lambda>s. sort_key party_Name
                 (filter (\<lambda>p. party_ID p \<in> set projectIDs) (parties s))))
               ''fetching projects'' (\<lambda>projects.
             ok (map (\<lambda>p. \<lparr>Project = p, ProjectRole =
                    (case map_of bestRole (party_ID p) of Some r \<Rightarrow> r | None \<Rightarrow> '''')\<rparr>) projects)))))"

section \<open>The middleware\<close>

text \<open>\<^verbatim>\<open>Joins("JOIN global_party_roles gpr ON gpr.role_id = roles.id")\<close>.\<close>

definition GetRolesForParties :: "string list \<Rightarrow> (db, Role list) op" where
  "GetRolesForParties partyIDs =
     (if length partyIDs = 0 then ok []
      else bind_op (query (\<lambda>s. concat (map (\<lambda>role. map (\<lambda>_. role)
          (filter (\<lambda>g. gpr_RoleID g = role_ID role \<and> gpr_PartyID g \<in> set partyIDs) (global_party_roles s)))
        (roles s))))
      ''getting roles for parties'' ok)"

text \<open>The values a request context carries.\<close>

record request_ctx =
  ctxUserID :: "string option"
  ctxUsername :: "string option"
  ctxRoleID :: "string option"
  ctxPermissions :: "string list option"
  ancestorCache :: "string list option"

definition empty_ctx :: request_ctx where
  "empty_ctx = \<lparr>ctxUserID = None, ctxUsername = None, ctxRoleID = None, ctxPermissions = None,
     ancestorCache = None\<rparr>"

definition UserIDFromContext :: "request_ctx \<Rightarrow> string" where
  "UserIDFromContext ctx = (case ctxUserID ctx of Some v \<Rightarrow> v | None \<Rightarrow> '''')"

definition UsernameFromContext :: "request_ctx \<Rightarrow> string" where
  "UsernameFromContext ctx = (case ctxUsername ctx of Some v \<Rightarrow> v | None \<Rightarrow> '''')"

definition RoleIDFromContext :: "request_ctx \<Rightarrow> string" where
  "RoleIDFromContext ctx = (case ctxRoleID ctx of Some v \<Rightarrow> v | None \<Rightarrow> '''')"

definition PermissionsFromContext :: "request_ctx \<Rightarrow> string list" where
  "PermissionsFromContext ctx = (case ctxPermissions ctx of Some v \<Rightarrow> v | None \<Rightarrow> [])"

type_synonym 'b handler = "request_ctx \<Rightarrow> (db, 'b reply) act"

definition RequirePermission :: "string \<Rightarrow> 'b handler \<Rightarrow> 'b handler" where
  "RequirePermission perm next_h = (\<lambda>ctx.
     if \<not> HasPermission (PermissionsFromContext ctx) perm
     then ret (ErrorResponse 403 ''insufficient permissions'')
     else next_h ctx)"

definition cachedAncestorIDs :: "request_ctx \<Rightarrow> string \<Rightarrow> (db, string list \<times> request_ctx) op" where
  "cachedAncestorIDs ctx partyID =
     (case ancestorCache ctx of
        Some cached \<Rightarrow> ok (cached, ctx)
      | None \<Rightarrow> pass_op (AncestorGroupIDs partyID) (\<lambda>ids. ok (ids, ctx\<lparr>ancestorCache := Some ids\<rparr>)))"

definition RequireProjectPermission :: "string \<Rightarrow> string \<Rightarrow> 'b handler \<Rightarrow> 'b handler" where
  "RequireProjectPermission projectID permission next_h = (\<lambda>ctx.
     if HasPermission (PermissionsFromContext ctx) permission then next_h ctx
     else
       try_op (GetPartyByUserID (UserIDFromContext ctx))
         (\<lambda>_. ret (ErrorResponse 500 ''permission resolution failed'')) (\<lambda>userParty.
       case userParty of
         None \<Rightarrow> ret (ErrorResponse 403 ''insufficient permissions'')
       | Some userParty \<Rightarrow>
           try_op (cachedAncestorIDs ctx (party_ID userParty))
             (\<lambda>_. ret (ErrorResponse 500 ''permission resolution failed'')) (\<lambda>(ancestorIDs, ctx').
           let step3 =
             try_op (GetProjectRoles (party_ID userParty # ancestorIDs) projectID)
               (\<lambda>_. ret (ErrorResponse 500 ''permission resolution failed'')) (\<lambda>projectRoles.
             if \<exists>role \<in> set projectRoles. ProjectRoleHasPermission role permission
             then next_h ctx'
             else ret (ErrorResponse 403 ''insufficient permissions''))
           in
           if length ancestorIDs > 0 then
             try_op (GetRolesForParties ancestorIDs)
               (\<lambda>_. ret (ErrorResponse 500 ''permission resolution failed'')) (\<lambda>groupRoles.
             if \<exists>role \<in> set groupRoles. HasPermission (Permissions role) permission
             then next_h ctx'
             else step3)
           else step3)))"

section \<open>The ranking is monotone in permissions\<close>

lemma project_role_cases:
  obtains "role = ''project:owner''" | "role = ''project:developer''" | "role = ''project:viewer''"
        | "map_of projectRoleRank role = None" "map_of projectRolePermissions role = None"
  by (cases "role \<in> {''project:owner'', ''project:developer'', ''project:viewer''}")
     (auto simp: projectRoleRank_def projectRolePermissions_def)

lemma rankRole_simps [simp]:
  "rankRole ''project:owner'' = 2" "rankRole ''project:developer'' = 1" "rankRole ''project:viewer'' = 0"
  by (simp_all add: rankRole_def projectRoleRank_def)

lemma role_permission_simps [simp]:
  "ProjectRoleHasPermission ''project:owner'' p \<longleftrightarrow> p \<in> {PermCatalogRead, PermCatalogWrite, PermCatalogDelete}"
  "ProjectRoleHasPermission ''project:developer'' p \<longleftrightarrow> p \<in> {PermCatalogRead, PermCatalogWrite}"
  "ProjectRoleHasPermission ''project:viewer'' p \<longleftrightarrow> p = PermCatalogRead"
  by (auto simp: ProjectRoleHasPermission_def projectRolePermissions_def)

lemma unknown_role_no_permission:
  "map_of projectRolePermissions role = None \<Longrightarrow> \<not> ProjectRoleHasPermission role p"
  by (simp add: ProjectRoleHasPermission_def)

lemma unknown_role_rank: "map_of projectRoleRank role = None \<Longrightarrow> rankRole role = -1"
  by (simp add: rankRole_def)

lemma rank_monotone:
  assumes "rankRole a \<le> rankRole b" and "ProjectRoleHasPermission a p"
  shows "ProjectRoleHasPermission b p"
  by (cases a rule: project_role_cases; cases b rule: project_role_cases)
     (use assms in \<open>auto simp: unknown_role_rank unknown_role_no_permission\<close>)

section \<open>The loop keeps the best role\<close>

lemma bestRole_loop_Some:
  assumes "map_of (bestRole_loop rows best) t = Some r"
  shows "((t, r) \<in> set rows \<or> map_of best t = Some r) \<and>
    (\<forall>r'. (t, r') \<in> set rows \<or> map_of best t = Some r' \<longrightarrow> rankRole r' \<le> rankRole r)"
  using assms
proof (induction rows best rule: bestRole_loop.induct)
  case (2 to role rows best)
  define next_best where "next_best = (case map_of best to of
          None \<Rightarrow> AList.update to role best
        | Some existing \<Rightarrow> if rankRole role > rankRole existing then AList.update to role best else best)"
  have IH: "((t, r) \<in> set rows \<or> map_of next_best t = Some r) \<and>
    (\<forall>r'. (t, r') \<in> set rows \<or> map_of next_best t = Some r' \<longrightarrow> rankRole r' \<le> rankRole r)"
    using 2 by (simp add: next_best_def)
  have "map_of next_best t = (if t = to then Some (case map_of best to of None \<Rightarrow> role
      | Some existing \<Rightarrow> if rankRole role > rankRole existing then role else existing) else map_of best t)"
    by (auto simp: next_best_def update_conv' split: option.split)
  with IH show ?case by (auto split: if_splits option.splits)
qed simp

lemma bestRole_loop_dom:
  "map_of (bestRole_loop rows best) t = None \<longleftrightarrow> map_of best t = None \<and> t \<notin> fst ` set rows"
proof (induction rows best rule: bestRole_loop.induct)
  case (2 to role rows best)
  then show ?case by (auto simp: update_conv' split: option.splits if_splits)
qed simp

section \<open>Resolution and middleware on an engine that refuses nothing\<close>

lemma first_or_nil_clean:
  "faults s = [] \<Longrightarrow> first_or_nil tab key cond msg s = (Inr (first_by key cond (tab s)), s)"
  by (simp add: first_or_nil_def try_op_def First_clean split: option.split)

lemma GetPartyByUserID_clean:
  "faults s = [] \<Longrightarrow> GetPartyByUserID u s =
     (Inr (first_by party_ID (\<lambda>p. party_UserID p = Some u) (parties s)), s)"
  by (simp add: GetPartyByUserID_def first_or_nil_clean)

definition ancestor_ids :: "string \<Rightarrow> db \<Rightarrow> string list" where
  "ancestor_ids i s = map AncestorPartyID (filter (\<lambda>c. MemberPartyID c = i) (party_group_closures s))"

lemma AncestorGroupIDs_clean: "faults s = [] \<Longrightarrow> AncestorGroupIDs i s = (Inr (ancestor_ids i s), s)"
  by (simp add: AncestorGroupIDs_def op_defs ancestor_ids_def)

lemma project_rows_iff:
  "(t, r) \<in> set (project_rows R s) \<longleftrightarrow>
     (\<exists>pr \<in> set (party_relationships s). FromPartyID pr \<in> set R \<and>
        RelationshipName pr = ''project_member'' \<and> ToPartyID pr = t \<and> FromRole pr = r) \<and>
     (\<exists>p \<in> set (parties s). party_ID p = t \<and> party_Kind p = PartyKindProject)"
  by (fastforce simp: project_rows_def)

text \<open>The roles the middleware looks at in its third step.\<close>

definition project_role_set :: "string list \<Rightarrow> string \<Rightarrow> db \<Rightarrow> string set" where
  "project_role_set R t s = FromRole ` {pr \<in> set (party_relationships s).
     RelationshipName pr = ''project_member'' \<and> ToPartyID pr = t \<and> FromPartyID pr \<in> set R}"

lemma GetProjectRoles_clean:
  "faults s = [] \<Longrightarrow> R \<noteq> [] \<Longrightarrow>
   \<exists>rs. GetProjectRoles R t s = (Inr rs, s) \<and> set rs = project_role_set R t s"
  by (auto simp: GetProjectRoles_def op_defs project_role_set_def)

lemma project_rows_roles:
  assumes "p \<in> set (parties s)" and "party_Kind p = PartyKindProject" and "party_ID p = t"
  shows "(t, r) \<in> set (project_rows R s) \<longleftrightarrow> r \<in> project_role_set R t s"
  using assms by (auto simp: project_rows_iff project_role_set_def)

lemma ResolveUserProjects_clean:
  fixes s :: db and u :: string
  assumes "faults s = []"
    and "first_by party_ID (\<lambda>p. party_UserID p = Some u) (parties s) = Some person"
  defines "best \<equiv> bestRole_loop (project_rows (party_ID person # ancestor_ids (party_ID person) s) s) []"
  shows "\<exists>ms. ResolveUserProjects u s = (Inr ms, s) \<and>
    set ms = {\<lparr>Project = p, ProjectRole = r\<rparr> | p r. p \<in> set (parties s) \<and> map_of best (party_ID p) = Some r}"
proof -
  have eq: "ResolveUserProjects u s = (Inr (if length best = 0 then [] else
      map (\<lambda>p. \<lparr>Project = p, ProjectRole = (case map_of best (party_ID p) of Some r \<Rightarrow> r | None \<Rightarrow> '''')\<rparr>)
        (sort_key party_Name (filter (\<lambda>p. party_ID p \<in> set (map fst best)) (parties s)))), s)"
    using assms(1,2)
    by (simp add: ResolveUserProjects_def op_defs GetPartyByUserID_clean Let_def best_def ancestor_ids_def)
  have dom: "party_ID p \<in> set (map fst best) \<longleftrightarrow> (\<exists>r. map_of best (party_ID p) = Some r)" for p
    by (metis map_of_eq_None_iff not_None_eq set_map)
  show ?thesis
  proof (cases "length best = 0")
    case True
    with eq show ?thesis by simp
  next
    case False
    have "set (map (\<lambda>p. \<lparr>Project = p, ProjectRole = (case map_of best (party_ID p) of Some r \<Rightarrow> r | None \<Rightarrow> '''')\<rparr>)
        (sort_key party_Name (filter (\<lambda>p. party_ID p \<in> set (map fst best)) (parties s)))) =
      {\<lparr>Project = p, ProjectRole = r\<rparr> | p r. p \<in> set (parties s) \<and> map_of best (party_ID p) = Some r}"
      unfolding set_map set_sort set_filter using dom by (force simp: image_iff)
    with False eq show ?thesis by simp
  qed
qed

text \<open>The role that the listing keeps for a project grants a permission exactly when one of the
  roles the middleware looks at grants it.\<close>

lemma best_role_grants_union:
  assumes "p \<in> set (parties s)" and "party_Kind p = PartyKindProject" and "party_ID p = t"
  shows "(\<exists>r. map_of (bestRole_loop (project_rows R s) []) t = Some r \<and> ProjectRoleHasPermission r perm)
     \<longleftrightarrow> (\<exists>r \<in> project_role_set R t s. ProjectRoleHasPermission r perm)"
    (is "?kept \<longleftrightarrow> ?any")
proof
  assume ?kept
  then show ?any using bestRole_loop_Some project_rows_roles [OF assms] by fastforce
next
  assume ?any
  then obtain r where r: "(t, r) \<in> set (project_rows R s)" and g: "ProjectRoleHasPermission r perm"
    using project_rows_roles [OF assms] by blast
  then obtain b where b: "map_of (bestRole_loop (project_rows R s) []) t = Some b"
    using bestRole_loop_dom [of "project_rows R s" "[]" t] by force
  with r have "rankRole r \<le> rankRole b" using bestRole_loop_Some by blast
  with g b show ?kept using rank_monotone by blast
qed

text \<open>The roles of the ancestor groups that the middleware looks at in its second step.\<close>

definition group_roles_grant :: "string list \<Rightarrow> string \<Rightarrow> db \<Rightarrow> bool" where
  "group_roles_grant ids perm s \<longleftrightarrow> (\<exists>role \<in> set (roles s). \<exists>g \<in> set (global_party_roles s).
     gpr_RoleID g = role_ID role \<and> gpr_PartyID g \<in> set ids \<and> perm \<in> set (Permissions role))"

lemma GetRolesForParties_clean:
  "faults s = [] \<Longrightarrow> ids \<noteq> [] \<Longrightarrow> \<exists>rs. GetRolesForParties ids s = (Inr rs, s) \<and>
     ((\<exists>role \<in> set rs. perm \<in> set (Permissions role)) \<longleftrightarrow> group_roles_grant ids perm s)"
  by (fastforce simp: GetRolesForParties_def op_defs group_roles_grant_def)

lemma RequireProjectPermission_clean:
  fixes s :: db and ctx :: request_ctx
  assumes "faults s = []" and "ancestorCache ctx = None"
    and "first_by party_ID (\<lambda>p. party_UserID p = Some (UserIDFromContext ctx)) (parties s) = Some person"
  defines "ids \<equiv> ancestor_ids (party_ID person) s"
  shows "RequireProjectPermission t perm next_h ctx s =
    (if perm \<in> set (PermissionsFromContext ctx) then next_h ctx s
     else if group_roles_grant ids perm s \<or>
       (\<exists>r \<in> project_role_set (party_ID person # ids) t s. ProjectRoleHasPermission r perm)
     then next_h (ctx\<lparr>ancestorCache := Some ids\<rparr>) s
     else (ErrorResponse 403 ''insufficient permissions'', s))"
proof -
  obtain prs where prs: "GetProjectRoles (party_ID person # ids) t s = (Inr prs, s)"
    "set prs = project_role_set (party_ID person # ids) t s"
    using GetProjectRoles_clean [OF assms(1), of "party_ID person # ids" t] by auto
  show ?thesis
  proof (cases "ids = []")
    case True
    then show ?thesis using assms(1-3) prs
      by (simp add: RequireProjectPermission_def try_op_def GetPartyByUserID_clean cachedAncestorIDs_def
          pass_op_def AncestorGroupIDs_clean ids_def [symmetric] Let_def group_roles_grant_def)
  next
    case False
    then obtain rs where "GetRolesForParties ids s = (Inr rs, s)"
      "(\<exists>role \<in> set rs. perm \<in> set (Permissions role)) \<longleftrightarrow> group_roles_grant ids perm s"
      using GetRolesForParties_clean [OF assms(1)] by blast
    then show ?thesis using assms(1-3) prs False
      by (simp add: RequireProjectPermission_def try_op_def GetPartyByUserID_clean cachedAncestorIDs_def
          pass_op_def AncestorGroupIDs_clean ids_def [symmetric] Let_def)
  qed
qed

section \<open>Properties\<close>


text \<open>A person with a viewer role of their own and a developer role through a group.\<close>

definition sample_party :: "string \<Rightarrow> PartyKind \<Rightarrow> string option \<Rightarrow> Party" where
  "sample_party i k u = \<lparr>party_ID = i, party_Kind = k, party_Name = i, party_Version = 0,
     party_UserID = u, party_IsSystem = False, party_CreatedAt = 1, party_UpdatedAt = 1\<rparr>"

definition sample_member :: "string \<Rightarrow> string \<Rightarrow> string \<Rightarrow> PartyRelationship" where
  "sample_member i a role = \<lparr>rel_ID = i, FromPartyID = a, FromRole = role, ToPartyID = ''p'',
     ToRole = ''project'', RelationshipName = ''project_member'', rel_CreatedAt = 1\<rparr>"

definition sample_team :: db where
  "sample_team =
     snd (AddMember sample_orm ''x'' 4 (sample_member ''m2'' ''g'' ''project:developer'')
    (snd (AddMember sample_orm ''x'' 4 (sample_member ''m1'' ''n'' ''project:viewer'')
    (snd (AddMember sample_orm ''x'' 3 (sample_edge ''m0'' ''n'' ''g'')
    (snd (CreateParty ''x'' 2 (sample_party ''n'' PartyKindPerson (Some ''u''))
    (snd (CreateParty ''x'' 2 (sample_party ''p'' PartyKindProject None)
    (snd (CreateParty ''x'' 2 (sample_party ''g'' PartyKindGroup None) empty_db)))))))))))"

lemma sample_team_reachable: "party_reachable sample_orm sample_team"
  unfolding sample_team_def by (intro reach_init reach_step [OF _ step_add] reach_step [OF _ step_create])


end
