(* ===== verification/Party_Api.thy ===== *)
theory Party_Api
  imports Party_Roles
begin

text \<open>
  The HTTP handlers on parties (\<^verbatim>\<open>internal/api/party_handlers.go\<close>,
  \<^verbatim>\<open>party_kind_configs.go\<close>, \<^verbatim>\<open>catalog_project.go\<close>).  A request body is the decoded
  struct, or \<^verbatim>\<open>None\<close> when decoding fails; URL parameters are arguments.  The theorems show that
  everything the handlers can do leaves a typed, linked graph: members are existing persons or
  groups, containers exist and have the kind of the relationship, and roles are valid for it.
\<close>

section \<open>Configuration per party kind\<close>

record PartyKindConfig =
  cfg_Kind :: PartyKind
  URLPrefix :: string
  MemberRelationship :: string
  ValidMemberRoles :: "string list"
  CreatePermission :: string
  ManagePermission :: string
  CanContainKinds :: "PartyKind list"

definition groupKindConfig :: PartyKindConfig where
  "groupKindConfig = \<lparr>cfg_Kind = PartyKindGroup, URLPrefix = ''groups'',
     MemberRelationship = ''group_member'', ValidMemberRoles = [''member''],
     CreatePermission = PermUsersWrite, ManagePermission = PermUsersWrite,
     CanContainKinds = [PartyKindPerson, PartyKindGroup]\<rparr>"

definition projectKindConfig :: PartyKindConfig where
  "projectKindConfig = \<lparr>cfg_Kind = PartyKindProject, URLPrefix = ''projects'',
     MemberRelationship = ''project_member'',
     ValidMemberRoles = [''project:owner'', ''project:developer'', ''project:viewer''],
     CreatePermission = PermCatalogWrite, ManagePermission = PermCatalogWrite,
     CanContainKinds = [PartyKindPerson, PartyKindGroup]\<rparr>"

lemmas cfg_defs = groupKindConfig_def projectKindConfig_def

section \<open>Handlers\<close>

record createPartyRequest =
  create_Name :: string

record addMemberRequest =
  add_PartyID :: string
  add_Role :: string

record updateMemberRoleRequest =
  update_Role :: string

record assignProjectRequest =
  assign_ProjectID :: string

definition ListPartiesHandler :: "PartyKindConfig \<Rightarrow> (db, Party list reply) act" where
  "ListPartiesHandler cfg =
     try_op (ListParties (cfg_Kind cfg)) (\<lambda>_. ret (ErrorResponse 500 (''failed to list '' @ URLPrefix cfg)))
       (\<lambda>ps. ret (JSONResponse 200 ps))"

definition ListAllPartiesHandler :: "string \<Rightarrow> (db, Party list reply) act" where
  "ListAllPartiesHandler kind =
     try_op (ListParties kind) (\<lambda>_. ret (ErrorResponse 500 ''failed to list parties''))
       (\<lambda>ps. ret (JSONResponse 200 ps))"

definition CreatePartyHandler ::
  "PartyKindConfig \<Rightarrow> string \<Rightarrow> time \<Rightarrow> createPartyRequest option \<Rightarrow> (db, Party reply) act" where
  "CreatePartyHandler cfg uid now body = (case body of
     None \<Rightarrow> ret (ErrorResponse 400 ''invalid request body'')
   | Some req \<Rightarrow>
       (let name = TrimSpace (create_Name req) in
        if name = '''' then ret (ErrorResponse 400 ''name is required'')
        else try_op (CreateParty uid now \<lparr>party_ID = uid, party_Kind = cfg_Kind cfg, party_Name = name,
                 party_Version = 0, party_UserID = None, party_IsSystem = False,
                 party_CreatedAt = zero_time, party_UpdatedAt = zero_time\<rparr>)
               (\<lambda>_. ret (ErrorResponse 500 ''failed to create''))
               (\<lambda>p. ret (JSONResponse 201 p))))"

definition GetPartyHandler :: "PartyKindConfig \<Rightarrow> string \<Rightarrow> (db, Party reply) act" where
  "GetPartyHandler cfg partyID =
     try_op (GetParty partyID) (\<lambda>_. ret (ErrorResponse 500 ''failed to get''))
       (\<lambda>p. case p of
          None \<Rightarrow> ret (ErrorResponse 404 ''not found'')
        | Some p \<Rightarrow> if party_Kind p \<noteq> cfg_Kind cfg then ret (ErrorResponse 404 ''not found'')
                   else ret (JSONResponse 200 p))"

definition DeletePartyHandler :: "PartyKindConfig \<Rightarrow> string \<Rightarrow> (db, unit reply) act" where
  "DeletePartyHandler cfg partyID =
     try_op (DeleteParty partyID) (\<lambda>e. ret (ErrorResponse 400 (error_string e)))
       (\<lambda>_. ret (WriteHeader 204))"

definition AddMemberHandler ::
  "orm \<Rightarrow> PartyKindConfig \<Rightarrow> string \<Rightarrow> time \<Rightarrow> string \<Rightarrow> addMemberRequest option \<Rightarrow> (db, PartyRelationship reply) act" where
  "AddMemberHandler orm cfg uid now toPartyID body = (case body of
     None \<Rightarrow> ret (ErrorResponse 400 ''invalid request body'')
   | Some req \<Rightarrow>
     if add_PartyID req = '''' \<or> add_Role req = ''''
     then ret (ErrorResponse 400 ''party_id and role are required'')
     else if add_Role req \<notin> set (ValidMemberRoles cfg)
     then ret (ErrorResponse 400 ''invalid role for this party kind'')
     else
       try_op (GetParty toPartyID) (\<lambda>_. ret (ErrorResponse 500 ''failed to load target party'')) (\<lambda>target.
       if (case target of None \<Rightarrow> True | Some t \<Rightarrow> party_Kind t \<noteq> cfg_Kind cfg)
       then ret (ErrorResponse 404 ''target party not found'')
       else
         try_op (GetParty (add_PartyID req)) (\<lambda>_. ret (ErrorResponse 500 ''failed to load member party'')) (\<lambda>member.
         case member of
           None \<Rightarrow> ret (ErrorResponse 400 ''member party not found'')
         | Some member \<Rightarrow>
           if party_Kind member \<notin> set (CanContainKinds cfg)
           then ret (ErrorResponse 400 ''member party kind not allowed for this container'')
           else
             try_op (AddMember orm uid now \<lparr>rel_ID = '''', FromPartyID = add_PartyID req,
                 FromRole = add_Role req, ToPartyID = toPartyID, ToRole = cfg_Kind cfg,
                 RelationshipName = MemberRelationship cfg, rel_CreatedAt = zero_time\<rparr>)
               (\<lambda>e. if Contains (error_string e) ''cycle'' \<or> Contains (error_string e) ''cannot add party''
                    then ret (ErrorResponse 409 (error_string e))
                    else ret (ErrorResponse 500 ''failed to add member''))
               (\<lambda>rel. ret (JSONResponse 201 rel)))))"

definition RemoveMemberHandler :: "PartyKindConfig \<Rightarrow> string \<Rightarrow> string \<Rightarrow> (db, unit reply) act" where
  "RemoveMemberHandler cfg toPartyID memberPartyID =
     try_op (RemoveMember memberPartyID toPartyID (MemberRelationship cfg))
       (\<lambda>_. ret (ErrorResponse 500 ''failed to remove member'')) (\<lambda>_. ret (WriteHeader 204))"

definition UpdateMemberRoleHandler ::
  "PartyKindConfig \<Rightarrow> string \<Rightarrow> string \<Rightarrow> updateMemberRoleRequest option \<Rightarrow> (db, unit reply) act" where
  "UpdateMemberRoleHandler cfg toPartyID memberPartyID body = (case body of
     None \<Rightarrow> ret (ErrorResponse 400 ''invalid request body'')
   | Some req \<Rightarrow>
     if update_Role req = '''' \<or> update_Role req \<notin> set (ValidMemberRoles cfg)
     then ret (ErrorResponse 400 ''invalid role for this party kind'')
     else
       try_op (ListMembers toPartyID (MemberRelationship cfg))
         (\<lambda>_. ret (ErrorResponse 500 ''failed to load member'')) (\<lambda>members.
       let oldRole = (case find (\<lambda>m. FromPartyID m = memberPartyID) members of
             Some m \<Rightarrow> FromRole m | None \<Rightarrow> '''') in
       if oldRole = '''' then ret (ErrorResponse 404 ''member not found'')
       else
         try_op (UpdateMemberRole \<lparr>umr_FromPartyID = memberPartyID, umr_ToPartyID = toPartyID,
             umr_RelationshipName = MemberRelationship cfg, umr_OldRole = oldRole,
             umr_NewRole = update_Role req\<rparr>)
           (\<lambda>e. if errors_Is e ErrMemberNotFound then ret (ErrorResponse 404 ''member not found'')
                else ret (ErrorResponse 500 ''failed to update role''))
           (\<lambda>_. ret (WriteHeader 204))))"

definition ListMembersHandler :: "PartyKindConfig \<Rightarrow> string \<Rightarrow> (db, PartyRelationship list reply) act" where
  "ListMembersHandler cfg toPartyID =
     try_op (ListMembers toPartyID (MemberRelationship cfg))
       (\<lambda>_. ret (ErrorResponse 500 ''failed to list members'')) (\<lambda>rels. ret (JSONResponse 200 rels))"

definition AssignCatalogToProjectHandler ::
  "time \<Rightarrow> string \<Rightarrow> assignProjectRequest option \<Rightarrow> (db, unit reply) act" where
  "AssignCatalogToProjectHandler now catalogID body =
     (if (case body of None \<Rightarrow> True | Some req \<Rightarrow> assign_ProjectID req = '''')
      then ret (ErrorResponse 400 ''project_id is required'')
      else try_op (AssignToProject now catalogID (assign_ProjectID (the body)))
             (\<lambda>_. ret (ErrorResponse 500 ''failed to assign'')) (\<lambda>_. ret (WriteHeader 204)))"

definition RemoveCatalogFromProjectHandler :: "string \<Rightarrow> string \<Rightarrow> (db, unit reply) act" where
  "RemoveCatalogFromProjectHandler catalogID projectID =
     try_op (RemoveFromProject catalogID projectID)
       (\<lambda>_. ret (ErrorResponse 500 ''failed to remove'')) (\<lambda>_. ret (WriteHeader 204))"

definition ListCatalogProjectsHandler :: "string \<Rightarrow> (db, Party list reply) act" where
  "ListCatalogProjectsHandler catalogID =
     try_op (ListProjectsForCatalogEntry catalogID)
       (\<lambda>_. ret (ErrorResponse 500 ''failed to list projects'')) (\<lambda>ps. ret (JSONResponse 200 ps))"

section \<open>The typed graph\<close>

definition has_kind :: "db \<Rightarrow> string \<Rightarrow> PartyKind list \<Rightarrow> bool" where
  "has_kind s i ks \<longleftrightarrow> (\<exists>p \<in> set (parties s). party_ID p = i \<and> party_Kind p \<in> set ks)"

definition edge_typed :: "PartyKindConfig \<Rightarrow> db \<Rightarrow> PartyRelationship \<Rightarrow> bool" where
  "edge_typed cfg s r \<longleftrightarrow> RelationshipName r = MemberRelationship cfg \<and>
     FromRole r \<in> set (ValidMemberRoles cfg) \<and> ToRole r = cfg_Kind cfg \<and>
     has_kind s (ToPartyID r) [cfg_Kind cfg] \<and> has_kind s (FromPartyID r) (CanContainKinds cfg)"

definition typed_graph :: "db \<Rightarrow> bool" where
  "typed_graph s \<longleftrightarrow> (\<forall>r \<in> set (party_relationships s).
     edge_typed groupKindConfig s r \<or> edge_typed projectKindConfig s r)"

interpretation ty: table_invariant typed_graph
  by unfold_locales (simp add: typed_graph_def edge_typed_def has_kind_def)

lemma typed_graph_cong:
  "typed_graph s \<Longrightarrow> parties t = parties s \<Longrightarrow> party_relationships t = party_relationships s \<Longrightarrow> typed_graph t"
  by (simp add: typed_graph_def edge_typed_def has_kind_def)

lemma typed_graph_mono:
  assumes "typed_graph s"
    and "\<And>i ks. has_kind s i ks \<Longrightarrow> \<exists>r \<in> set (party_relationships t). FromPartyID r = i \<or> ToPartyID r = i \<Longrightarrow> has_kind t i ks"
    and "set (party_relationships t) \<subseteq> set (party_relationships s)"
  shows "typed_graph t"
  using assms unfolding typed_graph_def edge_typed_def by blast

lemma insert_party_typed [preserves_rule]: "preserves typed_graph (insert_party p)"
  unfolding insert_party_def
  by (rule ty.preserves_insert_row) (erule typed_graph_mono, auto simp: has_kind_def)

lemma CreateParty_typed [preserves_rule]: "preserves typed_graph (CreateParty uid now p)"
  unfolding CreateParty_def Let_def by (intro preserves_rule)

lemma DeleteParty_typed [preserves_rule]: "preserves typed_graph (DeleteParty i)"
proof (rule preservesI)
  fix s assume I: "typed_graph s"
  obtain r s' where m: "DeleteParty i s = (r, s')" by (cases "DeleteParty i s")
  have "typed_graph (party_deleted i s)"
    using I by (rule typed_graph_mono) (auto simp: party_deleted_def has_kind_def)
  with DeleteParty_cases [OF m] I have "typed_graph s'" by (metis ty.tables_transfer)
  with m show "typed_graph (snd (DeleteParty i s))" by simp
qed

lemma rebuildAllClosures_typed [preserves_rule]: "preserves typed_graph rebuildAllClosures"
  unfolding rebuildAllClosures_def
  by (intro preserves_rule ty.preserves_modify) (erule typed_graph_cong, simp_all)+

lemma RemoveMember_typed [preserves_rule]: "preserves typed_graph (RemoveMember f t n)"
  unfolding RemoveMember_def
  by (intro preserves_rule ty.preserves_Transaction ty.preserves_modify)
     (erule typed_graph_mono, auto simp: has_kind_def)

lemma AssignToProject_typed [preserves_rule]: "preserves typed_graph (AssignToProject now c p)"
  unfolding AssignToProject_def
  by (intro preserves_rule ty.preserves_query ty.preserves_insert_row) (erule typed_graph_cong, simp_all)

lemma RemoveFromProject_typed [preserves_rule]: "preserves typed_graph (RemoveFromProject c p)"
  unfolding RemoveFromProject_def by (intro ty.preserves_modify) (erule typed_graph_cong, simp_all)

lemma CreatePersonForUser_typed [preserves_rule]: "preserves typed_graph (CreatePersonForUser uid now u)"
  unfolding CreatePersonForUser_def by (intro preserves_rule ty.preserves_First)

lemma UpdatePersonForUser_typed [preserves_rule]: "preserves typed_graph (UpdatePersonForUser now u)"
proof -
  let ?f = "\<lambda>p :: Party. p\<lparr>party_Name := personName u, party_UpdatedAt := now\<rparr>"
  have "preserves typed_graph (update_rows parties put_parties P ?f)" for P
    by (rule ty.preserves_update_rows) (erule typed_graph_mono, auto simp: has_kind_def simp del: if_image_distrib)
  then show ?thesis unfolding UpdatePersonForUser_def by (intro preserves_rule)
qed

lemma typed_graph_iff:
  "typed_graph s \<longleftrightarrow> (\<forall>r \<in> set (party_relationships s).
     \<exists>cfg \<in> {groupKindConfig, projectKindConfig}. edge_typed cfg s r)"
  by (simp add: typed_graph_def)

lemma cfg_unique:
  "cfg \<in> {groupKindConfig, projectKindConfig} \<Longrightarrow> cfg' \<in> {groupKindConfig, projectKindConfig} \<Longrightarrow>
   MemberRelationship cfg = MemberRelationship cfg' \<Longrightarrow> cfg = cfg'"
  by (elim insertE emptyE; hypsubst; simp add: cfg_defs)

lemma edge_typed_role:
  assumes "cfg \<in> {groupKindConfig, projectKindConfig}" and "role \<in> set (ValidMemberRoles cfg)"
    and "RelationshipName r = MemberRelationship cfg"
    and "\<exists>c \<in> {groupKindConfig, projectKindConfig}. edge_typed c s r"
  shows "\<exists>c \<in> {groupKindConfig, projectKindConfig}. edge_typed c s (r\<lparr>FromRole := role\<rparr>)"
proof -
  from assms(4) obtain c where c: "c \<in> {groupKindConfig, projectKindConfig}" "edge_typed c s r" by blast
  then have "c = cfg" using assms(1,3) by (intro cfg_unique) (simp_all add: edge_typed_def)
  with c assms(2) have "edge_typed c s (r\<lparr>FromRole := role\<rparr>)" by (simp add: edge_typed_def)
  with c show ?thesis by blast
qed

lemma UpdateMemberRole_typed:
  assumes "cfg \<in> {groupKindConfig, projectKindConfig}"
    and "umr_RelationshipName params = MemberRelationship cfg"
    and "umr_NewRole params \<in> set (ValidMemberRoles cfg)"
  shows "preserves typed_graph (UpdateMemberRole params)"
proof -
  let ?g = "\<lambda>r. if umr_matches params r then r\<lparr>FromRole := umr_NewRole params\<rparr> else r"
  have typed: "typed_graph (s\<lparr>party_relationships := map ?g (party_relationships s)\<rparr>)"
    if I: "typed_graph s" for s :: db
  proof -
    have "\<exists>c \<in> {groupKindConfig, projectKindConfig}. edge_typed c s (?g r)"
      if r: "r \<in> set (party_relationships s)" for r
    proof (cases "umr_matches params r")
      case True
      then have "RelationshipName r = MemberRelationship cfg" using assms(2) by (simp add: umr_matches_def)
      with True show ?thesis
        using edge_typed_role [OF assms(1,3)] I r by (simp only: typed_graph_iff if_True)
    next
      case False
      with I r show ?thesis by (simp add: typed_graph_iff)
    qed
    moreover have "edge_typed c (s\<lparr>party_relationships := rs\<rparr>) r = edge_typed c s r" for c rs r
      by (simp add: edge_typed_def has_kind_def)
    ultimately show ?thesis unfolding typed_graph_iff by (simp del: if_image_distrib)
  qed
  then have "preserves typed_graph (update_roles_stmt params)"
    unfolding update_roles_stmt_def by (intro ty.preserves_exec) (simp add: Let_def)
  then show ?thesis unfolding UpdateMemberRole_def by (intro preserves_rule)
qed

lemma edge_typed_key:
  "rel_key r = rel_key q \<Longrightarrow> edge_typed cfg s r = edge_typed cfg s q"
  by (simp add: edge_typed_def rel_key_def)

lemma AddMember_typed:
  assumes I: "typed_graph s" and cfg: "cfg \<in> {groupKindConfig, projectKindConfig}"
    and e: "edge_typed cfg s rel"
  shows "typed_graph (snd (AddMember orm uid now rel s))"
proof -
  obtain r s' where m: "AddMember orm uid now rel s = (r, s')" by (cases "AddMember orm uid now rel s")
  from m have "typed_graph s'"
  proof (cases rule: AddMember_cases)
    case (failed err)
    with I show ?thesis by (metis ty.tables_transfer)
  next
    case (added q)
    have "edge_typed cfg s q" using AddMember_Inr(1) m added e edge_typed_key by blast
    with I cfg have "typed_graph (edge_added q s)"
      by (auto simp: typed_graph_def edge_added_def add_edge_def edge_typed_def has_kind_def)
    with added show ?thesis by (metis ty.tables_transfer)
  qed
  with m show ?thesis by simp
qed

text \<open>A lookup that returns a row does so from the tables of the state in which it runs.\<close>

lemma GetParty_Inr:
  assumes "GetParty i s = (Inr (Some p), s')"
  shows "parties s' = parties s \<and> p \<in> set (parties s) \<and> party_ID p = i"
  using assms unfolding GetParty_def first_or_nil_def
  by (elim try_opE First_InrE) (auto dest!: first_by_Some split: if_splits)

lemma GetParty_typed [preserves_rule]: "preserves typed_graph (GetParty i)"
  unfolding GetParty_def first_or_nil_def by (intro preserves_rule ty.preserves_First)

text \<open>What holds of the final state, one branch at a time.\<close>

lemma try_op_state:
  "(\<And>e s1. m s = (Inl e, s1) \<Longrightarrow> I (snd (h e s1))) \<Longrightarrow> (\<And>x s1. m s = (Inr x, s1) \<Longrightarrow> I (snd (f x s1))) \<Longrightarrow>
   I (snd (try_op m h f s))"
  by (auto simp: try_op_def split: prod.split sum.split)

lemma state_if:
  "(b \<Longrightarrow> I (snd (m s))) \<Longrightarrow> (\<not> b \<Longrightarrow> I (snd (n s))) \<Longrightarrow> I (snd ((if b then m else n) s))"
  by simp

lemma AddMemberHandler_typed:
  assumes cfg: "cfg \<in> {groupKindConfig, projectKindConfig}"
  shows "preserves typed_graph (AddMemberHandler orm cfg uid now toPartyID body)"
proof (rule preservesI)
  fix s assume I: "typed_graph s"
  let ?rel = "\<lambda>req. \<lparr>rel_ID = '''', FromPartyID = add_PartyID req, FromRole = add_Role req,
       ToPartyID = toPartyID, ToRole = cfg_Kind cfg, RelationshipName = MemberRelationship cfg,
       rel_CreatedAt = zero_time\<rparr>"
  have keep: "typed_graph s'" if "GetParty i t = (r, s')" "typed_graph t" for i r s' and t :: db
    using preserves_result [OF GetParty_typed that(2,1)] .
  have add: "typed_graph (snd (AddMember orm uid now (?rel req) s2))"
    if 1: "GetParty toPartyID s = (Inr (Some t), s1)" and 2: "GetParty (add_PartyID req) s1 = (Inr (Some m), s2)"
      and k: "party_Kind t = cfg_Kind cfg" "party_Kind m \<in> set (CanContainKinds cfg)"
        "add_Role req \<in> set (ValidMemberRoles cfg)" for req t s1 m s2
  proof -
    have p1: "parties s1 = parties s" and p2: "parties s2 = parties s1"
      using GetParty_Inr [OF 1] GetParty_Inr [OF 2] by blast+
    have "typed_graph s2" using keep [OF 2 keep [OF 1 I]] .
    moreover have "edge_typed cfg s2 (?rel req)"
      using GetParty_Inr [OF 1] GetParty_Inr [OF 2] k p1 p2 by (auto simp: edge_typed_def has_kind_def)
    ultimately show ?thesis using AddMember_typed [OF _ cfg] by blast
  qed
  show "typed_graph (snd (AddMemberHandler orm cfg uid now toPartyID body s))"
  proof (cases body)
    case None
    with I show ?thesis by (simp add: AddMemberHandler_def)
  next
    case (Some req)
    show ?thesis unfolding AddMemberHandler_def Some option.case
    proof (intro state_if [where I = typed_graph] try_op_state [where I = typed_graph])
      fix target s1 member s2
      assume 1: "GetParty toPartyID s = (Inr target, s1)"
        and t: "\<not> (case target of None \<Rightarrow> True | Some t \<Rightarrow> party_Kind t \<noteq> cfg_Kind cfg)"
        and 2: "GetParty (add_PartyID req) s1 = (Inr member, s2)"
        and role: "\<not> add_Role req \<notin> set (ValidMemberRoles cfg)"
      have s2: "typed_graph s2" using keep [OF 2 keep [OF 1 I]] .
      from t obtain t where target: "target = Some t" "party_Kind t = cfg_Kind cfg"
        by (cases target) auto
      show "typed_graph (snd ((case member of
           None \<Rightarrow> ret (ErrorResponse 400 ''member party not found'')
         | Some member \<Rightarrow>
           if party_Kind member \<notin> set (CanContainKinds cfg)
           then ret (ErrorResponse 400 ''member party kind not allowed for this container'')
           else try_op (AddMember orm uid now (?rel req))
               (\<lambda>e. if Contains (error_string e) ''cycle'' \<or> Contains (error_string e) ''cannot add party''
                    then ret (ErrorResponse 409 (error_string e))
                    else ret (ErrorResponse 500 ''failed to add member''))
               (\<lambda>rel. ret (JSONResponse 201 rel))) s2))"
      proof (cases member)
        case None
        with s2 show ?thesis by simp
      next
        case (Some m)
        have "typed_graph (snd (AddMember orm uid now (?rel req) s2))"
          if "party_Kind m \<in> set (CanContainKinds cfg)"
          using add 1 2 target Some that role by blast
        with s2 Some show ?thesis by (auto simp: try_op_def split: prod.split sum.split)
      qed
    qed (use I keep in auto)
  qed
qed

text \<open>The state-changing handlers and the synchronisation of Person parties with users.\<close>

inductive api_step :: "orm \<Rightarrow> db \<Rightarrow> db \<Rightarrow> bool" for orm where
  api_faults: "api_step orm s (s\<lparr>faults := fs\<rparr>)"
| api_create: "cfg \<in> {groupKindConfig, projectKindConfig} \<Longrightarrow>
    api_step orm s (snd (CreatePartyHandler cfg uid now cbody s))"
| api_delete: "cfg \<in> {groupKindConfig, projectKindConfig} \<Longrightarrow>
    api_step orm s (snd (DeletePartyHandler cfg i s))"
| api_add: "cfg \<in> {groupKindConfig, projectKindConfig} \<Longrightarrow>
    api_step orm s (snd (AddMemberHandler orm cfg uid now i abody s))"
| api_remove: "cfg \<in> {groupKindConfig, projectKindConfig} \<Longrightarrow>
    api_step orm s (snd (RemoveMemberHandler cfg i j s))"
| api_role: "cfg \<in> {groupKindConfig, projectKindConfig} \<Longrightarrow>
    api_step orm s (snd (UpdateMemberRoleHandler cfg i j ubody s))"
| api_assign: "api_step orm s (snd (AssignCatalogToProjectHandler now i pbody s))"
| api_unassign: "api_step orm s (snd (RemoveCatalogFromProjectHandler i j s))"
| api_person: "api_step orm s (snd (CreatePersonForUser uid now u s))"
| api_rename: "api_step orm s (snd (UpdatePersonForUser now u s))"

inductive api_reachable :: "orm \<Rightarrow> db \<Rightarrow> bool" for orm where
  api_init: "api_reachable orm empty_db"
| api_next: "api_reachable orm s \<Longrightarrow> api_step orm s t \<Longrightarrow> api_reachable orm t"

lemma handlers_typed [preserves_rule]:
  "preserves typed_graph (CreatePartyHandler cfg uid now cbody)"
  "preserves typed_graph (DeletePartyHandler cfg i)"
  "preserves typed_graph (RemoveMemberHandler cfg i j)"
  "preserves typed_graph (AssignCatalogToProjectHandler now i pbody)"
  "preserves typed_graph (RemoveCatalogFromProjectHandler i j)"
  unfolding CreatePartyHandler_def DeletePartyHandler_def RemoveMemberHandler_def
    AssignCatalogToProjectHandler_def RemoveCatalogFromProjectHandler_def Let_def
  by (intro preserves_rule)+

lemma UpdateMemberRoleHandler_typed:
  "cfg \<in> {groupKindConfig, projectKindConfig} \<Longrightarrow> preserves typed_graph (UpdateMemberRoleHandler cfg i j ubody)"
  unfolding UpdateMemberRoleHandler_def ListMembers_def Let_def
  by (intro preserves_rule ty.preserves_query UpdateMemberRole_typed [of cfg]) simp_all

lemma api_step_typed: "api_step orm s t \<Longrightarrow> typed_graph s \<Longrightarrow> typed_graph t"
  by (induction rule: api_step.induct)
     (auto intro: preservesD handlers_typed AddMemberHandler_typed UpdateMemberRoleHandler_typed
        CreatePersonForUser_typed UpdatePersonForUser_typed simp: ty.faults_irrelevant)

lemma api_reachable_typed: "api_reachable orm s \<Longrightarrow> typed_graph s"
  by (induction rule: api_reachable.induct)
     (simp_all add: typed_graph_def empty_db_def api_step_typed [unfolded typed_graph_def])

text \<open>Whatever every store operation keeps, every handler keeps.\<close>

context party_stable
begin

lemma GetParty_keeps: "preserves I (GetParty i)"
  unfolding GetParty_def first_or_nil_def by (intro preserves_rule preserves_First)

lemma ListMembers_keeps: "preserves I (ListMembers i n)"
  unfolding ListMembers_def by (intro preserves_rule preserves_query)

lemmas handler_rules = preserves_ret preserves_try preserves_if preserves_option preserves_let
  GetParty_keeps ListMembers_keeps CreateParty_ok DeleteParty_ok AddMember_ok RemoveMember_ok
  UpdateMemberRole_ok AssignToProject_ok RemoveFromProject_ok

lemma handlers_keep:
  "preserves I (CreatePartyHandler cfg uid now cbody)"
  "preserves I (DeletePartyHandler cfg i)"
  "preserves I (AddMemberHandler orm cfg uid now i abody)"
  "preserves I (RemoveMemberHandler cfg i j)"
  "preserves I (UpdateMemberRoleHandler cfg i j ubody)"
  "preserves I (AssignCatalogToProjectHandler now i pbody)"
  "preserves I (RemoveCatalogFromProjectHandler i j)"
  unfolding CreatePartyHandler_def DeletePartyHandler_def AddMemberHandler_def RemoveMemberHandler_def
    UpdateMemberRoleHandler_def AssignCatalogToProjectHandler_def RemoveCatalogFromProjectHandler_def Let_def
  by (intro handler_rules)+

lemma api_step_keeps: "api_step orm s t \<Longrightarrow> I s \<Longrightarrow> I t"
  by (induction rule: api_step.induct)
     (auto intro: preservesD handlers_keep CreatePersonForUser_ok UpdatePersonForUser_ok
        simp: faults_irrelevant)

end

context party_invariant
begin

lemma api_reachable_holds: "api_reachable orm s \<Longrightarrow> I s"
  by (induction rule: api_reachable.induct) (use init api_step_keeps in blast)+

end

section \<open>Properties\<close>

text \<open>What a well-typed graph says of an edge.\<close>

lemma typed_edge:
  assumes "typed_graph s" and "r \<in> set (party_relationships s)"
  shows "\<exists>cfg \<in> {groupKindConfig, projectKindConfig}.
    RelationshipName r = MemberRelationship cfg \<and> FromRole r \<in> set (ValidMemberRoles cfg) \<and>
    has_kind s (ToPartyID r) [cfg_Kind cfg] \<and> has_kind s (FromPartyID r) [PartyKindPerson, PartyKindGroup]"
proof -
  obtain cfg where cfg: "cfg \<in> {groupKindConfig, projectKindConfig}" "edge_typed cfg s r"
    using assms unfolding typed_graph_iff by blast
  then have "set (CanContainKinds cfg) = set [PartyKindPerson, PartyKindGroup]" by (auto simp: cfg_defs)
  then show ?thesis using cfg by (intro bexI [of _ cfg]) (simp_all add: edge_typed_def has_kind_def)
qed

text \<open>Every state the handlers can produce has a well-typed party graph: each relationship
  starts at an existing person or group, ends at an existing party of the relationship's kind, and
  carries a role that is valid for it; the containment edges are acyclic and the closure table is
  their transitive closure; identifiers and relationship keys are unique.\<close>

lemma api_graph_wellformed:
  assumes "api_reachable orm s" and "r \<in> set (party_relationships s)"
  shows "(\<exists>cfg \<in> {groupKindConfig, projectKindConfig}.
       RelationshipName r = MemberRelationship cfg \<and> FromRole r \<in> set (ValidMemberRoles cfg) \<and>
       (\<exists>p \<in> set (parties s). party_ID p = ToPartyID r \<and> party_Kind p = cfg_Kind cfg) \<and>
       (\<exists>p \<in> set (parties s). party_ID p = FromPartyID r \<and> party_Kind p \<in> {PartyKindPerson, PartyKindGroup})) \<and>
     acyclic (containment s) \<and> closure_pairs s = (containment s)\<^sup>+ \<and>
     distinct (map party_ID (parties s)) \<and> distinct (map rel_key (party_relationships s))"
  using typed_edge [OF api_reachable_typed [OF assms(1)] assms(2)]
    closure.api_reachable_holds [OF assms(1)] keys.api_reachable_holds [OF assms(1)]
  by (simp add: has_kind_def closure_inv_def keys_inv_def)

definition sample_api :: db where
  "sample_api =
     snd (AddMemberHandler sample_orm groupKindConfig ''r1'' 3 ''g'' (Some \<lparr>add_PartyID = ''h'', add_Role = ''member''\<rparr>)
    (snd (CreatePartyHandler groupKindConfig ''h'' 2 (Some \<lparr>create_Name = '' Ops ''\<rparr>)
    (snd (CreatePartyHandler groupKindConfig ''g'' 1 (Some \<lparr>create_Name = ''All''\<rparr>) empty_db)))))"

lemma sample_api_reachable: "api_reachable sample_orm sample_api"
  unfolding sample_api_def by (intro api_init api_next [OF _ api_add] api_next [OF _ api_create]) simp_all

lemma api_graph_wellformed_witness:
  "\<exists>r \<in> set (party_relationships sample_api). rel_ID r = ''r1'' \<and>
     (\<exists>p \<in> set (parties sample_api). party_ID p = ToPartyID r) \<and> acyclic (containment sample_api)"
proof -
  have "map rel_ID (party_relationships sample_api) = [''r1'']" by code_simp
  then obtain r where r: "r \<in> set (party_relationships sample_api)" "rel_ID r = ''r1''"
    by (cases "party_relationships sample_api") auto
  with api_graph_wellformed [OF sample_api_reachable r(1)] show ?thesis by blast
qed

text \<open>\<^bold>\<open>C40\<close>  When the engine refuses the cycle query of \<^verbatim>\<open>AddMember\<close>, the handler answers with
  status 409 and the engine's message, as if the request had asked for a cycle: the wrapped message
  begins with \<^verbatim>\<open>cycle detection\<close>, and the handler decides by looking for \<^verbatim>\<open>cycle\<close> in it.\<close>

theorem AddMemberHandler_reports_conflict_on_engine_failure:
  assumes "faults s = [None, None, None, Some msg]"
    and "first_by party_ID (\<lambda>p. party_ID p = toPartyID) (parties s) = Some t" and "party_Kind t = PartyKindGroup"
    and "first_by party_ID (\<lambda>p. party_ID p = m) (parties s) = Some q"
    and "party_Kind q \<in> {PartyKindPerson, PartyKindGroup}" and "m \<noteq> ''''" and "m \<noteq> toPartyID"
  shows "fst (AddMemberHandler orm groupKindConfig uid now toPartyID
      (Some \<lparr>add_PartyID = m, add_Role = ''member''\<rparr>) s) = ErrorResponse 409 (''cycle detection: '' @ msg)"
proof -
  have g: "fst (GetParty i t') = Inr (Some p) \<and> snd (GetParty i t') = t'\<lparr>faults := fs\<rparr>"
    if "faults t' = None # fs" "first_by party_ID (\<lambda>p. party_ID p = i) (parties t') = Some p" for i t' p fs
    using that by (simp add: GetParty_def first_or_nil_def First_def try_op_def exec_def)
  have g1: "GetParty toPartyID s = (Inr (Some t), s\<lparr>faults := [None, None, Some msg]\<rparr>)"
    using g [OF assms(1,2)] by (cases "GetParty toPartyID s") simp
  have g2: "GetParty m (s\<lparr>faults := [None, None, Some msg]\<rparr>) = (Inr (Some q), s\<lparr>faults := [None, Some msg]\<rparr>)"
    using g [of "s\<lparr>faults := [None, None, Some msg]\<rparr>" "[None, Some msg]" m q] assms(4)
    by (cases "GetParty m (s\<lparr>faults := [None, None, Some msg]\<rparr>)") simp
  have a: "fst (AddMember orm uid now \<lparr>rel_ID = '''', FromPartyID = m, FromRole = ''member'',
       ToPartyID = toPartyID, ToRole = PartyKindGroup, RelationshipName = ''group_member'',
       rel_CreatedAt = zero_time\<rparr> (s\<lparr>faults := [None, Some msg]\<rparr>)) =
     Inl (wrapf ''cycle detection'' (errorf msg))"
    using assms(7) by (simp add: AddMember_def Let_def Transaction_def modify_def exec_def op_defs query_def)
  have c: "Contains (''cycle detection: '' @ x) ''cycle''" for x by simp
  show ?thesis
    using assms(3,5,6) g1 g2 a c [of msg]
    by (auto simp: AddMemberHandler_def groupKindConfig_def try_op_def split: prod.split sum.split)
qed

lemma AddMemberHandler_reports_conflict_witness:
  "fst (AddMemberHandler sample_orm groupKindConfig ''r2'' 5 ''g'' (Some \<lparr>add_PartyID = ''h'', add_Role = ''member''\<rparr>)
      (sample_api\<lparr>faults := [None, None, None, Some ''disk I/O error'']\<rparr>))
   = ErrorResponse 409 ''cycle detection: disk I/O error''"
proof -
  let ?s = "sample_api\<lparr>faults := [None, None, None, Some ''disk I/O error'']\<rparr>"
  have p: "map_option (\<lambda>p. (party_ID p, party_Kind p)) (first_by party_ID (\<lambda>p. party_ID p = ''g'') (parties ?s))
      = Some (''g'', PartyKindGroup)"
    "map_option (\<lambda>p. (party_ID p, party_Kind p)) (first_by party_ID (\<lambda>p. party_ID p = ''h'') (parties ?s))
      = Some (''h'', PartyKindGroup)" by code_simp+
  obtain t q where t: "first_by party_ID (\<lambda>p. party_ID p = ''g'') (parties ?s) = Some t" "party_Kind t = PartyKindGroup"
    and q: "first_by party_ID (\<lambda>p. party_ID p = ''h'') (parties ?s) = Some q" "party_Kind q = PartyKindGroup"
    using p by auto
  show ?thesis
    using AddMemberHandler_reports_conflict_on_engine_failure [OF _ t q(1), of "''disk I/O error''" sample_orm "''r2''" 5] q(2)
    by simp
qed

text \<open>Adding an edge that is already stored, the way the handler calls \<^verbatim>\<open>AddMember\<close> (no
  identifier set): the call is idempotent when the mapper's \<^verbatim>\<open>FirstOrCreate\<close> looks the edge up by
  its five columns only, and is refused by the unique index when the mapper also looks for the
  freshly generated identifier.\<close>

theorem AddMember_duplicate:
  assumes "party_reachable orm s" and "faults s = []"
    and q: "q \<in> set (party_relationships s)" "rel_key q = rel_key rel" and "rel_ID rel = ''''"
    and fresh: "uid \<notin> rel_ID ` set (party_relationships s)"
  shows "if pk_in_lookup orm then \<exists>e. AddMember orm uid now rel s = (Inl e, s)
         else \<exists>s'. AddMember orm uid now rel s = (Inr q, s') \<and> party_relationships s' = party_relationships s"
proof -
  define rel1 where "rel1 = rel\<lparr>rel_ID := uid\<rparr>"
  have k: "rel_key rel1 = rel_key q" using q(2) by (simp add: rel1_def rel_key_def)
  note f = rel_key_eqD [OF k]
  have K: "keys_inv s" and C: "closure_inv s"
    using assms(1) keys.reachable_holds closure.reachable_holds by blast+
  have guard: "FromPartyID rel1 \<noteq> ToPartyID rel1 \<and> (ToPartyID rel1, FromPartyID rel1) \<notin> closure_pairs s"
    if "RelationshipName rel1 = ''group_member''"
  proof -
    have "(FromPartyID q, ToPartyID q) \<in> containment s" using that q(1) f by (auto simp: containment_iff)
    with C have "acyclic (insert (FromPartyID q, ToPartyID q) (containment s))"
      by (simp add: closure_inv_def insert_absorb)
    then show ?thesis unfolding cycle_check_exact [OF C] f(1,3) .
  qed
  have body: "AddMember orm uid now rel s = Transaction (insert_edge orm now rel1) s"
    using assms(2,5) guard rows_matching_closure [of "ToPartyID rel1" "FromPartyID rel1" s]
    unfolding AddMember_def Let_def rel1_def
    by (auto simp: Transaction_def op_defs)
  show ?thesis
  proof (cases "pk_in_lookup orm")
    case True
    have n: "first_by rel_ID (\<lambda>r. rel_key r = rel_key rel1 \<and> rel_ID r = rel_ID rel1) (party_relationships s) = None"
      using fresh by (auto simp: first_by_None rel1_def)
    have c: "rel_clash (stamp_rel now rel1) (party_relationships s) \<noteq> None"
      using q(1) k by (auto simp: rel_clash_None)
    have "\<exists>e. insert_edge orm now rel1 s = (Inl e, s)"
      using assms(2) True n c by (auto simp: insert_edge_def FirstOrCreate_rel_def op_defs insert_row_clean)
    with True assms(2) show ?thesis unfolding body by (auto intro: Transaction_Inl_clean)
  next
    case False
    have d: "distinct (map rel_key (party_relationships s))" using K by (simp add: keys_inv_def)
    have n: "first_by rel_ID (\<lambda>r. rel_key r = rel_key rel1) (party_relationships s) = Some q"
      using first_by_key [OF d q(1)] k by simp
    have "\<exists>s'. insert_edge orm now rel1 s = (Inr q, s') \<and> faults s' = [] \<and> party_relationships s' = party_relationships s"
      using assms(2) False n by (simp add: insert_edge_def FirstOrCreate_rel_def op_defs rebuildAllClosures_clean)
    with False assms(2) show ?thesis unfolding body by (auto intro: Transaction_Inr_clean)
  qed
qed

lemma AddMember_duplicate_witness:
  "\<exists>e. AddMember sample_orm ''new'' 9 (sample_edge '''' ''a'' ''b'') sample_chain = (Inl e, sample_chain)"
proof -
  have "''new'' \<notin> set (map rel_ID (party_relationships sample_chain))"
    and k: "rel_key (sample_edge '''' ''a'' ''b'') \<in> set (map rel_key (party_relationships sample_chain))"
    by code_simp+
  then have f: "''new'' \<notin> rel_ID ` set (party_relationships sample_chain)" by simp
  from k obtain q where "q \<in> set (party_relationships sample_chain)"
    "rel_key q = rel_key (sample_edge '''' ''a'' ''b'')" by auto
  from AddMember_duplicate [OF sample_chain_reachable sample_chain_faults this _ f, of 9] show ?thesis
    by (simp add: sample_edge_def sample_orm_def)
qed

text \<open>\<^verbatim>\<open>DeletePartyHandler\<close> does not look at the kind of the party: whichever
  configuration it is mounted with, any party that is not a system party is deleted and the answer
  is 204; in particular the route for projects deletes groups and persons.\<close>

theorem DeletePartyHandler_ignores_kind:
  assumes "party_reachable orm s" and "faults s = []" and "p \<in> set (parties s)" and "\<not> party_IsSystem p"
  shows "\<exists>s'. DeletePartyHandler cfg (party_ID p) s = (WriteHeader 204, s') \<and>
     party_ID p \<notin> party_ID ` set (parties s')"
proof -
  have "distinct (map party_ID (parties s))" using keys.reachable_holds [OF assms(1)] by (simp add: keys_inv_def)
  then have f: "first_by party_ID (\<lambda>q. party_ID q = party_ID p) (parties s) = Some p"
    using assms(3) by (rule first_by_key) simp
  have "fst (DeleteParty (party_ID p) s) = Inr ()"
    using assms(2,4) f
    by (simp add: DeleteParty_def Transaction_def op_defs First_clean rebuildAllClosures_clean)
  then obtain s' where d: "DeleteParty (party_ID p) s = (Inr (), s')" by (cases "DeleteParty (party_ID p) s") simp
  have "parties s' = parties (party_deleted (party_ID p) s)"
    using DeleteParty_Inr(1) [OF d] by (rule tables_eqD(1))
  with d show ?thesis by (auto simp: DeletePartyHandler_def try_op_def party_deleted_def)
qed

lemma DeletePartyHandler_ignores_kind_witness:
  "\<exists>s'. DeletePartyHandler projectKindConfig ''n'' sample_team = (WriteHeader 204, s') \<and>
     ''n'' \<notin> party_ID ` set (parties s')"
proof -
  let ?n = "sample_party ''n'' PartyKindPerson (Some ''u'')"
  have f: "faults sample_team = []" and n: "?n \<in> set (parties sample_team)" by code_simp+
  from DeletePartyHandler_ignores_kind [OF sample_team_reachable f n] show ?thesis
    by (simp add: sample_party_def)
qed

end
