(* ===== verification/User_Store.thy ===== *)
theory User_Store
  imports Party_Api
begin

text \<open>
  \<^verbatim>\<open>UserStore\<close>, \<^verbatim>\<open>RoleStore\<close> and \<^verbatim>\<open>SettingsStore\<close>
  (\<^verbatim>\<open>internal/store/user_store.go\<close>, \<^verbatim>\<open>user_store_lockout.go\<close>,
  \<^verbatim>\<open>role_store.go\<close>, \<^verbatim>\<open>settings_store.go\<close>).  A stored user row has no loaded role;
  \<^verbatim>\<open>Preload("Role")\<close> is a second statement that attaches it.  \<^verbatim>\<open>Save\<close> writes all columns of
  the row with the primary key, stamps \<^verbatim>\<open>UpdatedAt\<close>, and inserts the row when there is none; with
  a loaded role the mapper may copy the role's key over the foreign key
  (\<^verbatim>\<open>belongs_to_wins\<close>).  Columns with a declared default take it when the field is zero on
  insert.
\<close>

section \<open>Users\<close>

definition maxFailedAttempts :: int where "maxFailedAttempts = 5"
definition lockDuration :: duration where "lockDuration = 15 * Minute"

abbreviation put_users :: "User list \<Rightarrow> db \<Rightarrow> db" where
  "put_users us s \<equiv> s\<lparr>users := us\<rparr>"

abbreviation put_roles :: "Role list \<Rightarrow> db \<Rightarrow> db" where
  "put_roles rs s \<equiv> s\<lparr>roles := rs\<rparr>"

abbreviation put_settings :: "Setting list \<Rightarrow> db \<Rightarrow> db" where
  "put_settings xs s \<equiv> s\<lparr>settings := xs\<rparr>"

definition user_clash :: "User \<Rightarrow> User list \<Rightarrow> string option" where
  "user_clash u us =
     (if \<exists>q \<in> set us. user_ID q = user_ID u then Some ''users.id''
      else if \<exists>q \<in> set us. Username q = Username u then Some ''users.username'' else None)"

text \<open>The row an insert stores: zero time stamps filled, the declared default for
  \<^verbatim>\<open>is_active\<close>, no association.\<close>

definition new_user_row :: "time \<Rightarrow> User \<Rightarrow> User" where
  "new_user_row now u = u\<lparr>IsActive := True, user_Role := None,
     user_CreatedAt := (if IsZero (user_CreatedAt u) then now else user_CreatedAt u),
     user_UpdatedAt := (if IsZero (user_UpdatedAt u) then now else user_UpdatedAt u)\<rparr>"

definition UserStore_Create :: "time \<Rightarrow> User \<Rightarrow> (db, User) op" where
  "UserStore_Create now user =
     bind_op (insert_row users put_users user_clash (new_user_row now user)) ''creating user''
       (\<lambda>_. ok (new_user_row now user))"

definition preload_role :: "User \<Rightarrow> (db, User) op" where
  "preload_role u = pass_op (query (\<lambda>s. first_by role_ID (\<lambda>r. role_ID r = user_RoleID u) (roles s)))
     (\<lambda>role. ok (u\<lparr>user_Role := role\<rparr>))"

definition get_user :: "(User \<Rightarrow> bool) \<Rightarrow> string \<Rightarrow> (db, User option) op" where
  "get_user cond msg =
     try_op (pass_op (First users user_ID cond) preload_role)
       (\<lambda>e. if errors_Is e ErrRecordNotFound then ok None else fail (wrapf msg e))
       (\<lambda>u. ok (Some u))"

definition UserStore_GetByID :: "string \<Rightarrow> (db, User option) op" where
  "UserStore_GetByID userID = get_user (\<lambda>u. user_ID u = userID) ''getting user by id''"

definition UserStore_GetByUsername :: "string \<Rightarrow> (db, User option) op" where
  "UserStore_GetByUsername username = get_user (\<lambda>u. Username u = username) ''getting user by username''"

text \<open>\<^verbatim>\<open>Save\<close> of a user struct.\<close>

definition saved_user_row :: "orm \<Rightarrow> time \<Rightarrow> User \<Rightarrow> User" where
  "saved_user_row orm now u =
     (let fk = (case user_Role u of Some r \<Rightarrow> if belongs_to_wins orm then role_ID r else user_RoleID u
                  | None \<Rightarrow> user_RoleID u)
      in u\<lparr>user_RoleID := fk, user_Role := None, user_UpdatedAt := now\<rparr>)"

definition save_user :: "orm \<Rightarrow> time \<Rightarrow> User \<Rightarrow> (db, unit) op" where
  "save_user orm now u = exec (\<lambda>s.
     let row = saved_user_row orm now u;
         others = filter (\<lambda>q. user_ID q \<noteq> user_ID u) (users s)
     in if \<exists>q \<in> set others. Username q = Username u
        then (Inl (errorf ''UNIQUE constraint failed: users.username''), s)
        else if \<exists>q \<in> set (users s). user_ID q = user_ID u
        then (Inr (), s\<lparr>users := map (\<lambda>q. if user_ID q = user_ID u then row else q) (users s)\<rparr>)
        else (Inr (), s\<lparr>users := users s @ [row]\<rparr>))"

definition UserStore_Update :: "orm \<Rightarrow> time \<Rightarrow> User \<Rightarrow> (db, unit) op" where
  "UserStore_Update orm now user = bind_op (save_user orm now user) ''updating user'' ok"

definition UserStore_Delete :: "string \<Rightarrow> (db, unit) op" where
  "UserStore_Delete userID =
     bind_op (modify (\<lambda>s. s\<lparr>users := filter (\<lambda>u. \<not> user_ID u = userID) (users s)\<rparr>)) ''deleting user'' ok"

definition UserStore_List :: "int \<Rightarrow> int \<Rightarrow> (db, User list) op" where
  "UserStore_List limit offset =
     bind_op (pass_op (query (\<lambda>s.
         let sorted = sort_key Username (users s);
             rest = (if offset > 0 then drop (nat offset) sorted else sorted)
         in if limit > 0 then take (nat limit) rest else rest)) (\<lambda>us.
       query (\<lambda>s. map (\<lambda>u. u\<lparr>user_Role := first_by role_ID (\<lambda>r. role_ID r = user_RoleID u) (roles s)\<rparr>) us)))
       ''listing users'' ok"

definition UserStore_UpdateLastLogin :: "time \<Rightarrow> string \<Rightarrow> (db, unit) op" where
  "UserStore_UpdateLastLogin now userID =
     bind_op (update_rows users put_users (\<lambda>u. user_ID u = userID)
         (\<lambda>u. u\<lparr>LastLogin := Some now, user_UpdatedAt := now\<rparr>)) ''updating last login'' (\<lambda>_. ok ())"

definition UserStore_Count :: "(db, int) op" where
  "UserStore_Count = bind_op (query (\<lambda>s. int (length (users s)))) ''counting users'' ok"

subsection \<open>Lockout\<close>

definition count_failure :: "time \<Rightarrow> User \<Rightarrow> User" where
  "count_failure now u =
     (let n = FailedAttempts u + 1
      in u\<lparr>FailedAttempts := n,
           LockedUntil := (if n \<ge> maxFailedAttempts then Some (now + lockDuration) else LockedUntil u)\<rparr>)"

definition IncrementFailedAttempts :: "orm \<Rightarrow> time \<Rightarrow> string \<Rightarrow> (db, unit) op" where
  "IncrementFailedAttempts orm now userID = Transaction (
     bind_op (First users user_ID (\<lambda>u. user_ID u = userID)) ''finding user for failed attempt increment'' (\<lambda>user.
     bind_op (save_user orm now (count_failure now user)) ''saving incremented failed attempts'' (\<lambda>_.
     ok ())))"

definition ResetFailedAttempts :: "time \<Rightarrow> string \<Rightarrow> (db, unit) op" where
  "ResetFailedAttempts now userID =
     bind_op (update_rows users put_users (\<lambda>u. user_ID u = userID)
         (\<lambda>u. u\<lparr>FailedAttempts := 0, LockedUntil := None, user_UpdatedAt := now\<rparr>))
       ''resetting failed attempts'' (\<lambda>_. ok ())"

definition LockUser :: "time \<Rightarrow> string \<Rightarrow> time \<Rightarrow> (db, unit) op" where
  "LockUser now userID until =
     bind_op (update_rows users put_users (\<lambda>u. user_ID u = userID)
         (\<lambda>u. u\<lparr>LockedUntil := Some until, user_UpdatedAt := now\<rparr>)) ''locking user'' (\<lambda>_. ok ())"

section \<open>Roles\<close>

definition role_clash :: "Role \<Rightarrow> Role list \<Rightarrow> string option" where
  "role_clash r rs =
     (if \<exists>q \<in> set rs. role_ID q = role_ID r then Some ''roles.id''
      else if \<exists>q \<in> set rs. role_Name q = role_Name r then Some ''roles.name'' else None)"

definition RoleStore_GetByID :: "string \<Rightarrow> (db, Role option) op" where
  "RoleStore_GetByID roleID = first_or_nil roles role_ID (\<lambda>r. role_ID r = roleID) ''getting role by id''"

definition RoleStore_GetByName :: "string \<Rightarrow> (db, Role option) op" where
  "RoleStore_GetByName name = first_or_nil roles role_ID (\<lambda>r. role_Name r = name) ''getting role by name''"

definition RoleStore_List :: "(db, Role list) op" where
  "RoleStore_List = bind_op (query (\<lambda>s. sort_key role_Name (roles s))) ''listing roles'' ok"

definition RoleStore_Create :: "Role \<Rightarrow> (db, unit) op" where
  "RoleStore_Create role = bind_op (insert_row roles put_roles role_clash role) ''creating role'' ok"

definition save_role :: "time \<Rightarrow> Role \<Rightarrow> (db, unit) op" where
  "save_role now r = exec (\<lambda>s.
     let row = r\<lparr>role_UpdatedAt := now\<rparr>;
         others = filter (\<lambda>q. role_ID q \<noteq> role_ID r) (roles s)
     in if \<exists>q \<in> set others. role_Name q = role_Name r
        then (Inl (errorf ''UNIQUE constraint failed: roles.name''), s)
        else if \<exists>q \<in> set (roles s). role_ID q = role_ID r
        then (Inr (), s\<lparr>roles := map (\<lambda>q. if role_ID q = role_ID r then row else q) (roles s)\<rparr>)
        else (Inr (), s\<lparr>roles := roles s @ [row]\<rparr>))"

definition RoleStore_Update :: "time \<Rightarrow> Role \<Rightarrow> (db, unit) op" where
  "RoleStore_Update now role = bind_op (save_role now role) ''updating role'' ok"

definition RoleStore_Delete :: "string \<Rightarrow> (db, unit) op" where
  "RoleStore_Delete roleID =
     try_op (First roles role_ID (\<lambda>r. role_ID r = roleID))
       (\<lambda>e. if errors_Is e ErrRecordNotFound then ok () else fail (wrapf ''finding role for deletion'' e))
       (\<lambda>role. if role_IsSystem role then fail (errorf ''cannot delete system role'')
          else bind_op (modify (\<lambda>s. s\<lparr>roles := filter (\<lambda>r. \<not> role_ID r = roleID) (roles s)\<rparr>)) ''deleting role'' ok)"

section \<open>Settings\<close>

definition setting_clash :: "Setting \<Rightarrow> Setting list \<Rightarrow> string option" where
  "setting_clash x xs = (if \<exists>q \<in> set xs. setting_Key q = setting_Key x then Some ''settings.key'' else None)"

definition SettingsStore_Get :: "string \<Rightarrow> (db, Setting option) op" where
  "SettingsStore_Get key = first_or_nil settings setting_Key (\<lambda>x. setting_Key x = key) ''getting setting''"

definition SettingsStore_Set :: "time \<Rightarrow> string \<Rightarrow> string \<Rightarrow> (db, unit) op" where
  "SettingsStore_Set now key val =
     try_op (First settings setting_Key (\<lambda>x. setting_Key x = key))
       (\<lambda>e. if \<not> errors_Is e ErrRecordNotFound then fail (wrapf ''looking up setting'' e)
            else bind_op (insert_row settings put_settings setting_clash
                \<lparr>setting_Key = key, setting_Value = val, setting_Category = ''general'',
                 setting_Description = '''', setting_UpdatedAt = now\<rparr>) ''creating setting'' ok)
       (\<lambda>x. bind_op (update_rows settings put_settings (\<lambda>y. setting_Key y = setting_Key x)
                (\<lambda>_. x\<lparr>setting_Value := val, setting_UpdatedAt := now\<rparr>)) ''updating setting'' (\<lambda>_. ok ()))"

definition SettingsStore_GetByCategory :: "string \<Rightarrow> (db, Setting list) op" where
  "SettingsStore_GetByCategory category =
     bind_op (query (\<lambda>s. filter (\<lambda>x. setting_Category x = category) (settings s)))
       ''getting settings by category'' ok"

definition SettingsStore_GetAll :: "(db, Setting list) op" where
  "SettingsStore_GetAll = bind_op (query settings) ''getting all settings'' ok"

section \<open>Invariant of the account tables\<close>

definition accounts_inv :: "db \<Rightarrow> bool" where
  "accounts_inv s \<longleftrightarrow> distinct (map user_ID (users s)) \<and> distinct (map Username (users s)) \<and>
     (\<forall>u \<in> set (users s). user_Role u = None) \<and>
     distinct (map role_ID (roles s)) \<and> distinct (map role_Name (roles s)) \<and>
     distinct (map setting_Key (settings s))"

interpretation acc: table_invariant accounts_inv
  by unfold_locales (simp add: accounts_inv_def)

lemma accounts_inv_cong:
  "accounts_inv s \<Longrightarrow> users t = users s \<Longrightarrow> roles t = roles s \<Longrightarrow> settings t = settings s \<Longrightarrow> accounts_inv t"
  by (simp add: accounts_inv_def)

lemma distinct_map_replace:
  assumes "distinct (map f xs)" and "f row = i"
  shows "distinct (map f (map (\<lambda>q. if f q = i then row else q) xs))"
proof -
  have "map f (map (\<lambda>q. if f q = i then row else q) xs) = map f xs"
    using assms(2) by (induction xs) auto
  then show ?thesis using assms(1) by (simp only:)
qed

text \<open>A replaced row may carry a new secondary key as long as no other row has it.\<close>

lemma distinct_map_replace_other:
  assumes "distinct (map f xs)" and "distinct (map g xs)"
    and "\<forall>q \<in> set (filter (\<lambda>q. f q \<noteq> i) xs). g q \<noteq> g row"
  shows "distinct (map g (map (\<lambda>q. if f q = i then row else q) xs))"
  using assms
proof (induction xs)
  case (Cons x xs)
  show ?case
  proof (cases "f x = i")
    case True
    with Cons.prems(1) have "\<forall>q \<in> set xs. f q \<noteq> i" by (metis distinct.simps(2) imageI list.set_map list.simps(9))
    then have "map (\<lambda>q. if f q = i then row else q) xs = xs" by (induction xs) auto
    moreover have "g row \<notin> g ` set xs"
    proof
      assume "g row \<in> g ` set xs"
      then obtain q where q: "q \<in> set xs" "g row = g q" by blast
      with \<open>\<forall>q \<in> set xs. f q \<noteq> i\<close> have "q \<in> set (filter (\<lambda>q. f q \<noteq> i) (x # xs))" by simp
      with Cons.prems(3) q(2) show False by metis
    qed
    ultimately show ?thesis using True Cons.prems(2) by simp
  next
    case False
    have "g x \<notin> g ` set (map (\<lambda>q. if f q = i then row else q) xs)"
      using Cons.prems(2,3) False by (auto simp del: if_image_distrib split: if_splits)
    with False Cons show ?thesis by (simp del: if_image_distrib add: image_image)
  qed
qed simp

lemma saved_user_row_fields [simp]:
  "user_ID (saved_user_row orm now u) = user_ID u" "Username (saved_user_row orm now u) = Username u"
  "user_Role (saved_user_row orm now u) = None" "IsActive (saved_user_row orm now u) = IsActive u"
  "FailedAttempts (saved_user_row orm now u) = FailedAttempts u"
  "LockedUntil (saved_user_row orm now u) = LockedUntil u"
  "PasswordHash (saved_user_row orm now u) = PasswordHash u"
  by (simp_all add: saved_user_row_def Let_def)

lemma saved_user_row_same:
  "user_RoleID (saved_user_row orm now u) = user_RoleID u \<Longrightarrow>
   saved_user_row orm now u = u\<lparr>user_Role := None, user_UpdatedAt := now\<rparr>"
  by (cases u) (simp add: saved_user_row_def Let_def)

lemma save_user_accounts [preserves_rule]: "preserves accounts_inv (save_user orm now u)"
  unfolding save_user_def
proof (rule acc.preserves_exec)
  fix s :: db assume I: "accounts_inv s"
  let ?row = "saved_user_row orm now u"
  have rep: "accounts_inv (s\<lparr>users := map (\<lambda>q. if user_ID q = user_ID u then ?row else q) (users s)\<rparr>)"
    if "\<forall>q \<in> set (filter (\<lambda>q. user_ID q \<noteq> user_ID u) (users s)). Username q \<noteq> Username u"
    using I that distinct_map_replace [of user_ID "users s" ?row "user_ID u"]
      distinct_map_replace_other [of user_ID "users s" Username "user_ID u" ?row]
    by (auto simp: accounts_inv_def simp del: map_map if_image_distrib)
  show "accounts_inv (snd (let row = ?row; others = filter (\<lambda>q. user_ID q \<noteq> user_ID u) (users s)
     in if \<exists>q \<in> set others. Username q = Username u
        then (Inl (errorf ''UNIQUE constraint failed: users.username''), s)
        else if \<exists>q \<in> set (users s). user_ID q = user_ID u
        then (Inr (), s\<lparr>users := map (\<lambda>q. if user_ID q = user_ID u then row else q) (users s)\<rparr>)
        else (Inr (), s\<lparr>users := users s @ [row]\<rparr>)))"
    using I rep by (auto simp: Let_def accounts_inv_def)
qed

lemma UserStore_accounts [preserves_rule]:
  "preserves accounts_inv (UserStore_Create now u)"
  "preserves accounts_inv (UserStore_GetByID i)"
  "preserves accounts_inv (UserStore_GetByUsername n)"
  "preserves accounts_inv (UserStore_Update orm now u)"
  "preserves accounts_inv (UserStore_Delete i)"
  "preserves accounts_inv (UserStore_List l k)"
  "preserves accounts_inv (UserStore_UpdateLastLogin now i)"
  "preserves accounts_inv (IncrementFailedAttempts orm now i)"
  "preserves accounts_inv (ResetFailedAttempts now i)"
  "preserves accounts_inv (LockUser now i t)"
proof -
  have ins: "preserves accounts_inv (insert_row users put_users user_clash (new_user_row now u))" for u
    by (rule acc.preserves_insert_row)
       (auto simp: accounts_inv_def user_clash_def new_user_row_def split: if_splits)
  then show "preserves accounts_inv (UserStore_Create now u)"
    unfolding UserStore_Create_def by (intro preserves_rule)
  have get: "preserves accounts_inv (get_user c m)" for c m
    unfolding get_user_def preload_role_def by (intro preserves_rule acc.preserves_First acc.preserves_query)
  show "preserves accounts_inv (UserStore_GetByID i)" "preserves accounts_inv (UserStore_GetByUsername n)"
    unfolding UserStore_GetByID_def UserStore_GetByUsername_def by (rule get)+
  show "preserves accounts_inv (UserStore_Update orm now u)"
    unfolding UserStore_Update_def by (intro preserves_rule)
  have del: "preserves accounts_inv (modify (\<lambda>s. s\<lparr>users := filter P (users s)\<rparr>))" for P
    by (rule acc.preserves_modify) (auto simp: accounts_inv_def distinct_map_filter_keep)
  show "preserves accounts_inv (UserStore_Delete i)"
    unfolding UserStore_Delete_def by (intro preserves_rule del)
  show "preserves accounts_inv (UserStore_List l k)"
    unfolding UserStore_List_def by (intro preserves_rule acc.preserves_query)
  show "preserves accounts_inv (IncrementFailedAttempts orm now i)"
    unfolding IncrementFailedAttempts_def
    by (intro acc.preserves_Transaction preserves_rule acc.preserves_First)
  have upd: "preserves accounts_inv (update_rows users put_users P f)"
    if "\<And>u. user_ID (f u) = user_ID u \<and> Username (f u) = Username u \<and> user_Role (f u) = user_Role u" for P f
    using map_key_update [of user_ID f P] map_key_update [of Username f P] that
    by (intro acc.preserves_update_rows) (auto simp: accounts_inv_def simp del: map_map if_image_distrib)
  show "preserves accounts_inv (UserStore_UpdateLastLogin now i)"
    "preserves accounts_inv (ResetFailedAttempts now i)" "preserves accounts_inv (LockUser now i t)"
    unfolding UserStore_UpdateLastLogin_def ResetFailedAttempts_def LockUser_def
    by (intro preserves_rule upd; simp)+
qed

lemma save_role_accounts [preserves_rule]: "preserves accounts_inv (save_role now r)"
  unfolding save_role_def
proof (rule acc.preserves_exec)
  fix s :: db assume I: "accounts_inv s"
  let ?row = "r\<lparr>role_UpdatedAt := now\<rparr>"
  have rep: "accounts_inv (s\<lparr>roles := map (\<lambda>q. if role_ID q = role_ID r then ?row else q) (roles s)\<rparr>)"
    if "\<forall>q \<in> set (filter (\<lambda>q. role_ID q \<noteq> role_ID r) (roles s)). role_Name q \<noteq> role_Name r"
    using I that distinct_map_replace [of role_ID "roles s" ?row "role_ID r"]
      distinct_map_replace_other [of role_ID "roles s" role_Name "role_ID r" ?row]
    by (auto simp: accounts_inv_def simp del: map_map if_image_distrib)
  show "accounts_inv (snd (let row = ?row; others = filter (\<lambda>q. role_ID q \<noteq> role_ID r) (roles s)
     in if \<exists>q \<in> set others. role_Name q = role_Name r
        then (Inl (errorf ''UNIQUE constraint failed: roles.name''), s)
        else if \<exists>q \<in> set (roles s). role_ID q = role_ID r
        then (Inr (), s\<lparr>roles := map (\<lambda>q. if role_ID q = role_ID r then row else q) (roles s)\<rparr>)
        else (Inr (), s\<lparr>roles := roles s @ [row]\<rparr>)))"
    using I rep by (auto simp: Let_def accounts_inv_def)
qed

lemma RoleStore_accounts [preserves_rule]:
  "preserves accounts_inv (RoleStore_GetByID i)"
  "preserves accounts_inv (RoleStore_GetByName n)"
  "preserves accounts_inv RoleStore_List"
  "preserves accounts_inv (RoleStore_Create r)"
  "preserves accounts_inv (RoleStore_Update now r)"
  "preserves accounts_inv (RoleStore_Delete i)"
proof -
  show "preserves accounts_inv (RoleStore_GetByID i)" "preserves accounts_inv (RoleStore_GetByName n)"
    "preserves accounts_inv RoleStore_List"
    unfolding RoleStore_GetByID_def RoleStore_GetByName_def RoleStore_List_def first_or_nil_def
    by (intro preserves_rule acc.preserves_First acc.preserves_query)+
  have ins: "preserves accounts_inv (insert_row roles put_roles role_clash r)"
    by (rule acc.preserves_insert_row) (auto simp: accounts_inv_def role_clash_def split: if_splits)
  then show "preserves accounts_inv (RoleStore_Create r)"
    unfolding RoleStore_Create_def by (intro preserves_rule)
  show "preserves accounts_inv (RoleStore_Update now r)"
    unfolding RoleStore_Update_def by (intro preserves_rule)
  have "preserves accounts_inv (modify (\<lambda>s. s\<lparr>roles := filter P (roles s)\<rparr>))" for P
    by (rule acc.preserves_modify) (auto simp: accounts_inv_def distinct_map_filter_keep)
  then show "preserves accounts_inv (RoleStore_Delete i)"
    unfolding RoleStore_Delete_def by (intro preserves_rule acc.preserves_First)
qed

lemma SettingsStore_Set_accounts [preserves_rule]: "preserves accounts_inv (SettingsStore_Set now k v)"
proof -
  have "preserves accounts_inv (insert_row settings put_settings setting_clash x)" for x
    by (rule acc.preserves_insert_row) (auto simp: accounts_inv_def setting_clash_def split: if_splits)
  moreover have "preserves accounts_inv (update_rows settings put_settings (\<lambda>y. setting_Key y = setting_Key x)
      (\<lambda>_. x\<lparr>setting_Value := v, setting_UpdatedAt := now\<rparr>))" for x
    using distinct_map_replace [of setting_Key _ "x\<lparr>setting_Value := v, setting_UpdatedAt := now\<rparr>" "setting_Key x"]
    by (intro acc.preserves_update_rows) (simp add: accounts_inv_def del: map_map)
  ultimately show ?thesis
    unfolding SettingsStore_Set_def by (intro preserves_rule acc.preserves_First)
qed

section \<open>Lookups on an engine that refuses nothing\<close>

definition role_of :: "db \<Rightarrow> User \<Rightarrow> Role option" where
  "role_of s u = first_by role_ID (\<lambda>r. role_ID r = user_RoleID u) (roles s)"

lemma get_user_clean:
  "faults s = [] \<Longrightarrow> get_user cond msg s =
     (Inr (map_option (\<lambda>u. u\<lparr>user_Role := role_of s u\<rparr>) (first_by user_ID cond (users s))), s)"
  by (simp add: get_user_def preload_role_def op_defs First_clean role_of_def split: option.split)

lemma GetByID_clean:
  assumes "faults s = []" and "accounts_inv s" and "u \<in> set (users s)"
  shows "UserStore_GetByID (user_ID u) s = (Inr (Some (u\<lparr>user_Role := role_of s u\<rparr>)), s)"
  using assms first_by_key [of user_ID "users s" u]
  by (simp add: UserStore_GetByID_def get_user_clean accounts_inv_def)

lemma GetByUsername_clean:
  assumes "faults s = []" and "accounts_inv s" and "u \<in> set (users s)"
  shows "UserStore_GetByUsername (Username u) s = (Inr (Some (u\<lparr>user_Role := role_of s u\<rparr>)), s)"
  using assms first_by_key [of Username "users s" u]
  by (simp add: UserStore_GetByUsername_def get_user_clean accounts_inv_def)

definition replace_user :: "User \<Rightarrow> db \<Rightarrow> db" where
  "replace_user row s = s\<lparr>users := map (\<lambda>q. if user_ID q = user_ID row then row else q) (users s)\<rparr>"

lemma faults_replace_user [simp]: "faults (replace_user row s) = faults s"
  by (simp add: replace_user_def)

lemma roles_replace_user [simp]: "roles (replace_user row s) = roles s"
  by (simp add: replace_user_def)

lemma in_replace_user:
  "u \<in> set (users s) \<Longrightarrow> user_ID row = user_ID u \<Longrightarrow> row \<in> set (users (replace_user row s))"
  by (force simp: replace_user_def)

lemma save_user_clean:
  assumes "faults s = []" and "accounts_inv s" and "u \<in> set (users s)"
    and "user_ID v = user_ID u" and "Username v = Username u"
  shows "save_user orm now v s = (Inr (), replace_user (saved_user_row orm now v) s)"
proof -
  have "q = u" if "q \<in> set (users s)" "Username q = Username u" for q
    using assms(2,3) that distinct_map_key_unique by (metis accounts_inv_def)
  then have "\<not> (\<exists>q \<in> set (filter (\<lambda>q. user_ID q \<noteq> user_ID v) (users s)). Username q = Username v)"
    using assms(4,5) by auto
  moreover have "\<exists>q \<in> set (users s). user_ID q = user_ID v" using assms(3,4) by auto
  ultimately show ?thesis using assms(1) by (simp add: save_user_def Let_def replace_user_def)
qed

text \<open>One counted failure.\<close>

definition failed_row :: "orm \<Rightarrow> time \<Rightarrow> User \<Rightarrow> User" where
  "failed_row orm now u = saved_user_row orm now (count_failure now u)"

lemma failed_row_fields [simp]:
  "user_ID (failed_row orm now u) = user_ID u" "Username (failed_row orm now u) = Username u"
  "IsActive (failed_row orm now u) = IsActive u" "PasswordHash (failed_row orm now u) = PasswordHash u"
  "FailedAttempts (failed_row orm now u) = FailedAttempts u + 1"
  "LockedUntil (failed_row orm now u) =
     (if FailedAttempts u + 1 \<ge> maxFailedAttempts then Some (now + lockDuration) else LockedUntil u)"
  by (simp_all add: failed_row_def count_failure_def Let_def)

lemma IncrementFailedAttempts_clean:
  assumes "faults s = []" and "accounts_inv s" and "u \<in> set (users s)"
  shows "IncrementFailedAttempts orm now (user_ID u) s = (Inr (), replace_user (failed_row orm now u) s)"
proof -
  have f: "first_by user_ID (\<lambda>q. user_ID q = user_ID u) (users s) = Some u"
    using assms(2,3) by (intro first_by_key) (simp_all add: accounts_inv_def)
  have "save_user orm now (count_failure now u) s = (Inr (), replace_user (failed_row orm now u) s)"
    unfolding failed_row_def by (rule save_user_clean [OF assms]) (simp_all add: count_failure_def Let_def)
  with f assms(1) show ?thesis
    unfolding IncrementFailedAttempts_def by (simp add: Transaction_def op_defs First_clean)
qed

section \<open>Settings as a key-value store\<close>

text \<open>The contract the settings handler relies on: a lookup after an update returns the new value
  for the key and the old value for every other key.\<close>

locale key_value =
  fixes inv :: "'s \<Rightarrow> bool" and lookup :: "'s \<Rightarrow> 'k \<Rightarrow> 'v option" and upd :: "'k \<Rightarrow> 'v \<Rightarrow> 's \<Rightarrow> 's"
  assumes inv_upd: "inv s \<Longrightarrow> inv (upd k v s)"
    and lookup_upd: "inv s \<Longrightarrow> lookup (upd k v s) k' = (if k' = k then Some v else lookup s k')"
begin

fun upd_all :: "('k \<times> 'v) list \<Rightarrow> 's \<Rightarrow> 's" where
  "upd_all [] s = s"
| "upd_all ((k, v) # kvs) s = upd_all kvs (upd k v s)"

lemma lookup_upd_all:
  "inv s \<Longrightarrow> distinct (map fst kvs) \<Longrightarrow>
   lookup (upd_all kvs s) k = (case map_of kvs k of Some v \<Rightarrow> Some v | None \<Rightarrow> lookup s k)"
proof (induction kvs s rule: upd_all.induct)
  case (2 j v kvs s)
  have "k = j \<Longrightarrow> map_of kvs k = None" using 2(3) by (simp add: map_of_eq_None_iff)
  with 2 show ?case by (auto simp: inv_upd lookup_upd split: option.split)
qed simp

lemma inv_upd_all: "inv s \<Longrightarrow> inv (upd_all kvs s)"
  by (induction kvs s rule: upd_all.induct) (simp_all add: inv_upd)

end

definition setting_value :: "db \<Rightarrow> string \<Rightarrow> string option" where
  "setting_value s k = map_option setting_Value (first_by setting_Key (\<lambda>x. setting_Key x = k) (settings s))"

definition quiet_settings :: "db \<Rightarrow> bool" where
  "quiet_settings s \<longleftrightarrow> faults s = [] \<and> distinct (map setting_Key (settings s))"

lemma setting_value_iff:
  assumes "distinct (map setting_Key (settings s))"
  shows "setting_value s k = Some v \<longleftrightarrow> (\<exists>x \<in> set (settings s). setting_Key x = k \<and> setting_Value x = v)"
proof
  assume "setting_value s k = Some v"
  then show "\<exists>x \<in> set (settings s). setting_Key x = k \<and> setting_Value x = v"
    by (auto simp: setting_value_def dest: first_by_Some)
next
  assume "\<exists>x \<in> set (settings s). setting_Key x = k \<and> setting_Value x = v"
  then obtain x where "x \<in> set (settings s)" "setting_Key x = k" "setting_Value x = v" by blast
  then show "setting_value s k = Some v"
    using first_by_key [OF assms, of x k] by (simp add: setting_value_def)
qed

lemma Set_existing:
  assumes "quiet_settings s" and x: "x \<in> set (settings s)" "setting_Key x = k"
  shows "SettingsStore_Set now k v s = (Inr (), s\<lparr>settings := map (\<lambda>y. if setting_Key y = k
     then x\<lparr>setting_Value := v, setting_UpdatedAt := now\<rparr> else y) (settings s)\<rparr>)"
proof -
  have "first_by setting_Key (\<lambda>y. setting_Key y = k) (settings s) = Some x"
    using assms by (intro first_by_key) (simp_all add: quiet_settings_def)
  with assms show ?thesis
    by (simp add: SettingsStore_Set_def op_defs First_clean update_rows_clean quiet_settings_def)
qed

lemma Set_missing:
  assumes "quiet_settings s" and "\<forall>x \<in> set (settings s). setting_Key x \<noteq> k"
  shows "SettingsStore_Set now k v s = (Inr (), s\<lparr>settings := settings s @ [\<lparr>setting_Key = k, setting_Value = v,
     setting_Category = ''general'', setting_Description = '''', setting_UpdatedAt = now\<rparr>]\<rparr>)"
proof -
  have "first_by setting_Key (\<lambda>y. setting_Key y = k) (settings s) = None"
    using assms(2) by (simp add: first_by_None)
  with assms show ?thesis
    by (simp add: SettingsStore_Set_def op_defs First_clean insert_row_clean setting_clash_def quiet_settings_def)
qed

lemma Set_quiet:
  assumes Q: "quiet_settings s"
  shows "fst (SettingsStore_Set now k v s) = Inr ()"
    and "quiet_settings (snd (SettingsStore_Set now k v s))"
    and "setting_value (snd (SettingsStore_Set now k v s)) k' = (if k' = k then Some v else setting_value s k')"
proof -
  have d: "distinct (map setting_Key (settings s))" and f: "faults s = []"
    using Q by (simp_all add: quiet_settings_def)
  have main: "fst (SettingsStore_Set now k v s) = Inr () \<and> quiet_settings (snd (SettingsStore_Set now k v s)) \<and>
    (\<forall>j w. setting_value (snd (SettingsStore_Set now k v s)) j = Some w \<longleftrightarrow>
       (if j = k then w = v else setting_value s j = Some w))"
  proof (cases "\<exists>x \<in> set (settings s). setting_Key x = k")
    case True
    then obtain x where x: "x \<in> set (settings s)" "setting_Key x = k" by blast
    let ?t = "snd (SettingsStore_Set now k v s)"
    have t: "settings ?t = map (\<lambda>y. if setting_Key y = k
     then x\<lparr>setting_Value := v, setting_UpdatedAt := now\<rparr> else y) (settings s)"
      by (simp add: Set_existing [OF Q x])
    have d': "distinct (map setting_Key (settings ?t))"
      unfolding t using x(2) by (intro distinct_map_replace [OF d]) simp
    have "setting_value ?t j = Some w \<longleftrightarrow> (if j = k then w = v else setting_value s j = Some w)" for j w
      unfolding setting_value_iff [OF d'] setting_value_iff [OF d] t using x
      by (auto simp del: if_image_distrib split: if_splits)
    with d' show ?thesis using f by (simp add: Set_existing [OF Q x] quiet_settings_def)
  next
    case False
    then have n: "\<forall>x \<in> set (settings s). setting_Key x \<noteq> k" by blast
    let ?t = "snd (SettingsStore_Set now k v s)"
    have t: "settings ?t = settings s @ [\<lparr>setting_Key = k, setting_Value = v,
     setting_Category = ''general'', setting_Description = '''', setting_UpdatedAt = now\<rparr>]"
      by (simp add: Set_missing [OF Q n])
    have d': "distinct (map setting_Key (settings ?t))" unfolding t using d n by auto
    have "setting_value ?t j = Some w \<longleftrightarrow> (if j = k then w = v else setting_value s j = Some w)" for j w
      unfolding setting_value_iff [OF d'] setting_value_iff [OF d] t using n by auto
    with d' show ?thesis using f by (simp add: Set_missing [OF Q n] quiet_settings_def)
  qed
  then show "fst (SettingsStore_Set now k v s) = Inr ()" "quiet_settings (snd (SettingsStore_Set now k v s))"
    by blast+
  show "setting_value (snd (SettingsStore_Set now k v s)) k' = (if k' = k then Some v else setting_value s k')"
    using main by (metis not_None_eq)
qed

interpretation settings_kv: key_value quiet_settings setting_value "\<lambda>k v s. snd (SettingsStore_Set now k v s)" for now
  by unfold_locales (simp_all add: Set_quiet)

end
