(* ===== verification/Migrate.thy ===== *)
theory Migrate
  imports Catalog_Store User_Store
begin

text \<open>
  Schema migrations (\<^verbatim>\<open>internal/db/migrate.go\<close>, \<^verbatim>\<open>internal/db/migrations.go\<close>): the migrator, which
  runs the versions above the recorded one, each in a transaction, and the nine migrations.

  The tables of the model are those of the final schema, so a statement that creates a table, a
  column or an index changes nothing here but may be refused; the statements that move data are written out.
  The one column that is dropped is \<^verbatim>\<open>raw_definition\<close>.  Identifiers that are drawn, the clock, the
  dialect and whether the engine accepts \<^verbatim>\<open>DROP COLUMN IF EXISTS\<close> are arguments.
\<close>

section \<open>The migrator\<close>

record Migration =
  mig_Version :: int
  mig_Description :: string
  Up :: "(db, unit) op"

text \<open>\<^verbatim>\<open>sort.Slice\<close> on the version; the order of equal versions is unspecified in Go.\<close>

definition NewMigrator :: "Migration list \<Rightarrow> Migration list" where
  "NewMigrator migrations = sort_key mig_Version migrations"

text \<open>\<^verbatim>\<open>HasTable\<close> answers no when its query fails.\<close>

definition HasTable :: "(db, bool) op" where
  "HasTable = try_op (query (\<lambda>s. schema_migrations s \<noteq> None)) (\<lambda>_. ok False) ok"

definition latest_version :: "SchemaMigration list \<Rightarrow> int option" where
  "latest_version ms = (case map sm_Version ms of [] \<Rightarrow> None | v # vs \<Rightarrow> Some (fold max vs v))"

definition no_such_table :: error where
  "no_such_table = errorf ''no such table: schema_migrations''"

definition CurrentVersion :: "(db, int) op" where
  "CurrentVersion = pass_op HasTable (\<lambda>has.
     if \<not> has then ok 0
     else try_op (exec (\<lambda>s. case schema_migrations s of
              None \<Rightarrow> (Inl no_such_table, s)
            | Some ms \<Rightarrow> (case latest_version ms of Some v \<Rightarrow> (Inr v, s) | None \<Rightarrow> (Inl record_not_found, s))))
          (\<lambda>e. if errors_Is e ErrRecordNotFound then ok 0 else fail (wrapf ''querying current version'' e))
          ok)"

definition create_tracking :: "(db, unit) op" where
  "create_tracking = modify (\<lambda>s. s\<lparr>schema_migrations :=
     Some (case schema_migrations s of Some ms \<Rightarrow> ms | None \<Rightarrow> [])\<rparr>)"

definition record_migration :: "time \<Rightarrow> Migration \<Rightarrow> (db, unit) op" where
  "record_migration now mig = exec (\<lambda>s. case schema_migrations s of
       None \<Rightarrow> (Inl no_such_table, s)
     | Some ms \<Rightarrow> if \<exists>x \<in> set ms. sm_Version x = mig_Version mig
         then (Inl (errorf ''UNIQUE constraint failed: schema_migrations.version''), s)
         else (Inr (), s\<lparr>schema_migrations := Some (ms @ [\<lparr>sm_Version = mig_Version mig,
           sm_Description = mig_Description mig, sm_AppliedAt = now\<rparr>])\<rparr>))"

definition run_one :: "time \<Rightarrow> Migration \<Rightarrow> (db, unit) op" where
  "run_one now mig = Transaction (
     bind_op (Up mig) (''migration '' @ decimal (mig_Version mig) @ '' ('' @ mig_Description mig @ '')'') (\<lambda>_.
     record_migration now mig))"

fun run_pending :: "time \<Rightarrow> int \<Rightarrow> Migration list \<Rightarrow> (db, unit) op" where
  "run_pending now current [] = ok ()"
| "run_pending now current (mig # migs) =
     (if mig_Version mig \<le> current then run_pending now current migs
      else pass_op (run_one now mig) (\<lambda>_. run_pending now current migs))"

definition Migrate :: "time \<Rightarrow> Migration list \<Rightarrow> (db, unit) op" where
  "Migrate now migrations =
     bind_op create_tracking ''creating schema_migrations table'' (\<lambda>_.
     pass_op CurrentVersion (\<lambda>current. run_pending now current migrations))"

section \<open>The migrations\<close>

record mig_env =
  tx_Name :: string
  drop_if_exists :: bool
  other_columns :: "string \<Rightarrow> string \<Rightarrow> bool"
  default_project_id :: string
  person_ids :: "string \<Rightarrow> string"
  backfill_ids :: "string \<Rightarrow> string"
  mig_now :: time

text \<open>A statement about a table or index that the model has from the start.\<close>

definition ddl :: "string \<Rightarrow> (db, unit) op" where
  "ddl what = modify (\<lambda>s. s)"

definition ddl_all :: "string list \<Rightarrow> (db, unit) op" where
  "ddl_all whats = pass_op (each_op ddl whats) (\<lambda>_. ok ())"

definition migration001CreateTables :: Migration where
  "migration001CreateTables = \<lparr>mig_Version = 1,
     mig_Description = ''create providers, agent_types, capabilities, and catalog_entries tables'',
     Up = ddl_all [''providers'', ''agent_types'', ''capabilities'', ''catalog_entries'',
       ''idx_agent_types_key_version'', ''idx_capabilities_type_kind_name'', ''idx_providers_org_team'']\<rparr>"

definition migration002UsersAndRoles :: Migration where
  "migration002UsersAndRoles = \<lparr>mig_Version = 2, mig_Description = ''create roles and users tables'',
     Up = ddl_all [''roles'', ''users'']\<rparr>"

text \<open>\<^verbatim>\<open>FirstOrCreate\<close> with a condition on the key.\<close>

definition first_or_create ::
  "(db \<Rightarrow> 'a list) \<Rightarrow> ('a list \<Rightarrow> db \<Rightarrow> db) \<Rightarrow> ('a \<Rightarrow> string) \<Rightarrow> ('a \<Rightarrow> 'a list \<Rightarrow> string option) \<Rightarrow> 'a \<Rightarrow> (db, unit) op" where
  "first_or_create tab put key clash x =
     try_op (First tab key (\<lambda>y. key y = key x))
       (\<lambda>e. if errors_Is e ErrRecordNotFound then insert_row tab put clash x else fail e)
       (\<lambda>_. ok ())"

definition system_role :: "time \<Rightarrow> string \<Rightarrow> string \<Rightarrow> string \<Rightarrow> string list \<Rightarrow> Role" where
  "system_role now id' name description permissions = \<lparr>role_ID = id', role_Name = name, role_Description = description,
     Permissions = permissions, role_IsSystem = True, role_CreatedAt = now, role_UpdatedAt = now\<rparr>"

definition default_roles :: "time \<Rightarrow> Role list" where
  "default_roles now =
     [system_role now ''role-admin'' ''admin'' ''Full system access''
        [''catalog:read'', ''catalog:write'', ''catalog:delete'', ''users:read'', ''users:write'', ''users:delete'',
         ''roles:read'', ''roles:write'', ''settings:read'', ''settings:write''],
      system_role now ''role-editor'' ''editor'' ''Can manage catalog entries''
        [''catalog:read'', ''catalog:write'', ''users:read'', ''roles:read'', ''settings:read''],
      system_role now ''role-viewer'' ''viewer'' ''Read-only access''
        [''catalog:read'', ''users:read'', ''roles:read'', ''settings:read'']]"

definition migration003DefaultRoles :: "mig_env \<Rightarrow> Migration" where
  "migration003DefaultRoles env = \<lparr>mig_Version = 3, mig_Description = ''insert default roles'',
     Up = pass_op (each_op (first_or_create roles put_roles role_ID role_clash) (default_roles (mig_now env))) (\<lambda>_. ok ())\<rparr>"

definition default_settings :: "time \<Rightarrow> Setting list" where
  "default_settings now =
     [\<lparr>setting_Key = ''app.name'', setting_Value = ''AgentLens'', setting_Category = ''general'',
       setting_Description = ''Application display name'', setting_UpdatedAt = now\<rparr>,
      \<lparr>setting_Key = ''app.registration_enabled'', setting_Value = ''true'', setting_Category = ''auth'',
       setting_Description = ''Allow new user registration'', setting_UpdatedAt = now\<rparr>,
      \<lparr>setting_Key = ''app.default_role'', setting_Value = ''viewer'', setting_Category = ''auth'',
       setting_Description = ''Default role for new users'', setting_UpdatedAt = now\<rparr>]"

definition migration004Settings :: "mig_env \<Rightarrow> Migration" where
  "migration004Settings env = \<lparr>mig_Version = 4, mig_Description = ''create settings table and insert defaults'',
     Up = pass_op (ddl ''settings'') (\<lambda>_.
          pass_op (each_op (first_or_create settings put_settings setting_Key setting_clash)
            (default_settings (mig_now env))) (\<lambda>_. ok ()))\<rparr>"

definition rename_status :: "string \<times> string \<Rightarrow> (db, unit) op" where
  "rename_status m = bind_op (update_rows catalog_entries put_entries (\<lambda>e. Status e = fst m) (\<lambda>e. e\<lparr>Status := snd m\<rparr>))
     (''migrating status value '' @ quote (fst m)) (\<lambda>_. ok ())"

definition status_mappings :: "(string \<times> string) list" where
  "status_mappings = [(''healthy'', ''active''), (''down'', ''offline''), (''unknown'', ''registered'')]"

definition migration005HealthColumns :: Migration where
  "migration005HealthColumns = \<lparr>mig_Version = 5, mig_Description = ''add health check columns to catalog_entries'',
     Up = bind_op (ddl ''catalog_entries'') ''automigrate catalog_entries'' (\<lambda>_.
          pass_op (each_op rename_status status_mappings) (\<lambda>_.
          bind_op (ddl ''idx_catalog_entries_health_probed_at'') ''creating health_probed_at index'' ok))\<rparr>"

definition columnExistsAllowedTables :: "string list" where
  "columnExistsAllowedTables = [''agent_types'', ''catalog_entries'', ''raw_cards'']"

definition columnExists :: "mig_env \<Rightarrow> string \<Rightarrow> string \<Rightarrow> (db, bool) op" where
  "columnExists env table column =
     (if table \<notin> set columnExistsAllowedTables
      then fail (errorf (''columnExists: table '' @ quote table @ '' is not in the allowed list''))
      else query (\<lambda>s. if table = ''agent_types'' \<and> column = ''raw_definition''
        then raw_definition s \<noteq> None else other_columns env table column))"

text \<open>The rows of \<^verbatim>\<open>INSERT ... SELECT ... ON CONFLICT DO NOTHING\<close>.\<close>

definition copied_cards :: "time \<Rightarrow> db \<Rightarrow> rawCardRow list" where
  "copied_cards now s = concat (map (\<lambda>t. case raw_definition s of None \<Rightarrow> [] | Some defs \<Rightarrow>
     (case map_of defs (agent_type_ID t) of None \<Rightarrow> []
      | Some b \<Rightarrow> if b = '''' \<or> agent_type_ID t \<in> raw_AgentTypeID ` set (raw_cards s) then []
          else [\<lparr>raw_AgentTypeID = agent_type_ID t, raw_Data = b, raw_ContentType = ''application/json'',
                 raw_FetchedAt = now, raw_Truncated = False\<rparr>])) (agent_types s))"

definition drop_column :: "mig_env \<Rightarrow> (db, unit) op" where
  "drop_column env = exec (\<lambda>s. if drop_if_exists env then (Inr (), s\<lparr>raw_definition := None\<rparr>)
     else (Inl (errorf (''near '' @ quote ''EXISTS'' @ '': syntax error'')), s))"

definition migration006RawCards :: "mig_env \<Rightarrow> Migration" where
  "migration006RawCards env = \<lparr>mig_Version = 6,
     mig_Description = ''create raw_cards table, copy raw_definition data, drop raw_definition column'',
     Up = bind_op (ddl ''raw_cards'') ''creating raw_cards table'' (\<lambda>_.
          bind_op (columnExists env ''agent_types'' ''raw_definition'') ''checking raw_definition column'' (\<lambda>colExists.
          if colExists
          then bind_op (modify (\<lambda>s. s\<lparr>raw_cards := raw_cards s @ copied_cards (mig_now env) s\<rparr>))
                 ''copying raw_definition to raw_cards'' (\<lambda>_.
               try_op (drop_column env)
                 (\<lambda>e. if tx_Name env \<noteq> ''postgres'' then ok () else fail (wrapf ''dropping raw_definition column'' e))
                 ok)
          else ok ()))\<rparr>"

text \<open>\<^verbatim>\<open>INSERT INTO parties ... SELECT ... WHERE NOT EXISTS\<close>.\<close>

definition insert_party_unless :: "(Party \<Rightarrow> bool) \<Rightarrow> Party \<Rightarrow> (db, unit) op" where
  "insert_party_unless cond p = exec (\<lambda>s.
     if \<exists>q \<in> set (parties s). cond q then (Inr (), s)
     else (case party_clash p (parties s) of
         Some cols \<Rightarrow> (Inl (errorf (''UNIQUE constraint failed: '' @ cols)), s)
       | None \<Rightarrow> (Inr (), put_parties (parties s @ [p]) s)))"

definition migrated_party :: "time \<Rightarrow> string \<Rightarrow> PartyKind \<Rightarrow> string \<Rightarrow> string option \<Rightarrow> bool \<Rightarrow> Party" where
  "migrated_party now id' kind name userID system = \<lparr>party_ID = id', party_Kind = kind, party_Name = name,
     party_Version = 0, party_UserID = userID, party_IsSystem = system, party_CreatedAt = now, party_UpdatedAt = now\<rparr>"

definition seed_person :: "time \<Rightarrow> (string \<Rightarrow> string) \<Rightarrow> User \<Rightarrow> (db, unit) op" where
  "seed_person now ids u =
     bind_op (insert_party_unless (\<lambda>q. party_UserID q = Some (user_ID u))
         (migrated_party now (ids (user_ID u)) PartyKindPerson
            (if user_DisplayName u \<noteq> '''' then user_DisplayName u else Username u) (Some (user_ID u)) False))
       (''creating person party for user '' @ user_ID u) ok"

definition migration007SeedPersonParties :: "time \<Rightarrow> (string \<Rightarrow> string) \<Rightarrow> (db, unit) op" where
  "migration007SeedPersonParties now ids =
     bind_op (query users) ''reading existing users'' (\<lambda>us. pass_op (each_op (seed_person now ids) us) (\<lambda>_. ok ()))"

definition is_default_project :: "Party \<Rightarrow> bool" where
  "is_default_project p \<longleftrightarrow> party_Kind p = PartyKindProject \<and> party_IsSystem p"

text \<open>\<^verbatim>\<open>SELECT id ... LIMIT 1\<close> scanned into a string that stays empty without a row.\<close>

definition default_project_of :: "db \<Rightarrow> string" where
  "default_project_of s = (case find is_default_project (parties s) of Some p \<Rightarrow> party_ID p | None \<Rightarrow> '''')"

definition missing_memberships :: "time \<Rightarrow> string \<Rightarrow> db \<Rightarrow> CatalogProjectMembership list" where
  "missing_memberships now projectID s =
     map (\<lambda>e. \<lparr>CatalogEntryID = entry_ID e, ProjectPartyID = projectID, cpm_CreatedAt = now\<rparr>)
       (filter (\<lambda>e. \<not> (\<exists>m \<in> set (catalog_project_memberships s). CatalogEntryID m = entry_ID e \<and> ProjectPartyID m = projectID))
          (catalog_entries s))"

definition migration007Up :: "mig_env \<Rightarrow> (db, unit) op" where
  "migration007Up env =
     pass_op (each_op (\<lambda>t. bind_op (ddl t) (''auto migrate '' @ t) ok)
       [''*model.Party'', ''*model.PartyRelationship'', ''*model.PartyGroupClosure'', ''*model.GlobalPartyRole'',
        ''*model.CatalogProjectMembership'', ''*model.PartyIdentifier'']) (\<lambda>_.
     bind_op (ddl ''idx_party_rel_unique'') ''creating party_relationships unique index'' (\<lambda>_.
     bind_op (ddl ''idx_party_identifiers_kind_value'') ''creating party_identifiers unique index'' (\<lambda>_.
     bind_op (insert_party_unless is_default_project
         (migrated_party (mig_now env) (default_project_id env) PartyKindProject ''default'' None True))
       ''seeding default project'' (\<lambda>_.
     bind_op (query default_project_of) ''reading default project id'' (\<lambda>defaultProjectID.
     pass_op (migration007SeedPersonParties (mig_now env) (person_ids env)) (\<lambda>_.
     bind_op (modify (\<lambda>s. put_memberships (catalog_project_memberships s @
           missing_memberships (mig_now env) defaultProjectID s) s))
       ''assigning catalog entries to default project'' ok))))))"

definition migration007PartyArchetype :: "mig_env \<Rightarrow> Migration" where
  "migration007PartyArchetype env = \<lparr>mig_Version = 7,
     mig_Description = ''create party archetype tables and seed default project'', Up = migration007Up env\<rparr>"

definition migration008Up :: "mig_env \<Rightarrow> (db, unit) op" where
  "migration008Up env = bind_op (migration007SeedPersonParties (mig_now env) (backfill_ids env)) ''migration008 backfill'' ok"

definition migration008BackfillPersonParties :: "mig_env \<Rightarrow> Migration" where
  "migration008BackfillPersonParties env = \<lparr>mig_Version = 8,
     mig_Description = ''backfill person parties for users created after migration007'', Up = migration008Up env\<rparr>"

definition migration009CatalogProjectMembershipIndexes :: Migration where
  "migration009CatalogProjectMembershipIndexes = \<lparr>mig_Version = 9,
     mig_Description = ''add per-column indexes on catalog_project_memberships'',
     Up = bind_op (ddl ''idx_cpm_project_party_id'') ''creating cpm project index'' (\<lambda>_.
          bind_op (ddl ''idx_cpm_catalog_entry_id'') ''creating cpm entry index'' ok)\<rparr>"

definition AllMigrations :: "mig_env \<Rightarrow> Migration list" where
  "AllMigrations env =
     [migration001CreateTables, migration002UsersAndRoles, migration003DefaultRoles env, migration004Settings env,
      migration005HealthColumns, migration006RawCards env, migration007PartyArchetype env,
      migration008BackfillPersonParties env, migration009CatalogProjectMembershipIndexes]"

section \<open>What the migrator guarantees\<close>

text \<open>The recorded versions, in the order they were recorded.\<close>

definition versions :: "db \<Rightarrow> int list" where
  "versions s = (case schema_migrations s of None \<Rightarrow> [] | Some ms \<Rightarrow> map sm_Version ms)"

text \<open>A part of the state that a migration leaves alone when it is about other tables.\<close>

locale untouched =
  fixes part :: "db \<Rightarrow> 'x"
  assumes part_faults: "part (s\<lparr>faults := fs\<rparr>) = part s"
    and part_parties: "part (s\<lparr>parties := ps\<rparr>) = part s"
    and part_memberships: "part (s\<lparr>catalog_project_memberships := ms\<rparr>) = part s"
    and part_cards: "part (s\<lparr>raw_cards := cs\<rparr>) = part s"
    and part_column: "part (s\<lparr>raw_definition := d\<rparr>) = part s"

sublocale untouched \<subseteq> t: table_invariant "\<lambda>s. part s = X" for X
  by unfold_locales (simp add: part_faults)

context untouched
begin

lemma ddl_keeps: "preserves (\<lambda>s. part s = X) (ddl w)"
  unfolding ddl_def by (rule t.preserves_modify)

lemma ddl_all_keeps: "preserves (\<lambda>s. part s = X) (ddl_all ws)"
  unfolding ddl_all_def by (intro preserves_rule ddl_keeps)

lemma first_or_create_keeps:
  assumes "\<And>t s. part (put t s) = part s"
  shows "preserves (\<lambda>s. part s = X) (first_or_create tab put key clash x)"
  unfolding first_or_create_def
  by (intro preserves_rule t.preserves_First t.preserves_insert_row) (simp add: assms)

lemma rename_keeps:
  assumes "\<And>es s. part (s\<lparr>catalog_entries := es\<rparr>) = part s"
  shows "preserves (\<lambda>s. part s = X) (rename_status m)"
  unfolding rename_status_def by (intro preserves_rule t.preserves_update_rows) (simp add: assms)

lemma insert_party_keeps: "preserves (\<lambda>s. part s = X) (insert_party_unless c p)"
  unfolding insert_party_unless_def by (rule t.preserves_exec) (simp add: part_parties split: option.split)

lemma seed_person_keeps: "preserves (\<lambda>s. part s = X) (seed_person now ids u)"
  unfolding seed_person_def by (intro preserves_rule insert_party_keeps)

lemma seed_persons_keeps: "preserves (\<lambda>s. part s = X) (migration007SeedPersonParties now ids)"
  unfolding migration007SeedPersonParties_def by (intro preserves_rule t.preserves_query seed_person_keeps)

lemma drop_column_keeps: "preserves (\<lambda>s. part s = X) (drop_column env)"
  unfolding drop_column_def by (rule t.preserves_exec) (simp add: part_column)

lemma others_keep:
  assumes "m \<in> {migration001CreateTables, migration002UsersAndRoles, migration006RawCards env,
    migration007PartyArchetype env, migration008BackfillPersonParties env, migration009CatalogProjectMembershipIndexes}"
  shows "preserves (\<lambda>s. part s = X) (Up m)"
proof -
  have "\<forall>m \<in> {migration001CreateTables, migration002UsersAndRoles, migration006RawCards env,
    migration007PartyArchetype env, migration008BackfillPersonParties env, migration009CatalogProjectMembershipIndexes}.
      preserves (\<lambda>s. part s = X) (Up m)"
    unfolding ball_simps migration001CreateTables_def migration002UsersAndRoles_def migration006RawCards_def
      migration007PartyArchetype_def migration007Up_def migration008BackfillPersonParties_def migration008Up_def
      migration009CatalogProjectMembershipIndexes_def columnExists_def Migration.simps
    by (intro conjI TrueI preserves_rule ddl_all_keeps ddl_keeps insert_party_keeps seed_persons_keeps
        t.preserves_query t.preserves_modify drop_column_keeps) (simp_all add: part_memberships part_cards)
  then show ?thesis using assms by blast
qed

lemma roles_migration_keeps:
  "(\<And>t s. part (put_roles t s) = part s) \<Longrightarrow> preserves (\<lambda>s. part s = X) (Up (migration003DefaultRoles env))"
  unfolding migration003DefaultRoles_def Migration.simps by (intro preserves_rule first_or_create_keeps)

lemma settings_migration_keeps:
  "(\<And>t s. part (put_settings t s) = part s) \<Longrightarrow> preserves (\<lambda>s. part s = X) (Up (migration004Settings env))"
  unfolding migration004Settings_def Migration.simps by (intro preserves_rule first_or_create_keeps ddl_keeps)

lemma status_migration_keeps:
  "(\<And>t s. part (put_entries t s) = part s) \<Longrightarrow> preserves (\<lambda>s. part s = X) (Up migration005HealthColumns)"
  unfolding migration005HealthColumns_def Migration.simps by (intro preserves_rule rename_keeps ddl_keeps)

end

interpretation tracking: untouched schema_migrations
  by unfold_locales simp_all
interpretation roles_part: untouched roles
  by unfold_locales simp_all
interpretation settings_part: untouched settings
  by unfold_locales simp_all
interpretation entries_part: untouched catalog_entries
  by unfold_locales simp_all
interpretation users_part: untouched users
  by unfold_locales simp_all

lemma Up_keeps:
  assumes "mig \<in> set (AllMigrations env)"
  shows "preserves (\<lambda>s. schema_migrations s = X) (Up mig)"
proof -
  have "mig \<in> {migration001CreateTables, migration002UsersAndRoles, migration006RawCards env,
      migration007PartyArchetype env, migration008BackfillPersonParties env, migration009CatalogProjectMembershipIndexes} \<or>
    mig = migration003DefaultRoles env \<or> mig = migration004Settings env \<or> mig = migration005HealthColumns"
    using assms by (auto simp: AllMigrations_def)
  then show ?thesis
    using tracking.others_keep tracking.roles_migration_keeps tracking.settings_migration_keeps
      tracking.status_migration_keeps by auto
qed

text \<open>One migration: it is recorded and applied, or nothing has changed but the schedule.\<close>

lemma run_one_cases:
  assumes up: "\<And>X. preserves (\<lambda>s. schema_migrations s = X) (Up mig)"
    and run: "run_one now mig s = (r, s')" and track: "schema_migrations s \<noteq> None"
  obtains (failed) e fs where "r = Inl e" "s' = s\<lparr>faults := fs\<rparr>"
        | (applied) "r = Inr ()" "versions s' = versions s @ [mig_Version mig]" "mig_Version mig \<notin> set (versions s)"
            "schema_migrations s' \<noteq> None"
proof (cases r)
  case (Inl e)
  then show ?thesis using run failed unfolding run_one_def by (auto elim: Transaction_InlE)
next
  case (Inr u)
  then obtain fs s2 fs2 where body: "bind_op (Up mig) (''migration '' @ decimal (mig_Version mig) @ '' ('' @ mig_Description mig @ '')'')
      (\<lambda>_. record_migration now mig) (s\<lparr>faults := fs\<rparr>) = (Inr u, s2)" and s': "s' = s2\<lparr>faults := fs2\<rparr>"
    using run unfolding run_one_def by (auto elim: Transaction_InrE)
  then obtain s1 where u1: "Up mig (s\<lparr>faults := fs\<rparr>) = (Inr (), s1)" and rec: "record_migration now mig s1 = (Inr (), s2)"
    by (auto elim!: bind_op_InrE)
  have "schema_migrations s1 = schema_migrations s"
    using preserves_result [where I = "\<lambda>t. schema_migrations t = schema_migrations s", OF up _ u1] by simp
  then show ?thesis
    using rec s' Inr track unfolding record_migration_def
    by (intro applied) (auto simp: versions_def elim!: exec_cases split: option.splits if_splits)
qed

lemma run_pending_versions:
  assumes up: "\<And>m X. m \<in> set migs \<Longrightarrow> preserves (\<lambda>s. schema_migrations s = X) (Up m)"
    and run: "run_pending now current migs s = (r, s')" and track: "schema_migrations s \<noteq> None"
    and d: "distinct (versions s)"
  shows "\<exists>n \<le> length (filter (\<lambda>m. current < mig_Version m) migs).
     versions s' = versions s @ map mig_Version (take n (filter (\<lambda>m. current < mig_Version m) migs)) \<and>
     distinct (versions s') \<and> schema_migrations s' \<noteq> None \<and>
     (r = Inr () \<longrightarrow> n = length (filter (\<lambda>m. current < mig_Version m) migs))"
  using up run track d
proof (induction migs arbitrary: s)
  case Nil
  then show ?case by simp
next
  case (Cons mig migs)
  let ?p = "filter (\<lambda>m. current < mig_Version m) migs"
  show ?case
  proof (cases "mig_Version mig \<le> current")
    case True
    then show ?thesis using Cons.IH [of s] Cons.prems by simp
  next
    case False
    then obtain r1 s1 where one: "run_one now mig s = (r1, s1)"
      and rest: "case r1 of Inl e \<Rightarrow> r = Inl e \<and> s' = s1 | Inr _ \<Rightarrow> run_pending now current migs s1 = (r, s')"
      using Cons.prems(2) by (cases "run_one now mig s") (auto simp: pass_op_def try_op_def split: sum.splits)
    have "\<And>X. preserves (\<lambda>s. schema_migrations s = X) (Up mig)" using Cons.prems(1) by simp
    from run_one_cases [OF this one Cons.prems(3)] consider
        (failed) e fs where "r1 = Inl e" "s1 = s\<lparr>faults := fs\<rparr>"
      | (applied) "r1 = Inr ()" "versions s1 = versions s @ [mig_Version mig]" "mig_Version mig \<notin> set (versions s)"
          "schema_migrations s1 \<noteq> None" by blast
    then show ?thesis
    proof cases
      case failed
      then show ?thesis using rest Cons.prems(3,4) by (intro exI [of _ 0]) (simp add: versions_def)
    next
      case applied
      have tail: "\<And>m X. m \<in> set migs \<Longrightarrow> preserves (\<lambda>s. schema_migrations s = X) (Up m)"
        using Cons.prems(1) by simp
      have "run_pending now current migs s1 = (r, s')" "distinct (versions s1)"
        using rest Cons.prems(4) applied by simp_all
      note ih = Cons.IH [OF tail this(1) applied(4) this(2)]
      obtain n where n: "n \<le> length ?p" "versions s' = versions s1 @ map mig_Version (take n ?p)"
        "distinct (versions s')" "schema_migrations s' \<noteq> None" "r = Inr () \<longrightarrow> n = length ?p"
        using ih by blast
      then show ?thesis using applied(2) False by (intro exI [of _ "Suc n"]) auto
    qed
  qed
qed

lemma AllMigrations_versions: "map mig_Version (AllMigrations env) = [1..9]"
proof -
  have "[1..9::int] = [1, 2, 3, 4, 5, 6, 7, 8, 9]" by (simp add: upto.simps)
  then show ?thesis
    by (simp add: AllMigrations_def migration001CreateTables_def migration002UsersAndRoles_def
        migration003DefaultRoles_def migration004Settings_def migration005HealthColumns_def migration006RawCards_def
        migration007PartyArchetype_def migration008BackfillPersonParties_def migration009CatalogProjectMembershipIndexes_def)
qed

lemma NewMigrator_sorted: "NewMigrator (AllMigrations env) = AllMigrations env"
  unfolding NewMigrator_def by (rule sort_key_id_if_sorted) (simp add: AllMigrations_versions)

lemma take_upto: "n \<le> nat (j - i + 1) \<Longrightarrow> take n [i..j] = [i..i + int n - 1]"
  by (rule nth_equalityI) auto

lemma upto_append: "0 \<le> k \<Longrightarrow> [1..k] @ [k + 1..k + int n] = [1..k + int n]"
  using upto_split1 [of 1 "k + 1" "k + int n"] by (cases n) simp_all

lemma pending_versions:
  assumes "0 \<le> k" "k \<le> 9"
  shows "map mig_Version (filter (\<lambda>m. k < mig_Version m) (AllMigrations env)) = [k + 1..9]"
proof -
  have "map mig_Version (filter (\<lambda>m. k < mig_Version m) (AllMigrations env)) = filter ((<) k) [1..9]"
    by (simp flip: AllMigrations_versions [of env] add: filter_map comp_def)
  also have "[1..9] = [1..k] @ [k + 1..9]"
    using assms upto_split1 [of 1 "k + 1" 9] by (cases "k = 9") (auto simp: upto_split1)
  finally show ?thesis using assms by simp
qed

lemma latest_version_upto:
  assumes "map sm_Version ms = [1..k]" "0 < k"
  shows "latest_version ms = Some k"
proof -
  have "[1..k] = 1 # [2..k]" using assms(2) by (simp add: upto_rec1)
  moreover have "fold max [2..k] 1 = Max (set (1 # [2..k]))" by (rule Max.set_eq_fold [symmetric])
  moreover have "set (1 # [2..k]) = {1..k}" using assms(2) by auto
  moreover have "Max {1..k} = k" using assms(2) by (intro Max_eqI) auto
  ultimately show ?thesis using assms(1) by (simp add: latest_version_def)
qed

lemma latest_version_value: "map sm_Version ms = [1..k] \<Longrightarrow> 0 \<le> k \<Longrightarrow> latest_version ms = Some c \<Longrightarrow> c = k"
  using latest_version_upto [of ms k] by (cases "k = 0") (auto simp: latest_version_def)

lemma CurrentVersion_cases:
  assumes "CurrentVersion s = (r, s')" "versions s = [1..k]" "0 \<le> k"
  shows "schema_migrations s' = schema_migrations s \<and> (\<forall>c. r = Inr c \<longrightarrow> c = 0 \<or> c = k)"
  using assms latest_version_value [of _ k] unfolding CurrentVersion_def HasTable_def pass_op_def versions_def
  by (auto elim!: try_opE exec_cases query_InlE query_InrE split: option.splits if_splits)

lemma run_pending_outcome:
  assumes p: "run_pending now cv (AllMigrations env) s2 = (r, s')" and s: "0 \<le> k" "k \<le> 9"
    and s2: "versions s2 = [1..k]" "schema_migrations s2 \<noteq> None" "cv = 0 \<or> cv = k"
  shows "\<exists>j. k \<le> j \<and> j \<le> 9 \<and> versions s' = [1..j] \<and> (r = Inr () \<longrightarrow> j = 9)"
proof -
  let ?ms = "AllMigrations env"
  have "distinct (versions s2)" using s2(1) by simp
  from run_pending_versions [OF Up_keeps [where env = env] p s2(2) this] obtain n where
    n: "n \<le> length (filter (\<lambda>m. cv < mig_Version m) ?ms)"
      "versions s' = [1..k] @ map mig_Version (take n (filter (\<lambda>m. cv < mig_Version m) ?ms))"
      "distinct (versions s')" "r = Inr () \<longrightarrow> n = length (filter (\<lambda>m. cv < mig_Version m) ?ms)"
    unfolding s2(1) by blast
  have "0 \<le> cv" "cv \<le> 9" using s2(3) s by auto
  then have pend: "map mig_Version (filter (\<lambda>m. cv < mig_Version m) ?ms) = [cv + 1..9]"
    by (rule pending_versions)
  have len: "length (filter (\<lambda>m. cv < mig_Version m) ?ms) = nat (9 - cv)"
    using arg_cong [OF pend, of length] by simp
  have vs: "versions s' = [1..k] @ [cv + 1..cv + int n]"
    using n(2) n(1) [unfolded len] by (simp add: take_map [symmetric] pend take_upto)
  show ?thesis
  proof (cases "cv = k")
    case True
    then have "versions s' = [1..k + int n]" using vs s upto_append by simp
    then show ?thesis using n len True s by (intro exI [of _ "k + int n"]) auto
  next
    case False
    then have "cv = 0" "0 < k" using s2(3) s by auto
    then have "n = 0" using n(3) vs by (cases n) auto
    then show ?thesis using vs n(4) len \<open>cv = 0\<close> s by (intro exI [of _ k]) auto
  qed
qed

text \<open>
  \<^bold>\<open>C11\<close>: Migration is resumable.  Whatever statements the database refuses, a run that starts with
  the versions \<^verbatim>\<open>1..k\<close> recorded ends with \<^verbatim>\<open>1..j\<close> recorded for some \<^verbatim>\<open>j\<close> from \<^verbatim>\<open>k\<close> to 9, so no
  migration is recorded twice or out of order, and a run that reports success has reached 9.
\<close>

theorem migration_resumes:
  assumes s: "versions s = [1..k]" "0 \<le> k" "k \<le> 9"
    and run: "Migrate now (NewMigrator (AllMigrations env)) s = (r, s')"
  shows "\<exists>j. k \<le> j \<and> j \<le> 9 \<and> versions s' = [1..j] \<and> (r = Inr () \<longrightarrow> j = 9)"
proof -
  let ?ms = "AllMigrations env"
  have stay: ?thesis if "versions s' = versions s" "r \<noteq> Inr ()"
    using that s by (intro exI [of _ k]) simp
  from run obtain r1 s1 where t: "create_tracking s = (r1, s1)"
    and c: "case r1 of Inl e \<Rightarrow> r \<noteq> Inr () \<and> s' = s1
      | Inr _ \<Rightarrow> pass_op CurrentVersion (\<lambda>current. run_pending now current ?ms) s1 = (r, s')"
    by (cases "create_tracking s") (auto simp: Migrate_def NewMigrator_sorted bind_op_def try_op_def split: sum.splits)
  show ?thesis
  proof (cases r1)
    case (Inl e)
    then have "versions s' = versions s"
      using t c by (auto simp: create_tracking_def versions_def elim: modify_InlE)
    then show ?thesis using stay Inl c by simp
  next
    case (Inr u)
    then have s1: "schema_migrations s1 \<noteq> None" "versions s1 = versions s"
      using t by (auto simp: create_tracking_def versions_def elim!: modify_InrE split: option.splits)
    obtain r2 s2 where v: "CurrentVersion s1 = (r2, s2)" by fastforce
    note cur = CurrentVersion_cases [OF v, of k]
    show ?thesis
    proof (cases r2)
      case (Inl e)
      then have "r = Inl e" "s' = s2" using c Inr v by (simp_all add: pass_op_def try_op_def)
      moreover have "versions s2 = versions s" using cur s s1 by (simp add: versions_def)
      ultimately show ?thesis using stay by simp
    next
      case (Inr cv)
      then have p: "run_pending now cv ?ms s2 = (r, s')" using c \<open>r1 = Inr u\<close> v by (simp add: pass_op_def try_op_def)
      have s2: "versions s2 = [1..k]" "schema_migrations s2 \<noteq> None" "cv = 0 \<or> cv = k"
        using cur Inr s s1 by (auto simp: versions_def)
      then show ?thesis using run_pending_outcome [OF p s(2,3)] by blast
    qed
  qed
qed

section \<open>What a migrated database holds\<close>

text \<open>A fact about the tables that neither the schedule nor the record of the migrations matters for.\<close>

locale migrated_fact = table_invariant +
  assumes tracking_irrelevant: "I (s\<lparr>schema_migrations := t\<rparr>) = I s"
begin

lemma run_one_result:
  assumes "run_one now m s = (Inr (), s')"
  obtains fs s1 t fs' where "Up m (s\<lparr>faults := fs\<rparr>) = (Inr (), s1)" and "s' = s1\<lparr>schema_migrations := t, faults := fs'\<rparr>"
proof -
  from assms obtain fs s1 s2 fs2 where up: "Up m (s\<lparr>faults := fs\<rparr>) = (Inr (), s1)"
    and rec: "record_migration now m s1 = (Inr (), s2)" and s': "s' = s2\<lparr>faults := fs2\<rparr>"
    unfolding run_one_def by (auto elim!: Transaction_InrE bind_op_InrE)
  have "\<exists>t fs'. s' = s1\<lparr>schema_migrations := t, faults := fs'\<rparr>"
    using rec s' unfolding record_migration_def by (auto elim!: exec_cases split: option.splits if_splits) blast
  with up that show ?thesis by blast
qed

lemma run_one_keeps:
  assumes "preserves I (Up m)" "I s" "run_one now m s = (Inr (), s')"
  shows "I s'"
  using assms(3) by (rule run_one_result) (metis assms(1,2) faults_irrelevant preserves_result tracking_irrelevant)

lemma run_one_establishes:
  assumes "\<And>t t'. Up m t = (Inr (), t') \<Longrightarrow> I t'" "run_one now m s = (Inr (), s')"
  shows "I s'"
  using assms(2) by (rule run_one_result) (metis assms(1) faults_irrelevant tracking_irrelevant)

lemma run_pending_keeps:
  "(\<And>m. m \<in> set ms \<Longrightarrow> preserves I (Up m)) \<Longrightarrow> I s \<Longrightarrow> run_pending now cur ms s = (Inr (), s') \<Longrightarrow> I s'"
proof (induction ms arbitrary: s)
  case (Cons m ms)
  show ?case
  proof (cases "mig_Version m \<le> cur")
    case True
    then show ?thesis using Cons by simp
  next
    case False
    then obtain s1 where "run_one now m s = (Inr (), s1)" "run_pending now cur ms s1 = (Inr (), s')"
      using Cons.prems(3) by (auto elim: pass_op_InrE)
    then show ?thesis using Cons.IH [of s1] Cons.prems(1,2) run_one_keeps [of m s now s1] by simp
  qed
qed simp

lemma run_pending_establishes:
  assumes "run_pending now cur (ms @ m # ms') s = (Inr (), s')" "cur < mig_Version m"
    and "\<And>t t'. Up m t = (Inr (), t') \<Longrightarrow> I t'" "\<And>y. y \<in> set ms' \<Longrightarrow> preserves I (Up y)"
  shows "I s'"
  using assms
proof (induction ms arbitrary: s)
  case Nil
  then obtain s1 where one: "run_one now m s = (Inr (), s1)" and rest: "run_pending now cur ms' s1 = (Inr (), s')"
    by (auto elim!: pass_op_InrE)
  have "I s1" using Nil.prems(3) one by (rule run_one_establishes)
  with Nil.prems(4) rest show ?case using run_pending_keeps [of ms' s1] by blast
next
  case (Cons x ms)
  show ?case
  proof (cases "mig_Version x \<le> cur")
    case True
    then show ?thesis using Cons.IH [of s] Cons.prems by simp
  next
    case False
    then obtain s1 where "run_pending now cur (ms @ m # ms') s1 = (Inr (), s')"
      using Cons.prems(1) by (auto elim: pass_op_InrE)
    then show ?thesis using Cons.IH Cons.prems by blast
  qed
qed

end

definition role_ids :: "db \<Rightarrow> string set" where "role_ids s = role_ID ` set (roles s)"
definition setting_keys :: "db \<Rightarrow> string set" where "setting_keys s = setting_Key ` set (settings s)"

definition seeded :: "db \<Rightarrow> bool" where
  "seeded s \<longleftrightarrow> {''role-admin'', ''role-editor'', ''role-viewer''} \<subseteq> role_ids s"

definition configured :: "db \<Rightarrow> bool" where
  "configured s \<longleftrightarrow> {''app.name'', ''app.registration_enabled'', ''app.default_role''} \<subseteq> setting_keys s"

definition renamed :: "db \<Rightarrow> bool" where
  "renamed s \<longleftrightarrow> (\<forall>e \<in> set (catalog_entries s). Status e \<notin> {''healthy'', ''down'', ''unknown''})"

definition person_for :: "db \<Rightarrow> User \<Rightarrow> bool" where
  "person_for s u \<longleftrightarrow> (\<exists>p \<in> set (parties s). party_UserID p = Some (user_ID u))"

definition in_default_project :: "db \<Rightarrow> CatalogEntry \<Rightarrow> bool" where
  "in_default_project s e \<longleftrightarrow> (\<exists>p \<in> set (parties s). is_default_project p \<and>
     (\<exists>m \<in> set (catalog_project_memberships s). CatalogEntryID m = entry_ID e \<and> ProjectPartyID m = party_ID p))"

definition archetyped :: "db \<Rightarrow> bool" where
  "archetyped s \<longleftrightarrow> (\<exists>p \<in> set (parties s). is_default_project p) \<and> (\<forall>u \<in> set (users s). person_for s u) \<and>
     (\<forall>e \<in> set (catalog_entries s). in_default_project s e)"

interpretation seeded: migrated_fact seeded
  by unfold_locales (simp_all add: seeded_def role_ids_def)
interpretation configured: migrated_fact configured
  by unfold_locales (simp_all add: configured_def setting_keys_def)
interpretation renamed: migrated_fact renamed
  by unfold_locales (simp_all add: renamed_def)
interpretation archetyped: migrated_fact archetyped
  by unfold_locales (simp_all add: archetyped_def person_for_def in_default_project_def)

lemma preserves_of_part:
  assumes "\<And>X. preserves (\<lambda>s. f s = X) m" "\<And>s t. f s = f t \<Longrightarrow> J s = J t"
  shows "preserves J m"
  using assms unfolding preserves_def by metis

text \<open>\<^verbatim>\<open>FirstOrCreate\<close> leaves a row with the key.\<close>

lemma first_or_create_has:
  assumes run: "first_or_create tab put key clash x s = (Inr u, s')"
    and lens: "\<And>t s. tab (put t s) = t" "\<And>fs s. tab (s\<lparr>faults := fs\<rparr>) = tab s"
  shows "insert (key x) (key ` set (tab s)) \<subseteq> key ` set (tab s')"
  using run unfolding first_or_create_def
  by (elim try_opE First_InlE First_InrE)
    (auto simp: lens first_by_None errors_Is_def split: if_splits elim!: insert_row_InrE dest!: first_by_Some intro: rev_image_eqI)

lemma each_first_or_create_has:
  assumes "each_op (first_or_create tab put key clash) xs s = (Inr us, s')"
    and lens: "\<And>t s. tab (put t s) = t" "\<And>fs s. tab (s\<lparr>faults := fs\<rparr>) = tab s"
  shows "key ` set xs \<union> key ` set (tab s) \<subseteq> key ` set (tab s')"
  using assms(1)
proof (induction xs arbitrary: s us)
  case (Cons x xs)
  then obtain u s1 us' where one: "first_or_create tab put key clash x s = (Inr u, s1)"
    and rest: "each_op (first_or_create tab put key clash) xs s1 = (Inr us', s')" by (auto elim!: pass_op_InrE)
  have "insert (key x) (key ` set (tab s)) \<subseteq> key ` set (tab s1)"
    using one lens by (rule first_or_create_has)
  moreover have "key ` set xs \<union> key ` set (tab s1) \<subseteq> key ` set (tab s')"
    using rest by (rule Cons.IH)
  ultimately show ?case unfolding list.set image_insert by blast
qed simp

lemma roles_migration_seeds: "Up (migration003DefaultRoles env) t = (Inr (), t') \<Longrightarrow> seeded t'"
  unfolding migration003DefaultRoles_def Migration.simps
  by (erule pass_op_InrE, drule each_first_or_create_has)
    (auto simp: default_roles_def system_role_def seeded_def role_ids_def)

lemma settings_migration_configures: "Up (migration004Settings env) t = (Inr (), t') \<Longrightarrow> configured t'"
  unfolding migration004Settings_def Migration.simps
  by (erule pass_op_InrE, erule pass_op_InrE, drule each_first_or_create_has)
    (auto simp: default_settings_def configured_def setting_keys_def)

lemma rename_status_result:
  assumes "rename_status m s = (Inr u, s')"
  shows "map Status (catalog_entries s') = map (\<lambda>st. if st = fst m then snd m else st) (map Status (catalog_entries s))"
  using assms unfolding rename_status_def by (auto elim!: bind_op_InrE update_rows_InrE)

lemma status_migration_renames: "Up migration005HealthColumns t = (Inr (), t') \<Longrightarrow> renamed t'"
proof -
  assume "Up migration005HealthColumns t = (Inr (), t')"
  then obtain s0 s1 us where "ddl ''catalog_entries'' t = (Inr (), s0)"
    and r: "each_op rename_status status_mappings s0 = (Inr us, s1)"
    and d: "ddl ''idx_catalog_entries_health_probed_at'' s1 = (Inr (), t')"
    unfolding migration005HealthColumns_def Migration.simps by (auto elim!: bind_op_InrE pass_op_InrE)
  have "map Status (catalog_entries s1) = map (\<lambda>st. if st = ''unknown'' then ''registered'' else st)
     (map (\<lambda>st. if st = ''down'' then ''offline'' else st)
       (map (\<lambda>st. if st = ''healthy'' then ''active'' else st) (map Status (catalog_entries s0))))"
    using r unfolding status_mappings_def by (auto elim!: pass_op_InrE dest!: rename_status_result)
  moreover have "catalog_entries t' = catalog_entries s1"
    using d unfolding ddl_def by (auto elim: modify_InrE)
  ultimately have "map Status (catalog_entries t') = map (\<lambda>st. if st = ''unknown'' then ''registered''
     else if st = ''down'' then ''offline'' else if st = ''healthy'' then ''active'' else st) (map Status (catalog_entries s0))"
    by (simp add: comp_def)
  then have "\<forall>st \<in> set (map Status (catalog_entries t')). st \<notin> {''healthy'', ''down'', ''unknown''}" by auto
  then show ?thesis by (simp add: renamed_def)
qed

text \<open>The party statements: parties only grow, and the other tables stay.\<close>

definition parties_grow :: "db \<Rightarrow> db \<Rightarrow> bool" where
  "parties_grow s s' \<longleftrightarrow> set (parties s) \<subseteq> set (parties s') \<and> users s' = users s \<and>
     catalog_entries s' = catalog_entries s \<and> catalog_project_memberships s' = catalog_project_memberships s"

lemma parties_grow_refl [simp]: "parties_grow s s"
  by (simp add: parties_grow_def)

lemma parties_grow_faults [simp]: "parties_grow s (s'\<lparr>faults := fs\<rparr>) = parties_grow s s'"
  "parties_grow (s\<lparr>faults := fs\<rparr>) s' = parties_grow s s'"
  by (simp_all add: parties_grow_def)

lemma parties_grow_trans: "parties_grow s t \<Longrightarrow> parties_grow t u \<Longrightarrow> parties_grow s u"
  by (auto simp: parties_grow_def)

lemma insert_party_unless_result:
  assumes "insert_party_unless c p s = (Inr u, s')" "c p"
  shows "parties_grow s s' \<and> (\<exists>q \<in> set (parties s'). c q)"
  using assms unfolding insert_party_unless_def
  by (auto elim!: exec_cases simp: parties_grow_def split: if_splits option.splits) blast

lemma seed_person_result:
  assumes "seed_person now ids u s = (Inr x, s')"
  shows "parties_grow s s' \<and> person_for s' u"
  using assms unfolding seed_person_def
  by (auto elim!: bind_op_InrE dest!: insert_party_unless_result simp: migrated_party_def person_for_def)

lemma each_seed_person_result:
  "each_op (seed_person now ids) us s = (Inr xs, s') \<Longrightarrow> parties_grow s s' \<and> (\<forall>u \<in> set us. person_for s' u)"
proof (induction us arbitrary: s xs)
  case (Cons u us)
  then obtain x s1 xs' where "seed_person now ids u s = (Inr x, s1)" "each_op (seed_person now ids) us s1 = (Inr xs', s')"
    by (auto elim!: pass_op_InrE)
  then have "parties_grow s s1 \<and> person_for s1 u" "parties_grow s1 s' \<and> (\<forall>u \<in> set us. person_for s' u)"
    using Cons.IH seed_person_result by blast+
  then show ?case by (auto simp: parties_grow_def person_for_def)
qed simp

lemma seed_persons_result:
  assumes "migration007SeedPersonParties now ids s = (Inr x, s')"
  shows "parties_grow s s' \<and> (\<forall>u \<in> set (users s'). person_for s' u)"
proof -
  from assms obtain us s1 xs where q: "query users s = (Inr us, s1)" and e: "each_op (seed_person now ids) us s1 = (Inr xs, s')"
    unfolding migration007SeedPersonParties_def by (auto elim!: bind_op_InrE pass_op_InrE)
  have "parties_grow s s1" "us = users s1" using q by (auto elim: query_InrE)
  then show ?thesis using each_seed_person_result [OF e] parties_grow_trans parties_grow_def by metis
qed

lemma missing_memberships_complete:
  assumes "e \<in> set (catalog_entries s)"
  shows "\<exists>m \<in> set (catalog_project_memberships s @ missing_memberships now d s).
    CatalogEntryID m = entry_ID e \<and> ProjectPartyID m = d"
proof (cases "\<exists>m \<in> set (catalog_project_memberships s). CatalogEntryID m = entry_ID e \<and> ProjectPartyID m = d")
  case False
  then have "\<lparr>CatalogEntryID = entry_ID e, ProjectPartyID = d, cpm_CreatedAt = now\<rparr> \<in> set (missing_memberships now d s)"
    using assms by (auto simp: missing_memberships_def)
  then show ?thesis by force
qed auto

lemma default_project_of_default:
  assumes "\<exists>q \<in> set (parties s). is_default_project q"
  shows "\<exists>q \<in> set (parties s). is_default_project q \<and> default_project_of s = party_ID q"
proof -
  obtain p where p: "find is_default_project (parties s) = Some p"
    using assms by (metis find_None_set option.exhaust)
  then show ?thesis using find_Some_set [OF p] by (auto simp: default_project_of_def)
qed

lemma party_migration_archetypes:
  assumes "Up (migration007PartyArchetype env) t = (Inr (), t')"
  shows "archetyped t'"
proof -
  from assms obtain x s0 s1 d s2 y s3 where
    i: "insert_party_unless is_default_project (migrated_party (mig_now env) (default_project_id env) PartyKindProject
        ''default'' None True) s0 = (Inr x, s1)"
    and q: "query default_project_of s1 = (Inr d, s2)"
    and p: "migration007SeedPersonParties (mig_now env) (person_ids env) s2 = (Inr y, s3)"
    and m: "modify (\<lambda>s. put_memberships (catalog_project_memberships s @ missing_memberships (mig_now env) d s) s) s3 = (Inr (), t')"
    unfolding migration007PartyArchetype_def migration007Up_def Migration.simps
    by (auto elim!: bind_op_InrE pass_op_InrE)
  have "\<exists>q \<in> set (parties s1). is_default_project q"
    using insert_party_unless_result [OF i] by (simp add: migrated_party_def is_default_project_def)
  moreover from q obtain fs where s2: "s2 = s1\<lparr>faults := fs\<rparr>" "d = default_project_of (s1\<lparr>faults := fs\<rparr>)"
    by (rule query_InrE)
  ultimately obtain dp where dp: "dp \<in> set (parties s2)" "is_default_project dp" "d = party_ID dp"
    using default_project_of_default [of s2] by auto
  have grow: "parties_grow s2 s3" "\<forall>u \<in> set (users s3). person_for s3 u" using seed_persons_result [OF p] by simp_all
  then have "dp \<in> set (parties s3)" using dp by (auto simp: parties_grow_def)
  moreover from m obtain fs' where t': "t' = put_memberships (catalog_project_memberships (s3\<lparr>faults := fs'\<rparr>) @
      missing_memberships (mig_now env) d (s3\<lparr>faults := fs'\<rparr>)) (s3\<lparr>faults := fs'\<rparr>)" by (rule modify_InrE)
  have "in_default_project t' e" if "e \<in> set (catalog_entries t')" for e
    using missing_memberships_complete [of e "s3\<lparr>faults := fs'\<rparr>" "mig_now env" d] that dp \<open>dp \<in> set (parties s3)\<close>
    unfolding in_default_project_def t' by (intro bexI [of _ dp]) simp_all
  ultimately show ?thesis using grow dp by (auto simp: archetyped_def person_for_def t')
qed

lemma backfill_keeps_archetyped: "preserves archetyped (Up (migration008BackfillPersonParties env))"
  unfolding migration008BackfillPersonParties_def migration008Up_def Migration.simps
    migration007SeedPersonParties_def seed_person_def insert_party_unless_def
  by (intro preserves_rule archetyped.preserves_query archetyped.preserves_exec)
    (auto simp: archetyped_def person_for_def in_default_project_def split: option.split)

lemma indexes_keep_archetyped: "preserves archetyped (Up migration009CatalogProjectMembershipIndexes)"
  unfolding migration009CatalogProjectMembershipIndexes_def Migration.simps ddl_def
  by (intro preserves_rule archetyped.preserves_modify)

lemma Migrate_runs:
  assumes "Migrate now (NewMigrator (AllMigrations env)) s = (Inr (), s')" "versions s = []"
  obtains s1 where "run_pending now 0 (AllMigrations env) s1 = (Inr (), s')"
proof -
  from assms(1) obtain s1 c s2 where t: "create_tracking s = (Inr (), s1)" and v: "CurrentVersion s1 = (Inr c, s2)"
    and r: "run_pending now c (AllMigrations env) s2 = (Inr (), s')"
    unfolding Migrate_def NewMigrator_sorted by (auto elim!: bind_op_InrE pass_op_InrE)
  have "versions s1 = [1..0]" using t assms(2) by (auto simp: create_tracking_def versions_def elim!: modify_InrE split: option.splits)
  then have "c = 0" using CurrentVersion_cases [OF v, of 0] by simp
  then show ?thesis using r that by simp
qed

text \<open>What comes after the migration that establishes a fact keeps it.\<close>

lemma later_keep_seeded:
  "y \<in> set [migration004Settings env, migration005HealthColumns, migration006RawCards env, migration007PartyArchetype env,
     migration008BackfillPersonParties env, migration009CatalogProjectMembershipIndexes] \<Longrightarrow> preserves seeded (Up y)"
proof (rule preserves_of_part [where f = roles])
  fix X
  assume "y \<in> set [migration004Settings env, migration005HealthColumns, migration006RawCards env, migration007PartyArchetype env,
     migration008BackfillPersonParties env, migration009CatalogProjectMembershipIndexes]"
  then consider "y = migration004Settings env" | "y = migration005HealthColumns" | "y \<in> {migration001CreateTables,
      migration002UsersAndRoles, migration006RawCards env, migration007PartyArchetype env,
      migration008BackfillPersonParties env, migration009CatalogProjectMembershipIndexes}" by auto
  then show "preserves (\<lambda>s. roles s = X) (Up y)"
    by cases (simp_all add: roles_part.settings_migration_keeps roles_part.status_migration_keeps, rule roles_part.others_keep, simp)
qed (simp add: seeded_def role_ids_def)

lemma later_keep_configured:
  "y \<in> set [migration005HealthColumns, migration006RawCards env, migration007PartyArchetype env,
     migration008BackfillPersonParties env, migration009CatalogProjectMembershipIndexes] \<Longrightarrow> preserves configured (Up y)"
proof (rule preserves_of_part [where f = settings])
  fix X
  assume "y \<in> set [migration005HealthColumns, migration006RawCards env, migration007PartyArchetype env,
     migration008BackfillPersonParties env, migration009CatalogProjectMembershipIndexes]"
  then consider "y = migration005HealthColumns" | "y \<in> {migration001CreateTables,
      migration002UsersAndRoles, migration006RawCards env, migration007PartyArchetype env,
      migration008BackfillPersonParties env, migration009CatalogProjectMembershipIndexes}" by auto
  then show "preserves (\<lambda>s. settings s = X) (Up y)"
    by cases (simp_all add: settings_part.status_migration_keeps, rule settings_part.others_keep, simp)
qed (simp add: configured_def setting_keys_def)

lemma later_keep_renamed:
  assumes "y \<in> set [migration006RawCards env, migration007PartyArchetype env,
     migration008BackfillPersonParties env, migration009CatalogProjectMembershipIndexes]"
  shows "preserves renamed (Up y)"
proof (rule preserves_of_part [where f = catalog_entries])
  show "preserves (\<lambda>s. catalog_entries s = X) (Up y)" for X
    by (rule entries_part.others_keep [where env = env]) (use assms in auto)
qed (simp add: renamed_def)

lemma version_numbers:
  "mig_Version (migration003DefaultRoles env) = 3" "mig_Version (migration004Settings env) = 4"
  "mig_Version migration005HealthColumns = 5" "mig_Version (migration007PartyArchetype env) = 7"
  by (simp_all add: migration003DefaultRoles_def migration004Settings_def migration005HealthColumns_def
      migration007PartyArchetype_def)

lemma migration_completes:
  assumes "versions s = []" and "Migrate now (NewMigrator (AllMigrations env)) s = (Inr (), s')"
  shows "seeded s' \<and> configured s' \<and> renamed s' \<and> archetyped s'"
proof -
  obtain s1 where run: "run_pending now 0 (AllMigrations env) s1 = (Inr (), s')"
    using Migrate_runs [OF assms(2,1)] by blast
  let ?m1 = migration001CreateTables and ?m2 = migration002UsersAndRoles and ?m3 = "migration003DefaultRoles env"
    and ?m4 = "migration004Settings env" and ?m5 = migration005HealthColumns and ?m6 = "migration006RawCards env"
    and ?m7 = "migration007PartyArchetype env" and ?m8 = "migration008BackfillPersonParties env"
    and ?m9 = migration009CatalogProjectMembershipIndexes
  have r3: "run_pending now 0 ([?m1, ?m2] @ ?m3 # [?m4, ?m5, ?m6, ?m7, ?m8, ?m9]) s1 = (Inr (), s')"
    and r4: "run_pending now 0 ([?m1, ?m2, ?m3] @ ?m4 # [?m5, ?m6, ?m7, ?m8, ?m9]) s1 = (Inr (), s')"
    and r5: "run_pending now 0 ([?m1, ?m2, ?m3, ?m4] @ ?m5 # [?m6, ?m7, ?m8, ?m9]) s1 = (Inr (), s')"
    and r7: "run_pending now 0 ([?m1, ?m2, ?m3, ?m4, ?m5, ?m6] @ ?m7 # [?m8, ?m9]) s1 = (Inr (), s')"
    using run by (simp_all only: AllMigrations_def append.simps)
  have "seeded s'"
  proof (rule seeded.run_pending_establishes [OF r3])
  qed (simp add: version_numbers, erule roles_migration_seeds, rule later_keep_seeded [of _ env])
  moreover have "configured s'"
  proof (rule configured.run_pending_establishes [OF r4])
  qed (simp add: version_numbers, erule settings_migration_configures, rule later_keep_configured [of _ env])
  moreover have "renamed s'"
  proof (rule renamed.run_pending_establishes [OF r5])
  qed (simp add: version_numbers, erule status_migration_renames, rule later_keep_renamed [of _ env])
  moreover have "archetyped s'"
    by (rule archetyped.run_pending_establishes [OF r7 _ party_migration_archetypes])
      (auto simp: version_numbers backfill_keeps_archetyped indexes_keep_archetyped)
  ultimately show ?thesis by simp
qed

text \<open>
  \<^bold>\<open>C19\<close>: When a database without recorded migrations, whatever its tables hold, is migrated with
  success, it has the three system roles, the three settings and a default project; every user has a
  person, every catalog entry belongs to a default project, and no status of the old vocabulary is left.
\<close>

theorem migrated_database_is_complete:
  assumes "versions s = []" and "Migrate now (NewMigrator (AllMigrations env)) s = (Inr (), s')"
  shows "seeded s' \<and> configured s' \<and> renamed s' \<and> archetyped s'"
  using assms by (rule migration_completes)

text \<open>A database from before the migrations, with one user and one entry of the old vocabulary.\<close>

definition sample_mig_env :: mig_env where
  "sample_mig_env = \<lparr>tx_Name = ''sqlite'', drop_if_exists = False, other_columns = (\<lambda>_ _. False),
     default_project_id = ''d0'', person_ids = (\<lambda>u. ''p'' @ u), backfill_ids = (\<lambda>u. ''b'' @ u), mig_now = 5\<rparr>"

definition old_user :: User where
  "old_user = \<lparr>user_ID = ''u1'', Username = ''ann'', Email = '''', user_DisplayName = '''', PasswordHash = ''h'',
     user_RoleID = ''role-admin'', user_Role = None, IsActive = True, LastLogin = None, FailedAttempts = 0,
     LockedUntil = None, user_CreatedAt = 1, user_UpdatedAt = 1\<rparr>"

definition old_db :: db where
  "old_db = empty_db\<lparr>users := [old_user], raw_definition := Some []\<rparr>"

lemma sample_migration:
  obtains s' u where "Migrate 5 (NewMigrator (AllMigrations sample_mig_env)) old_db = (Inr (), s')"
    and "users s' = [u]" and "user_ID u = ''u1''"
proof -
  let ?run = "Migrate 5 (NewMigrator (AllMigrations sample_mig_env)) old_db"
  have "fst ?run = Inr () \<and> map user_ID (users (snd ?run)) = [''u1'']" by code_simp
  then show thesis using that by (cases ?run) auto
qed

theorem migrated_database_is_complete_witness:
  "archetyped (snd (Migrate 5 (NewMigrator (AllMigrations sample_mig_env)) old_db)) \<and>
   person_for (snd (Migrate 5 (NewMigrator (AllMigrations sample_mig_env)) old_db)) old_user"
proof -
  obtain s' u where run: "Migrate 5 (NewMigrator (AllMigrations sample_mig_env)) old_db = (Inr (), s')"
    "users s' = [u]" "user_ID u = ''u1''" by (rule sample_migration)
  moreover have "versions old_db = []" by (simp add: versions_def old_db_def empty_db_def)
  ultimately show ?thesis
    using migrated_database_is_complete [of old_db 5 sample_mig_env s']
    by (auto simp: archetyped_def person_for_def old_user_def)
qed

theorem migration_resumes_witness:
  "versions (snd (Migrate 5 (NewMigrator (AllMigrations sample_mig_env)) old_db)) = [1..9]"
proof -
  obtain s' where run: "Migrate 5 (NewMigrator (AllMigrations sample_mig_env)) old_db = (Inr (), s')"
    by (rule sample_migration)
  moreover have "versions old_db = [1..0]" by (simp add: versions_def old_db_def empty_db_def)
  ultimately show ?thesis using migration_resumes [of old_db 0 5 sample_mig_env "Inr ()" s'] by auto
qed

end
