(* ===== verification/Kernel.thy ===== *)
theory Kernel
  imports Config Migrate
begin

text \<open>
  The microkernel (\<^verbatim>\<open>internal/kernel\<close>): the registries of the core, licences, and the manager that
  initialises, starts and stops plugins; the plugins that \<^verbatim>\<open>cmd/agentlens/main.go\<close> registers; and the
  log handler that writes to two sinks (\<^verbatim>\<open>internal/telemetry/fanout.go\<close>).

  A plugin is a record of its life-cycle functions on the kernel and on the world outside it.  Route
  handlers and middleware are known by name only: the router never asks the core for them.
\<close>

section \<open>Licences\<close>

record LicenseInfo =
  lic_Valid :: bool
  Tier :: string
  lic_ExpiresAt :: time
  Features :: "string list"
  LicensedTo :: string

definition CommunityLicense :: LicenseInfo where
  "CommunityLicense = \<lparr>lic_Valid = True, Tier = ''community'', lic_ExpiresAt = zero_time, Features = [], LicensedTo = ''''\<rparr>"

definition ValidateLicense :: "string \<Rightarrow> LicenseInfo" where
  "ValidateLicense key = (if key = '''' then CommunityLicense else CommunityLicense)"

definition HasFeature :: "LicenseInfo \<Rightarrow> string \<Rightarrow> bool" where
  "HasFeature l feature \<longleftrightarrow> feature \<in> set (Features l)"

section \<open>The core\<close>

record Core =
  core_config :: Config
  core_license :: LicenseInfo
  core_parsers :: "Protocol \<rightharpoonup> ParserPlugin"
  core_routes :: "string \<rightharpoonup> string"
  core_middlewares :: "string list"
  core_cardStore :: "string option"

definition NewCore :: "Config \<Rightarrow> LicenseInfo \<Rightarrow> Core" where
  "NewCore cfg lic = \<lparr>core_config = cfg, core_license = lic, core_parsers = Map.empty, core_routes = Map.empty,
     core_middlewares = [], core_cardStore = None\<rparr>"

definition RegisterParser :: "ParserPlugin \<Rightarrow> Core \<Rightarrow> Core" where
  "RegisterParser p c = c\<lparr>core_parsers := (core_parsers c)(pp_Protocol p \<mapsto> p)\<rparr>"

definition RegisterCardStore :: "string \<Rightarrow> Core \<Rightarrow> Core" where
  "RegisterCardStore name c = c\<lparr>core_cardStore := Some name\<rparr>"

definition RegisterRoutes :: "string \<Rightarrow> string \<Rightarrow> Core \<Rightarrow> Core" where
  "RegisterRoutes path handler c = c\<lparr>core_routes := (core_routes c)(path \<mapsto> handler)\<rparr>"

definition RegisterMiddleware :: "string \<Rightarrow> Core \<Rightarrow> Core" where
  "RegisterMiddleware mw c = c\<lparr>core_middlewares := core_middlewares c @ [mw]\<rparr>"

definition Core_Parser :: "Core \<Rightarrow> Protocol \<Rightarrow> ParserPlugin option" where
  "Core_Parser c protocol = core_parsers c protocol"

section \<open>Plugins and their manager\<close>

record 'w kernel_state =
  k_core :: Core
  k_world :: 'w

text \<open>\<^verbatim>\<open>pl_parser\<close> and \<^verbatim>\<open>pl_cardStore\<close> say whether the plugin implements the two interfaces.\<close>

record 'w Plugin =
  pl_Name :: string
  pl_Version :: string
  pl_Type :: string
  pl_Init :: "('w kernel_state, unit) op"
  pl_Start :: "('w kernel_state, unit) op"
  pl_Stop :: "('w kernel_state, unit) op"
  pl_parser :: "ParserPlugin option"
  pl_cardStore :: bool

record 'w PluginManager =
  pm_plugins :: "'w Plugin list"
  pm_initialized :: "'w Plugin list"
  pm_kernel :: "'w kernel_state"

definition NewPluginManager :: "'w kernel_state \<Rightarrow> 'w PluginManager" where
  "NewPluginManager k = \<lparr>pm_plugins = [], pm_initialized = [], pm_kernel = k\<rparr>"

definition Register :: "'w Plugin \<Rightarrow> 'w PluginManager \<Rightarrow> 'w PluginManager" where
  "Register p pm = pm\<lparr>pm_plugins := pm_plugins pm @ [p]\<rparr>"

definition on_kernel :: "('w kernel_state, 'a) op \<Rightarrow> ('w PluginManager, 'a) op" where
  "on_kernel m = (\<lambda>pm. case m (pm_kernel pm) of (r, k) \<Rightarrow> (r, pm\<lparr>pm_kernel := k\<rparr>))"

text \<open>What follows a successful \<^verbatim>\<open>Init\<close>.\<close>

definition admit :: "'w Plugin \<Rightarrow> 'w PluginManager \<Rightarrow> 'w PluginManager" where
  "admit p pm =
     (let c = k_core (pm_kernel pm);
          c1 = (case pl_parser p of Some pp \<Rightarrow> RegisterParser pp c | None \<Rightarrow> c);
          c2 = (if pl_cardStore p then RegisterCardStore (pl_Name p) c1 else c1)
      in pm\<lparr>pm_initialized := pm_initialized pm @ [p], pm_kernel := (pm_kernel pm)\<lparr>k_core := c2\<rparr>\<rparr>)"

fun init_each :: "'w Plugin list \<Rightarrow> ('w PluginManager, unit) op" where
  "init_each [] = ok ()"
| "init_each (p # ps) = try_op (on_kernel (pl_Init p))
     (\<lambda>e. if errors_Is e ErrLicenseRequired then init_each ps
          else fail (wrapf (''initializing plugin '' @ pl_Name p) e))
     (\<lambda>_ pm. init_each ps (admit p pm))"

definition InitAll :: "('w PluginManager, unit) op" where
  "InitAll = (\<lambda>pm. init_each (pm_plugins pm) pm)"

fun start_each :: "'w Plugin list \<Rightarrow> ('w PluginManager, unit) op" where
  "start_each [] = ok ()"
| "start_each (p # ps) = bind_op (on_kernel (pl_Start p)) (''starting plugin '' @ pl_Name p) (\<lambda>_. start_each ps)"

definition StartAll :: "('w PluginManager, unit) op" where
  "StartAll = (\<lambda>pm. start_each (pm_initialized pm) pm)"

text \<open>\<^verbatim>\<open>errors.Join\<close>: nil for no errors, else the messages on lines of their own and all chains.\<close>

definition errors_Join :: "error list \<Rightarrow> error + unit" where
  "errors_Join es = (if es = [] then Inr ()
     else Inl (Error (Join (map error_string es) [CHR 0x0A]) (concat (map chain es))))"

fun stop_each :: "'w Plugin list \<Rightarrow> ('w PluginManager, error list) act" where
  "stop_each [] = ret []"
| "stop_each (p # ps) = (\<lambda>pm. case on_kernel (pl_Stop p) pm of
       (Inl e, pm1) \<Rightarrow> (case stop_each ps pm1 of (es, pm2) \<Rightarrow> (wrapf (''stopping plugin '' @ pl_Name p) e # es, pm2))
     | (Inr _, pm1) \<Rightarrow> stop_each ps pm1)"

definition StopAll :: "('w PluginManager, unit) op" where
  "StopAll = (\<lambda>pm. case stop_each (rev (pm_initialized pm)) pm of (es, pm') \<Rightarrow> (errors_Join es, pm'))"

section \<open>The plugins of the server\<close>

definition ErrLicenseRequired_error :: error where
  "ErrLicenseRequired_error = Error ''enterprise license required'' [ErrLicenseRequired]"

definition card_parser_plugin :: "string \<Rightarrow> ParserPlugin \<Rightarrow> 'w Plugin" where
  "card_parser_plugin name pp = \<lparr>pl_Name = name, pl_Version = ''1.0.0'', pl_Type = ''parser'', pl_Init = ok (),
     pl_Start = ok (), pl_Stop = ok (), pl_parser = Some pp, pl_cardStore = False\<rparr>"

text \<open>\<^verbatim>\<open>MigrateSchema\<close> is one statement about a table that exists.\<close>

definition cardstore_plugin :: "db Plugin" where
  "cardstore_plugin = \<lparr>pl_Name = ''card-store'', pl_Version = ''1.0.0'', pl_Type = ''cardstore'',
     pl_Init = (\<lambda>k. case ddl ''raw_cards'' (k_world k) of (r, w) \<Rightarrow> (r, k\<lparr>k_world := w\<rparr>)),
     pl_Start = ok (), pl_Stop = ok (), pl_parser = None, pl_cardStore = True\<rparr>"

text \<open>Starting the health plugin starts its polling; the model of the polling is in the theory of the probes.\<close>

definition health_plugin :: "'w Plugin" where
  "health_plugin = \<lparr>pl_Name = ''health-checker'', pl_Version = ''2.0.0'', pl_Type = ''middleware'',
     pl_Init = ok (), pl_Start = ok (), pl_Stop = ok (), pl_parser = None, pl_cardStore = False\<rparr>"

definition enterprise_plugin :: "string \<Rightarrow> 'w Plugin" where
  "enterprise_plugin feature = \<lparr>pl_Name = ''enterprise-'' @ feature, pl_Version = ''1.0.0'',
     pl_Type = (if feature = ''postgres'' then ''store'' else ''middleware''),
     pl_Init = (\<lambda>k. if \<not> HasFeature (core_license (k_core k)) feature
       then (Inl (wrapf (''feature '' @ quote feature) ErrLicenseRequired_error), k) else (Inr (), k)),
     pl_Start = ok (), pl_Stop = ok (), pl_parser = None, pl_cardStore = False\<rparr>"

definition server_plugins :: "parser_env \<Rightarrow> Config \<Rightarrow> db Plugin list" where
  "server_plugins env cfg =
     [cardstore_plugin, card_parser_plugin ''a2a-parser'' (a2a_plugin env), card_parser_plugin ''mcp-parser'' (mcp_plugin env)] @
     (if hc_Enabled (HealthCheck cfg) then [health_plugin] else []) @
     map enterprise_plugin [''sso'', ''rbac'', ''audit'', ''postgres'']"

definition server_manager :: "parser_env \<Rightarrow> Config \<Rightarrow> db \<Rightarrow> db PluginManager" where
  "server_manager env cfg s = fold Register (server_plugins env cfg)
     (NewPluginManager \<lparr>k_core = NewCore cfg (ValidateLicense (LicenseKey cfg)), k_world = s\<rparr>)"

section \<open>The log handler with two sinks\<close>

record 'w slog_handler =
  sl_Enabled :: "int \<Rightarrow> bool"
  sl_Handle :: "int \<Rightarrow> string \<Rightarrow> ('w, unit) op"

record 'w fanoutHandler =
  fan_stdout :: "'w slog_handler"
  fan_bridge :: "'w slog_handler"
  fan_exportLevel :: int

definition NewFanoutHandler :: "'w slog_handler \<Rightarrow> 'w slog_handler \<Rightarrow> int \<Rightarrow> 'w fanoutHandler" where
  "NewFanoutHandler out bridge level = \<lparr>fan_stdout = out, fan_bridge = bridge, fan_exportLevel = level\<rparr>"

definition fanout_Enabled :: "'w fanoutHandler \<Rightarrow> int \<Rightarrow> bool" where
  "fanout_Enabled h level \<longleftrightarrow> sl_Enabled (fan_stdout h) level \<or>
     (level \<ge> fan_exportLevel h \<and> sl_Enabled (fan_bridge h) level)"

definition fanout_Handle :: "'w fanoutHandler \<Rightarrow> int \<Rightarrow> string \<Rightarrow> ('w, unit) op" where
  "fanout_Handle h level msg = pass_op (sl_Handle (fan_stdout h) level msg) (\<lambda>_.
     if level \<ge> fan_exportLevel h then ignore_op (sl_Handle (fan_bridge h) level msg) (ok ()) else ok ())"

text \<open>\<^verbatim>\<open>slog.Logger\<close> asks \<^verbatim>\<open>Enabled\<close> before it calls \<^verbatim>\<open>Handle\<close> and drops the error.\<close>

definition logger_log :: "'w fanoutHandler \<Rightarrow> int \<Rightarrow> string \<Rightarrow> ('w, unit) act" where
  "logger_log h level msg = (if fanout_Enabled h level then ignore_op (fanout_Handle h level msg) (ret ()) else ret ())"

text \<open>The standard JSON handler writes every record it is given; the level is for \<^verbatim>\<open>Enabled\<close> only.\<close>

definition JSONHandler :: "int \<Rightarrow> (string list \<times> string list) slog_handler" where
  "JSONHandler level = \<lparr>sl_Enabled = (\<lambda>l. l \<ge> level), sl_Handle = (\<lambda>_ msg w. (Inr (), (fst w @ [msg], snd w)))\<rparr>"

section \<open>Properties\<close>

lemma ValidateLicense_community [simp]: "ValidateLicense key = CommunityLicense"
  by (simp add: ValidateLicense_def)

text \<open>Stopping: every plugin is stopped, from the last initialised to the first, whatever fails, and an
  error is reported exactly when one of them failed.\<close>

definition stopped_by :: "'w kernel_state \<Rightarrow> 'w Plugin list \<Rightarrow> 'w kernel_state" where
  "stopped_by k ps = fold (\<lambda>p k. snd (pl_Stop p k)) ps k"

lemma stop_each_kernel: "pm_kernel (snd (stop_each ps pm)) = stopped_by (pm_kernel pm) ps"
proof (induction ps arbitrary: pm)
  case Nil
  then show ?case by (simp add: stopped_by_def)
next
  case (Cons p ps)
  obtain r k where stop: "pl_Stop p (pm_kernel pm) = (r, k)" by fastforce
  obtain es pm2 where rest: "stop_each ps (pm\<lparr>pm_kernel := k\<rparr>) = (es, pm2)" by fastforce
  then have "pm_kernel pm2 = stopped_by k ps" using Cons.IH [of "pm\<lparr>pm_kernel := k\<rparr>"] by simp
  then show ?case using stop rest by (cases r) (simp_all add: on_kernel_def stopped_by_def)
qed

lemma StopAll_kernel: "pm_kernel (snd (StopAll pm)) = stopped_by (pm_kernel pm) (rev (pm_initialized pm))"
  using stop_each_kernel [of "rev (pm_initialized pm)" pm] by (auto simp: StopAll_def split: prod.split)

lemma init_enterprise:
  assumes "core_license (k_core (pm_kernel pm)) = CommunityLicense"
  shows "init_each (map enterprise_plugin fs) pm = (Inr (), pm)"
  using assms
  by (induction fs) (simp_all add: try_op_def on_kernel_def enterprise_plugin_def HasFeature_def CommunityLicense_def
      errors_Is_def ErrLicenseRequired_error_def)

lemma init_each_append:
  "init_each (ps @ qs) pm = (case init_each ps pm of (Inl e, pm') \<Rightarrow> (Inl e, pm') | (Inr _, pm') \<Rightarrow> init_each qs pm')"
  by (induction ps arbitrary: pm) (simp_all add: try_op_def split: prod.split sum.split)

lemma fold_Register: "fold Register ps pm = pm\<lparr>pm_plugins := pm_plugins pm @ ps\<rparr>"
  by (induction ps arbitrary: pm) (simp_all add: Register_def)

text \<open>The manager after a successful start, with the database as the card store's statement left it.\<close>

definition ready_plugins :: "parser_env \<Rightarrow> Config \<Rightarrow> db Plugin list" where
  "ready_plugins env cfg =
     [cardstore_plugin, card_parser_plugin ''a2a-parser'' (a2a_plugin env), card_parser_plugin ''mcp-parser'' (mcp_plugin env)] @
     (if hc_Enabled (HealthCheck cfg) then [health_plugin] else [])"

definition ready_core :: "parser_env \<Rightarrow> Config \<Rightarrow> Core" where
  "ready_core env cfg = (NewCore cfg CommunityLicense)\<lparr>core_cardStore := Some ''card-store'',
     core_parsers := [ProtocolA2A \<mapsto> a2a_plugin env, ProtocolMCP \<mapsto> mcp_plugin env]\<rparr>"

definition ready_manager :: "parser_env \<Rightarrow> Config \<Rightarrow> db \<Rightarrow> db PluginManager" where
  "ready_manager env cfg w = \<lparr>pm_plugins = server_plugins env cfg, pm_initialized = ready_plugins env cfg,
     pm_kernel = \<lparr>k_core = ready_core env cfg, k_world = w\<rparr>\<rparr>"

lemma server_manager_eq:
  "server_manager env cfg s = \<lparr>pm_plugins = server_plugins env cfg, pm_initialized = [],
     pm_kernel = \<lparr>k_core = NewCore cfg CommunityLicense, k_world = s\<rparr>\<rparr>"
  by (simp add: server_manager_def fold_Register NewPluginManager_def)

lemma server_plugins_eq:
  "server_plugins env cfg = ready_plugins env cfg @ map enterprise_plugin [''sso'', ''rbac'', ''audit'', ''postgres'']"
  by (simp add: server_plugins_def ready_plugins_def)

lemmas plugin_defs = cardstore_plugin_def card_parser_plugin_def health_plugin_def

lemma server_init_ok:
  assumes "ddl ''raw_cards'' s = (Inr (), w)"
  shows "InitAll (server_manager env cfg s) = (Inr (), ready_manager env cfg w)"
proof -
  have "init_each (ready_plugins env cfg) (server_manager env cfg s) = (Inr (), ready_manager env cfg w)"
    using assms by (simp add: ready_plugins_def ready_manager_def ready_core_def server_manager_eq try_op_def on_kernel_def
        plugin_defs admit_def RegisterParser_def RegisterCardStore_def a2a_plugin_def mcp_plugin_def NewCore_def)
  moreover have "init_each (map enterprise_plugin fs) (ready_manager env cfg w) = (Inr (), ready_manager env cfg w)" for fs
    by (rule init_enterprise) (simp add: ready_manager_def ready_core_def NewCore_def)
  moreover have "pm_plugins (server_manager env cfg s) = server_plugins env cfg" by (simp add: server_manager_eq)
  ultimately show ?thesis
    unfolding InitAll_def server_plugins_eq by (simp only: init_each_append prod.case sum.case)
qed

lemma server_init_refused:
  assumes "ddl ''raw_cards'' s = (Inl e, w)"
  shows "\<exists>e'. InitAll (server_manager env cfg s) = (Inl e', (server_manager env cfg s)\<lparr>pm_kernel :=
    \<lparr>k_core = NewCore cfg CommunityLicense, k_world = w\<rparr>\<rparr>)"
proof -
  have "\<not> errors_Is e ErrLicenseRequired"
    using assms unfolding ddl_def modify_def by (elim exec_cases) auto
  then show ?thesis
    using assms by (simp add: InitAll_def server_manager_eq server_plugins_def try_op_def on_kernel_def cardstore_plugin_def)
qed

text \<open>
  \<^bold>\<open>C34\<close>: Whatever the licence key, initialising the plugins of the server either fails at the card store,
  because the database refused its statement, with nothing initialised, or leaves exactly the two parsers
  and the card store registered, the health plugin initialised when it is enabled, and none of the
  enterprise plugins; stopping them afterwards succeeds.
\<close>

theorem server_start_up:
  assumes "InitAll (server_manager env cfg s) = (r, pm)"
  shows "(\<exists>e. r = Inl e \<and> pm_initialized pm = [] \<and> core_cardStore (k_core (pm_kernel pm)) = None) \<or>
    (r = Inr () \<and>
     map pl_Name (pm_initialized pm) = [''card-store'', ''a2a-parser'', ''mcp-parser''] @
       (if hc_Enabled (HealthCheck cfg) then [''health-checker''] else []) \<and>
     core_cardStore (k_core (pm_kernel pm)) = Some ''card-store'' \<and>
     core_parsers (k_core (pm_kernel pm)) = [ProtocolA2A \<mapsto> a2a_plugin env, ProtocolMCP \<mapsto> mcp_plugin env] \<and>
     tables (k_world (pm_kernel pm)) = tables s \<and> fst (StopAll pm) = Inr ())"
proof -
  obtain d w where dw: "ddl ''raw_cards'' s = (d, w)" by fastforce
  then have w: "tables w = tables s" unfolding ddl_def modify_def by (elim exec_cases) auto
  show ?thesis
  proof (cases d)
    case (Inl e)
    then show ?thesis
      using assms dw server_init_refused [of s e w env cfg] by (auto simp: server_manager_eq NewCore_def)
  next
    case (Inr u)
    then have "r = Inr ()" "pm = ready_manager env cfg w" using assms dw server_init_ok [of s w env cfg] by auto
    moreover have "fst (StopAll (ready_manager env cfg w)) = Inr ()"
      by (simp add: StopAll_def on_kernel_def ready_manager_def ready_plugins_def plugin_defs errors_Join_def)
    ultimately show ?thesis
      using w by (simp add: ready_manager_def ready_plugins_def ready_core_def plugin_defs)
  qed
qed

theorem server_start_up_witness:
  "pm_initialized (snd (InitAll (server_manager (h_json good_handler) defaults empty_db))) \<noteq> [] \<and>
   fst (StopAll (snd (InitAll (server_manager (h_json good_handler) defaults empty_db)))) = Inr ()"
proof -
  have "ddl ''raw_cards'' empty_db = (Inr (), empty_db)" by (simp add: ddl_def modify_def exec_def empty_db_def)
  then obtain pm where run: "InitAll (server_manager (h_json good_handler) defaults empty_db) = (Inr (), pm)"
    using server_init_ok by blast
  then show ?thesis using server_start_up [OF run] by auto
qed

text \<open>The level of the first sink is asked for only in \<^verbatim>\<open>Enabled\<close>: a record that the second sink wants
  is written to the first one too, although it is below the first one's level.\<close>

lemma fanout_ignores_stdout_level:
  assumes "export \<le> level" "level < out_level" "sl_Enabled bridge level"
    and "\<And>l m w r w'. sl_Handle bridge l m w = (r, w') \<Longrightarrow> fst w' = fst w"
  shows "fst (snd (logger_log (NewFanoutHandler (JSONHandler out_level) bridge export) level msg w)) = fst w @ [msg] \<and>
    \<not> sl_Enabled (JSONHandler out_level) level"
proof -
  obtain r w' where b: "sl_Handle bridge level msg (fst w @ [msg], snd w) = (r, w')" by (meson surj_pair)
  then have "fst w' = fst w @ [msg]" using assms(4) by fastforce
  then show ?thesis
    using assms(1-3) b by (cases r) (simp_all add: logger_log_def fanout_Enabled_def fanout_Handle_def NewFanoutHandler_def
        JSONHandler_def op_defs)
qed

end
