(* ===== verification/Otel.thy ===== *)
theory Otel
  imports Kernel
begin

text \<open>
  Telemetry (\<^verbatim>\<open>internal/telemetry/telemetry.go\<close>, \<^verbatim>\<open>metrics.go\<close>, \<^verbatim>\<open>storetracer.go\<close>): which providers are
  set up for a configuration, what a failed set-up leaves behind, shutting down, the instruments and
  what is recorded with them, and the store decorator that adds spans.

  The OpenTelemetry packages are an argument: whether they create a resource or an exporter and
  how a provider answers \<^verbatim>\<open>Shutdown\<close>.  The state holds the parts that were created and not yet told
  to shut down.  A provider shuts down the exporter it was given, as its package documents, so an
  exporter counts on its own only until a provider takes it over.
\<close>

section \<open>Providers\<close>

record Resource =
  res_ServiceName :: string
  res_ServiceVersion :: string
  res_Environment :: string

datatype signal = Traces | Metrics | Logs

text \<open>The options of an exporter: \<^verbatim>\<open>WithInsecure\<close> and \<^verbatim>\<open>WithHeaders\<close> are given or not.\<close>

record exporter_options =
  exp_http :: bool
  exp_Endpoint :: string
  exp_Insecure :: bool
  exp_Headers :: "(string \<rightharpoonup> string) option"

datatype part = Exporter signal | Tracing | Metering | Logging

record otel_lib =
  resource_New :: "Resource \<Rightarrow> error option"
  exporter_New :: "signal \<Rightarrow> exporter_options \<Rightarrow> error option"
  promexporter_New :: "error option"
  part_Shutdown :: "part \<Rightarrow> error option"

record TracerProvider =
  tp_Resource :: Resource
  tp_Exporter :: exporter_options
  tp_SampleRatio :: float64

record MeterProvider =
  mp_Resource :: Resource
  mp_Periodic :: "(exporter_options \<times> duration) option"
  mp_Prometheus :: bool

record LoggerProvider =
  lp_Resource :: Resource
  lp_Exporter :: exporter_options

record otel_state =
  open_parts :: "part list"
  global_tracer :: "TracerProvider option"
  global_meter :: "MeterProvider option"
  global_propagators :: "string list"

definition otel_start :: otel_state where
  "otel_start = \<lparr>open_parts = [], global_tracer = None, global_meter = None, global_propagators = []\<rparr>"

text \<open>The three shapes of the \<^verbatim>\<open>Shutdown\<close> function.\<close>

datatype shutdown_fn = NoShutdown | MeterShutdown | AllShutdown

record OtelProvider =
  prov_Tracer :: "TracerProvider option"
  prov_Meter :: "MeterProvider option"
  prov_Logger :: "LoggerProvider option"
  PromHandler :: bool
  Shutdown :: shutdown_fn

section \<open>Setting up\<close>

definition exporter_opts :: "TelemetryConfig \<Rightarrow> exporter_options" where
  "exporter_opts cfg = \<lparr>exp_http = (tel_Protocol cfg = ''http''), exp_Endpoint = tel_Endpoint cfg,
     exp_Insecure = Insecure cfg, exp_Headers = (if Headers cfg = Map.empty then None else Some (Headers cfg))\<rparr>"

definition new_exporter :: "otel_lib \<Rightarrow> signal \<Rightarrow> TelemetryConfig \<Rightarrow> (otel_state, exporter_options) op" where
  "new_exporter lib sg cfg = (\<lambda>s. case exporter_New lib sg (exporter_opts cfg) of
       Some e \<Rightarrow> (Inl e, s)
     | None \<Rightarrow> (Inr (exporter_opts cfg), s\<lparr>open_parts := open_parts s @ [Exporter sg]\<rparr>))"

definition newTraceExporter :: "otel_lib \<Rightarrow> TelemetryConfig \<Rightarrow> (otel_state, exporter_options) op" where
  "newTraceExporter lib = new_exporter lib Traces"

definition newMetricExporter :: "otel_lib \<Rightarrow> TelemetryConfig \<Rightarrow> (otel_state, exporter_options) op" where
  "newMetricExporter lib = new_exporter lib Metrics"

definition newLogExporter :: "otel_lib \<Rightarrow> TelemetryConfig \<Rightarrow> (otel_state, exporter_options) op" where
  "newLogExporter lib = new_exporter lib Logs"

text \<open>A new provider takes over its exporter.\<close>

definition open_provider :: "signal \<Rightarrow> part \<Rightarrow> otel_state \<Rightarrow> otel_state" where
  "open_provider sg p s = s\<lparr>open_parts := remove1 (Exporter sg) (open_parts s) @ [p]\<rparr>"

definition shut :: "part \<Rightarrow> otel_state \<Rightarrow> otel_state" where
  "shut p s = s\<lparr>open_parts := filter (\<lambda>q. q \<noteq> p) (open_parts s)\<rparr>"

definition newMeterProvider :: "otel_lib \<Rightarrow> Resource \<Rightarrow> TelemetryConfig \<Rightarrow> (otel_state, MeterProvider \<times> bool) op" where
  "newMeterProvider lib res cfg = try_op (newMetricExporter lib cfg)
     (\<lambda>e s. (Inl (wrapf ''creating metric exporter'' e), shut Tracing s))
     (\<lambda>opts s. if prom_Enabled (Prometheus cfg) then
          (case promexporter_New lib of
            Some e \<Rightarrow> (Inl (wrapf ''creating prometheus exporter'' e), shut Tracing s)
          | None \<Rightarrow> (Inr (\<lparr>mp_Resource = res, mp_Periodic = Some (opts, MetricsInterval cfg), mp_Prometheus = True\<rparr>, True),
              open_provider Metrics Metering s))
        else (Inr (\<lparr>mp_Resource = res, mp_Periodic = Some (opts, MetricsInterval cfg), mp_Prometheus = False\<rparr>, False),
          open_provider Metrics Metering s))"

definition newLoggerProvider :: "otel_lib \<Rightarrow> Resource \<Rightarrow> TelemetryConfig \<Rightarrow> (otel_state, LoggerProvider) op" where
  "newLoggerProvider lib res cfg = try_op (newLogExporter lib cfg)
     (\<lambda>e s. (Inl (wrapf ''creating log exporter'' e), shut Metering (shut Tracing s)))
     (\<lambda>opts s. (Inr \<lparr>lp_Resource = res, lp_Exporter = opts\<rparr>, open_provider Logs Logging s))"

record sdkProviders =
  sdk_tp :: TracerProvider
  sdk_mp :: MeterProvider
  sdk_lp :: LoggerProvider
  sdk_promHandler :: bool

definition newSDKProviders :: "otel_lib \<Rightarrow> Resource \<Rightarrow> TelemetryConfig \<Rightarrow> (otel_state, sdkProviders) op" where
  "newSDKProviders lib res cfg =
     bind_op (newTraceExporter lib cfg) ''creating trace exporter'' (\<lambda>opts s.
     (pass_op (newMeterProvider lib res cfg) (\<lambda>(mp, prom).
      pass_op (newLoggerProvider lib res cfg) (\<lambda>lp.
      ok \<lparr>sdk_tp = \<lparr>tp_Resource = res, tp_Exporter = opts, tp_SampleRatio = TracesSampleRate cfg\<rparr>,
          sdk_mp = mp, sdk_lp = lp, sdk_promHandler = prom\<rparr>)))
     (open_provider Traces Tracing s))"

definition telemetry_resource :: "TelemetryConfig \<Rightarrow> string \<Rightarrow> Resource" where
  "telemetry_resource cfg version =
     \<lparr>res_ServiceName = ServiceName cfg, res_ServiceVersion = version, res_Environment = Environment cfg\<rparr>"

definition initPrometheusOnly :: "otel_lib \<Rightarrow> TelemetryConfig \<Rightarrow> string \<Rightarrow> (otel_state, OtelProvider) op" where
  "initPrometheusOnly lib cfg version = (\<lambda>s.
     let res = telemetry_resource cfg version in
     case resource_New lib res of
       Some e \<Rightarrow> (Inl (wrapf ''creating otel resource'' e), s)
     | None \<Rightarrow> (case promexporter_New lib of
         Some e \<Rightarrow> (Inl (wrapf ''creating prometheus exporter'' e), s)
       | None \<Rightarrow>
           let mp = \<lparr>mp_Resource = res, mp_Periodic = None, mp_Prometheus = True\<rparr> in
           (Inr \<lparr>prov_Tracer = None, prov_Meter = Some mp, prov_Logger = None, PromHandler = True,
                 Shutdown = MeterShutdown\<rparr>,
            s\<lparr>open_parts := open_parts s @ [Metering], global_meter := Some mp\<rparr>)))"

definition noop_provider :: OtelProvider where
  "noop_provider = \<lparr>prov_Tracer = None, prov_Meter = None, prov_Logger = None, PromHandler = False, Shutdown = NoShutdown\<rparr>"

definition otel_Init :: "otel_lib \<Rightarrow> TelemetryConfig \<Rightarrow> string \<Rightarrow> (otel_state, OtelProvider) op" where
  "otel_Init lib cfg version =
     (if \<not> tel_Enabled cfg
      then (if prom_Enabled (Prometheus cfg) then initPrometheusOnly lib cfg version else ok noop_provider)
      else if tel_Endpoint cfg = ''''
      then (if \<not> prom_Enabled (Prometheus cfg) then ok noop_provider else initPrometheusOnly lib cfg version)
      else let res = telemetry_resource cfg version in
        case resource_New lib res of
          Some e \<Rightarrow> fail (wrapf ''creating otel resource'' e)
        | None \<Rightarrow> pass_op (newSDKProviders lib res cfg) (\<lambda>p s.
            (Inr \<lparr>prov_Tracer = Some (sdk_tp p), prov_Meter = Some (sdk_mp p), prov_Logger = Some (sdk_lp p),
                  PromHandler = sdk_promHandler p, Shutdown = AllShutdown\<rparr>,
             s\<lparr>global_tracer := Some (sdk_tp p), global_meter := Some (sdk_mp p),
               global_propagators := [''tracecontext'', ''baggage'']\<rparr>)))"

section \<open>Shutting down\<close>

definition isContextErr :: "error \<Rightarrow> bool" where
  "isContextErr e \<longleftrightarrow> errors_Is e DeadlineExceeded \<or> errors_Is e Canceled"

definition shutdown_error :: "otel_lib \<Rightarrow> part \<Rightarrow> string \<Rightarrow> error list" where
  "shutdown_error lib p msg = (case part_Shutdown lib p of
     Some e \<Rightarrow> if isContextErr e then [] else [wrapf msg e] | None \<Rightarrow> [])"

text \<open>\<^verbatim>\<open>%v\<close> of the list of errors: the messages in brackets, and no chain.\<close>

definition newShutdown :: "otel_lib \<Rightarrow> (otel_state, unit) op" where
  "newShutdown lib = (\<lambda>s.
     let errs = shutdown_error lib Tracing ''trace provider shutdown'' @
                shutdown_error lib Metering ''metric provider shutdown'' @
                shutdown_error lib Logging ''log provider shutdown''
     in (if length errs > 0
         then Inl (errorf (''telemetry shutdown errors: ['' @ Join (map error_string errs) '' '' @ '']''))
         else Inr (),
         shut Logging (shut Metering (shut Tracing s))))"

fun run_shutdown :: "otel_lib \<Rightarrow> shutdown_fn \<Rightarrow> (otel_state, unit) op" where
  "run_shutdown lib NoShutdown = ok ()"
| "run_shutdown lib MeterShutdown = (\<lambda>s.
     (case shutdown_error lib Metering ''metric provider shutdown'' of e # _ \<Rightarrow> Inl e | [] \<Rightarrow> Inr (), shut Metering s))"
| "run_shutdown lib AllShutdown = newShutdown lib"

section \<open>Instruments\<close>

record instrument =
  ins_Name :: string
  ins_Description :: string
  ins_Buckets :: "int list"

text \<open>A measurement: the instrument, the attributes, and an increment or a recorded value in
  milliseconds.\<close>

datatype measured = Increment int | Value float64

record measurement =
  ms_Name :: string
  ms_Attributes :: "(string \<times> string) list"
  ms_Value :: measured

definition counted :: "string \<Rightarrow> (string \<times> string) list \<Rightarrow> measurement" where
  "counted name attrs = \<lparr>ms_Name = name, ms_Attributes = attrs, ms_Value = Increment 1\<rparr>"

definition NewHealthMetrics :: "instrument list" where
  "NewHealthMetrics =
     [\<lparr>ins_Name = ''agentlens.health.probes.total'', ins_Description = ''Total probes by result and protocol'', ins_Buckets = []\<rparr>,
      \<lparr>ins_Name = ''agentlens.health.probes.latency'', ins_Description = ''Probe latency in milliseconds'',
        ins_Buckets = [10, 50, 100, 250, 500, 1000, 2500, 5000]\<rparr>,
      \<lparr>ins_Name = ''agentlens.health.state_transitions.total'', ins_Description = ''State transition count'', ins_Buckets = []\<rparr>]"

definition RecordProbe :: "string \<Rightarrow> string \<Rightarrow> float64 \<Rightarrow> measurement list" where
  "RecordProbe result protocol latencyMs =
     (let attrs = [(''result'', result), (''protocol'', protocol)] in
      [counted ''agentlens.health.probes.total'' attrs,
       \<lparr>ms_Name = ''agentlens.health.probes.latency'', ms_Attributes = attrs, ms_Value = Value latencyMs\<rparr>])"

definition RecordStateTransition :: "string \<Rightarrow> string \<Rightarrow> string \<Rightarrow> measurement list" where
  "RecordStateTransition from to protocol =
     [counted ''agentlens.health.state_transitions.total'' [(''from'', from), (''to'', to), (''protocol'', protocol)]]"

definition NewParserMetrics :: "instrument list" where
  "NewParserMetrics =
     [\<lparr>ins_Name = ''agentlens.parser.invocations.total'',
        ins_Description = ''Parser invocations by type, result, and spec version'', ins_Buckets = []\<rparr>,
      \<lparr>ins_Name = ''agentlens.parser.duration'', ins_Description = ''Parser duration in milliseconds'', ins_Buckets = []\<rparr>]"

definition RecordInvocation :: "string \<Rightarrow> string \<Rightarrow> string \<Rightarrow> float64 \<Rightarrow> measurement list" where
  "RecordInvocation parserType result specVersion durationMs =
     [counted ''agentlens.parser.invocations.total''
        [(''type'', parserType), (''result'', result), (''spec_version'', specVersion)],
      \<lparr>ms_Name = ''agentlens.parser.duration'', ms_Attributes = [(''type'', parserType), (''result'', result)],
       ms_Value = Value durationMs\<rparr>]"

definition NewAuthMetrics :: "instrument list" where
  "NewAuthMetrics = [\<lparr>ins_Name = ''agentlens.auth.logins.total'',
     ins_Description = ''Login attempts by result and reason'', ins_Buckets = []\<rparr>]"

definition RecordLogin :: "string \<Rightarrow> string \<Rightarrow> measurement list" where
  "RecordLogin result reason = [counted ''agentlens.auth.logins.total'' [(''result'', result), (''reason'', reason)]]"

text \<open>\<^verbatim>\<open>RegisterCatalogGauge\<close>: the instrument is created or not, and its callback observes one value per
  state each time metrics are collected; a failed count observes nothing.\<close>

definition catalog_counts :: "(db, StoreStats) op \<Rightarrow> (db, (string \<times> int) list) act" where
  "catalog_counts stats = try_op stats (\<lambda>_. ret []) (\<lambda>st. ret (ByStatus st))"

definition RegisterCatalogGauge ::
  "error option \<Rightarrow> error option \<Rightarrow> (db, (string \<times> int) list) act \<Rightarrow> error + (db, measurement list) act" where
  "RegisterCatalogGauge gauge_err callback_err countFn = (case gauge_err of
       Some e \<Rightarrow> Inl (wrapf ''creating catalog gauge'' e)
     | None \<Rightarrow> (case callback_err of Some e \<Rightarrow> Inl e | None \<Rightarrow>
         Inr (\<lambda>s. case countFn s of (counts, s') \<Rightarrow>
           (map (\<lambda>(state, count). \<lparr>ms_Name = ''agentlens.catalog.entries'', ms_Attributes = [(''state'', state)],
              ms_Value = Value (Finite count 0)\<rparr>) counts, s'))))"

section \<open>The store and its tracing decorator\<close>

text \<open>\<^verbatim>\<open>store.Store\<close> as a record of operations; identifiers and the clock come first.  \<^verbatim>\<open>Close\<close> is left
  out.\<close>

record 'w Store =
  st_UpsertProvider :: "string \<Rightarrow> time \<Rightarrow> Provider \<Rightarrow> ('w, Provider) op"
  st_Create :: "(nat \<Rightarrow> string) \<Rightarrow> time \<Rightarrow> CatalogEntry \<Rightarrow> ('w, CatalogEntry) op"
  st_Get :: "string \<Rightarrow> ('w, CatalogEntry option) op"
  st_Update :: "(nat \<Rightarrow> string) \<Rightarrow> time \<Rightarrow> CatalogEntry \<Rightarrow> ('w, unit) op"
  st_Delete :: "string \<Rightarrow> ('w, unit) op"
  st_List :: "ListFilter \<Rightarrow> ('w, CatalogEntry list) op"
  st_FindByEndpoint :: "string \<Rightarrow> ('w, CatalogEntry option) op"
  st_ListCapabilities :: "CapabilityFilter \<Rightarrow> ('w, CapabilityListResult) op"
  st_ListAgentsByCapability :: "string \<Rightarrow> string \<Rightarrow> ('w, CatalogEntry list) op"
  st_Stats :: "('w, StoreStats) op"
  st_UpdateHealth :: "time \<Rightarrow> string \<Rightarrow> Health \<Rightarrow> ('w, unit) op"
  st_ListForProbing :: "time \<Rightarrow> int \<Rightarrow> ('w, CatalogEntry list) op"
  st_SetLifecycle :: "time \<Rightarrow> string \<Rightarrow> LifecycleState \<Rightarrow> ('w, unit) op"

definition NewSQLStore :: "store_env \<Rightarrow> sql_text \<Rightarrow> (json \<Rightarrow> string) \<Rightarrow> db Store" where
  "NewSQLStore env x json_text = \<lparr>st_UpsertProvider = UpsertProvider, st_Create = SQLStore_Create env,
     st_Get = SQLStore_Get env, st_Update = SQLStore_Update env, st_Delete = SQLStore_Delete,
     st_List = SQLStore_List env x, st_FindByEndpoint = FindByEndpoint env,
     st_ListCapabilities = ListCapabilities x json_text, st_ListAgentsByCapability = ListAgentsByCapability env,
     st_Stats = SQLStore_Stats x, st_UpdateHealth = UpdateHealth, st_ListForProbing = ListForProbing env,
     st_SetLifecycle = SetLifecycle\<rparr>"

record span =
  span_Name :: string
  span_System :: string
  span_Operation :: string
  span_Error :: "string option"
  span_Count :: "nat option"

text \<open>\<^verbatim>\<open>startSpan\<close>, the operation, \<^verbatim>\<open>recordErr\<close> and \<^verbatim>\<open>span.End\<close>; \<^verbatim>\<open>size_of\<close> gives the attribute of the listing
  operations, which is set after a failure too, when the result is nil.\<close>

definition traced :: "string \<Rightarrow> string \<Rightarrow> string \<Rightarrow> (error + 'a \<Rightarrow> nat option) \<Rightarrow> ('w, 'a) op \<Rightarrow> ('w \<times> span list, 'a) op" where
  "traced dialect name operation size_of m = (\<lambda>(s, spans). case m s of (r, s') \<Rightarrow>
     (r, (s', spans @ [\<lparr>span_Name = name, span_System = dialect, span_Operation = operation,
        span_Error = (case r of Inl e \<Rightarrow> Some (error_string e) | Inr _ \<Rightarrow> None), span_Count = size_of r\<rparr>])))"

definition embedded :: "('w, 'a) op \<Rightarrow> ('w \<times> span list, 'a) op" where
  "embedded m = (\<lambda>(s, spans). case m s of (r, s') \<Rightarrow> (r, (s', spans)))"

definition no_count :: "error + 'a \<Rightarrow> nat option" where
  "no_count r = None"

definition result_count :: "error + 'a list \<Rightarrow> nat option" where
  "result_count r = Some (case r of Inl _ \<Rightarrow> 0 | Inr xs \<Rightarrow> length xs)"

definition NewTracedStore :: "'w Store \<Rightarrow> string \<Rightarrow> ('w \<times> span list) Store" where
  "NewTracedStore t dialect = \<lparr>
     st_UpsertProvider = (\<lambda>uid now p. embedded (st_UpsertProvider t uid now p)),
     st_Create = (\<lambda>uids now e. traced dialect ''store.catalog.create'' ''create'' no_count (st_Create t uids now e)),
     st_Get = (\<lambda>i. traced dialect ''store.catalog.get'' ''get'' no_count (st_Get t i)),
     st_Update = (\<lambda>uids now e. embedded (st_Update t uids now e)),
     st_Delete = (\<lambda>i. embedded (st_Delete t i)),
     st_List = (\<lambda>flt. traced dialect ''store.catalog.list'' ''list'' result_count (st_List t flt)),
     st_FindByEndpoint = (\<lambda>url. embedded (st_FindByEndpoint t url)),
     st_ListCapabilities = (\<lambda>flt. traced dialect ''store.skills.list'' ''list_capabilities'' no_count (st_ListCapabilities t flt)),
     st_ListAgentsByCapability = (\<lambda>kind name. traced dialect ''store.skills.list_agents'' ''list_agents_by_capability''
       result_count (st_ListAgentsByCapability t kind name)),
     st_Stats = embedded (st_Stats t),
     st_UpdateHealth = (\<lambda>now i h. traced dialect ''store.catalog.update_health'' ''update_health'' no_count
       (st_UpdateHealth t now i h)),
     st_ListForProbing = (\<lambda>t' n. embedded (st_ListForProbing t t' n)),
     st_SetLifecycle = (\<lambda>now i st. embedded (st_SetLifecycle t now i st))\<rparr>"

text \<open>The part of the store that the prober uses, and the prober's store as \<^verbatim>\<open>main\<close> wires it.\<close>

definition prober_of :: "'w Store \<Rightarrow> 'w proberStore" where
  "prober_of t = \<lparr>ps_Get = st_Get t, ps_UpdateHealth = st_UpdateHealth t, ps_ListForProbing = st_ListForProbing t\<rparr>"

definition traced_sql :: "store_env \<Rightarrow> sql_text \<Rightarrow> (json \<Rightarrow> string) \<Rightarrow> string \<Rightarrow> (db \<times> span list) Store" where
  "traced_sql env x json_text dialect = NewTracedStore (NewSQLStore env x json_text) dialect"

section \<open>Properties\<close>

lemmas otel_defs = new_exporter_def newTraceExporter_def newMetricExporter_def newLogExporter_def open_provider_def
  shut_def newMeterProvider_def newLoggerProvider_def newSDKProviders_def initPrometheusOnly_def noop_provider_def op_defs

text \<open>The parts that a provider value stands for.\<close>

definition parts_of :: "OtelProvider \<Rightarrow> part list" where
  "parts_of p = (case prov_Tracer p of Some _ \<Rightarrow> [Tracing] | None \<Rightarrow> []) @
     (case prov_Meter p of Some _ \<Rightarrow> [Metering] | None \<Rightarrow> []) @ (case prov_Logger p of Some _ \<Rightarrow> [Logging] | None \<Rightarrow> [])"

definition globals_of :: "otel_state \<Rightarrow> TracerProvider option \<times> MeterProvider option \<times> string list" where
  "globals_of s = (global_tracer s, global_meter s, global_propagators s)"

lemma newSDKProviders_cases:
  assumes run: "newSDKProviders lib res cfg s = (r, s')" and clean: "open_parts s = []"
  shows "globals_of s' = globals_of s \<and> (case r of
      Inl e \<Rightarrow> open_parts s' = [] \<or>
        (open_parts s' = [Exporter Metrics] \<and> prom_Enabled (Prometheus cfg) \<and> promexporter_New lib \<noteq> None)
    | Inr p \<Rightarrow> open_parts s' = [Tracing, Metering, Logging] \<and> sdk_promHandler p = prom_Enabled (Prometheus cfg))"
  using run clean
  by (auto simp: otel_defs globals_of_def split: option.splits if_splits)

text \<open>Which providers come together, and with which \<^verbatim>\<open>Shutdown\<close>.\<close>

definition provider_shape :: "OtelProvider \<Rightarrow> bool" where
  "provider_shape p \<longleftrightarrow> (prov_Tracer p = None \<longrightarrow> prov_Logger p = None) \<and>
     (prov_Tracer p \<noteq> None \<longrightarrow> prov_Meter p \<noteq> None \<and> prov_Logger p \<noteq> None) \<and>
     Shutdown p = (if prov_Tracer p \<noteq> None then AllShutdown else if prov_Meter p \<noteq> None then MeterShutdown else NoShutdown)"

lemma otel_Init_cases:
  assumes run: "otel_Init lib cfg version s = (r, s')" and clean: "open_parts s = []"
  shows "case r of
      Inl e \<Rightarrow> globals_of s' = globals_of s \<and> (open_parts s' = [] \<or>
        (open_parts s' = [Exporter Metrics] \<and> prom_Enabled (Prometheus cfg) \<and> promexporter_New lib \<noteq> None))
    | Inr p \<Rightarrow> open_parts s' = parts_of p \<and> PromHandler p = prom_Enabled (Prometheus cfg) \<and>
        (prov_Logger p \<noteq> None \<longleftrightarrow> tel_Enabled cfg \<and> tel_Endpoint cfg \<noteq> '''') \<and> provider_shape p"
proof (cases "tel_Enabled cfg \<and> tel_Endpoint cfg \<noteq> '''' \<and> resource_New lib (telemetry_resource cfg version) = None")
  case True
  then obtain q s1 where sdk: "newSDKProviders lib (telemetry_resource cfg version) cfg s = (q, s1)" by fastforce
  show ?thesis
    using True run newSDKProviders_cases [OF sdk clean] sdk
    by (cases q) (auto simp: otel_Init_def Let_def pass_op_def try_op_def globals_of_def parts_of_def provider_shape_def)
next
  case False
  then show ?thesis
    using run clean
    by (auto simp: otel_Init_def initPrometheusOnly_def noop_provider_def Let_def globals_of_def parts_of_def
        provider_shape_def split: option.splits if_splits)
qed

definition stops_cleanly :: "otel_lib \<Rightarrow> part \<Rightarrow> bool" where
  "stops_cleanly lib q \<longleftrightarrow> (case part_Shutdown lib q of Some e \<Rightarrow> isContextErr e | None \<Rightarrow> True)"

lemma run_shutdown_closes:
  assumes "open_parts s = parts_of p" "provider_shape p"
  shows "open_parts (snd (run_shutdown lib (Shutdown p) s)) = [] \<and>
    (fst (run_shutdown lib (Shutdown p) s) = Inr () \<longleftrightarrow> list_all (stops_cleanly lib) (parts_of p))"
  using assms
  by (auto simp: parts_of_def provider_shape_def newShutdown_def shutdown_error_def stops_cleanly_def shut_def Let_def
      split: option.splits if_splits list.splits)

text \<open>
  \<^bold>\<open>C24\<close>: Setting up telemetry succeeds or fails as a whole.  On failure the global providers are as
  before and every provider that was created has been shut down; what can be left is the metric
  exporter, when the Prometheus exporter is refused after it.  On success \<^verbatim>\<open>/metrics\<close> has a handler
  exactly when Prometheus is enabled, logs are exported exactly when export is enabled with an endpoint,
  and the \<^verbatim>\<open>Shutdown\<close> function leaves nothing open and reports an error exactly when some provider failed
  for another reason than the deadline.
\<close>

theorem telemetry_lifecycle:
  assumes "otel_Init lib cfg version s = (r, s')" and "open_parts s = []"
  shows "(\<exists>e. r = Inl e \<and> globals_of s' = globals_of s \<and> (open_parts s' = [] \<or>
        (open_parts s' = [Exporter Metrics] \<and> prom_Enabled (Prometheus cfg) \<and> promexporter_New lib \<noteq> None))) \<or>
    (\<exists>p. r = Inr p \<and> open_parts s' = parts_of p \<and> PromHandler p = prom_Enabled (Prometheus cfg) \<and>
       (prov_Logger p \<noteq> None \<longleftrightarrow> tel_Enabled cfg \<and> tel_Endpoint cfg \<noteq> '''') \<and>
       open_parts (snd (run_shutdown lib (Shutdown p) s')) = [] \<and>
       (fst (run_shutdown lib (Shutdown p) s') = Inr () \<longleftrightarrow> list_all (stops_cleanly lib) (parts_of p)))"
  using otel_Init_cases [OF assms] run_shutdown_closes by (cases r) auto

definition failing_prom :: otel_lib where
  "failing_prom = \<lparr>resource_New = (\<lambda>_. None), exporter_New = (\<lambda>_ _. None),
     promexporter_New = Some (errorf ''duplicate collector''),
     part_Shutdown = (\<lambda>p. if p = Tracing then Some (Error ''deadline'' [DeadlineExceeded]) else None)\<rparr>"

definition exporting :: TelemetryConfig where
  "exporting = (Telemetry defaults)\<lparr>tel_Enabled := True, tel_Endpoint := ''otel:4317''\<rparr>"

theorem telemetry_lifecycle_witness:
  "(\<exists>p s'. otel_Init failing_prom exporting ''v1'' otel_start = (Inr p, s') \<and> prov_Logger p \<noteq> None \<and>
     fst (run_shutdown failing_prom (Shutdown p) s') = Inr ()) \<and>
   open_parts (snd (otel_Init failing_prom (exporting\<lparr>Prometheus := \<lparr>prom_Enabled = True\<rparr>\<rparr>) ''v1'' otel_start)) = [Exporter Metrics]"
proof -
  let ?cfg = "exporting\<lparr>Prometheus := \<lparr>prom_Enabled = True\<rparr>\<rparr>"
  obtain r s' where run: "otel_Init failing_prom exporting ''v1'' otel_start = (r, s')" by fastforce
  have "\<forall>e. r \<noteq> Inl e"
    using run by (auto simp: otel_Init_def otel_defs Let_def failing_prom_def exporting_def defaults_def)
  then obtain p where p: "r = Inr p" "prov_Logger p \<noteq> None" "open_parts s' = parts_of p"
      "fst (run_shutdown failing_prom (Shutdown p) s') = Inr () \<longleftrightarrow> list_all (stops_cleanly failing_prom) (parts_of p)"
    using telemetry_lifecycle [OF run] by (auto simp: otel_start_def exporting_def)
  have "stops_cleanly failing_prom q" for q
    by (auto simp: stops_cleanly_def failing_prom_def isContextErr_def errors_Is_def)
  then have "fst (run_shutdown failing_prom (Shutdown p) s') = Inr ()" using p(4) by (simp add: list_all_iff)
  moreover have "open_parts (snd (otel_Init failing_prom ?cfg ''v1'' otel_start)) = [Exporter Metrics]"
    by (simp add: otel_Init_def otel_defs Let_def failing_prom_def exporting_def otel_start_def)
  ultimately show ?thesis using run p by blast
qed

section \<open>The decorator is transparent\<close>

text \<open>\<^verbatim>\<open>erases M m\<close>: \<^verbatim>\<open>M\<close> does to the state below what \<^verbatim>\<open>m\<close> does, gives the same result, and only adds spans.
  The relation is closed under the ways in which the callers put operations together.\<close>

definition erases :: "('w \<times> span list, 'r) act \<Rightarrow> ('w, 'r) act \<Rightarrow> bool" where
  "erases M m \<longleftrightarrow> (\<forall>s spans. \<exists>new. M (s, spans) = (fst (m s), (snd (m s), spans @ new)))"

lemma erases_traced [simp, intro]: "erases (traced d name operation size_of m) m"
  by (auto simp: erases_def traced_def split: prod.split)

lemma erases_embedded [simp, intro]: "erases (embedded m) m"
  by (auto simp: erases_def embedded_def split: prod.split)

lemma erases_ret [simp, intro]: "erases (ret r) (ret r)"
  by (simp add: erases_def)

lemma erases_try [intro]:
  assumes M: "erases M m" and H: "\<And>e. erases (H e) (h e)" and F: "\<And>x. erases (F x) (f x)"
  shows "erases (try_op M H F) (try_op m h f)"
  unfolding erases_def
proof (intro allI)
  fix s spans
  obtain r s1 where m: "m s = (r, s1)" by fastforce
  then obtain new where M1: "M (s, spans) = (r, (s1, spans @ new))" using M unfolding erases_def by (metis fst_conv snd_conv)
  have "\<exists>more. (case r of Inl e \<Rightarrow> H e | Inr x \<Rightarrow> F x) (s1, spans @ new) =
      (fst ((case r of Inl e \<Rightarrow> h e | Inr x \<Rightarrow> f x) s1),
       (snd ((case r of Inl e \<Rightarrow> h e | Inr x \<Rightarrow> f x) s1), (spans @ new) @ more))"
    using H F unfolding erases_def by (cases r) (simp_all del: append_assoc)
  then show "\<exists>new. try_op M H F (s, spans) =
      (fst (try_op m h f s), (snd (try_op m h f s), spans @ new))"
    using m M1 by (cases r) (auto simp: try_op_def)
qed

lemma erases_ignore [intro]: "erases M m \<Longrightarrow> erases K k \<Longrightarrow> erases (ignore_op M K) (ignore_op m k)"
  unfolding ignore_op_def by (rule erases_try)

lemma erases_bind [intro]:
  "erases M m \<Longrightarrow> (\<And>x. erases (F x) (f x)) \<Longrightarrow> erases (bind_op M msg F) (bind_op m msg f)"
  unfolding bind_op_def by (intro erases_try erases_ret)

lemma erases_probe_batch:
  assumes "\<And>now i h. erases (ps_UpdateHealth S now i h) (ps_UpdateHealth T now i h)"
  shows "erases (probe_batch S p http clock es) (probe_batch T p http clock es)"
proof (induction es)
  case Nil
  show ?case unfolding probe_batch.simps by (rule erases_ret)
next
  case (Cons e es)
  then show ?case unfolding probe_batch.simps by (intro erases_ignore assms)
qed

lemma erases_checkAll:
  "erases (checkAll (prober_of (NewTracedStore t d)) p http clock order now) (checkAll (prober_of t) p http clock order now)"
  unfolding checkAll_def Let_def
  by (intro erases_try erases_ret erases_probe_batch; simp add: prober_of_def NewTracedStore_def)

lemma erases_ProbeEntry:
  "erases (ProbeEntry (prober_of (NewTracedStore t d)) p http now i) (ProbeEntry (prober_of t) p http now i)"
  unfolding ProbeEntry_def Let_def fail_def ok_def
proof (intro erases_bind)
  show "erases (ps_Get (prober_of (NewTracedStore t d)) i) (ps_Get (prober_of t) i)"
    by (simp add: prober_of_def NewTracedStore_def)
qed (auto intro!: erases_ignore simp: prober_of_def NewTracedStore_def split: option.split)


text \<open>Over the SQL store this is the prober of the theory of the probes.\<close>

lemma prober_of_SQLStore: "prober_of (NewSQLStore env x json_text) = sql_prober env"
  by (simp add: prober_of_def NewSQLStore_def sql_prober_def)

text \<open>A traced operation ends one span, with an error status exactly when it failed.\<close>

lemma traced_one_span:
  assumes "traced d name operation size_of m (s, spans) = (r, (s', spans'))"
  shows "\<exists>sp. spans' = spans @ [sp] \<and> span_Name sp = name \<and> (span_Error sp \<noteq> None \<longleftrightarrow> (\<exists>e. r = Inl e))"
  using assms by (cases r) (auto simp: traced_def split: prod.splits sum.splits)

end
