(* ===== verification/Discovery.thy ===== *)
theory Discovery
  imports Config
begin

text \<open>
  Discovery (\<^verbatim>\<open>internal/discovery\<close>, \<^verbatim>\<open>plugins/sources\<close>): the sources that find agent
  cards and the manager that reconciles what they report with the catalog.

  A source is its name and its \<^verbatim>\<open>Discover\<close> function.  The HTTP exchange of the crawler and the
  Kubernetes client are arguments.  Each reported agent carries the identifiers that are drawn and the
  time that is read while it is handled, so a cycle is a function of the database.
\<close>

section \<open>The crawler\<close>

text \<open>\<^verbatim>\<open>http_get url\<close> is the status and the body, or an error.\<close>

type_synonym http_get = "string \<Rightarrow> error + (int \<times> (error + string))"

definition FetchCard :: "http_get \<Rightarrow> string \<Rightarrow> error + string" where
  "FetchCard get url = (case get url of
       Inl e \<Rightarrow> Inl (wrapf (''fetching card from '' @ url) e)
     | Inr (st, body) \<Rightarrow>
         if st \<noteq> 200
         then Inl (errorf (''unexpected status '' @ decimal st @ '' fetching '' @ url))
         else (case body of Inl e \<Rightarrow> Inl (wrapf ''reading response body'' e) | Inr b \<Rightarrow> Inr b))"

section \<open>Static sources\<close>

text \<open>The results without the ones that failed.\<close>

fun successes :: "(error + 'a) list \<Rightarrow> 'a list" where
  "successes [] = []"
| "successes (Inl _ # rs) = successes rs"
| "successes (Inr x # rs) = x # successes rs"

definition ParseA2ACard :: "parser_env \<Rightarrow> string \<Rightarrow> error + AgentType" where
  "ParseA2ACard env raw = A2A_Parse env raw"

definition ParseMCPCard :: "parser_env \<Rightarrow> time \<Rightarrow> string \<Rightarrow> error + AgentType" where
  "ParseMCPCard env now raw = MCP_Parse env now raw"

definition StaticSource_fetchOne :: "parser_env \<Rightarrow> http_get \<Rightarrow> time \<Rightarrow> source_config \<Rightarrow> error + AgentType" where
  "StaticSource_fetchOne env get now src = (case FetchCard get (src_URL src) of
       Inl e \<Rightarrow> Inl (wrapf ''fetching card'' e)
     | Inr raw \<Rightarrow>
         if src_Type src = ''a2a'' then ParseA2ACard env raw
         else if src_Type src = ''mcp'' then ParseMCPCard env now raw
         else Inl (errorf (''unsupported source type: '' @ quote (src_Type src) @ '' (must be \"a2a\" or \"mcp\")'')))"

definition StaticSource_Discover :: "parser_env \<Rightarrow> http_get \<Rightarrow> time \<Rightarrow> source_config list \<Rightarrow> error + AgentType list" where
  "StaticSource_Discover env get now srcs = Inr (successes (map (StaticSource_fetchOne env get now) srcs))"

text \<open>The plugin form looks the parser up in the kernel and takes the card's URL as the endpoint.\<close>

definition StaticPlugin_fetchOne :: "(Protocol \<Rightarrow> ParserPlugin option) \<Rightarrow> http_get \<Rightarrow> time \<Rightarrow> source_config \<Rightarrow> error + AgentType" where
  "StaticPlugin_fetchOne parsers get now src = (case FetchCard get (src_URL src) of
       Inl e \<Rightarrow> Inl (wrapf ''fetching card'' e)
     | Inr raw \<Rightarrow> (case parsers (src_Type src) of
           None \<Rightarrow> Inl (errorf (''no parser for protocol '' @ src_Type src))
         | Some parser \<Rightarrow> (case pp_Parse parser now raw of
               Inl e \<Rightarrow> Inl (wrapf ''parsing card'' e)
             | Inr t \<Rightarrow> Inr (t\<lparr>Endpoint := src_URL src\<rparr>))))"

definition StaticPlugin_Discover :: "(Protocol \<Rightarrow> ParserPlugin option) \<Rightarrow> http_get \<Rightarrow> time \<Rightarrow> source_config list \<Rightarrow> error + AgentType list" where
  "StaticPlugin_Discover parsers get now srcs = Inr (successes (map (StaticPlugin_fetchOne parsers get now) srcs))"

section \<open>Kubernetes sources\<close>

text \<open>A service: its annotations are a nil map or a map.\<close>

record Service =
  svc_Name :: string
  svc_Namespace :: string
  svc_Annotations :: "(string \<rightharpoonup> string) option"
  svc_Ports :: "int list"

definition firstPort :: "Service \<Rightarrow> int" where
  "firstPort svc = (case svc_Ports svc of p # _ \<Rightarrow> p | [] \<Rightarrow> 80)"

definition annotation :: "(string \<rightharpoonup> string) \<Rightarrow> string \<Rightarrow> string" where
  "annotation ann k = (case ann k of Some v \<Rightarrow> v | None \<Rightarrow> '''')"

definition card_url :: "Service \<Rightarrow> string \<Rightarrow> string" where
  "card_url svc cardPath = ''http://'' @ svc_Name svc @ ''.'' @ svc_Namespace svc @ ''.svc.cluster.local:'' @
     decimal (firstPort svc) @ cardPath"

definition zero_Provider :: Provider where
  "zero_Provider = \<lparr>provider_ID = '''', Organization = '''', Team = '''', provider_URL = '''', provider_CreatedOn = zero_time\<rparr>"

definition with_team :: "string \<Rightarrow> AgentType \<Rightarrow> AgentType" where
  "with_team team t =
     (let p = (case agent_Provider t of Some p \<Rightarrow> p | None \<Rightarrow> zero_Provider)
      in t\<lparr>agent_Provider := Some (if team \<noteq> '''' then p\<lparr>Team := team\<rparr> else p)\<rparr>)"

text \<open>\<^verbatim>\<open>None\<close> is the pair \<^verbatim>\<open>(nil, nil)\<close>: not an agent.\<close>

definition K8sSource_processService :: "parser_env \<Rightarrow> http_get \<Rightarrow> time \<Rightarrow> Service \<Rightarrow> error + AgentType option" where
  "K8sSource_processService env get now svc = (case svc_Annotations svc of
       None \<Rightarrow> Inr None
     | Some ann \<Rightarrow> (case ann ''agentlens.io/type'' of
         None \<Rightarrow> Inr None
       | Some ty \<Rightarrow>
          (let path = annotation ann ''agentlens.io/card-path'';
               cardPath = (if path \<noteq> '''' then path
                 else if ty = ''mcp'' then ''/.well-known/mcp/server.json'' else ''/.well-known/agent-card.json'');
               url = card_url svc cardPath
           in case FetchCard get url of
                Inl e \<Rightarrow> Inl (wrapf (''fetching card from '' @ url) e)
              | Inr raw \<Rightarrow> (case (if ty = ''mcp'' then ParseMCPCard env now raw else ParseA2ACard env raw) of
                    Inl e \<Rightarrow> Inl (wrapf ''parsing card'' e)
                  | Inr t \<Rightarrow> Inr (Some (with_team (annotation ann ''agentlens.io/team'') t))))))"

definition K8sPlugin_processService ::
    "(Protocol \<Rightarrow> ParserPlugin option) \<Rightarrow> http_get \<Rightarrow> time \<Rightarrow> Service \<Rightarrow> error + AgentType option" where
  "K8sPlugin_processService parsers get now svc = (case svc_Annotations svc of
       None \<Rightarrow> Inr None
     | Some ann \<Rightarrow> (case ann ''agentlens.io/type'' of
         None \<Rightarrow> Inr None
       | Some ty \<Rightarrow> (case parsers ty of
           None \<Rightarrow> Inl (errorf (''no parser for protocol '' @ ty))
         | Some parser \<Rightarrow>
            (let path = annotation ann ''agentlens.io/card-path'';
                 url = card_url svc (if path \<noteq> '''' then path else pp_CardPath parser)
             in case FetchCard get url of
                  Inl e \<Rightarrow> Inl (wrapf (''fetching card from '' @ url) e)
                | Inr raw \<Rightarrow> (case pp_Parse parser now raw of
                      Inl e \<Rightarrow> Inl (wrapf ''parsing card'' e)
                    | Inr t \<Rightarrow> Inr (Some (with_team (annotation ann ''agentlens.io/team'') (t\<lparr>Endpoint := url\<rparr>))))))))"

text \<open>A namespace that cannot be listed fails the whole discovery; a service that cannot be
  processed is skipped.\<close>

fun K8s_Discover :: "(string \<Rightarrow> error + Service list) \<Rightarrow> (Service \<Rightarrow> error + AgentType option) \<Rightarrow> string list \<Rightarrow>
    error + AgentType list" where
  "K8s_Discover list_services process [] = Inr []"
| "K8s_Discover list_services process (ns # nss) = (case list_services ns of
       Inl e \<Rightarrow> Inl (wrapf (''listing services in namespace '' @ ns) e)
     | Inr svcs \<Rightarrow> map_sum id
         ((@) (concat (map (\<lambda>r. case r of Some t \<Rightarrow> [t] | None \<Rightarrow> []) (successes (map process svcs)))))
         (K8s_Discover list_services process nss))"

section \<open>The manager\<close>

record Manager =
  m_store :: store_env
  m_text :: sql_text
  m_json :: parser_env
  m_cardStore :: bool

text \<open>An agent as it is handled: what is drawn and read on the way.\<close>

record found_agent =
  found_type :: AgentType
  found_ids :: fresh_ids
  found_now :: time

definition sourceType :: "string \<Rightarrow> SourceType" where
  "sourceType name = (if name = ''k8s'' then SourceK8s else if name = ''static'' then SourceConfig else SourceUpstream)"

definition maybeStoreCard :: "Manager \<Rightarrow> time \<Rightarrow> string \<Rightarrow> string \<Rightarrow> (db, 'r) act \<Rightarrow> (db, 'r) act" where
  "maybeStoreCard m now agentTypeID rawBytes k =
     (if rawBytes = '''' then k else if \<not> m_cardStore m then k
      else ignore_op (StoreCard now agentTypeID rawBytes ''application/json'') k)"

definition refreshed :: "Manager \<Rightarrow> time \<Rightarrow> AgentType \<Rightarrow> CatalogEntry \<Rightarrow> CatalogEntry" where
  "refreshed m now at existing =
     existing\<lparr>entry_AgentType := map_option (\<lambda>t. t\<lparr>agent_Protocol := agent_Protocol at,
          AgentKey := ComputeAgentKey (m_json m) (agent_Protocol at) (Endpoint at),
          agent_Version := agent_Version at, agent_SpecVersion := agent_SpecVersion at,
          agent_Provider := agent_Provider at, Capabilities := Capabilities at\<rparr>) (entry_AgentType existing),
        entry_Validity := (entry_Validity existing)\<lparr>validity_LastSeen := now\<rparr>, UpdatedAt := now\<rparr>"

definition discovered_type :: "Manager \<Rightarrow> string \<Rightarrow> AgentType \<Rightarrow> AgentType" where
  "discovered_type m typeID at = at\<lparr>agent_type_ID := typeID,
     AgentKey := ComputeAgentKey (m_json m) (agent_Protocol at) (Endpoint at)\<rparr>"

text \<open>The first loop of \<^verbatim>\<open>upsert\<close>; the result is the identifiers seen.\<close>

fun upsert_each :: "Manager \<Rightarrow> SourceType \<Rightarrow> found_agent list \<Rightarrow> string list \<Rightarrow> (db, string list) op" where
  "upsert_each m source [] seen = ok seen"
| "upsert_each m source (f # fs) seen =
     (let at = found_type f; now = found_now f; ids = found_ids f in
      bind_op (FindByEndpoint (m_store m) (Endpoint at)) ''finding by endpoint'' (\<lambda>existing.
      case existing of
        Some e \<Rightarrow>
          if Source e = SourcePush then upsert_each m source fs seen
          else try_op (SQLStore_Update (m_store m) (new_capIDs ids) now (refreshed m now at e))
                 (\<lambda>_. upsert_each m source fs (entry_ID e # seen))
                 (\<lambda>_. case entry_AgentType e of
                     None \<Rightarrow> upsert_each m source fs (entry_ID e # seen)
                   | Some t \<Rightarrow> maybeStoreCard m now (agent_type_ID t) (RawBytes at)
                       (upsert_each m source fs (entry_ID e # seen)))
      | None \<Rightarrow>
          let t = discovered_type m (new_typeID ids) at;
              entry = fresh_entry (new_entryID ids) now (Endpoint at) '''' source t
          in try_op (SQLStore_Create (m_store m) (new_capIDs ids) now entry)
               (\<lambda>_. upsert_each m source fs seen)
               (\<lambda>_. maybeStoreCard m now (new_typeID ids) (RawBytes at)
                  (upsert_each m source fs (new_entryID ids # seen)))))"

text \<open>The second loop: entries of the source that were not seen go offline.\<close>

definition gone_offline :: "time \<Rightarrow> CatalogEntry \<Rightarrow> CatalogEntry" where
  "gone_offline now e = e\<lparr>Status := LifecycleOffline, UpdatedAt := now\<rparr>"

fun mark_unseen :: "Manager \<Rightarrow> (string \<Rightarrow> nat \<Rightarrow> string) \<Rightarrow> time \<Rightarrow> string list \<Rightarrow> CatalogEntry list \<Rightarrow> (db, unit) op" where
  "mark_unseen m uids now seen [] = ok ()"
| "mark_unseen m uids now seen (e # es) =
     (if entry_ID e \<in> set seen then mark_unseen m uids now seen es
      else ignore_op (SQLStore_Update (m_store m) (uids (entry_ID e)) now (gone_offline now e))
             (mark_unseen m uids now seen es))"

definition source_filter :: "SourceType \<Rightarrow> ListFilter" where
  "source_filter source = no_filter\<lparr>filter_Source := Some source\<rparr>"

definition upsert :: "Manager \<Rightarrow> (string \<Rightarrow> nat \<Rightarrow> string) \<Rightarrow> time \<Rightarrow> string \<Rightarrow> found_agent list \<Rightarrow> (db, unit) op" where
  "upsert m uids now sourceName found =
     (let source = sourceType sourceName in
      pass_op (upsert_each m source found []) (\<lambda>seen.
      bind_op (SQLStore_List (m_store m) (m_text m) (source_filter source)) ''listing entries for source'' (\<lambda>allEntries.
      mark_unseen m uids now seen allEntries)))"

text \<open>One polling cycle over the results of all sources; errors are logged.\<close>

record scan =
  scan_source :: string
  scan_result :: "error + found_agent list"
  scan_uids :: "string \<Rightarrow> nat \<Rightarrow> string"
  scan_now :: time

fun runOnce :: "Manager \<Rightarrow> scan list \<Rightarrow> (db, unit) act" where
  "runOnce m [] = ret ()"
| "runOnce m (sc # scs) = (case scan_result sc of
       Inl _ \<Rightarrow> runOnce m scs
     | Inr found \<Rightarrow> ignore_op (upsert m (scan_uids sc) (scan_now sc) (scan_source sc) found) (runOnce m scs))"

section \<open>What discovery never touches\<close>

text \<open>
  What a cycle may have made of the entries \<^verbatim>\<open>es\<close> it started from: a row is one of them with its
  status unchanged or offline, or it is new; the pushed ones are still there as they were.
\<close>

definition pushed_ids :: "CatalogEntry list \<Rightarrow> string set" where
  "pushed_ids es = entry_ID ` {e \<in> set es. Source e = SourcePush}"

definition allowed :: "CatalogEntry list \<Rightarrow> CatalogEntry \<Rightarrow> bool" where
  "allowed es r \<longleftrightarrow>
     (\<exists>e \<in> set es. entry_ID e = entry_ID r \<and> Source e = Source r \<and> (Status r = Status e \<or> Status r = LifecycleOffline)) \<or>
     (entry_ID r \<notin> entry_ID ` set es \<and> Source r \<noteq> SourcePush \<and> Status r \<in> {LifecycleRegistered, LifecycleOffline})"

definition keeps :: "CatalogEntry list \<Rightarrow> db \<Rightarrow> bool" where
  "keeps P s \<longleftrightarrow> distinct (map entry_ID (catalog_entries s)) \<and>
     entry_ID ` set P \<subseteq> entry_ID ` set (catalog_entries s) \<and>
     (\<forall>p \<in> set P. Source p = SourcePush \<longrightarrow> p \<in> set (catalog_entries s)) \<and>
     (\<forall>r \<in> set (catalog_entries s). allowed P r)"

interpretation kp: table_invariant "keeps P" for P
  by unfold_locales (simp add: keeps_def)

lemma keeps_start: "distinct (map entry_ID (catalog_entries s)) \<Longrightarrow> keeps (catalog_entries s) s"
  by (auto simp: keeps_def allowed_def)

lemma keeps_other_tables [simp]:
  "keeps P (s\<lparr>providers := a\<rparr>) = keeps P s" "keeps P (s\<lparr>agent_types := b\<rparr>) = keeps P s"
  "keeps P (s\<lparr>capabilities := c\<rparr>) = keeps P s" "keeps P (s\<lparr>raw_cards := d\<rparr>) = keeps P s"
  "keeps P (s\<lparr>catalog_project_memberships := f\<rparr>) = keeps P s"
  by (simp_all add: keeps_def)

lemma allowed_cong:
  assumes "allowed P r" "entry_ID r' = entry_ID r" "Source r' = Source r"
    "Status r' = Status r \<or> Status r' = LifecycleOffline"
  shows "allowed P r'"
  using assms by (auto simp: allowed_def)

lemma entry_row_keys [simp]:
  "entry_ID (entry_row e) = entry_ID e" "Source (entry_row e) = Source e" "Status (entry_row e) = Status e"
  by (simp_all add: entry_row_def)

lemma allowed_row [simp]: "allowed P (entry_row e) = allowed P e"
  by (simp add: allowed_def entry_row_def)

text \<open>A value that was read from a row, as far as discovery looks at it.\<close>

definition loaded :: "CatalogEntry list \<Rightarrow> CatalogEntry \<Rightarrow> bool" where
  "loaded P e \<longleftrightarrow> allowed P e \<and> (Source e \<noteq> SourcePush \<longrightarrow> entry_ID e \<notin> pushed_ids P)"

lemma row_loaded:
  assumes k: "keeps P s" and r: "r \<in> set (catalog_entries s)"
    and e: "entry_ID e = entry_ID r" "Source e = Source r" "Status e = Status r"
  shows "loaded P e"
proof -
  have "allowed P r" using k r by (simp add: keeps_def)
  then have "allowed P e" using e by (metis allowed_cong)
  moreover have "Source r = SourcePush" if id: "entry_ID r \<in> pushed_ids P"
  proof -
    obtain p where p: "p \<in> set P" "Source p = SourcePush" "entry_ID p = entry_ID r"
      using id by (auto simp: pushed_ids_def)
    then have "p \<in> set (catalog_entries s)" "distinct (map entry_ID (catalog_entries s))"
      using k by (simp_all add: keeps_def)
    then have "p = r" using p(3) r by (metis distinct_map inj_onD)
    then show ?thesis using p by simp
  qed
  ultimately show ?thesis using e by (auto simp: loaded_def)
qed

lemma insert_or_ignore_keeps:
  assumes "\<And>t s. keeps P s \<Longrightarrow> keeps P (put t s)"
  shows "preserves (keeps P) (insert_or_ignore tab put clash x)"
  unfolding insert_or_ignore_def by (rule kp.preserves_exec) (simp add: assms split: option.split)

lemma insert_rows_keeps:
  assumes "\<And>t s. keeps P s \<Longrightarrow> keeps P (put t s)"
  shows "preserves (keeps P) (insert_rows tab put clash xs)"
  unfolding insert_rows_def by (rule kp.preserves_exec) (simp add: assms split: option.split)

lemma save_agent_type_keeps: "preserves (keeps P) (save_row agent_types put_agent_types key clash row fresh)"
  unfolding save_row_def by (rule kp.preserves_exec) (simp add: Let_def split: option.split)

lemma insert_others_keeps:
  "preserves (keeps P) (insert_row agent_types put_agent_types clash x)"
  "preserves (keeps P) (insert_row catalog_project_memberships put_memberships clash' y)"
  by (rule kp.preserves_insert_row, simp)+

lemma save_entry_keeps:
  assumes row: "allowed P row" "entry_ID row \<notin> pushed_ids P"
    and fresh: "entry_ID fresh = entry_ID row" "Source fresh = Source row"
      "Status fresh = (if Status row = '''' then LifecycleRegistered else Status row)"
  shows "preserves (keeps P) (save_row catalog_entries put_entries entry_ID clash row fresh)"
  unfolding save_row_def
proof (rule kp.preserves_exec)
  fix s assume k: "keeps P s"
  let ?es = "catalog_entries s" and ?g = "\<lambda>q. if entry_ID q = entry_ID row then row else q"
  have ids: "map entry_ID (map ?g es) = map entry_ID es" for es by (induction es) auto
  then have img: "entry_ID ` set (map ?g ?es) = entry_ID ` set ?es" by (metis set_map)
  have "p \<in> set (map ?g ?es)" if "p \<in> set P" "Source p = SourcePush" for p
  proof -
    have "p \<in> set ?es" "entry_ID p \<noteq> entry_ID row"
      using k row(2) that by (auto simp: keeps_def pushed_ids_def image_iff)
    then show ?thesis by force
  qed
  moreover have "allowed P r" if "r \<in> set (map ?g ?es)" for r
    using that row(1) k by (auto simp: keeps_def split: if_splits)
  moreover have "distinct (map entry_ID (map ?g ?es))" "entry_ID ` set P \<subseteq> entry_ID ` set (map ?g ?es)"
    using k unfolding ids img by (simp_all add: keeps_def)
  moreover have "catalog_entries (s\<lparr>catalog_entries := map ?g ?es\<rparr>) = map ?g ?es" by simp
  ultimately have replaced: "keeps P (s\<lparr>catalog_entries := map ?g ?es\<rparr>)"
    unfolding keeps_def by (simp only:) blast
  have "keeps P (s\<lparr>catalog_entries := ?es @ [fresh]\<rparr>)" if new: "\<not> (\<exists>q \<in> set ?es. entry_ID q = entry_ID row)"
  proof -
    have gone: "entry_ID row \<notin> entry_ID ` set P" using k new by (auto simp: keeps_def)
    then have "\<not> (\<exists>e \<in> set P. entry_ID e = entry_ID row \<and> Source e = Source row \<and>
        (Status row = Status e \<or> Status row = LifecycleOffline))" by (metis imageI)
    then have "Source row \<noteq> SourcePush \<and> Status row \<in> {LifecycleRegistered, LifecycleOffline}"
      using row(1) unfolding allowed_def by blast
    then have "allowed P fresh" using gone fresh by (auto simp: allowed_def)
    then show ?thesis using k new fresh(1) by (auto simp: keeps_def)
  qed
  then show "keeps P (snd (let others = filter (\<lambda>q. entry_ID q \<noteq> entry_ID row) ?es in
      case clash row others of
        Some cols \<Rightarrow> (Inl (errorf (''UNIQUE constraint failed: '' @ cols)), s)
      | None \<Rightarrow> if \<exists>q \<in> set ?es. entry_ID q = entry_ID row
          then (Inr (), put_entries (map ?g ?es) s) else (Inr (), put_entries (?es @ [fresh]) s)))"
    using k replaced by (simp add: Let_def split: option.split)
qed

lemmas keeps_rules = insert_or_ignore_keeps insert_rows_keeps insert_others_keeps save_agent_type_keeps
  kp.preserves_modify kp.preserves_query kp.preserves_First kp.preserves_Transaction preserves_rule

lemma save_type_of_keeps: "preserves (keeps P) (save_type_of orm e)"
  unfolding save_type_of_def save_provider_of_def by (intro keeps_rules) simp_all

lemma save_provider_of_keeps: "preserves (keeps P) (save_provider_of t)"
  unfolding save_provider_of_def by (intro keeps_rules) simp_all

lemma insert_capabilities_keeps: "preserves (keeps P) (insert_capabilities uids t msg)"
  unfolding insert_capabilities_def by (intro keeps_rules) simp_all

lemma insert_entry_keeps:
  assumes "Source e \<noteq> SourcePush" "Status e \<in> {LifecycleRegistered, LifecycleOffline}"
  shows "preserves (keeps P) (insert_row catalog_entries put_entries entry_clash e)"
proof (rule kp.preserves_insert_row)
  fix s assume k: "keeps P s" and "entry_clash e (catalog_entries s) = None"
  then have new: "entry_ID e \<notin> entry_ID ` set (catalog_entries s)"
    by (auto simp: entry_clash_def split: if_splits)
  then have "allowed P e" using k assms by (auto simp: keeps_def allowed_def)
  then show "keeps P (put_entries (catalog_entries s @ [e]) s)" using k new by (auto simp: keeps_def)
qed

lemma SyncToDB_Source [simp]: "Source (SyncToDB j e) = Source e"
  by (simp add: SyncToDB_def Let_def split: option.split)

lemma SQLStore_Create_keeps:
  assumes "Source entry \<noteq> SourcePush" "Status entry = LifecycleRegistered"
  shows "preserves (keeps P) (SQLStore_Create env uids now entry)"
  unfolding SQLStore_Create_def create_body_def GetDefaultProject_def Let_def
  by (intro keeps_rules save_type_of_keeps save_provider_of_keeps insert_capabilities_keeps insert_entry_keeps)
    (simp_all add: assms entry_row_def stamp_entry_def)

lemma SQLStore_Update_keeps:
  assumes "allowed P e" "entry_ID e \<notin> pushed_ids P"
  shows "preserves (keeps P) (SQLStore_Update env uids now e)"
proof -
  let ?e = "(with_type_key (mapper env) (SyncToDB (codec env) e))\<lparr>UpdatedAt := now\<rparr>"
  have same: "entry_ID ?e = entry_ID e" "Source ?e = Source e" "Status ?e = Status e"
    by (simp_all add: with_type_key_def SyncToDB_def Let_def split: option.split)
  then have "allowed P ?e" using assms(1) allowed_cong by blast
  then have entry_saved: "preserves (keeps P)
      (save_row catalog_entries put_entries entry_ID (\<lambda>_ _. None) (entry_row ?e) (entry_row (stamp_entry now ?e)))"
    by (intro save_entry_keeps) (use assms(2) same in \<open>simp_all add: stamp_entry_def\<close>)
  show ?thesis
    unfolding SQLStore_Update_def Let_def
    by (intro entry_saved keeps_rules save_type_of_keeps save_provider_of_keeps insert_capabilities_keeps) simp_all
qed

lemma StoreCard_keeps: "preserves (keeps P) (StoreCard now tid data ct)"
  unfolding StoreCard_def Let_def by (intro keeps_rules) simp_all

text \<open>What the two reads return comes from stored rows.\<close>

lemma preload_type_provider_fields:
  assumes "preload_type_provider e s = (Inr e', s')"
  shows "entry_ID e' = entry_ID e \<and> Source e' = Source e \<and> Status e' = Status e"
  using assms unfolding preload_type_provider_def preload_type_def preload_provider_def
  by (auto elim!: pass_op_InrE split: option.splits)

lemma loadCapabilities_fields:
  assumes "loadCapabilities e s = (Inr e', s')"
  shows "entry_ID e' = entry_ID e \<and> Source e' = Source e \<and> Status e' = Status e"
  using assms unfolding loadCapabilities_def
  by (auto elim!: bind_op_InrE split: option.splits)

lemma first_entry_loaded:
  assumes f: "first_entry env cond msg s = (Inr (Some e), s')" and k: "keeps P s"
  shows "loaded P e"
proof -
  from f obtain e1 s1 e2 s2 where
      a: "pass_op (First (\<lambda>s. filter (cond s) (catalog_entries s)) entry_ID (\<lambda>_. True)) preload_type_provider s = (Inr e1, s1)"
    and b: "loadCapabilities e1 s1 = (Inr e2, s2)" and e: "e = SyncFromDB (codec env) e2"
    unfolding first_entry_def
    by (elim try_opE) (auto elim!: pass_op_InrE split: if_splits)
  from a obtain r s0 where r: "First (\<lambda>s. filter (cond s) (catalog_entries s)) entry_ID (\<lambda>_. True) s = (Inr r, s0)"
    and p: "preload_type_provider r s0 = (Inr e1, s1)" by (elim pass_op_InrE)
  from r have "r \<in> set (catalog_entries s)" by (elim First_InrE) (auto dest: first_by_Some)
  with k show ?thesis
    by (rule row_loaded) (use preload_type_provider_fields [OF p] loadCapabilities_fields [OF b] e in simp_all)
qed

lemma preload_all_fields:
  assumes "preload_all es s = (Inr es', s')"
  shows "map (\<lambda>e. (entry_ID e, Source e, Status e)) es' = map (\<lambda>e. (entry_ID e, Source e, Status e)) es"
  using assms unfolding preload_all_def preload_types_def preload_providers_def attach_provider_def
  by (auto elim!: pass_op_InrE query_InrE split: if_splits option.splits)

lemma loadCapabilities_each_fields:
  assumes "each_op loadCapabilities es s = (Inr es', s')"
  shows "map (\<lambda>e. (entry_ID e, Source e, Status e)) es' = map (\<lambda>e. (entry_ID e, Source e, Status e)) es"
  using assms
proof (induction es arbitrary: s es' s')
  case (Cons e es)
  then show ?case by (auto elim!: pass_op_InrE dest!: loadCapabilities_fields)
qed simp

text \<open>What a listing of a source returns: values of that source, read from rows.\<close>

lemma SQLStore_List_loaded:
  assumes l: "SQLStore_List env x (source_filter src) s = (Inr es, s')" and k: "keeps P s" and e: "e \<in> set es"
  shows "loaded P e \<and> Source e = src"
proof -
  let ?key = "\<lambda>e. (entry_ID e, Source e, Status e)"
  from l obtain es0 s0 es1 s1 es2 s2 where q: "query (\<lambda>s. listed x s (source_filter src)) s = (Inr es0, s0)"
    and p: "preload_all es0 s0 = (Inr es1, s1)" and c: "each_op loadCapabilities es1 s1 = (Inr es2, s2)"
    and es: "es = map (SyncFromDB (codec env)) es2"
    unfolding SQLStore_List_def by (auto elim!: bind_op_InrE pass_op_InrE)
  have "map ?key es = map ?key es0"
    using preload_all_fields [OF p] loadCapabilities_each_fields [OF c] es by (simp add: comp_def)
  then obtain r where r: "r \<in> set es0" "?key e = ?key r" using e by (metis (no_types, lifting) image_iff list.set_map)
  from q obtain fs where "es0 = listed x (s\<lparr>faults := fs\<rparr>) (source_filter src)" by (elim query_InrE)
  then have "r \<in> set (catalog_entries s)" "Source r = src"
    using r(1) by (auto simp: listed_def page_def applyListSort_def matches_filter_def source_filter_def no_filter_def
        split: option.splits)
  then show ?thesis using k r(2) row_loaded by fastforce
qed

text \<open>An update with what was read: the loop bodies look at the result of the read before.\<close>

lemma bind_keeps:
  assumes m: "preserves I m" and f: "\<And>x s s'. I s \<Longrightarrow> m s = (Inr x, s') \<Longrightarrow> preserves I (f x)"
  shows "preserves I (bind_op m msg f)"
proof (rule preservesI)
  fix s assume I: "I s"
  obtain r s' where ms: "m s = (r, s')" by (cases "m s")
  then have "I s'" using m I by (metis preserves_result)
  then show "I (snd (bind_op m msg f s))"
    using ms f [OF I] by (cases r) (auto simp: bind_op_def try_op_def dest: preservesD)
qed

lemma first_entry_keeps: "preserves (keeps P) (first_entry env cond msg)"
  unfolding first_entry_def preload_type_provider_def preload_type_def preload_provider_def loadCapabilities_def
  by (intro keeps_rules kp.preserves_query)

lemma SQLStore_List_keeps: "preserves (keeps P) (SQLStore_List env x flt)"
  unfolding SQLStore_List_def preload_all_def preload_types_def preload_providers_def loadCapabilities_def
  by (intro keeps_rules kp.preserves_query)

lemma maybeStoreCard_keeps: "preserves (keeps P) k \<Longrightarrow> preserves (keeps P) (maybeStoreCard m now t raw k)"
  unfolding maybeStoreCard_def by (intro keeps_rules StoreCard_keeps)

lemma sourceType_not_push: "sourceType name \<noteq> SourcePush"
  by (simp add: sourceType_def SourceK8s_def SourceConfig_def SourceUpstream_def SourcePush_def)

lemma upsert_each_keeps:
  assumes "source \<noteq> SourcePush"
  shows "preserves (keeps P) (upsert_each m source fs seen)"
proof (induction fs arbitrary: seen)
  case Nil
  then show ?case by (simp add: preserves_def)
next
  case (Cons f fs)
  show ?case
    unfolding upsert_each.simps Let_def FindByEndpoint_def
  proof (rule bind_keeps [OF first_entry_keeps], goal_cases)
    case (1 found s s')
    show ?case
    proof (cases found)
      case None
      show ?thesis unfolding None option.case
        by (intro preserves_try SQLStore_Create_keeps Cons.IH maybeStoreCard_keeps)
          (use assms in \<open>simp_all add: fresh_entry_def\<close>)
    next
      case (Some e)
      then have l: "loaded P e" using 1 first_entry_loaded by blast
      have "preserves (keeps P) (SQLStore_Update (m_store m) uids now (refreshed m now at e))"
        if "Source e \<noteq> SourcePush" for uids now at
        using l that allowed_cong [of P e] by (intro SQLStore_Update_keeps) (simp_all add: loaded_def refreshed_def)
      then show ?thesis unfolding Some option.case
        by (intro preserves_if preserves_try preserves_option Cons.IH maybeStoreCard_keeps)
    qed
  qed
qed

lemma mark_unseen_keeps:
  assumes "\<And>e. e \<in> set es \<Longrightarrow> loaded P e \<and> Source e \<noteq> SourcePush"
  shows "preserves (keeps P) (mark_unseen m uids now seen es)"
  using assms
proof (induction es)
  case (Cons e es)
  have "allowed P (gone_offline now e)"
    using Cons.prems [of e] allowed_cong [of P e] by (simp add: loaded_def gone_offline_def)
  then have "preserves (keeps P) (SQLStore_Update (m_store m) (uids (entry_ID e)) now (gone_offline now e))"
    using Cons.prems [of e] by (intro SQLStore_Update_keeps) (simp_all add: loaded_def gone_offline_def)
  then show ?case using Cons by (simp add: preserves_ignore)
qed (simp add: preserves_def)

lemma upsert_keeps: "preserves (keeps P) (upsert m uids now name found)"
  unfolding upsert_def Let_def
proof (intro preserves_pass upsert_each_keeps sourceType_not_push bind_keeps [OF SQLStore_List_keeps], goal_cases)
  case (1 seen es s s')
  then show ?case by (intro mark_unseen_keeps) (metis SQLStore_List_loaded sourceType_not_push)
qed

lemma runOnce_keeps: "preserves (keeps P) (runOnce m scs)"
proof (induction scs)
  case (Cons sc scs)
  then show ?case by (simp add: preserves_ignore upsert_keeps split: sum.split)
qed (simp add: preserves_def)

section \<open>Properties\<close>

text \<open>A cycle in which the configured source reports nothing.\<close>

definition sample_manager :: Manager where
  "sample_manager = \<lparr>m_store = sample_store_env, m_text = h_text good_handler, m_json = h_json good_handler, m_cardStore = True\<rparr>"

definition empty_scan :: scan where
  "empty_scan = \<lparr>scan_source = ''static'', scan_result = Inr [], scan_uids = (\<lambda>_. sample_uids), scan_now = 9\<rparr>"

definition push_scan :: scan where
  "push_scan = empty_scan\<lparr>scan_result := Inr [\<lparr>found_type = sample_type\<lparr>agent_Version := ''2''\<rparr>,
     found_ids = sample_ids, found_now = 9\<rparr>]\<rparr>"

definition deprecated_db :: db where
  "deprecated_db = sample_catalog_db\<lparr>catalog_entries := map (\<lambda>e. e\<lparr>Source := SourceConfig, Status := LifecycleDeprecated\<rparr>)
     (catalog_entries sample_catalog_db)\<rparr>"

text \<open>
  \<^bold>\<open>C12\<close>: Whatever the sources report and whichever statements the database refuses, a discovery cycle
  leaves every entry that was registered by push as it is, and the identifiers stay unique.
\<close>

theorem discovery_leaves_pushed_entries:
  assumes "distinct (map entry_ID (catalog_entries s))"
    and "e \<in> set (catalog_entries s)" and "Source e = SourcePush"
  shows "e \<in> set (catalog_entries (snd (runOnce m scs s))) \<and>
    distinct (map entry_ID (catalog_entries (snd (runOnce m scs s))))"
  using preservesD [OF runOnce_keeps keeps_start [OF assms(1)]] assms(2,3) unfolding keeps_def by blast

text \<open>
  The only lifecycle change a discovery cycle makes is to offline: a row after the cycle is a row
  from before, of the same source and with the same status or offline, or a new row, not pushed, that is
  registered or (when two sources of one type disagree) already offline.
\<close>

theorem discovery_only_takes_offline:
  assumes "distinct (map entry_ID (catalog_entries s))" and "r \<in> set (catalog_entries (snd (runOnce m scs s)))"
  shows "(\<exists>e \<in> set (catalog_entries s). entry_ID e = entry_ID r \<and> Source e = Source r \<and>
      (Status r = Status e \<or> Status r = LifecycleOffline)) \<or>
    (entry_ID r \<notin> entry_ID ` set (catalog_entries s) \<and> Source r \<noteq> SourcePush \<and>
      Status r \<in> {LifecycleRegistered, LifecycleOffline})"
  using preservesD [OF runOnce_keeps keeps_start [OF assms(1)]] assms(2) unfolding keeps_def allowed_def by blast

text \<open>An entry an operator deprecated is taken offline when its source stops reporting it.\<close>

lemma deprecated_run:
  "map (\<lambda>e. (entry_ID e, Source e, Status e)) (catalog_entries (snd (runOnce sample_manager [empty_scan] deprecated_db))) =
     [(''e1'', SourceConfig, LifecycleOffline)] \<and>
   map (\<lambda>e. (entry_ID e, Status e)) (catalog_entries deprecated_db) = [(''e1'', LifecycleDeprecated)]"
  by code_simp

lemma deprecated_entry_taken_offline:
  "map Status (catalog_entries deprecated_db) = [LifecycleDeprecated] \<and>
   map Status (catalog_entries (snd (runOnce sample_manager [empty_scan] deprecated_db))) = [LifecycleOffline]"
  using deprecated_run by auto

theorem discovery_leaves_pushed_entries_witness:
  "\<exists>e. catalog_entries sample_catalog_db = [e] \<and>
     e \<in> set (catalog_entries (snd (runOnce sample_manager [push_scan, empty_scan] sample_catalog_db)))"
proof -
  have "map Source (catalog_entries sample_catalog_db) = [SourcePush]" by code_simp
  then obtain e where e: "catalog_entries sample_catalog_db = [e]" "Source e = SourcePush" by auto
  then show ?thesis
    using discovery_leaves_pushed_entries [of sample_catalog_db e sample_manager "[push_scan, empty_scan]"] by simp
qed

theorem discovery_only_takes_offline_witness:
  "\<exists>r. r \<in> set (catalog_entries (snd (runOnce sample_manager [empty_scan] deprecated_db))) \<and>
     Status r = LifecycleOffline \<and> (\<exists>e \<in> set (catalog_entries deprecated_db). entry_ID e = entry_ID r \<and> Source e = Source r)"
proof -
  obtain r e where r: "catalog_entries (snd (runOnce sample_manager [empty_scan] deprecated_db)) = [r]" "Status r = LifecycleOffline"
    "entry_ID r = ''e1''" and e: "catalog_entries deprecated_db = [e]" "entry_ID e = ''e1''"
    using deprecated_run by (auto simp: map_eq_Cons_conv)
  then show ?thesis using discovery_only_takes_offline [of deprecated_db r sample_manager "[empty_scan]"] by simp
qed

end
