(* ===== verification/Password.thy ===== *)
theory Password
  imports Prelude
begin

text \<open>
  Passwords: \<^verbatim>\<open>internal/auth/password.go\<close> and the generator of
  \<^verbatim>\<open>internal/auth/bootstrap.go\<close>.  Ranging over a Go string decodes UTF-8; the character
  classes of Go's \<^verbatim>\<open>unicode\<close> package are written out for Latin-1 and are tables, passed as
  arguments, beyond it.  The bcrypt package is a parameter.  Random draws come from a list: each
  element is a value of the random source or a failing read.
\<close>

section \<open>Decoding\<close>

definition cont :: "nat \<Rightarrow> bool" where
  "cont b \<longleftrightarrow> 0x80 \<le> b \<and> b \<le> 0xBF"

definition RuneError :: nat where "RuneError = 0xFFFD"

text \<open>The range of the second byte, which excludes overlong forms, surrogates and values beyond
  the last code point.\<close>

definition second_ok :: "nat \<Rightarrow> nat \<Rightarrow> bool" where
  "second_ok b0 b1 \<longleftrightarrow>
     (if b0 = 0xE0 then 0xA0 \<le> b1 \<and> b1 \<le> 0xBF
      else if b0 = 0xED then 0x80 \<le> b1 \<and> b1 \<le> 0x9F
      else if b0 = 0xF0 then 0x90 \<le> b1 \<and> b1 \<le> 0xBF
      else if b0 = 0xF4 then 0x80 \<le> b1 \<and> b1 \<le> 0x8F
      else cont b1)"

fun DecodeRune :: "nat list \<Rightarrow> nat \<times> nat" where
  "DecodeRune [] = (RuneError, 0)"
| "DecodeRune (b0 # bs) =
     (if b0 < 0x80 then (b0, 1)
      else if 0xC2 \<le> b0 \<and> b0 \<le> 0xDF then
        (case bs of b1 # _ \<Rightarrow> if second_ok b0 b1 then ((b0 - 0xC0) * 64 + (b1 - 0x80), 2) else (RuneError, 1)
         | _ \<Rightarrow> (RuneError, 1))
      else if 0xE0 \<le> b0 \<and> b0 \<le> 0xEF then
        (case bs of b1 # b2 # _ \<Rightarrow>
            if second_ok b0 b1 \<and> cont b2
            then ((b0 - 0xE0) * 4096 + (b1 - 0x80) * 64 + (b2 - 0x80), 3) else (RuneError, 1)
         | _ \<Rightarrow> (RuneError, 1))
      else if 0xF0 \<le> b0 \<and> b0 \<le> 0xF4 then
        (case bs of b1 # b2 # b3 # _ \<Rightarrow>
            if second_ok b0 b1 \<and> cont b2 \<and> cont b3
            then ((b0 - 0xF0) * 262144 + (b1 - 0x80) * 4096 + (b2 - 0x80) * 64 + (b3 - 0x80), 4)
            else (RuneError, 1)
         | _ \<Rightarrow> (RuneError, 1))
      else (RuneError, 1))"

lemma DecodeRune_width: "0 < snd (DecodeRune (b # bs))"
  by (auto split: list.split)

function runes :: "nat list \<Rightarrow> nat list" where
  "runes [] = []"
| "runes (b # bs) = (let (r, n) = DecodeRune (b # bs) in r # runes (drop n (b # bs)))"
  by pat_completeness auto
termination
proof (relation "measure length", goal_cases)
  case 1
  show ?case by simp
next
  case (2 b bs x r n)
  then have "0 < n" using DecodeRune_width [of b bs] by (metis snd_conv)
  then show ?case by (cases n) auto
qed

definition string_runes :: "string \<Rightarrow> nat list" where
  "string_runes s = runes (map of_char s)"

section \<open>Character classes\<close>

text \<open>The classes beyond Latin-1.\<close>

record unicode_tables =
  wide_upper :: "nat \<Rightarrow> bool"
  wide_lower :: "nat \<Rightarrow> bool"
  wide_digit :: "nat \<Rightarrow> bool"
  wide_punct :: "nat \<Rightarrow> bool"
  wide_symbol :: "nat \<Rightarrow> bool"

definition IsUpper :: "unicode_tables \<Rightarrow> nat \<Rightarrow> bool" where
  "IsUpper ut r = (if r \<le> 0xFF then 0x41 \<le> r \<and> r \<le> 0x5A \<or> 0xC0 \<le> r \<and> r \<le> 0xDE \<and> r \<noteq> 0xD7
     else wide_upper ut r)"

definition IsLower :: "unicode_tables \<Rightarrow> nat \<Rightarrow> bool" where
  "IsLower ut r = (if r \<le> 0xFF then 0x61 \<le> r \<and> r \<le> 0x7A \<or> r = 0xB5 \<or> 0xDF \<le> r \<and> r \<noteq> 0xF7
     else wide_lower ut r)"

definition IsDigit :: "unicode_tables \<Rightarrow> nat \<Rightarrow> bool" where
  "IsDigit ut r = (if r \<le> 0xFF then 0x30 \<le> r \<and> r \<le> 0x39 else wide_digit ut r)"

definition IsPunct :: "unicode_tables \<Rightarrow> nat \<Rightarrow> bool" where
  "IsPunct ut r = (if r \<le> 0xFF
     then r \<in> {0x21, 0x22, 0x23, 0x25, 0x26, 0x27, 0x28, 0x29, 0x2A, 0x2C, 0x2D, 0x2E, 0x2F, 0x3A, 0x3B,
       0x3F, 0x40, 0x5B, 0x5C, 0x5D, 0x5F, 0x7B, 0x7D, 0xA1, 0xA7, 0xAB, 0xB6, 0xB7, 0xBB, 0xBF}
     else wide_punct ut r)"

definition IsSymbol :: "unicode_tables \<Rightarrow> nat \<Rightarrow> bool" where
  "IsSymbol ut r = (if r \<le> 0xFF
     then r \<in> {0x24, 0x2B, 0x3C, 0x3D, 0x3E, 0x5E, 0x60, 0x7C, 0x7E, 0xA2, 0xA3, 0xA4, 0xA5, 0xA6, 0xA8,
       0xA9, 0xAC, 0xAE, 0xAF, 0xB0, 0xB1, 0xB4, 0xB8, 0xD7, 0xF7}
     else wide_symbol ut r)"

section \<open>Strength\<close>

definition BcryptCost :: nat where "BcryptCost = 12"
definition MinPasswordLength :: nat where "MinPasswordLength = 10"

record strength_flags =
  hasUpper :: bool
  hasLower :: bool
  hasDigit :: bool
  hasSpecial :: bool

definition classify :: "unicode_tables \<Rightarrow> nat \<Rightarrow> strength_flags \<Rightarrow> strength_flags" where
  "classify ut r f =
     (if IsUpper ut r then f\<lparr>hasUpper := True\<rparr>
      else if IsLower ut r then f\<lparr>hasLower := True\<rparr>
      else if IsDigit ut r then f\<lparr>hasDigit := True\<rparr>
      else if IsPunct ut r \<or> IsSymbol ut r then f\<lparr>hasSpecial := True\<rparr>
      else f)"

definition ValidatePasswordStrength :: "unicode_tables \<Rightarrow> string \<Rightarrow> error option" where
  "ValidatePasswordStrength ut password =
     (if length password < MinPasswordLength then Some (errorf ''password must be at least 10 characters'')
      else
        let f = fold (classify ut) (string_runes password)
                  \<lparr>hasUpper = False, hasLower = False, hasDigit = False, hasSpecial = False\<rparr>
        in if \<not> hasUpper f then Some (errorf ''password must contain at least one uppercase letter'')
           else if \<not> hasLower f then Some (errorf ''password must contain at least one lowercase letter'')
           else if \<not> hasDigit f then Some (errorf ''password must contain at least one digit'')
           else if \<not> hasSpecial f then Some (errorf ''password must contain at least one special character'')
           else None)"

text \<open>The bcrypt package.\<close>

record bcrypt =
  GenerateFromPassword :: "string \<Rightarrow> nat \<Rightarrow> error + string"
  CompareHashAndPassword :: "string \<Rightarrow> string \<Rightarrow> error option"

definition HashPassword :: "unicode_tables \<Rightarrow> bcrypt \<Rightarrow> string \<Rightarrow> error + string" where
  "HashPassword ut bc plaintext =
     (case ValidatePasswordStrength ut plaintext of
        Some e \<Rightarrow> Inl (wrapf ''validating password'' e)
      | None \<Rightarrow> (case GenerateFromPassword bc plaintext BcryptCost of
            Inl e \<Rightarrow> Inl (wrapf ''hashing password'' e)
          | Inr hash \<Rightarrow> Inr hash))"

definition CheckPassword :: "bcrypt \<Rightarrow> string \<Rightarrow> string \<Rightarrow> bool" where
  "CheckPassword bc plaintext hash \<longleftrightarrow> CompareHashAndPassword bc hash plaintext = None"

section \<open>The generator\<close>

definition passwordLength :: nat where "passwordLength = 20"

definition upperChars :: string where "upperChars = ''ABCDEFGHIJKLMNOPQRSTUVWXYZ''"
definition lowerChars :: string where "lowerChars = ''abcdefghijklmnopqrstuvwxyz''"
definition digitChars :: string where "digitChars = ''0123456789''"
definition specialChars :: string where "specialChars = ''!@#$%^&*()''"
definition allChars :: string where "allChars = upperChars @ lowerChars @ digitChars @ specialChars"

type_synonym draws = "nat option list"

definition randomInt :: "nat \<Rightarrow> (draws, nat) op" where
  "randomInt bound = (\<lambda>ds. case ds of
      Some n # rest \<Rightarrow> (Inr (n mod bound), rest)
    | None # rest \<Rightarrow> (Inl (wrapf ''generating random int'' (errorf ''read failed'')), rest)
    | [] \<Rightarrow> (Inl (wrapf ''generating random int'' (errorf ''EOF'')), []))"

definition randomChar :: "string \<Rightarrow> (draws, char) op" where
  "randomChar charset = pass_op (randomInt (length charset)) (\<lambda>idx. ok (charset ! idx))"

text \<open>\<^verbatim>\<open>for used[pos] { pos = (pos + 1) % passwordLength }\<close>: the next free position.  The fuel
  is the number of positions; it is exhausted only when every position is used.\<close>

fun next_free :: "nat \<Rightarrow> nat list \<Rightarrow> nat \<Rightarrow> nat option" where
  "next_free 0 used pos = None"
| "next_free (Suc n) used pos =
     (if pos \<in> set used then next_free n used ((pos + 1) mod passwordLength) else Some pos)"

definition not_returning :: error where
  "not_returning = errorf ''no free position''"

fun place_required :: "string list \<Rightarrow> nat list \<Rightarrow> string \<Rightarrow> (draws, nat list \<times> string) op" where
  "place_required [] used buf = ok (used, buf)"
| "place_required (charset # required) used buf =
     pass_op (randomInt passwordLength) (\<lambda>pos.
       case next_free passwordLength used pos of
         None \<Rightarrow> fail not_returning
       | Some pos \<Rightarrow> pass_op (randomChar charset) (\<lambda>ch.
           place_required required (pos # used) (buf[pos := ch])))"

fun fill_rest :: "nat list \<Rightarrow> nat list \<Rightarrow> string \<Rightarrow> (draws, string) op" where
  "fill_rest [] used buf = ok buf"
| "fill_rest (i # is) used buf =
     (if i \<in> set used then fill_rest is used buf
      else pass_op (randomChar allChars) (\<lambda>ch. fill_rest is used (buf[i := ch])))"

definition generatePassword :: "(draws, string) op" where
  "generatePassword =
     pass_op (place_required [upperChars, lowerChars, digitChars, specialChars] []
                (replicate passwordLength (CHR 0x00))) (\<lambda>(used, buf).
       fill_rest [0..<passwordLength] used buf)"

section \<open>The generator meets the policy\<close>

definition all_succeed :: "draws \<Rightarrow> bool" where
  "all_succeed ds \<longleftrightarrow> None \<notin> set ds"

lemma all_succeed_drop: "all_succeed ds \<Longrightarrow> all_succeed (drop n ds)"
  by (auto simp: all_succeed_def dest: in_set_dropD)

lemma randomInt_ok:
  assumes "all_succeed ds" and "ds \<noteq> []" and "0 < n"
  obtains k where "randomInt n ds = (Inr k, tl ds)" and "k < n"
  using assms by (cases ds; cases "hd ds") (auto simp: randomInt_def all_succeed_def)

lemma randomChar_ok:
  assumes "all_succeed ds" and "ds \<noteq> []" and "cs \<noteq> []"
  obtains c where "randomChar cs ds = (Inr c, tl ds)" and "c \<in> set cs"
proof -
  obtain k where "randomInt (length cs) ds = (Inr k, tl ds)" "k < length cs"
    using randomInt_ok [OF assms(1,2), of "length cs"] assms(3) by auto
  then show ?thesis using that by (simp add: randomChar_def op_defs)
qed

lemma next_free_Some:
  assumes "(pos + j) mod passwordLength \<notin> set used" and "j < n" and "pos < passwordLength"
  shows "\<exists>p. next_free n used pos = Some p \<and> p \<notin> set used \<and> p < passwordLength"
  using assms
proof (induction n arbitrary: pos j)
  case (Suc n)
  show ?case
  proof (cases "pos \<in> set used")
    case True
    with Suc.prems obtain i where j: "j = Suc i" by (cases j) auto
    have "((pos + 1) mod passwordLength + i) mod passwordLength = (pos + j) mod passwordLength"
      by (simp add: j mod_add_left_eq)
    with Suc.IH [of "(pos + 1) mod passwordLength" i] Suc.prems j True show ?thesis
      by (simp add: passwordLength_def)
  next
    case False
    with Suc.prems show ?thesis by simp
  qed
qed simp

lemma next_free_found:
  assumes "length used < passwordLength" and "pos < passwordLength"
  shows "\<exists>p. next_free passwordLength used pos = Some p \<and> p \<notin> set used \<and> p < passwordLength"
proof -
  have "card (set used) < card {..<passwordLength}"
    using assms(1) card_length [of used] by simp
  then obtain q where q: "q < passwordLength" "q \<notin> set used"
    by (metis List.finite_set card_mono lessThan_iff not_le subsetI)
  define j where "j = (q + passwordLength - pos) mod passwordLength"
  have "(pos + j) mod passwordLength = q"
    using q(1) assms(2) by (simp add: j_def mod_add_right_eq)
  moreover have "j < passwordLength" by (simp add: j_def passwordLength_def)
  ultimately show ?thesis using q(2) assms(2) by (intro next_free_Some [of pos j]) simp_all
qed

lemma place_required_ok:
  assumes "all_succeed ds" and "2 * length required \<le> length ds" and "\<forall>cs \<in> set required. cs \<noteq> []"
    and "length used + length required \<le> passwordLength" and "length buf = passwordLength"
    and "\<forall>p \<in> set used. p < passwordLength" and "distinct used"
  shows "\<exists>used' buf'. place_required required used buf ds = (Inr (used', buf'), drop (2 * length required) ds) \<and>
    set used \<subseteq> set used' \<and> distinct used' \<and> length used' = length used + length required \<and>
    (\<forall>p \<in> set used'. p < passwordLength) \<and> length buf' = passwordLength \<and>
    (\<forall>p \<in> set used. buf' ! p = buf ! p) \<and>
    (\<forall>p \<in> set used' - set used. \<exists>cs \<in> set required. buf' ! p \<in> set cs) \<and>
    (\<forall>cs \<in> set required. \<exists>p \<in> set used'. buf' ! p \<in> set cs)"
  using assms
proof (induction required arbitrary: used buf ds)
  case Nil
  then show ?case by auto
next
  case (Cons cs required)
  from Cons.prems(2) obtain d e ds2 where ds: "ds = d # e # ds2" by (cases ds; cases "tl ds") auto
  obtain pos where pos: "randomInt passwordLength ds = (Inr pos, e # ds2)" "pos < passwordLength"
    using randomInt_ok [OF Cons.prems(1), of passwordLength] ds by (auto simp: passwordLength_def)
  obtain p where p: "next_free passwordLength used pos = Some p" "p \<notin> set used" "p < passwordLength"
    using next_free_found [OF _ pos(2), of used] Cons.prems(4) by auto
  have s: "all_succeed (e # ds2)" using Cons.prems(1) ds by (simp add: all_succeed_def)
  obtain c where c: "randomChar cs (e # ds2) = (Inr c, ds2)" "c \<in> set cs"
    using randomChar_ok [OF s, of cs] Cons.prems(3) by auto
  have s2: "all_succeed ds2" using s by (simp add: all_succeed_def)
  have "\<exists>used' buf'. place_required required (p # used) (buf[p := c]) ds2 = (Inr (used', buf'), drop (2 * length required) ds2) \<and>
    set (p # used) \<subseteq> set used' \<and> distinct used' \<and> length used' = length (p # used) + length required \<and>
    (\<forall>q \<in> set used'. q < passwordLength) \<and> length buf' = passwordLength \<and>
    (\<forall>q \<in> set (p # used). buf' ! q = buf[p := c] ! q) \<and>
    (\<forall>q \<in> set used' - set (p # used). \<exists>cs \<in> set required. buf' ! q \<in> set cs) \<and>
    (\<forall>cs \<in> set required. \<exists>q \<in> set used'. buf' ! q \<in> set cs)"
    using Cons.prems p ds by (intro Cons.IH [OF s2]) auto
  then obtain used' buf' where r: "place_required required (p # used) (buf[p := c]) ds2 = (Inr (used', buf'), drop (2 * length required) ds2)"
    and u: "set (p # used) \<subseteq> set used'" "distinct used'" "length used' = length (p # used) + length required"
      "\<forall>q \<in> set used'. q < passwordLength" "length buf' = passwordLength"
    and b: "\<forall>q \<in> set (p # used). buf' ! q = buf[p := c] ! q"
    and o: "\<forall>q \<in> set used' - set (p # used). \<exists>cs \<in> set required. buf' ! q \<in> set cs"
      "\<forall>cs \<in> set required. \<exists>q \<in> set used'. buf' ! q \<in> set cs" by blast
  have pc: "buf' ! p = c" using b p(3) Cons.prems(5) by simp
  have old: "\<forall>q \<in> set used. buf' ! q = buf ! q" using b p(2) by (metis list.set_intros(2) nth_list_update_neq)
  have "place_required (cs # required) used buf ds = (Inr (used', buf'), drop (2 * length (cs # required)) ds)"
    using pos(1) p(1) c(1) r ds by (simp add: op_defs)
  moreover have "\<forall>q \<in> set used' - set used. \<exists>cs \<in> set (cs # required). buf' ! q \<in> set cs"
    using o(1) pc c(2) by auto
  moreover have "\<forall>cs \<in> set (cs # required). \<exists>q \<in> set used'. buf' ! q \<in> set cs"
    using o(2) pc c(2) u(1) by auto
  ultimately show ?case using u old by auto
qed

lemma fill_rest_ok:
  assumes "all_succeed ds" and "length (filter (\<lambda>i. i \<notin> set used) is) \<le> length ds"
    and "\<forall>i \<in> set is. i < length buf" and "distinct is"
  shows "\<exists>buf' rest. fill_rest is used buf ds = (Inr buf', rest) \<and> length buf' = length buf \<and>
    (\<forall>i < length buf. if i \<in> set is \<and> i \<notin> set used then buf' ! i \<in> set allChars else buf' ! i = buf ! i)"
  using assms
proof (induction "is" arbitrary: buf ds)
  case (Cons i js)
  show ?case
  proof (cases "i \<in> set used")
    case True
    with Cons.prems have "\<exists>buf' rest. fill_rest js used buf ds = (Inr buf', rest) \<and> length buf' = length buf \<and>
    (\<forall>k < length buf. if k \<in> set js \<and> k \<notin> set used then buf' ! k \<in> set allChars else buf' ! k = buf ! k)"
      by (intro Cons.IH) auto
    with True show ?thesis by (elim exE conjE) (intro exI conjI, simp, simp, auto)
  next
    case False
    with Cons.prems have ne: "ds \<noteq> []" by auto
    obtain c where c: "randomChar allChars ds = (Inr c, tl ds)" "c \<in> set allChars"
      using randomChar_ok [OF Cons.prems(1) ne, of allChars] by (auto simp: allChars_def upperChars_def)
    have s: "all_succeed (tl ds)" using all_succeed_drop [OF Cons.prems(1), of 1] by (simp add: drop_Suc)
    have "\<exists>buf' rest. fill_rest js used (buf[i := c]) (tl ds) = (Inr buf', rest) \<and> length buf' = length (buf[i := c]) \<and>
    (\<forall>k < length (buf[i := c]). if k \<in> set js \<and> k \<notin> set used then buf' ! k \<in> set allChars else buf' ! k = buf[i := c] ! k)"
      using Cons.prems False by (intro Cons.IH [OF s]) auto
    then obtain buf' rest where r: "fill_rest js used (buf[i := c]) (tl ds) = (Inr buf', rest)" "length buf' = length buf"
      "\<forall>k < length buf. if k \<in> set js \<and> k \<notin> set used then buf' ! k \<in> set allChars else buf' ! k = buf[i := c] ! k"
      by auto
    have "if k \<in> set (i # js) \<and> k \<notin> set used then buf' ! k \<in> set allChars else buf' ! k = buf ! k"
      if "k < length buf" for k
    proof (cases "k = i")
      case True
      have "i \<notin> set js" using Cons.prems(4) by simp
      with r(3) that True have "buf' ! k = buf[i := c] ! k" by (metis (full_types))
      with True that False c(2) show ?thesis by simp
    next
      case False
      with r(3) that show ?thesis by (auto split: if_splits)
    qed
    with r c False show ?thesis by (auto simp: op_defs)
  qed
qed auto

text \<open>What the loop over the runes has found.\<close>

lemma classify_flags [simp]:
  "hasUpper (classify ut r f) = (hasUpper f \<or> IsUpper ut r)"
  "hasLower (classify ut r f) = (hasLower f \<or> \<not> IsUpper ut r \<and> IsLower ut r)"
  "hasDigit (classify ut r f) = (hasDigit f \<or> \<not> IsUpper ut r \<and> \<not> IsLower ut r \<and> IsDigit ut r)"
  "hasSpecial (classify ut r f) = (hasSpecial f \<or> \<not> IsUpper ut r \<and> \<not> IsLower ut r \<and> \<not> IsDigit ut r \<and>
     (IsPunct ut r \<or> IsSymbol ut r))"
  by (auto simp: classify_def)

lemma fold_classify:
  "hasUpper (fold (classify ut) rs f) = (hasUpper f \<or> (\<exists>r \<in> set rs. IsUpper ut r))"
  "hasLower (fold (classify ut) rs f) = (hasLower f \<or> (\<exists>r \<in> set rs. \<not> IsUpper ut r \<and> IsLower ut r))"
  "hasDigit (fold (classify ut) rs f) =
     (hasDigit f \<or> (\<exists>r \<in> set rs. \<not> IsUpper ut r \<and> \<not> IsLower ut r \<and> IsDigit ut r))"
  "hasSpecial (fold (classify ut) rs f) = (hasSpecial f \<or> (\<exists>r \<in> set rs. \<not> IsUpper ut r \<and> \<not> IsLower ut r \<and>
     \<not> IsDigit ut r \<and> (IsPunct ut r \<or> IsSymbol ut r)))"
  by (induction rs arbitrary: f) auto

lemma strength_iff:
  "ValidatePasswordStrength ut pw = None \<longleftrightarrow> MinPasswordLength \<le> length pw \<and>
     (\<exists>r \<in> set (string_runes pw). IsUpper ut r) \<and>
     (\<exists>r \<in> set (string_runes pw). \<not> IsUpper ut r \<and> IsLower ut r) \<and>
     (\<exists>r \<in> set (string_runes pw). \<not> IsUpper ut r \<and> \<not> IsLower ut r \<and> IsDigit ut r) \<and>
     (\<exists>r \<in> set (string_runes pw). \<not> IsUpper ut r \<and> \<not> IsLower ut r \<and> \<not> IsDigit ut r \<and>
        (IsPunct ut r \<or> IsSymbol ut r))"
  by (simp add: ValidatePasswordStrength_def Let_def fold_classify not_le)

lemma runes_ascii: "\<forall>b \<in> set bs. b < 0x80 \<Longrightarrow> runes bs = bs"
  by (induction bs) simp_all

lemma string_runes_ascii:
  "\<forall>c \<in> set s. of_char c < (0x80 :: nat) \<Longrightarrow> string_runes s = map of_char s"
  by (simp add: string_runes_def runes_ascii)

lemma charset_codes:
  "list_all (\<lambda>c. of_char c \<in> {0x41..0x5A :: nat}) upperChars"
  "list_all (\<lambda>c. of_char c \<in> {0x61..0x7A :: nat}) lowerChars"
  "list_all (\<lambda>c. of_char c \<in> {0x30..0x39 :: nat}) digitChars"
  "map of_char specialChars = [0x21, 0x40, 0x23, 0x24, 0x25, 0x5E, 0x26, 0x2A, 0x28, 0x29 :: nat]"
  by (simp_all add: upperChars_def lowerChars_def digitChars_def specialChars_def)

lemma charset_ranges:
  "c \<in> set upperChars \<Longrightarrow> of_char c \<in> {0x41..0x5A :: nat}"
  "c \<in> set lowerChars \<Longrightarrow> of_char c \<in> {0x61..0x7A :: nat}"
  "c \<in> set digitChars \<Longrightarrow> of_char c \<in> {0x30..0x39 :: nat}"
  "c \<in> set specialChars \<Longrightarrow> of_char c \<in> {0x21, 0x40, 0x23, 0x24, 0x25, 0x5E, 0x26, 0x2A, 0x28, 0x29 :: nat}"
proof -
  have "set (map of_char specialChars) = {0x21, 0x40, 0x23, 0x24, 0x25, 0x5E, 0x26, 0x2A, 0x28, 0x29 :: nat}"
    unfolding charset_codes(4) by (simp only: list.set)
  then show "c \<in> set specialChars \<Longrightarrow> of_char c \<in> {0x21, 0x40, 0x23, 0x24, 0x25, 0x5E, 0x26, 0x2A, 0x28, 0x29 :: nat}"
    by (metis imageI set_map)
qed (use charset_codes(1-3) in \<open>simp_all only: list_all_iff\<close>)

lemma charset_classes:
  "c \<in> set upperChars \<Longrightarrow> IsUpper ut (of_char c)"
  "c \<in> set lowerChars \<Longrightarrow> \<not> IsUpper ut (of_char c) \<and> IsLower ut (of_char c)"
  "c \<in> set digitChars \<Longrightarrow> \<not> IsUpper ut (of_char c) \<and> \<not> IsLower ut (of_char c) \<and> IsDigit ut (of_char c)"
  "c \<in> set specialChars \<Longrightarrow> \<not> IsUpper ut (of_char c) \<and> \<not> IsLower ut (of_char c) \<and> \<not> IsDigit ut (of_char c) \<and>
     (IsPunct ut (of_char c) \<or> IsSymbol ut (of_char c))"
  using charset_ranges [of c]
  by (simp_all only: IsUpper_def IsLower_def IsDigit_def IsPunct_def IsSymbol_def insert_iff empty_iff atLeastAtMost_iff)
    auto

lemma allChars_ascii: "c \<in> set allChars \<Longrightarrow> of_char c < (0x80 :: nat)"
  using charset_ranges [of c] unfolding allChars_def set_append by force

lemma strong_if_charsets:
  assumes "string_runes pw = map of_char pw" and "MinPasswordLength \<le> length pw"
    and "\<exists>c \<in> set pw. c \<in> set upperChars" and "\<exists>c \<in> set pw. c \<in> set lowerChars"
    and "\<exists>c \<in> set pw. c \<in> set digitChars" and "\<exists>c \<in> set pw. c \<in> set specialChars"
  shows "ValidatePasswordStrength ut pw = None"
proof -
  have ex: "(\<exists>r \<in> set (map of_char pw). P r) \<longleftrightarrow> (\<exists>c \<in> set pw. P (of_char c))" for P :: "nat \<Rightarrow> bool" by simp
  show ?thesis
    unfolding strength_iff assms(1) ex
    using assms(2-6) charset_classes(1) charset_classes(2) charset_classes(3) charset_classes(4) by meson
qed

lemma generator_policy:
  assumes "None \<notin> set ds" and "24 \<le> length ds"
  shows "\<exists>pw rest. generatePassword ds = (Inr pw, rest) \<and> length pw = 20 \<and> ValidatePasswordStrength ut pw = None"
proof -
  let ?buf = "replicate passwordLength (CHR 0x00)"
  define req where "req = [upperChars, lowerChars, digitChars, specialChars]"
  have s: "all_succeed ds" using assms(1) by (simp add: all_succeed_def)
  have ne: "\<forall>cs \<in> set req. cs \<noteq> []"
    by (simp add: req_def upperChars_def lowerChars_def digitChars_def specialChars_def)
  have l: "length req = 4" by (simp add: req_def)
  note placed = place_required_ok [OF s _ ne, of "[]" ?buf]
  obtain used buf where p: "place_required req [] ?buf ds = (Inr (used, buf), drop 8 ds)"
    and u: "distinct used" "length used = 4" "\<forall>p \<in> set used. p < passwordLength" "length buf = passwordLength"
      "\<forall>p \<in> set used. \<exists>cs \<in> set req. buf ! p \<in> set cs"
      "\<forall>cs \<in> set req. \<exists>p \<in> set used. buf ! p \<in> set cs"
    using placed assms(2) by (auto simp: l passwordLength_def)
  have "set (filter (\<lambda>i. i \<notin> set used) [0..<passwordLength]) = {..<passwordLength} - set used" by auto
  moreover have "card ({..<passwordLength} - set used) = passwordLength - 4"
    using u(1-3) by (subst card_Diff_subset) (auto simp: distinct_card)
  ultimately have "length (filter (\<lambda>i. i \<notin> set used) [0..<passwordLength]) = passwordLength - 4"
    by (metis distinct_card distinct_filter distinct_upt)
  then have "\<exists>pw rest. fill_rest [0..<passwordLength] used buf (drop 8 ds) = (Inr pw, rest) \<and> length pw = length buf \<and>
    (\<forall>i < length buf. if i \<in> set [0..<passwordLength] \<and> i \<notin> set used then pw ! i \<in> set allChars else pw ! i = buf ! i)"
    using assms(2) u(4) by (intro fill_rest_ok all_succeed_drop [OF s]) (auto simp: passwordLength_def)
  then obtain pw rest where f: "fill_rest [0..<passwordLength] used buf (drop 8 ds) = (Inr pw, rest)"
    and len: "length pw = passwordLength"
    and chars: "\<forall>i < passwordLength. if i \<notin> set used then pw ! i \<in> set allChars else pw ! i = buf ! i"
    using u(4) by auto
  have req: "\<exists>c \<in> set pw. c \<in> set cs" if cs: "cs \<in> set req" for cs
  proof -
    from cs u(6) obtain p where p: "p \<in> set used" "buf ! p \<in> set cs" by blast
    with u(3) chars have "pw ! p \<in> set cs" "p < length pw" by (auto simp: len)
    then show ?thesis by (meson nth_mem)
  qed
  have "c \<in> set allChars" if c: "c \<in> set pw" for c
  proof -
    from c obtain i where i: "i < passwordLength" "c = pw ! i" by (metis in_set_conv_nth len)
    show ?thesis
    proof (cases "i \<in> set used")
      case True
      with chars i have "c = buf ! i" by (metis (full_types))
      with True u(5) show ?thesis by (auto simp: allChars_def req_def)
    next
      case False
      with chars i show ?thesis by auto
    qed
  qed
  then have ascii: "string_runes pw = map of_char pw" using allChars_ascii by (intro string_runes_ascii) blast
  have "ValidatePasswordStrength ut pw = None"
    using req [of upperChars] req [of lowerChars] req [of digitChars] req [of specialChars] len ascii
    by (intro strong_if_charsets) (auto simp: MinPasswordLength_def passwordLength_def req_def)
  with p f len show ?thesis by (auto simp: generatePassword_def op_defs passwordLength_def req_def simp del: place_required.simps)
qed

text \<open>\<^bold>\<open>C30\<close>  With a random source that does not fail, the generator returns a password, whatever
  the draws: the search for a free position ends, 24 draws suffice, the password has 20
  characters, and it passes \<^verbatim>\<open>ValidatePasswordStrength\<close> whatever the Unicode tables beyond
  Latin-1 say.\<close>

theorem generatePassword_meets_policy:
  assumes "None \<notin> set ds" and "24 \<le> length ds"
  shows "\<exists>pw rest. generatePassword ds = (Inr pw, rest) \<and> length pw = 20 \<and> ValidatePasswordStrength ut pw = None"
  using assms by (rule generator_policy)

lemma generatePassword_meets_policy_witness:
  "\<exists>pw rest. generatePassword (map Some [7, 3, 7, 4, 7, 5, 7, 6, 0, 1, 2, 3, 4, 5, 6, 7, 8, 9, 10, 11, 12, 13, 14, 15])
      = (Inr pw, rest) \<and> length pw = 20 \<and>
     ValidatePasswordStrength \<lparr>wide_upper = (\<lambda>_. False), wide_lower = (\<lambda>_. False), wide_digit = (\<lambda>_. False),
       wide_punct = (\<lambda>_. False), wide_symbol = (\<lambda>_. False)\<rparr> pw = None"
  by (rule generatePassword_meets_policy) simp_all

text \<open>The length test counts bytes, not characters: a password of seven characters passes
  the policy that asks for ten, because three of them take two bytes in UTF-8.\<close>

theorem strength_counts_bytes:
  "let pw = ''A1!'' @ [CHR 0xC3, CHR 0xA9, CHR 0xC3, CHR 0xA9, CHR 0xC3, CHR 0xA9] @ ''x'' in
   length (string_runes pw) = 7 \<and> ValidatePasswordStrength ut pw = None"
proof -
  have r: "string_runes (''A1!'' @ [CHR 0xC3, CHR 0xA9, CHR 0xC3, CHR 0xA9, CHR 0xC3, CHR 0xA9] @ ''x'') =
      [0x41, 0x31, 0x21, 0xE9, 0xE9, 0xE9, 0x78]"
    by code_simp
  show ?thesis unfolding Let_def strength_iff r
    by (simp add: MinPasswordLength_def IsUpper_def IsLower_def IsDigit_def IsPunct_def)
qed

end
