(* ===== verification/Auth.thy ===== *)
theory Auth
  imports User_Store Password
begin

text \<open>
  Authentication: tokens (\<^verbatim>\<open>internal/auth/jwt.go\<close>), the bootstrap administrator
  (\<^verbatim>\<open>internal/auth/bootstrap.go\<close>), the authentication middleware
  (\<^verbatim>\<open>internal/api/auth_middleware.go\<close>) and the login handlers
  (\<^verbatim>\<open>internal/api/auth_handlers.go\<close>).  The JWT and bcrypt packages are parameters.  One clock
  reading \<^verbatim>\<open>now\<close> stands for all readings within one request.
\<close>

section \<open>Tokens\<close>

record JWTConfig =
  Secret :: string
  Expiration :: duration
  cfg_RefreshWindow :: duration

record Claims =
  claim_UserID :: string
  claim_Username :: string
  claim_RoleID :: string
  claim_Permissions :: "string list"
  ExpiresAt :: time
  IssuedAt :: time
  NotBefore :: time
  Issuer :: string
  Subject :: string

text \<open>The JWT package: dates are rounded by it; signing takes the key; parsing takes a function from
  the token's method (whether it is an HMAC method, and its name) to the key, and the clock.\<close>

record jwt_lib =
  NewNumericDate :: "time \<Rightarrow> time"
  SignedString :: "string \<Rightarrow> Claims \<Rightarrow> error + string"
  ParseWithClaims :: "string \<Rightarrow> (bool \<Rightarrow> string \<Rightarrow> error + string) \<Rightarrow> time \<Rightarrow> error + (Claims \<times> bool)"

text \<open>\<^verbatim>\<open>secret64\<close> is the hex text of 64 random bytes; without it the constructor panics.\<close>

definition NewJWTService :: "string option \<Rightarrow> JWTConfig \<Rightarrow> JWTConfig option" where
  "NewJWTService secret64 cfg =
     (let with_defaults = (\<lambda>c.
        let c1 = (if Expiration c = 0 then c\<lparr>Expiration := 24 * Hour\<rparr> else c)
        in if cfg_RefreshWindow c1 = 0 then c1\<lparr>cfg_RefreshWindow := 30 * Minute\<rparr> else c1)
      in if Secret cfg = '''' then (case secret64 of
             None \<Rightarrow> None
           | Some h \<Rightarrow> Some (with_defaults (cfg\<lparr>Secret := h\<rparr>)))
         else Some (with_defaults cfg))"

definition token_claims :: "jwt_lib \<Rightarrow> JWTConfig \<Rightarrow> time \<Rightarrow> User \<Rightarrow> Role option \<Rightarrow> Claims" where
  "token_claims jl cfg now user role =
     \<lparr>claim_UserID = user_ID user, claim_Username = Username user, claim_RoleID = user_RoleID user,
      claim_Permissions = (case role of Some r \<Rightarrow> Permissions r | None \<Rightarrow> []),
      ExpiresAt = NewNumericDate jl (now + Expiration cfg), IssuedAt = NewNumericDate jl now,
      NotBefore = NewNumericDate jl now, Issuer = ''agentlens'', Subject = user_ID user\<rparr>"

definition GenerateToken :: "jwt_lib \<Rightarrow> JWTConfig \<Rightarrow> time \<Rightarrow> User \<Rightarrow> Role option \<Rightarrow> error + string" where
  "GenerateToken jl cfg now user role =
     (case SignedString jl (Secret cfg) (token_claims jl cfg now user role) of
        Inl e \<Rightarrow> Inl (wrapf ''signing token'' e)
      | Inr signed \<Rightarrow> Inr signed)"

definition token_key :: "JWTConfig \<Rightarrow> bool \<Rightarrow> string \<Rightarrow> error + string" where
  "token_key cfg hmac alg =
     (if \<not> hmac then Inl (errorf (''unexpected signing method: '' @ alg)) else Inr (Secret cfg))"

definition ValidateToken :: "jwt_lib \<Rightarrow> JWTConfig \<Rightarrow> time \<Rightarrow> string \<Rightarrow> error + Claims" where
  "ValidateToken jl cfg now tokenString =
     (case ParseWithClaims jl tokenString (token_key cfg) now of
        Inl e \<Rightarrow> Inl (wrapf ''parsing token'' e)
      | Inr (claims, valid) \<Rightarrow>
          if \<not> valid then Inl (errorf ''invalid token claims'') else Inr claims)"

definition RefreshWindow :: "JWTConfig \<Rightarrow> duration" where
  "RefreshWindow cfg = cfg_RefreshWindow cfg"

text \<open>What the package documents: it parses what it signed with the same key and an HMAC method, as
  long as the clock is within the token's validity; rounding a date never moves it forward.\<close>

definition jwt_ok :: "jwt_lib \<Rightarrow> bool" where
  "jwt_ok jl \<longleftrightarrow> (\<forall>t. NewNumericDate jl t \<le> t) \<and>
     (\<forall>key claims tok keyfunc now. SignedString jl key claims = Inr tok \<longrightarrow> keyfunc True ''HS256'' = Inr key \<longrightarrow>
        NotBefore claims \<le> now \<longrightarrow> now < ExpiresAt claims \<longrightarrow>
        ParseWithClaims jl tok keyfunc now = Inr (claims, True))"

section \<open>Middleware\<close>

definition RequireAuth ::
  "jwt_lib \<Rightarrow> JWTConfig \<Rightarrow> time \<Rightarrow> string \<Rightarrow> string option \<Rightarrow> 'b handler \<Rightarrow> 'b handler" where
  "RequireAuth jl cfg now authHeader cookie next_h = (\<lambda>ctx.
     let bearer = (if authHeader \<noteq> '''' \<and> HasPrefix authHeader ''Bearer '' then TrimPrefix authHeader ''Bearer '' else '''');
         tokenString = (if bearer = '''' then (case cookie of Some v \<Rightarrow> v | None \<Rightarrow> '''') else bearer)
     in if tokenString = '''' then ret (ErrorResponse 401 ''authentication required'')
        else case ValidateToken jl cfg now tokenString of
          Inl _ \<Rightarrow> ret (ErrorResponse 401 ''invalid or expired token'')
        | Inr claims \<Rightarrow> next_h (ctx\<lparr>ctxUserID := Some (claim_UserID claims),
              ctxUsername := Some (claim_Username claims), ctxRoleID := Some (claim_RoleID claims),
              ctxPermissions := Some (claim_Permissions claims)\<rparr>))"

section \<open>Handlers\<close>

text \<open>What the handlers are built from: the packages, the token configuration, the choices of the
  mapper, and whether a party store is wired in.\<close>

record auth_env =
  env_unicode :: unicode_tables
  env_bcrypt :: bcrypt
  env_jwt :: jwt_lib
  env_config :: JWTConfig
  env_orm :: orm
  env_parties :: bool

record loginRequest =
  login_Username :: string
  login_Password :: string

text \<open>The cookie a reply sets: its value, empty with a negative age when it is cleared.\<close>

record loginResponse =
  resp_Token :: string
  resp_User :: User
  resp_Cookie :: string

definition Login :: "auth_env \<Rightarrow> time \<Rightarrow> loginRequest option \<Rightarrow> (db, loginResponse reply) act" where
  "Login env now body = (case body of
     None \<Rightarrow> ret (ErrorResponse 400 ''invalid request body'')
   | Some req \<Rightarrow>
     if login_Username req = '''' \<or> login_Password req = ''''
     then ret (ErrorResponse 400 ''username and password are required'')
     else
       try_op (UserStore_GetByUsername (login_Username req))
         (\<lambda>_. ret (ErrorResponse 500 ''internal error'')) (\<lambda>user.
       case user of
         None \<Rightarrow> ret (ErrorResponse 401 ''invalid credentials'')
       | Some user \<Rightarrow>
         if \<not> IsActive user then ret (ErrorResponse 403 ''account is disabled'')
         else if (case LockedUntil user of Some t \<Rightarrow> now < t | None \<Rightarrow> False)
         then ret (ErrorResponse 423 ''account is locked, try again later'')
         else if \<not> CheckPassword (env_bcrypt env) (login_Password req) (PasswordHash user)
         then ignore_op (IncrementFailedAttempts (env_orm env) now (user_ID user))
                (ret (ErrorResponse 401 ''invalid credentials''))
         else
           ignore_op (ResetFailedAttempts now (user_ID user)) (
           ignore_op (UserStore_UpdateLastLogin now (user_ID user)) (
           try_op (RoleStore_GetByID (user_RoleID user)) (\<lambda>_. ret (ErrorResponse 500 ''internal error'')) (\<lambda>role.
           case GenerateToken (env_jwt env) (env_config env) now user role of
             Inl _ \<Rightarrow> ret (ErrorResponse 500 ''failed to generate token'')
           | Inr token \<Rightarrow> ret (JSONResponse 200
               \<lparr>resp_Token = token, resp_User = user, resp_Cookie = token\<rparr>))))))"

definition Logout :: "(db, (string \<times> string) reply) act" where
  "Logout = ret (JSONResponse 200 (''logged out'', ''''))"

definition Refresh :: "auth_env \<Rightarrow> time \<Rightarrow> string handler" where
  "Refresh env now = (\<lambda>ctx.
     try_op (UserStore_GetByID (UserIDFromContext ctx))
       (\<lambda>_. ret (ErrorResponse 401 ''user not found'')) (\<lambda>user.
     case user of
       None \<Rightarrow> ret (ErrorResponse 401 ''user not found'')
     | Some user \<Rightarrow>
       if \<not> IsActive user then ret (ErrorResponse 401 ''account is disabled'')
       else
         try_op (RoleStore_GetByID (user_RoleID user)) (\<lambda>_. ret (ErrorResponse 500 ''internal error'')) (\<lambda>role.
         case GenerateToken (env_jwt env) (env_config env) now user role of
           Inl _ \<Rightarrow> ret (ErrorResponse 500 ''failed to generate token'')
         | Inr token \<Rightarrow> ret (JSONResponse 200 token))))"

definition Me :: "User handler" where
  "Me = (\<lambda>ctx.
     try_op (UserStore_GetByID (UserIDFromContext ctx)) (\<lambda>_. ret (ErrorResponse 404 ''user not found'')) (\<lambda>user.
     case user of
       None \<Rightarrow> ret (ErrorResponse 404 ''user not found'')
     | Some user \<Rightarrow> ret (JSONResponse 200 user)))"

definition MyProjectsHandler :: "UserProjectMembership list handler" where
  "MyProjectsHandler = (\<lambda>ctx.
     if UserIDFromContext ctx = '''' then ret (ErrorResponse 401 ''unauthenticated'')
     else try_op (ResolveUserProjects (UserIDFromContext ctx))
            (\<lambda>_. ret (ErrorResponse 500 ''failed to load projects'')) (\<lambda>ms. ret (JSONResponse 200 ms)))"

record changePasswordRequest =
  CurrentPassword :: string
  NewPassword :: string

definition ChangePassword :: "auth_env \<Rightarrow> time \<Rightarrow> changePasswordRequest option \<Rightarrow> string handler" where
  "ChangePassword env now body = (\<lambda>ctx. case body of
     None \<Rightarrow> ret (ErrorResponse 400 ''invalid request body'')
   | Some req \<Rightarrow>
     if CurrentPassword req = '''' \<or> NewPassword req = ''''
     then ret (ErrorResponse 400 ''current_password and new_password are required'')
     else
       try_op (UserStore_GetByID (UserIDFromContext ctx)) (\<lambda>_. ret (ErrorResponse 404 ''user not found'')) (\<lambda>user.
       case user of
         None \<Rightarrow> ret (ErrorResponse 404 ''user not found'')
       | Some user \<Rightarrow>
         if \<not> CheckPassword (env_bcrypt env) (CurrentPassword req) (PasswordHash user)
         then ret (ErrorResponse 401 ''current password is incorrect'')
         else case ValidatePasswordStrength (env_unicode env) (NewPassword req) of
           Some e \<Rightarrow> ret (ErrorResponse 400 (error_string e))
         | None \<Rightarrow> (case HashPassword (env_unicode env) (env_bcrypt env) (NewPassword req) of
               Inl e \<Rightarrow> ret (ErrorResponse 400 (error_string e))
             | Inr hash \<Rightarrow>
                 try_op (UserStore_Update (env_orm env) now (user\<lparr>PasswordHash := hash\<rparr>))
                   (\<lambda>_. ret (ErrorResponse 500 ''failed to update password''))
                   (\<lambda>_. ret (JSONResponse 200 ''password changed'')))))"

section \<open>The first administrator\<close>

text \<open>The result is the generated password, empty when there are users already.\<close>

definition BootstrapAdmin :: "auth_env \<Rightarrow> string \<Rightarrow> time \<Rightarrow> draws \<Rightarrow> (db, string) op" where
  "BootstrapAdmin env uid now ds =
     bind_op UserStore_Count ''counting users'' (\<lambda>count.
     if count > 0 then ok ''''
     else case fst (generatePassword ds) of
       Inl e \<Rightarrow> fail (wrapf ''generating password'' e)
     | Inr password \<Rightarrow> (case HashPassword (env_unicode env) (env_bcrypt env) password of
           Inl e \<Rightarrow> fail (wrapf ''hashing admin password'' e)
         | Inr hash \<Rightarrow>
             bind_op (UserStore_Create now \<lparr>user_ID = uid, Username = ''admin'', Email = '''',
                 user_DisplayName = ''Administrator'', PasswordHash = hash, user_RoleID = ''role-admin'',
                 user_Role = None, IsActive = True, LastLogin = None, FailedAttempts = 0,
                 LockedUntil = None, user_CreatedAt = zero_time, user_UpdatedAt = zero_time\<rparr>)
               ''creating admin user'' (\<lambda>_. ok password)))"

section \<open>Login on an engine that refuses nothing\<close>

text \<open>What bcrypt documents: a hash it generated accepts the password it was generated from.\<close>

definition bcrypt_ok :: "bcrypt \<Rightarrow> bool" where
  "bcrypt_ok bc \<longleftrightarrow> (\<forall>pw cost h. GenerateFromPassword bc pw cost = Inr h \<longrightarrow> CompareHashAndPassword bc h pw = None)"

abbreviation credentials :: "string \<Rightarrow> string \<Rightarrow> loginRequest option" where
  "credentials name pw \<equiv> Some \<lparr>login_Username = name, login_Password = pw\<rparr>"

definition locked_at :: "User \<Rightarrow> time \<Rightarrow> bool" where
  "locked_at u now \<longleftrightarrow> (case LockedUntil u of Some t \<Rightarrow> now < t | None \<Rightarrow> False)"

lemma Login_locked:
  assumes "faults s = []" and "accounts_inv s" and "u \<in> set (users s)" and "IsActive u"
    and "Username u \<noteq> ''''" and "pw \<noteq> ''''" and "locked_at u now"
  shows "Login env now (credentials (Username u) pw) s =
    (ErrorResponse 423 ''account is locked, try again later'', s)"
  using assms by (simp add: Login_def try_op_def GetByUsername_clean locked_at_def)

lemma Login_disabled:
  assumes "faults s = []" and "accounts_inv s" and "u \<in> set (users s)" and "\<not> IsActive u"
    and "Username u \<noteq> ''''" and "pw \<noteq> ''''"
  shows "Login env now (credentials (Username u) pw) s = (ErrorResponse 403 ''account is disabled'', s)"
  using assms by (simp add: Login_def try_op_def GetByUsername_clean)

lemma Login_wrong:
  assumes "faults s = []" and "accounts_inv s" and "u \<in> set (users s)" and "IsActive u"
    and "Username u \<noteq> ''''" and "pw \<noteq> ''''" and "\<not> locked_at u now"
    and "\<not> CheckPassword (env_bcrypt env) pw (PasswordHash u)"
  shows "Login env now (credentials (Username u) pw) s =
    (ErrorResponse 401 ''invalid credentials'', replace_user (failed_row (env_orm env) now u) s)"
  using assms IncrementFailedAttempts_clean [OF assms(1-3)]
  by (simp add: Login_def ignore_op_def try_op_def GetByUsername_clean locked_at_def)

definition logged_in :: "time \<Rightarrow> string \<Rightarrow> db \<Rightarrow> db" where
  "logged_in now i s = s\<lparr>users := map (\<lambda>q. if user_ID q = i then q\<lparr>FailedAttempts := 0, LockedUntil := None,
     LastLogin := Some now, user_UpdatedAt := now\<rparr> else q) (users s)\<rparr>"

lemma Login_right:
  assumes "faults s = []" and "accounts_inv s" and "u \<in> set (users s)" and "IsActive u"
    and "Username u \<noteq> ''''" and "pw \<noteq> ''''" and "\<not> locked_at u now"
    and "CheckPassword (env_bcrypt env) pw (PasswordHash u)"
  shows "Login env now (credentials (Username u) pw) s =
    ((case GenerateToken (env_jwt env) (env_config env) now (u\<lparr>user_Role := role_of s u\<rparr>) (role_of s u) of
        Inl _ \<Rightarrow> ErrorResponse 500 ''failed to generate token''
      | Inr token \<Rightarrow> JSONResponse 200 \<lparr>resp_Token = token, resp_User = u\<lparr>user_Role := role_of s u\<rparr>, resp_Cookie = token\<rparr>),
     logged_in now (user_ID u) s)"
proof -
  have r: "ResetFailedAttempts now (user_ID u) s = (Inr (), s\<lparr>users := map (\<lambda>q. if user_ID q = user_ID u
      then q\<lparr>FailedAttempts := 0, LockedUntil := None, user_UpdatedAt := now\<rparr> else q) (users s)\<rparr>)"
    using assms(1) by (simp add: ResetFailedAttempts_def op_defs update_rows_clean)
  have l: "UserStore_UpdateLastLogin now (user_ID u) (s\<lparr>users := map (\<lambda>q. if user_ID q = user_ID u
      then q\<lparr>FailedAttempts := 0, LockedUntil := None, user_UpdatedAt := now\<rparr> else q) (users s)\<rparr>)
     = (Inr (), logged_in now (user_ID u) s)"
    using assms(1) by (simp add: UserStore_UpdateLastLogin_def op_defs update_rows_clean logged_in_def comp_def if_distrib cong: if_cong)
  have g: "RoleStore_GetByID (user_RoleID u) (logged_in now (user_ID u) s) = (Inr (role_of s u), logged_in now (user_ID u) s)"
    using assms(1) by (simp add: RoleStore_GetByID_def first_or_nil_clean logged_in_def role_of_def)
  show ?thesis
    using assms by (simp add: Login_def ignore_op_def try_op_def GetByUsername_clean locked_at_def r l g split: sum.split)
qed

text \<open>Login with a name that no user has.\<close>

lemma Login_unknown:
  assumes "faults s = []" and "name \<notin> Username ` set (users s)" and "name \<noteq> ''''" and "pw \<noteq> ''''"
  shows "Login env now (credentials name pw) s = (ErrorResponse 401 ''invalid credentials'', s)"
proof -
  have "first_by user_ID (\<lambda>u. Username u = name) (users s) = None" using assms(2) by (auto simp: first_by_None)
  with assms show ?thesis by (simp add: Login_def try_op_def UserStore_GetByUsername_def get_user_clean)
qed

lemma accounts_failed:
  assumes "faults s = []" and "accounts_inv s" and "u \<in> set (users s)"
  shows "accounts_inv (replace_user (failed_row orm now u) s)"
  using preserves_result [OF UserStore_accounts(8) assms(2) IncrementFailedAttempts_clean [OF assms]] .

section \<open>Lockout\<close>

text \<open>A sequence of login attempts of one user: the clock and the password of each.\<close>

fun login_all :: "auth_env \<Rightarrow> string \<Rightarrow> (time \<times> string) list \<Rightarrow> (db, nat list) act" where
  "login_all env name [] = ret []"
| "login_all env name ((now, pw) # attempts) = (\<lambda>s.
     let (r, s1) = Login env now (credentials name pw) s;
         (rs, s2) = login_all env name attempts s1
     in (status r # rs, s2))"

lemma lockout_run:
  assumes "faults s = []" and "accounts_inv s" and "u \<in> set (users s)" and "IsActive u"
    and "Username u \<noteq> ''''" and "LockedUntil u = None" and "attempts \<noteq> []"
    and "FailedAttempts u + int (length attempts) = maxFailedAttempts"
    and "\<forall>(t, pw) \<in> set attempts. pw \<noteq> '''' \<and> \<not> CheckPassword (env_bcrypt env) pw (PasswordHash u)"
  shows "\<exists>s' v. login_all env (Username u) attempts s = (replicate (length attempts) 401, s') \<and>
    faults s' = [] \<and> accounts_inv s' \<and> v \<in> set (users s') \<and> Username v = Username u \<and> IsActive v \<and>
    LockedUntil v = Some (fst (last attempts) + lockDuration)"
  using assms
proof (induction attempts arbitrary: s u)
  case (Cons a attempts)
  obtain now pw where a: "a = (now, pw)" by (cases a)
  let ?v = "failed_row (env_orm env) now u" and ?s = "replace_user (failed_row (env_orm env) now u) s"
  have l: "Login env now (credentials (Username u) pw) s = (ErrorResponse 401 ''invalid credentials'', ?s)"
    using Cons.prems a by (intro Login_wrong) (auto simp: locked_at_def)
  have I: "accounts_inv ?s" using Cons.prems(1-3) by (rule accounts_failed)
  have v: "?v \<in> set (users ?s)" using Cons.prems(3) by (intro in_replace_user) simp_all
  show ?case
  proof (cases "attempts = []")
    case True
    with Cons.prems(8) have "LockedUntil ?v = Some (now + lockDuration)" by simp
    with True a l I v Cons.prems(1,4) show ?thesis by (intro exI [of _ ?s] exI [of _ ?v]) simp
  next
    case False
    with Cons.prems(8) have "FailedAttempts ?v + int (length attempts) = maxFailedAttempts"
      and "LockedUntil ?v = None" using Cons.prems(6) by (cases attempts; simp)+
    then have "\<exists>s' w. login_all env (Username ?v) attempts ?s = (replicate (length attempts) 401, s') \<and>
      faults s' = [] \<and> accounts_inv s' \<and> w \<in> set (users s') \<and> Username w = Username ?v \<and> IsActive w \<and>
      LockedUntil w = Some (fst (last attempts) + lockDuration)"
      using Cons.prems I v False by (intro Cons.IH) auto
    with False a l show ?thesis by auto
  qed
qed simp

section \<open>Properties\<close>

text \<open>\<^bold>\<open>C8\<close>  Brute force is stopped: as soon as the failed attempts of an active user add up to five,
  each answered 401, every further login before fifteen minutes have passed since the last one is
  answered 423 and changes nothing, even with the right password.\<close>

theorem lockout_after_five_failures:
  assumes "faults s = []" and "accounts_inv s" and "u \<in> set (users s)" and "IsActive u"
    and "Username u \<noteq> ''''" and "LockedUntil u = None" and "attempts \<noteq> []"
    and "FailedAttempts u + int (length attempts) = 5"
    and "\<forall>(t, pw) \<in> set attempts. pw \<noteq> '''' \<and> \<not> CheckPassword (env_bcrypt env) pw (PasswordHash u)"
    and "pw \<noteq> ''''" and "t < fst (last attempts) + 15 * 60 * Second"
  shows "\<exists>s'. login_all env (Username u) attempts s = (replicate (length attempts) 401, s') \<and>
    Login env t (credentials (Username u) pw) s' = (ErrorResponse 423 ''account is locked, try again later'', s')"
proof -
  obtain s' v where r: "login_all env (Username u) attempts s = (replicate (length attempts) 401, s')"
    and v: "faults s' = []" "accounts_inv s'" "v \<in> set (users s')" "Username v = Username u" "IsActive v"
      "LockedUntil v = Some (fst (last attempts) + lockDuration)"
    using lockout_run [OF assms(1-7) _ assms(9)] assms(8) by (auto simp: maxFailedAttempts_def)
  have "locked_at v t"
    using v(6) assms(11) by (simp add: locked_at_def lockDuration_def Minute_def Second_def)
  with Login_locked [OF v(1-3,5)] v(4) assms(5,10) have
    "Login env t (credentials (Username u) pw) s' = (ErrorResponse 423 ''account is locked, try again later'', s')"
    by metis
  with r show ?thesis by blast
qed

text \<open>Sample packages: tokens are the subject, and a hash is the reversed password.\<close>

definition sample_tables :: unicode_tables where
  "sample_tables = \<lparr>wide_upper = (\<lambda>_. False), wide_lower = (\<lambda>_. False), wide_digit = (\<lambda>_. False),
     wide_punct = (\<lambda>_. False), wide_symbol = (\<lambda>_. False)\<rparr>"

definition sample_bcrypt :: bcrypt where
  "sample_bcrypt = \<lparr>GenerateFromPassword = (\<lambda>pw cost. Inr (rev pw)),
     CompareHashAndPassword = (\<lambda>h pw. if h = rev pw then None else Some (errorf ''mismatch''))\<rparr>"

definition sample_claims :: Claims where
  "sample_claims = \<lparr>claim_UserID = ''u1'', claim_Username = ''ann'', claim_RoleID = ''r1'',
     claim_Permissions = [''catalog:read''], ExpiresAt = 100 + 24 * Hour, IssuedAt = 100, NotBefore = 100,
     Issuer = ''agentlens'', Subject = ''u1''\<rparr>"

definition sample_jwt :: jwt_lib where
  "sample_jwt = \<lparr>NewNumericDate = (\<lambda>t. t),
     SignedString = (\<lambda>key c. if c = sample_claims then Inr (CHR ''t'' # key) else Inl (errorf ''unsupported'')),
     ParseWithClaims = (\<lambda>tok keyfunc now. case keyfunc True ''HS256'' of Inl e \<Rightarrow> Inl e
       | Inr key \<Rightarrow> if tok = CHR ''t'' # key \<and> NotBefore sample_claims \<le> now \<and> now < ExpiresAt sample_claims
           then Inr (sample_claims, True) else Inl (errorf ''invalid''))\<rparr>"

lemma sample_jwt_ok: "jwt_ok sample_jwt"
  by (simp add: jwt_ok_def sample_jwt_def split: if_splits)

lemma sample_bcrypt_ok: "bcrypt_ok sample_bcrypt"
  by (simp add: bcrypt_ok_def sample_bcrypt_def)

definition sample_env :: auth_env where
  "sample_env = \<lparr>env_unicode = sample_tables, env_bcrypt = sample_bcrypt, env_jwt = sample_jwt,
     env_config = \<lparr>Secret = ''k'', Expiration = 24 * Hour, cfg_RefreshWindow = 30 * Minute\<rparr>,
     env_orm = sample_orm, env_parties = True\<rparr>"

definition sample_user :: User where
  "sample_user = \<lparr>user_ID = ''u1'', Username = ''ann'', Email = '''', user_DisplayName = ''Ann'',
     PasswordHash = rev ''Secret-123'', user_RoleID = ''r1'', user_Role = None, IsActive = True, LastLogin = None,
     FailedAttempts = 0, LockedUntil = None, user_CreatedAt = 1, user_UpdatedAt = 1\<rparr>"

definition sample_role :: Role where
  "sample_role = \<lparr>role_ID = ''r1'', role_Name = ''viewer'', role_Description = '''',
     Permissions = [''catalog:read''], role_IsSystem = True, role_CreatedAt = 1, role_UpdatedAt = 1\<rparr>"

definition sample_accounts :: db where
  "sample_accounts = empty_db\<lparr>users := [sample_user], roles := [sample_role]\<rparr>"

lemma sample_accounts_ok [simp]:
  "faults sample_accounts = []" "accounts_inv sample_accounts" "sample_user \<in> set (users sample_accounts)"
  by (simp_all add: sample_accounts_def empty_db_def accounts_inv_def sample_user_def)

lemma lockout_after_five_failures_witness:
  "\<exists>s'. login_all sample_env ''ann'' [(1, ''a''), (2, ''b''), (3, ''c''), (4, ''d''), (5, ''e'')] sample_accounts
      = ([401, 401, 401, 401, 401], s') \<and>
    Login sample_env 6 (credentials ''ann'' ''Secret-123'') s' = (ErrorResponse 423 ''account is locked, try again later'', s')"
proof -
  have n: "Username sample_user = ''ann''" by (simp add: sample_user_def)
  have "\<exists>s'. login_all sample_env (Username sample_user) [(1, ''a''), (2, ''b''), (3, ''c''), (4, ''d''), (5, ''e'')] sample_accounts
      = (replicate (length [(1 :: time, ''a''), (2, ''b''), (3, ''c''), (4, ''d''), (5, ''e'')]) 401, s') \<and>
    Login sample_env 6 (credentials (Username sample_user) ''Secret-123'') s' = (ErrorResponse 423 ''account is locked, try again later'', s')"
    by (rule lockout_after_five_failures [OF sample_accounts_ok])
       (simp_all add: sample_user_def CheckPassword_def sample_env_def sample_bcrypt_def Second_def)
  then show ?thesis by (simp add: n)
qed

text \<open>\<^bold>\<open>C16\<close>  A login that answers 200 was made with the password of an active, unlocked user, and the
  token it returns, used as a bearer token before it expires, passes the authentication middleware
  and hands the request on with that user's identity and exactly the permissions of the user's
  role.\<close>

theorem login_token_authenticates:
  assumes "jwt_ok (env_jwt env)" and "faults s = []" and "accounts_inv s"
    and login: "Login env now (Some req) s = (JSONResponse 200 resp, s')" and "resp_Token resp \<noteq> ''''"
    and "now \<le> t" and "t < NewNumericDate (env_jwt env) (now + Expiration (env_config env))"
  shows "\<exists>u \<in> set (users s). Username u = login_Username req \<and> IsActive u \<and> \<not> locked_at u now \<and>
    CheckPassword (env_bcrypt env) (login_Password req) (PasswordHash u) \<and>
    RequireAuth (env_jwt env) (env_config env) t (''Bearer '' @ resp_Token resp) cookie next_h ctx =
      next_h (ctx\<lparr>ctxUserID := Some (user_ID u), ctxUsername := Some (Username u), ctxRoleID := Some (user_RoleID u),
        ctxPermissions := Some (case role_of s u of Some r \<Rightarrow> Permissions r | None \<Rightarrow> [])\<rparr>)"
proof -
  obtain name pw where req: "req = \<lparr>login_Username = name, login_Password = pw\<rparr>" by (cases req)
  have ne: "name \<noteq> ''''" "pw \<noteq> ''''" using login req by (auto simp: Login_def)
  with login req assms(2) obtain u where u: "u \<in> set (users s)" "Username u = name"
    using Login_unknown [of s name pw env now] by fastforce
  have a: "IsActive u" using login Login_disabled [OF assms(2,3) u(1)] u(2) ne req by fastforce
  have l: "\<not> locked_at u now" using login Login_locked [OF assms(2,3) u(1) a] u(2) ne req by auto
  have c: "CheckPassword (env_bcrypt env) pw (PasswordHash u)"
    using login Login_wrong [OF assms(2,3) u(1) a _ _ l] u(2) ne req by fastforce
  let ?u = "u\<lparr>user_Role := role_of s u\<rparr>"
  let ?claims = "token_claims (env_jwt env) (env_config env) now ?u (role_of s u)"
  have "GenerateToken (env_jwt env) (env_config env) now ?u (role_of s u) = Inr (resp_Token resp)"
    using login Login_right [OF assms(2,3) u(1) a _ _ l c] u(2) ne req by (auto split: sum.splits)
  then have "SignedString (env_jwt env) (Secret (env_config env)) ?claims = Inr (resp_Token resp)"
    by (simp add: GenerateToken_def split: sum.splits)
  moreover have "NotBefore ?claims \<le> t" "t < ExpiresAt ?claims"
    using assms(1,6,7) by (auto simp: token_claims_def jwt_ok_def intro: order_trans)
  ultimately have "ParseWithClaims (env_jwt env) (resp_Token resp) (token_key (env_config env)) t = Inr (?claims, True)"
    using assms(1) by (simp add: jwt_ok_def token_key_def)
  then have v: "ValidateToken (env_jwt env) (env_config env) t (resp_Token resp) = Inr ?claims"
    by (simp add: ValidateToken_def)
  have "RequireAuth (env_jwt env) (env_config env) t (''Bearer '' @ resp_Token resp) cookie next_h ctx =
      next_h (ctx\<lparr>ctxUserID := Some (user_ID u), ctxUsername := Some (Username u), ctxRoleID := Some (user_RoleID u),
        ctxPermissions := Some (case role_of s u of Some r \<Rightarrow> Permissions r | None \<Rightarrow> [])\<rparr>)"
    using v assms(5) by (simp add: RequireAuth_def TrimPrefix_def token_claims_def)
  with u a l c req show ?thesis by auto
qed

lemma login_token_authenticates_witness:
  "\<exists>resp s'. Login sample_env 100 (credentials ''ann'' ''Secret-123'') sample_accounts = (JSONResponse 200 resp, s') \<and>
     RequireAuth sample_jwt (env_config sample_env) 200 (''Bearer '' @ resp_Token resp) None
       (\<lambda>c. ret (JSONResponse 200 (PermissionsFromContext c))) empty_ctx s' = (JSONResponse 200 [''catalog:read''], s')"
proof -
  let ?l = "Login sample_env 100 (credentials ''ann'' ''Secret-123'') sample_accounts"
  have r: "role_of sample_accounts sample_user = Some sample_role" by code_simp
  have tok: "(case fst ?l of JSONResponse c resp \<Rightarrow> (c, resp_Token resp) | _ \<Rightarrow> (0, '''')) = (200, ''tk'')" by code_simp
  then obtain resp s' where l: "?l = (JSONResponse 200 resp, s')" and t: "resp_Token resp = ''tk''"
    by (cases ?l) (auto split: reply.splits if_splits)
  have "\<exists>u \<in> set (users sample_accounts). Username u = ''ann'' \<and> IsActive u \<and> \<not> locked_at u 100 \<and>
    CheckPassword (env_bcrypt sample_env) ''Secret-123'' (PasswordHash u) \<and>
    RequireAuth (env_jwt sample_env) (env_config sample_env) 200 (''Bearer '' @ resp_Token resp) None
      (\<lambda>c. ret (JSONResponse 200 (PermissionsFromContext c))) empty_ctx =
     ret (JSONResponse 200 (PermissionsFromContext (empty_ctx\<lparr>ctxUserID := Some (user_ID u), ctxUsername := Some (Username u),
       ctxRoleID := Some (user_RoleID u),
        ctxPermissions := Some (case role_of sample_accounts u of Some r \<Rightarrow> Permissions r | None \<Rightarrow> [])\<rparr>)))"
    using login_token_authenticates [OF _ _ _ l, of 200 None "\<lambda>c. ret (JSONResponse 200 (PermissionsFromContext c))" empty_ctx]
      sample_jwt_ok t
    by (simp add: sample_env_def sample_jwt_def Hour_def)
  then have "RequireAuth sample_jwt (env_config sample_env) 200 (''Bearer '' @ resp_Token resp) None
      (\<lambda>c. ret (JSONResponse 200 (PermissionsFromContext c))) empty_ctx s' = (JSONResponse 200 [''catalog:read''], s')"
    using r by (auto simp: sample_accounts_def sample_env_def PermissionsFromContext_def sample_role_def)
  with l show ?thesis by blast
qed

text \<open>On an empty user table \<^verbatim>\<open>BootstrapAdmin\<close> creates the user \<^verbatim>\<open>admin\<close>, whom the reported password opens.\<close>

lemma BootstrapAdmin_clean:
  assumes "bcrypt_ok (env_bcrypt env)" and "faults s = []" and "users s = []"
    and "None \<notin> set ds" and "24 \<le> length ds"
    and "\<forall>pw. \<exists>h. GenerateFromPassword (env_bcrypt env) pw BcryptCost = Inr h"
  obtains pw u where "BootstrapAdmin env uid now ds s = (Inr pw, s\<lparr>users := [u]\<rparr>)" and "pw \<noteq> ''''"
    and "user_ID u = uid" and "Username u = ''admin''" and "IsActive u" and "user_RoleID u = ''role-admin''"
    and "user_Role u = None" and "\<And>t. \<not> locked_at u t" and "CheckPassword (env_bcrypt env) pw (PasswordHash u)"
proof -
  obtain pw rest where g: "generatePassword ds = (Inr pw, rest)" "length pw = 20"
    "ValidatePasswordStrength (env_unicode env) pw = None"
    using generator_policy [OF assms(4,5)] by blast
  have pwne: "pw \<noteq> ''''" using g(2) by auto
  obtain h where h: "GenerateFromPassword (env_bcrypt env) pw BcryptCost = Inr h" using assms(6) by blast
  define u where "u = new_user_row now \<lparr>user_ID = uid, Username = ''admin'', Email = '''',
                 user_DisplayName = ''Administrator'', PasswordHash = h, user_RoleID = ''role-admin'',
                 user_Role = None, IsActive = True, LastLogin = None, FailedAttempts = 0,
                 LockedUntil = None, user_CreatedAt = zero_time, user_UpdatedAt = zero_time\<rparr>"
  have "BootstrapAdmin env uid now ds s = (Inr pw, s\<lparr>users := [u]\<rparr>)"
    using assms(2,3) g h
    by (simp add: BootstrapAdmin_def op_defs UserStore_Count_def UserStore_Create_def HashPassword_def
        insert_row_clean user_clash_def u_def)
  moreover have "user_ID u = uid" "Username u = ''admin''" "IsActive u" "user_RoleID u = ''role-admin''"
    "user_Role u = None" "\<not> locked_at u t" "PasswordHash u = h" for t
    by (simp_all add: u_def new_user_row_def locked_at_def)
  moreover have "CheckPassword (env_bcrypt env) pw h"
    using assms(1) h by (auto simp: bcrypt_ok_def CheckPassword_def)
  ultimately show thesis using that pwne by blast
qed

lemma bootstrap_password_logs_in:
  assumes "bcrypt_ok (env_bcrypt env)" and "faults s = []" and "accounts_inv s" and "users s = []"
    and "None \<notin> set ds" and "24 \<le> length ds"
    and "\<forall>pw. \<exists>h. GenerateFromPassword (env_bcrypt env) pw BcryptCost = Inr h"
    and "\<forall>key c. \<exists>tok. SignedString (env_jwt env) key c = Inr tok"
  shows "\<exists>pw s'. BootstrapAdmin env uid now ds s = (Inr pw, s') \<and>
    status (fst (Login env t (credentials ''admin'' pw) s')) = 200"
proof -
  obtain pw u where b: "BootstrapAdmin env uid now ds s = (Inr pw, s\<lparr>users := [u]\<rparr>)" and "pw \<noteq> ''''"
    and u: "Username u = ''admin''" "IsActive u" "user_Role u = None" "\<not> locked_at u t"
      "CheckPassword (env_bcrypt env) pw (PasswordHash u)"
    using BootstrapAdmin_clean [OF assms(1,2,4-7), of uid now] by metis
  moreover have I: "accounts_inv (s\<lparr>users := [u]\<rparr>)" using assms(3) u(3) by (simp add: accounts_inv_def)
  moreover obtain tok where "SignedString (env_jwt env) (Secret (env_config env)) (token_claims (env_jwt env) (env_config env) t
      (u\<lparr>user_Role := role_of (s\<lparr>users := [u]\<rparr>) u\<rparr>) (role_of (s\<lparr>users := [u]\<rparr>) u)) = Inr tok"
    using assms(8) by blast
  ultimately have "status (fst (Login env t (credentials ''admin'' pw) (s\<lparr>users := [u]\<rparr>))) = 200"
    using Login_right [OF _ I, of u pw t env] assms(2) by (auto simp: GenerateToken_def)
  with b show ?thesis by blast
qed

definition sample_env2 :: auth_env where
  "sample_env2 = sample_env\<lparr>env_jwt := sample_jwt\<lparr>SignedString := (\<lambda>key c. Inr key)\<rparr>\<rparr>"

lemma bootstrap_password_logs_in_witness:
  "\<exists>pw s'. BootstrapAdmin sample_env2 ''u0'' 5 (replicate 24 (Some 3)) empty_db = (Inr pw, s') \<and>
    status (fst (Login sample_env2 9 (credentials ''admin'' pw) s')) = 200"
  by (rule bootstrap_password_logs_in)
     (simp_all add: sample_env2_def sample_env_def sample_bcrypt_ok empty_db_def accounts_inv_def,
      simp_all add: sample_bcrypt_def)

text \<open>\<^bold>\<open>C31\<close>  A password change that answers 200 was authorised by the current password, meets the
  policy, and leaves exactly one difference in the account apart from the time stamp: the stored
  hash, which accepts the new password.  In particular the role assignment is kept whichever way
  the mapper treats the loaded role.\<close>

theorem ChangePassword_effect:
  assumes "bcrypt_ok (env_bcrypt env)" and "faults s = []" and "accounts_inv s" and "u \<in> set (users s)"
    and "UserIDFromContext ctx = user_ID u"
    and change: "ChangePassword env now (Some req) ctx s = (JSONResponse 200 msg, s')"
  shows "CheckPassword (env_bcrypt env) (CurrentPassword req) (PasswordHash u) \<and>
    ValidatePasswordStrength (env_unicode env) (NewPassword req) = None \<and>
    (\<exists>h. CheckPassword (env_bcrypt env) (NewPassword req) h \<and>
       s' = replace_user (u\<lparr>PasswordHash := h, user_UpdatedAt := now\<rparr>) s)"
proof -
  let ?u = "u\<lparr>user_Role := role_of s u\<rparr>"
  have g: "UserStore_GetByID (user_ID u) s = (Inr (Some ?u), s)" using assms(2-4) by (rule GetByID_clean)
  have c: "CheckPassword (env_bcrypt env) (CurrentPassword req) (PasswordHash u)"
    and v: "ValidatePasswordStrength (env_unicode env) (NewPassword req) = None"
    and "\<exists>h. HashPassword (env_unicode env) (env_bcrypt env) (NewPassword req) = Inr h"
    using change assms(5) g
    by (auto simp: ChangePassword_def try_op_def split: if_splits option.splits sum.splits)
  then obtain h where h: "HashPassword (env_unicode env) (env_bcrypt env) (NewPassword req) = Inr h" by blast
  then have n: "CheckPassword (env_bcrypt env) (NewPassword req) h"
    using assms(1) v by (auto simp: HashPassword_def bcrypt_ok_def CheckPassword_def split: sum.splits)
  have role: "user_RoleID (saved_user_row (env_orm env) now (?u\<lparr>PasswordHash := h\<rparr>)) = user_RoleID u"
    by (auto simp: saved_user_row_def Let_def role_of_def dest: first_by_Some split: option.split)
  have "user_Role u = None" using assms(3,4) by (auto simp: accounts_inv_def)
  moreover have "saved_user_row (env_orm env) now (?u\<lparr>PasswordHash := h\<rparr>) =
      ?u\<lparr>PasswordHash := h, user_Role := None, user_UpdatedAt := now\<rparr>"
    using role by (intro saved_user_row_same) simp
  ultimately have row: "saved_user_row (env_orm env) now (?u\<lparr>PasswordHash := h\<rparr>) = u\<lparr>PasswordHash := h, user_UpdatedAt := now\<rparr>"
    by (cases u) simp
  have "save_user (env_orm env) now (?u\<lparr>PasswordHash := h\<rparr>) s =
      (Inr (), replace_user (u\<lparr>PasswordHash := h, user_UpdatedAt := now\<rparr>) s)"
    unfolding row [symmetric] by (rule save_user_clean [OF assms(2-4)]) simp_all
  then have "s' = replace_user (u\<lparr>PasswordHash := h, user_UpdatedAt := now\<rparr>) s"
    using change assms(5) g c v h
    by (auto simp: ChangePassword_def op_defs UserStore_Update_def split: if_splits)
  with c v n show ?thesis by blast
qed

lemma ChangePassword_effect_witness:
  "\<exists>s' h. ChangePassword sample_env 50 (Some \<lparr>CurrentPassword = ''Secret-123'', NewPassword = ''Better-4567''\<rparr>)
      (empty_ctx\<lparr>ctxUserID := Some ''u1''\<rparr>) sample_accounts = (JSONResponse 200 ''password changed'', s') \<and>
    CheckPassword sample_bcrypt ''Better-4567'' h \<and>
    s' = replace_user (sample_user\<lparr>PasswordHash := h, user_UpdatedAt := 50\<rparr>) sample_accounts"
proof -
  let ?c = "ChangePassword sample_env 50 (Some \<lparr>CurrentPassword = ''Secret-123'', NewPassword = ''Better-4567''\<rparr>)
      (empty_ctx\<lparr>ctxUserID := Some ''u1''\<rparr>) sample_accounts"
  have "fst ?c = JSONResponse 200 ''password changed''" by code_simp
  then have c: "?c = (JSONResponse 200 ''password changed'', snd ?c)" by (cases ?c) simp
  have b: "env_bcrypt sample_env = sample_bcrypt" by (simp add: sample_env_def)
  have "UserIDFromContext (empty_ctx\<lparr>ctxUserID := Some ''u1''\<rparr>) = user_ID sample_user"
    by (simp add: UserIDFromContext_def sample_user_def)
  from ChangePassword_effect [OF _ sample_accounts_ok this c] sample_bcrypt_ok show ?thesis
    unfolding b using c by auto
qed

end
