(* ===== verification/User_Api.thy ===== *)
theory User_Api
  imports Auth
begin

text \<open>
  Account management: \<^verbatim>\<open>internal/api/user_handlers.go\<close>, \<^verbatim>\<open>role_handlers.go\<close>,
  \<^verbatim>\<open>settings_handlers.go\<close>.  The decoded map of a settings request is the list of its pairs in the
  order in which the Go loop visits them.
\<close>

section \<open>Users\<close>

definition UserHandler_List :: "(db, User list reply) act" where
  "UserHandler_List = try_op (UserStore_List 0 0) (\<lambda>_. ret (ErrorResponse 500 ''failed to list users''))
     (\<lambda>us. ret (JSONResponse 200 us))"

record createUserRequest =
  cu_Username :: string
  cu_Email :: string
  cu_DisplayName :: string
  cu_Password :: string
  cu_RoleID :: string

text \<open>\<^verbatim>\<open>pid\<close> is the identifier generated for the Person party.\<close>

definition syncPersonOrRollback :: "auth_env \<Rightarrow> string \<Rightarrow> time \<Rightarrow> User \<Rightarrow> (db, unit) op" where
  "syncPersonOrRollback env pid now user =
     (if \<not> env_parties env then ok ()
      else try_op (CreatePersonForUser pid now user)
             (\<lambda>e. ignore_op (UserStore_Delete (user_ID user)) (fail e)) ok)"

definition UserHandler_Create ::
  "auth_env \<Rightarrow> string \<Rightarrow> string \<Rightarrow> time \<Rightarrow> createUserRequest option \<Rightarrow> (db, User reply) act" where
  "UserHandler_Create env uid pid now body = (case body of
     None \<Rightarrow> ret (ErrorResponse 400 ''invalid request body'')
   | Some req \<Rightarrow>
     if blank (cu_Username req) then ret (ErrorResponse 400 ''username is required'')
     else if blank (cu_Password req) then ret (ErrorResponse 400 ''password is required'')
     else if blank (cu_RoleID req) then ret (ErrorResponse 400 ''role_id is required'')
     else
       try_op (UserStore_GetByUsername (cu_Username req)) (\<lambda>_. ret (ErrorResponse 500 ''internal error'')) (\<lambda>existing.
       if existing \<noteq> None then ret (ErrorResponse 409 ''username already exists'')
       else
         try_op (RoleStore_GetByID (cu_RoleID req)) (\<lambda>_. ret (ErrorResponse 500 ''internal error'')) (\<lambda>role.
         if role = None then ret (ErrorResponse 400 ''role not found'')
         else case HashPassword (env_unicode env) (env_bcrypt env) (cu_Password req) of
           Inl e \<Rightarrow> ret (ErrorResponse 400 (error_string e))
         | Inr hash \<Rightarrow>
           try_op (UserStore_Create now \<lparr>user_ID = uid, Username = cu_Username req, Email = cu_Email req,
               user_DisplayName = cu_DisplayName req, PasswordHash = hash, user_RoleID = cu_RoleID req,
               user_Role = None, IsActive = True, LastLogin = None, FailedAttempts = 0, LockedUntil = None,
               user_CreatedAt = zero_time, user_UpdatedAt = zero_time\<rparr>)
             (\<lambda>_. ret (ErrorResponse 500 ''failed to create user'')) (\<lambda>user.
           try_op (syncPersonOrRollback env pid now user)
             (\<lambda>_. ret (ErrorResponse 500 ''failed to create user'')) (\<lambda>_.
           try_op (UserStore_GetByID (user_ID user)) (\<lambda>_. ret (JSONResponse 201 user)) (\<lambda>created.
           case created of
             None \<Rightarrow> ret (JSONResponse 201 user)
           | Some created \<Rightarrow> ret (JSONResponse 201 created)))))))"

definition UserHandler_Get :: "string \<Rightarrow> (db, User reply) act" where
  "UserHandler_Get userID =
     try_op (UserStore_GetByID userID) (\<lambda>_. ret (ErrorResponse 500 ''failed to get user'')) (\<lambda>user.
     case user of
       None \<Rightarrow> ret (ErrorResponse 404 ''user not found'')
     | Some user \<Rightarrow> ret (JSONResponse 200 user))"

record updateUserRequest =
  uu_Email :: "string option"
  uu_DisplayName :: "string option"
  uu_RoleID :: "string option"
  uu_IsActive :: "bool option"

definition set_opt :: "'a option \<Rightarrow> ('a \<Rightarrow> 'b \<Rightarrow> 'b) \<Rightarrow> 'b \<Rightarrow> 'b" where
  "set_opt x f b = (case x of Some v \<Rightarrow> f v b | None \<Rightarrow> b)"

definition save_and_reply :: "auth_env \<Rightarrow> time \<Rightarrow> updateUserRequest \<Rightarrow> User \<Rightarrow> (db, User reply) act" where
  "save_and_reply env now req user1 =
     (let user = set_opt (uu_IsActive req) (\<lambda>v u. u\<lparr>IsActive := v\<rparr>) user1 in
      try_op (UserStore_Update (env_orm env) now user) (\<lambda>_. ret (ErrorResponse 500 ''failed to update user'')) (\<lambda>_.
      let reply = try_op (UserStore_GetByID (user_ID user)) (\<lambda>_. ret (JSONResponse 200 user)) (\<lambda>updated.
            case updated of
              None \<Rightarrow> ret (JSONResponse 200 user)
            | Some updated \<Rightarrow> ret (JSONResponse 200 updated))
      in if env_parties env \<and> uu_DisplayName req \<noteq> None
         then ignore_op (UpdatePersonForUser now user) reply
         else reply))"

definition UserHandler_Update ::
  "auth_env \<Rightarrow> time \<Rightarrow> string \<Rightarrow> updateUserRequest option \<Rightarrow> (db, User reply) act" where
  "UserHandler_Update env now userID body = (case body of
     None \<Rightarrow> ret (ErrorResponse 400 ''invalid request body'')
   | Some req \<Rightarrow>
     try_op (UserStore_GetByID userID) (\<lambda>_. ret (ErrorResponse 500 ''failed to get user'')) (\<lambda>user.
     case user of
       None \<Rightarrow> ret (ErrorResponse 404 ''user not found'')
     | Some user0 \<Rightarrow>
       let user = set_opt (uu_DisplayName req) (\<lambda>v u. u\<lparr>user_DisplayName := v\<rparr>)
                    (set_opt (uu_Email req) (\<lambda>v u. u\<lparr>Email := v\<rparr>) user0)
       in case uu_RoleID req of
            None \<Rightarrow> save_and_reply env now req user
          | Some roleID \<Rightarrow>
              try_op (RoleStore_GetByID roleID) (\<lambda>_. ret (ErrorResponse 500 ''internal error'')) (\<lambda>role.
              if role = None then ret (ErrorResponse 400 ''role not found'')
              else save_and_reply env now req (user\<lparr>user_RoleID := roleID\<rparr>))))"

text \<open>The loop that counts active users with the role.\<close>

definition adminCount :: "User \<Rightarrow> User list \<Rightarrow> nat" where
  "adminCount user us = length (filter (\<lambda>u. user_RoleID u = user_RoleID user \<and> IsActive u) us)"

definition UserHandler_Delete :: "string \<Rightarrow> unit handler" where
  "UserHandler_Delete userID = (\<lambda>ctx.
     if userID = UserIDFromContext ctx then ret (ErrorResponse 400 ''cannot delete your own account'')
     else
       try_op (UserStore_GetByID userID) (\<lambda>_. ret (ErrorResponse 500 ''failed to get user'')) (\<lambda>user.
       case user of
         None \<Rightarrow> ret (ErrorResponse 404 ''user not found'')
       | Some user \<Rightarrow>
         let delete = try_op (UserStore_Delete userID) (\<lambda>_. ret (ErrorResponse 500 ''failed to delete user''))
                        (\<lambda>_. ret (WriteHeader 204))
         in if (case user_Role user of Some r \<Rightarrow> role_Name r = ''admin'' | None \<Rightarrow> False)
            then try_op (UserStore_List 0 0) (\<lambda>_. ret (ErrorResponse 500 ''internal error'')) (\<lambda>us.
                 if adminCount user us \<le> 1 then ret (ErrorResponse 400 ''cannot delete the last admin user'')
                 else delete)
            else delete))"

section \<open>Roles\<close>

definition RoleHandler_List :: "(db, Role list reply) act" where
  "RoleHandler_List = try_op RoleStore_List (\<lambda>_. ret (ErrorResponse 500 ''failed to list roles''))
     (\<lambda>rs. ret (JSONResponse 200 rs))"

record createRoleRequest =
  cr_Name :: string
  cr_Description :: string
  cr_Permissions :: "string list"

definition RoleHandler_Create :: "string \<Rightarrow> time \<Rightarrow> createRoleRequest option \<Rightarrow> (db, Role reply) act" where
  "RoleHandler_Create uid now body = (case body of
     None \<Rightarrow> ret (ErrorResponse 400 ''invalid request body'')
   | Some req \<Rightarrow>
     if blank (cr_Name req) then ret (ErrorResponse 400 ''name is required'')
     else
       try_op (RoleStore_GetByName (cr_Name req)) (\<lambda>_. ret (ErrorResponse 500 ''internal error'')) (\<lambda>existing.
       if existing \<noteq> None then ret (ErrorResponse 409 ''role name already exists'')
       else
         let role = \<lparr>role_ID = uid, role_Name = cr_Name req, role_Description = cr_Description req,
               Permissions = cr_Permissions req, role_IsSystem = False, role_CreatedAt = now, role_UpdatedAt = now\<rparr>
         in try_op (RoleStore_Create role) (\<lambda>_. ret (ErrorResponse 500 ''failed to create role''))
              (\<lambda>_. ret (JSONResponse 201 role))))"

record updateRoleRequest =
  ur_Name :: "string option"
  ur_Description :: "string option"
  ur_Permissions :: "string list option"

definition RoleHandler_Update :: "time \<Rightarrow> string \<Rightarrow> updateRoleRequest option \<Rightarrow> (db, Role reply) act" where
  "RoleHandler_Update now roleID body = (case body of
     None \<Rightarrow> ret (ErrorResponse 400 ''invalid request body'')
   | Some req \<Rightarrow>
     try_op (RoleStore_GetByID roleID) (\<lambda>_. ret (ErrorResponse 500 ''failed to get role'')) (\<lambda>role.
     case role of
       None \<Rightarrow> ret (ErrorResponse 404 ''role not found'')
     | Some role0 \<Rightarrow>
       let role = (set_opt (ur_Permissions req) (\<lambda>v r. r\<lparr>Permissions := v\<rparr>)
                    (set_opt (ur_Description req) (\<lambda>v r. r\<lparr>role_Description := v\<rparr>)
                      (set_opt (ur_Name req) (\<lambda>v r. r\<lparr>role_Name := v\<rparr>) role0)))\<lparr>role_UpdatedAt := now\<rparr>
       in try_op (RoleStore_Update now role) (\<lambda>_. ret (ErrorResponse 500 ''failed to update role''))
            (\<lambda>_. ret (JSONResponse 200 role))))"

definition RoleHandler_Delete :: "string \<Rightarrow> (db, unit reply) act" where
  "RoleHandler_Delete roleID =
     try_op (RoleStore_GetByID roleID) (\<lambda>_. ret (ErrorResponse 500 ''failed to get role'')) (\<lambda>role.
     case role of
       None \<Rightarrow> ret (ErrorResponse 404 ''role not found'')
     | Some role \<Rightarrow>
       if role_IsSystem role then ret (ErrorResponse 400 ''cannot delete system role'')
       else try_op (RoleStore_Delete roleID) (\<lambda>_. ret (ErrorResponse 500 ''failed to delete role''))
              (\<lambda>_. ret (WriteHeader 204)))"

section \<open>Settings\<close>

definition SettingsHandler_GetAll :: "(db, Setting list reply) act" where
  "SettingsHandler_GetAll = try_op SettingsStore_GetAll (\<lambda>_. ret (ErrorResponse 500 ''failed to get settings''))
     (\<lambda>xs. ret (JSONResponse 200 xs))"

definition SettingsHandler_GetByCategory :: "string \<Rightarrow> (db, Setting list reply) act" where
  "SettingsHandler_GetByCategory category =
     try_op (SettingsStore_GetByCategory category) (\<lambda>_. ret (ErrorResponse 500 ''failed to get settings''))
       (\<lambda>xs. ret (JSONResponse 200 xs))"

fun set_all :: "time \<Rightarrow> (string \<times> string) list \<Rightarrow> (db, string reply) act" where
  "set_all now [] = ret (JSONResponse 200 ''settings updated'')"
| "set_all now ((key, val) # updates) =
     try_op (SettingsStore_Set now key val)
       (\<lambda>_. ret (ErrorResponse 500 (''failed to update setting: '' @ key)))
       (\<lambda>_. set_all now updates)"

definition SettingsHandler_Update :: "time \<Rightarrow> (string \<times> string) list option \<Rightarrow> (db, string reply) act" where
  "SettingsHandler_Update now body = (case body of
     None \<Rightarrow> ret (ErrorResponse 400 ''invalid request body'')
   | Some updates \<Rightarrow> set_all now updates)"

section \<open>What the lookups have seen\<close>

lemma get_user_Inr:
  assumes "get_user cond msg s = (Inr r, s')"
  shows "users s' = users s \<and> roles s' = roles s \<and> parties s' = parties s \<and>
    r = map_option (\<lambda>u. u\<lparr>user_Role := role_of s u\<rparr>) (first_by user_ID cond (users s))"
  using assms unfolding get_user_def preload_role_def
  by (elim try_opE pass_op_InrE First_InrE query_InrE)
     (auto simp: role_of_def pass_op_def try_op_def split: if_splits prod.splits sum.splits
        elim!: First_InrE First_InlE query_InlE)

lemma get_user_tables:
  assumes "get_user cond msg s = (r, s')"
  shows "users s' = users s \<and> roles s' = roles s \<and> parties s' = parties s"
  using assms unfolding get_user_def preload_role_def pass_op_def
  by (elim try_opE First_InrE First_InlE query_InrE query_InlE) (auto split: if_splits)

lemma UserStore_List_tables:
  assumes "UserStore_List l k s = (r, s')"
  shows "users s' = users s \<and> roles s' = roles s \<and> parties s' = parties s"
  using assms unfolding UserStore_List_def bind_op_def pass_op_def
  by (elim try_opE query_InrE query_InlE) auto

lemma UserStore_List_Inr:
  assumes "UserStore_List 0 0 s = (Inr us, s')"
  shows "users s' = users s \<and> roles s' = roles s \<and> parties s' = parties s \<and>
    us = map (\<lambda>u. u\<lparr>user_Role := role_of s u\<rparr>) (sort_key Username (users s))"
  using assms unfolding UserStore_List_def
  by (elim bind_op_InrE pass_op_InrE query_InrE) (auto simp: role_of_def)

lemma UserStore_Delete_users:
  assumes "UserStore_Delete i s = (r, s')"
  shows "(users s' = users s \<or> users s' = filter (\<lambda>u. user_ID u \<noteq> i) (users s)) \<and> roles s' = roles s \<and> parties s' = parties s"
  using assms unfolding UserStore_Delete_def bind_op_def
  by (elim try_opE modify_InrE modify_InlE) auto

section \<open>The last administrator\<close>

definition active_admin :: "db \<Rightarrow> User \<Rightarrow> bool" where
  "active_admin s u \<longleftrightarrow> u \<in> set (users s) \<and> IsActive u \<and>
     (case role_of s u of Some r \<Rightarrow> role_Name r = ''admin'' | None \<Rightarrow> False)"

lemma role_of_cong: "roles s = roles t \<Longrightarrow> role_of s u = role_of t u"
  by (simp add: role_of_def)

lemma another_admin:
  assumes "accounts_inv s" and "active_admin s u"
    and "2 \<le> adminCount (u\<lparr>user_Role := role_of s u\<rparr>) (map (\<lambda>u. u\<lparr>user_Role := role_of s u\<rparr>) (sort_key Username (users s)))"
  shows "\<exists>v. active_admin s v \<and> user_ID v \<noteq> user_ID u"
proof -
  let ?vs = "filter (\<lambda>v. user_RoleID v = user_RoleID u \<and> IsActive v) (sort_key Username (users s))"
  have "distinct (users s)" using assms(1) by (auto simp: accounts_inv_def distinct_map)
  then have d: "distinct ?vs" by simp
  have "2 \<le> length ?vs" using assms(3) by (simp add: adminCount_def filter_map comp_def)
  with d have "2 \<le> card (set ?vs)" by (metis distinct_card)
  then have "\<not> set ?vs \<subseteq> {u}" using card_mono [of "{u}" "set ?vs"] by auto
  then obtain v where v: "v \<in> set (users s)" "user_RoleID v = user_RoleID u" "IsActive v" "v \<noteq> u" by auto
  have "role_of s v = role_of s u" using v(2) by (simp add: role_of_def)
  with v assms(2) have "active_admin s v" by (simp add: active_admin_def)
  moreover have "user_ID v \<noteq> user_ID u"
    using v assms(1,2) distinct_map_key_unique by (metis accounts_inv_def active_admin_def)
  ultimately show ?thesis by blast
qed

text \<open>What a deletion that reaches the table has checked.\<close>

lemma UserHandler_Delete_effect:
  assumes "UserHandler_Delete i ctx s = (r, s')"
  shows "roles s' = roles s \<and> parties s' = parties s \<and> (users s' = users s \<or>
    users s' = filter (\<lambda>u. user_ID u \<noteq> i) (users s) \<and> i \<noteq> UserIDFromContext ctx \<and>
    (\<exists>u. first_by user_ID (\<lambda>u. user_ID u = i) (users s) = Some u \<and>
       ((case role_of s u of Some r \<Rightarrow> role_Name r = ''admin'' | None \<Rightarrow> False) \<longrightarrow>
         2 \<le> adminCount (u\<lparr>user_Role := role_of s u\<rparr>)
           (map (\<lambda>u. u\<lparr>user_Role := role_of s u\<rparr>) (sort_key Username (users s))))))"
proof (cases "i = UserIDFromContext ctx")
  case True
  with assms show ?thesis by (auto simp: UserHandler_Delete_def)
next
  case False
  obtain g s1 where g: "UserStore_GetByID i s = (g, s1)" by (cases "UserStore_GetByID i s")
  have s1: "users s1 = users s \<and> roles s1 = roles s \<and> parties s1 = parties s"
    using g get_user_tables unfolding UserStore_GetByID_def by metis
  show ?thesis
  proof (cases "\<exists>u. g = Inr (Some u)")
    case False
    with assms g s1 \<open>i \<noteq> UserIDFromContext ctx\<close> show ?thesis
      by (auto simp: UserHandler_Delete_def try_op_def split: sum.splits option.splits)
  next
    case True
    then obtain u0 where u0: "g = Inr (Some u0)" by blast
    then obtain u where u: "first_by user_ID (\<lambda>u. user_ID u = i) (users s) = Some u" "u0 = u\<lparr>user_Role := role_of s u\<rparr>"
      using get_user_Inr [of "\<lambda>u. user_ID u = i" "''getting user by id''" s "Some u0" s1] g
      unfolding UserStore_GetByID_def by (auto simp: eq_commute [of "Some u0"])
    let ?adm = "case role_of s u of Some r \<Rightarrow> role_Name r = ''admin'' | None \<Rightarrow> False"
    let ?del = "try_op (UserStore_Delete i) (\<lambda>_. ret (ErrorResponse 500 ''failed to delete user'')) (\<lambda>_. ret (WriteHeader 204))"
    have del: "roles t' = roles t \<and> parties t' = parties t \<and> (users t' = users t \<or> users t' = filter (\<lambda>u. user_ID u \<noteq> i) (users t))"
      if "?del t = (r', t')" for t t' and r' :: "unit reply"
      using that UserStore_Delete_users [of i t] by (auto elim!: try_opE)
    have run: "(if ?adm then try_op (UserStore_List 0 0) (\<lambda>_. ret (ErrorResponse 500 ''internal error'')) (\<lambda>us.
                 if adminCount u0 us \<le> 1 then ret (ErrorResponse 400 ''cannot delete the last admin user'')
                 else ?del) else ?del) s1 = (r, s')"
      using assms u(2) \<open>i \<noteq> UserIDFromContext ctx\<close>
      by (auto simp: UserHandler_Delete_def try_op_Inr [where m = "UserStore_GetByID i", OF g [unfolded u0]] Let_def split: if_splits)
    show ?thesis
    proof (cases ?adm)
      case False
      with run del s1 u(1) \<open>i \<noteq> UserIDFromContext ctx\<close> show ?thesis by fastforce
    next
      case True
      obtain l s2 where l: "UserStore_List 0 0 s1 = (l, s2)" by (cases "UserStore_List 0 0 s1")
      have s2: "users s2 = users s1 \<and> roles s2 = roles s1 \<and> parties s2 = parties s1"
        using l by (rule UserStore_List_tables)
      show ?thesis
      proof (cases l)
        case (Inl e)
        with run True l s1 s2 show ?thesis by (simp add: try_op_def)
      next
        case (Inr us)
        have "role_of s1 = role_of s" using s1 by (intro ext role_of_cong) simp
        with l Inr have us: "us = map (\<lambda>u. u\<lparr>user_Role := role_of s u\<rparr>) (sort_key Username (users s))"
          using UserStore_List_Inr [of s1 us s2] s1 by simp
        with run True l s1 s2 Inr u \<open>i \<noteq> UserIDFromContext ctx\<close> del [of s2 r s'] show ?thesis
          by (cases "adminCount u0 us \<le> 1") (auto simp: try_op_def)
      qed
    qed
  qed
qed

section \<open>Properties\<close>

text \<open>\<^bold>\<open>C17\<close>  Deleting users never removes the last active administrator, whichever statements the
  engine refuses: if there was an active user with the admin role before the request, there is one
  after it.\<close>

theorem last_admin_survives_delete:
  assumes "accounts_inv s" and "active_admin s a"
  shows "\<exists>b. active_admin (snd (UserHandler_Delete i ctx s)) b"
proof -
  obtain r s' where m: "UserHandler_Delete i ctx s = (r, s')" by (cases "UserHandler_Delete i ctx s")
  note e = UserHandler_Delete_effect [OF m]
  have keep: "active_admin s' v" if "active_admin s v" "v \<in> set (users s')" for v
    using that e role_of_cong [of s' s v] by (simp add: active_admin_def)
  have "\<exists>b. active_admin s' b"
  proof (cases "users s' = users s")
    case True
    with keep assms(2) show ?thesis by (metis active_admin_def)
  next
    case False
    with e obtain u where us: "users s' = filter (\<lambda>u. user_ID u \<noteq> i) (users s)"
      and u: "first_by user_ID (\<lambda>u. user_ID u = i) (users s) = Some u"
      and n: "(case role_of s u of Some r \<Rightarrow> role_Name r = ''admin'' | None \<Rightarrow> False) \<longrightarrow>
         2 \<le> adminCount (u\<lparr>user_Role := role_of s u\<rparr>)
           (map (\<lambda>u. u\<lparr>user_Role := role_of s u\<rparr>) (sort_key Username (users s)))" by blast
    have uid: "u \<in> set (users s)" "user_ID u = i" using first_by_Some [OF u] by blast+
    show ?thesis
    proof (cases "user_ID a = i")
      case False
      then have "a \<in> set (users s')" using us assms(2) by (simp add: active_admin_def)
      with keep assms(2) show ?thesis by blast
    next
      case True
      then have "a = u" using uid assms distinct_map_key_unique by (metis accounts_inv_def active_admin_def)
      with assms n obtain v where v: "active_admin s v" "user_ID v \<noteq> user_ID u"
        using another_admin [OF assms(1), of u] by (auto simp: active_admin_def)
      then have "v \<in> set (users s')" using us uid(2) by (simp add: active_admin_def)
      with keep v(1) show ?thesis by blast
    qed
  qed
  with m show ?thesis by simp
qed

definition sample_admins :: db where
  "sample_admins = empty_db\<lparr>
     users := [sample_user, sample_user\<lparr>user_ID := ''u2'', Username := ''bob'', IsActive := False\<rparr>],
     roles := [sample_role\<lparr>role_Name := ''admin''\<rparr>]\<rparr>"

lemma sample_admins_ok [simp]: "accounts_inv sample_admins" "faults sample_admins = []"
  by (simp_all add: accounts_inv_def sample_admins_def empty_db_def sample_user_def)

lemma last_admin_survives_delete_witness:
  "\<exists>b. active_admin (snd (UserHandler_Delete ''u1'' empty_ctx sample_admins)) b"
proof (rule last_admin_survives_delete)
  show "accounts_inv sample_admins" by simp
  show "active_admin sample_admins sample_user" by code_simp
qed

text \<open>Updating users has no such guard: an update that deactivates the only active
  administrator is accepted and leaves none.\<close>

theorem last_admin_can_be_deactivated:
  "active_admin sample_admins sample_user \<and>
   status (fst (UserHandler_Update sample_env 9 ''u1'' (Some \<lparr>uu_Email = None, uu_DisplayName = None, uu_RoleID = None,
     uu_IsActive = Some False\<rparr>) sample_admins)) = 200 \<and>
   filter IsActive (users (snd (UserHandler_Update sample_env 9 ''u1'' (Some \<lparr>uu_Email = None, uu_DisplayName = None,
     uu_RoleID = None, uu_IsActive = Some False\<rparr>) sample_admins))) = []"
  by (intro conjI; code_simp)


definition sample_person :: db where
  "sample_person = sample_accounts\<lparr>parties := [sample_party ''n'' PartyKindPerson (Some ''u1'')]\<rparr>"


text \<open>A role change through the update handler is answered 200; whether it reaches the table
  depends on the mapper: when saving copies the key of the loaded association over the foreign key,
  the user keeps the old role.\<close>

theorem role_change_depends_on_mapper:
  assumes "faults s = []" and "accounts_inv s" and "u \<in> set (users s)"
    and "r0 \<in> set (roles s)" and "role_ID r0 = user_RoleID u" and "r1 \<in> set (roles s)"
  shows "\<exists>body s'. UserHandler_Update env now (user_ID u) (Some \<lparr>uu_Email = None, uu_DisplayName = None,
        uu_RoleID = Some (role_ID r1), uu_IsActive = None\<rparr>) s = (JSONResponse 200 body, s') \<and>
    (\<exists>v \<in> set (users s'). user_ID v = user_ID u \<and>
       user_RoleID v = (if belongs_to_wins (env_orm env) then user_RoleID u else role_ID r1))"
proof -
  let ?u = "u\<lparr>user_Role := role_of s u\<rparr>" and ?v = "u\<lparr>user_Role := role_of s u, user_RoleID := role_ID r1\<rparr>"
  have ids: "distinct (map role_ID (roles s))" using assms(2) by (simp add: accounts_inv_def)
  have ro: "role_of s u = Some r0"
    unfolding role_of_def using first_by_key [OF ids assms(4,5)] .
  have g: "UserStore_GetByID (user_ID u) s = (Inr (Some ?u), s)" using assms(1-3) by (rule GetByID_clean)
  have rg: "RoleStore_GetByID (role_ID r1) s = (Inr (Some r1), s)"
    using assms(1) first_by_key [OF ids assms(6) refl] by (simp add: RoleStore_GetByID_def first_or_nil_clean)
  define row where "row = saved_user_row (env_orm env) now ?v"
  have row: "user_ID row = user_ID u" "user_RoleID row = (if belongs_to_wins (env_orm env) then user_RoleID u else role_ID r1)"
    using ro assms(5) by (simp_all add: row_def) (simp add: saved_user_row_def Let_def)
  have sv: "save_user (env_orm env) now ?v s = (Inr (), replace_user row s)"
    unfolding row_def by (rule save_user_clean [OF assms(1-3)]) simp_all
  obtain x where x: "UserStore_GetByID (user_ID u) (replace_user row s) = (Inr x, replace_user row s)"
    using assms(1) by (simp add: UserStore_GetByID_def get_user_clean)
  have "\<exists>body. UserHandler_Update env now (user_ID u) (Some \<lparr>uu_Email = None, uu_DisplayName = None,
        uu_RoleID = Some (role_ID r1), uu_IsActive = None\<rparr>) s = (JSONResponse 200 body, replace_user row s)"
    using g rg sv x
    by (cases x) (simp_all add: UserHandler_Update_def save_and_reply_def op_defs UserStore_Update_def set_opt_def Let_def)
  moreover have "row \<in> set (users (replace_user row s))" using assms(3) row(1) by (rule in_replace_user)
  ultimately show ?thesis using row by blast
qed

lemma role_change_depends_on_mapper_witness:
  "\<exists>body s'. UserHandler_Update sample_env 9 ''u1'' (Some \<lparr>uu_Email = None, uu_DisplayName = None,
        uu_RoleID = Some ''r2'', uu_IsActive = None\<rparr>)
        (sample_accounts\<lparr>roles := [sample_role, sample_role\<lparr>role_ID := ''r2'', role_Name := ''editor''\<rparr>]\<rparr>) =
      (JSONResponse 200 body, s') \<and>
    (\<exists>v \<in> set (users s'). user_ID v = ''u1'' \<and> user_RoleID v = ''r1'')"
proof -
  let ?r2 = "sample_role\<lparr>role_ID := ''r2'', role_Name := ''editor''\<rparr>"
  let ?s = "sample_accounts\<lparr>roles := [sample_role, ?r2]\<rparr>"
  have "faults ?s = []" "accounts_inv ?s" "sample_user \<in> set (users ?s)" "sample_role \<in> set (roles ?s)"
    "role_ID sample_role = user_RoleID sample_user" "?r2 \<in> set (roles ?s)"
    by (simp_all add: accounts_inv_def sample_accounts_def sample_user_def sample_role_def empty_db_def)
  from role_change_depends_on_mapper [OF this, of sample_env 9] show ?thesis
    by (simp add: sample_env_def sample_orm_def sample_user_def sample_role_def)
qed

lemma CreatePerson_outcome:
  assumes "faults s = []" and uid: "user_ID v = uid"
  shows "case CreatePersonForUser pid now v s of
      (Inl e, t) \<Rightarrow> t = s
    | (Inr _, t) \<Rightarrow> users t = users s \<and> faults t = [] \<and> (\<exists>p \<in> set (parties t). party_UserID p = Some uid)"
  using assms(1)
  by (auto simp: CreatePersonForUser_def insert_party_def op_defs First_clean insert_row_clean uid
      dest!: first_by_Some split: option.splits)

lemma syncPerson_outcome:
  assumes "faults s = []" "env_parties env" and uid: "user_ID v = uid"
  shows "case syncPersonOrRollback env pid now v (s\<lparr>users := users s @ [v]\<rparr>) of
      (Inl e, t) \<Rightarrow> uid \<notin> user_ID ` set (users s) \<longrightarrow> users t = users s
    | (Inr _, t) \<Rightarrow> users t = users s @ [v] \<and> faults t = [] \<and> (\<exists>p \<in> set (parties t). party_UserID p = Some uid)"
  using CreatePerson_outcome [of "s\<lparr>users := users s @ [v]\<rparr>" v uid pid now] assms
  by (auto simp: syncPersonOrRollback_def op_defs UserStore_Delete_def uid filter_id_conv image_iff
      split: prod.splits sum.splits)



text \<open>A settings update stores every pair of the request and leaves the other keys alone, in
  whichever order the loop visits the map: the reply is 200 and each key reads back as the request
  has it, or as before.\<close>

theorem settings_update_any_order:
  assumes "faults s = []" and "accounts_inv s" and "distinct (map fst updates)" and "mset updates' = mset updates"
  shows "\<exists>s'. SettingsHandler_Update now (Some updates') s = (JSONResponse 200 ''settings updated'', s') \<and>
    setting_value s' k = (case map_of updates k of Some v \<Rightarrow> Some v | None \<Rightarrow> setting_value s k)"
proof -
  have q: "quiet_settings s" using assms(1,2) by (simp add: quiet_settings_def accounts_inv_def)
  have run: "set_all now kvs t = (JSONResponse 200 ''settings updated'', settings_kv.upd_all now kvs t)"
    if "quiet_settings t" for kvs t
    using that
  proof (induction kvs arbitrary: t)
    case (Cons kv kvs)
    obtain k v where kv: "kv = (k, v)" by (cases kv)
    obtain t' where "SettingsStore_Set now k v t = (Inr (), t')"
      using Set_quiet(1) [OF Cons.prems, of now k v] by (cases "SettingsStore_Set now k v t") auto
    then show ?case using Cons.IH [OF Set_quiet(2) [OF Cons.prems, of now k v]]
      by (simp add: kv try_op_def)
  qed simp
  have d: "distinct (map fst updates')"
    using assms(3,4) by (metis mset_eq_imp_distinct_iff mset_map)
  have "map_of updates' k = map_of updates k"
    using map_of_mset_cong d assms(4) by metis
  then show ?thesis
    using run [OF q, of updates'] settings_kv.lookup_upd_all [OF q d, of now k]
    by (simp add: SettingsHandler_Update_def)
qed

lemma settings_update_any_order_witness:
  "\<exists>s'. SettingsHandler_Update 5 (Some [(''b'', ''2''), (''a'', ''1'')]) sample_accounts =
      (JSONResponse 200 ''settings updated'', s') \<and> setting_value s' ''a'' = Some ''1''"
  using settings_update_any_order [OF sample_accounts_ok(1,2), of "[(''a'', ''1''), (''b'', ''2'')]"
      "[(''b'', ''2''), (''a'', ''1'')]" 5 "''a''"]
  by (simp add: add_mset_commute)

end
