(* ===== verification/System.thy ===== *)
theory System
  imports Discovery Migrate User_Api
begin

text \<open>
  The components together: every state-changing entry point of the server as one step of a
  relation on the database, and the invariants of the tables under all of them.

  The components rely on each other through three contracts.  An assertion is \<^verbatim>\<open>account_stable\<close> when
  every operation of the user, role and settings stores keeps it, \<^verbatim>\<open>catalog_stable\<close> when every
  operation of the catalog and card stores does, and \<^verbatim>\<open>party_stable\<close> (in the theory of the party
  store) likewise; the handlers then keep it.  An assertion that does not look at the tables of a
  store satisfies that store's contract, which the \<^verbatim>\<open>_frame\<close> locales say.
\<close>

section \<open>Account handlers\<close>

lemma preserves_sum [preserves_rule]:
  "(\<And>e. x = Inl e \<Longrightarrow> preserves I (m e)) \<Longrightarrow> (\<And>y. x = Inr y \<Longrightarrow> preserves I (n y)) \<Longrightarrow>
   preserves I (case x of Inl e \<Rightarrow> m e | Inr y \<Rightarrow> n y)"
  by (cases x) simp_all

locale account_stable = table_invariant I for I :: "db \<Rightarrow> bool" +
  assumes UserStore_Create_ok: "preserves I (UserStore_Create now u)"
    and UserStore_Update_ok: "preserves I (UserStore_Update orm now u)"
    and UserStore_Delete_ok: "preserves I (UserStore_Delete i)"
    and UpdateLastLogin_ok: "preserves I (UserStore_UpdateLastLogin now i)"
    and IncrementFailedAttempts_ok: "preserves I (IncrementFailedAttempts orm now i)"
    and ResetFailedAttempts_ok: "preserves I (ResetFailedAttempts now i)"
    and RoleStore_Create_ok: "preserves I (RoleStore_Create r)"
    and RoleStore_Update_ok: "preserves I (RoleStore_Update now r)"
    and RoleStore_Delete_ok: "preserves I (RoleStore_Delete i)"
    and SettingsStore_Set_ok: "preserves I (SettingsStore_Set now k v)"
    and person_created_ok: "preserves I (CreatePersonForUser uid now u)"
    and person_renamed_ok: "preserves I (UpdatePersonForUser now u)"
begin

lemma account_reads:
  "preserves I (UserStore_GetByID i)" "preserves I (UserStore_GetByUsername n)"
  "preserves I (UserStore_List l k)" "preserves I UserStore_Count"
  "preserves I (RoleStore_GetByID i)" "preserves I (RoleStore_GetByName n)"
  unfolding UserStore_GetByID_def UserStore_GetByUsername_def UserStore_List_def UserStore_Count_def
    get_user_def preload_role_def RoleStore_GetByID_def RoleStore_GetByName_def first_or_nil_def
  by (intro preserves_rule preserves_First preserves_query)+

lemmas account_rules = preserves_rule account_reads UserStore_Create_ok UserStore_Update_ok UserStore_Delete_ok
  UpdateLastLogin_ok IncrementFailedAttempts_ok ResetFailedAttempts_ok RoleStore_Create_ok RoleStore_Update_ok
  RoleStore_Delete_ok SettingsStore_Set_ok person_created_ok person_renamed_ok

lemma session_handlers_keep:
  "preserves I (Login env now lbody)"
  "preserves I (Refresh env now ctx)"
  "preserves I (ChangePassword env now pbody ctx)"
  "preserves I (BootstrapAdmin env uid now ds)"
  unfolding Login_def Refresh_def ChangePassword_def BootstrapAdmin_def Let_def
  by (intro account_rules)+

lemma save_and_reply_keeps: "preserves I (save_and_reply env now req u)"
  unfolding save_and_reply_def Let_def by (intro account_rules)

lemma set_all_keeps: "preserves I (set_all now updates)"
proof (induction updates)
  case Nil
  show ?case unfolding set_all.simps by (rule preserves_ret)
next
  case (Cons kv updates)
  then show ?case unfolding set_all.simps by (cases kv) (auto intro!: preserves_rule SettingsStore_Set_ok)
qed

lemma account_handlers_keep:
  "preserves I (UserHandler_Create env uid pid now cbody)"
  "preserves I (UserHandler_Update env now i ubody)"
  "preserves I (UserHandler_Delete i ctx)"
  "preserves I (RoleHandler_Create uid now crbody)"
  "preserves I (RoleHandler_Update now i urbody)"
  "preserves I (RoleHandler_Delete i)"
  "preserves I (SettingsHandler_Update now sbody)"
  unfolding UserHandler_Create_def UserHandler_Update_def UserHandler_Delete_def syncPersonOrRollback_def
    RoleHandler_Create_def RoleHandler_Update_def RoleHandler_Delete_def SettingsHandler_Update_def Let_def
  by (intro account_rules save_and_reply_keeps set_all_keeps)+

end

text \<open>Assertions that do not look at the account tables.\<close>

locale account_frame = table_invariant I for I :: "db \<Rightarrow> bool" +
  assumes users_irrelevant: "I (s\<lparr>users := us\<rparr>) = I s"
    and roles_irrelevant: "I (s\<lparr>roles := rs\<rparr>) = I s"
    and settings_irrelevant: "I (s\<lparr>settings := xs\<rparr>) = I s"
    and person_created: "preserves I (CreatePersonForUser uid now u)"
    and person_renamed: "preserves I (UpdatePersonForUser now u)"
begin

lemma save_user_frame: "preserves I (save_user orm now u)"
  unfolding save_user_def by (rule preserves_exec) (simp add: Let_def users_irrelevant)

lemma save_role_frame: "preserves I (save_role now r)"
  unfolding save_role_def by (rule preserves_exec) (simp add: Let_def roles_irrelevant)

lemmas frame_rules = preserves_rule save_user_frame save_role_frame preserves_First preserves_query
  preserves_insert_row preserves_update_rows preserves_modify

lemma account_stores_frame:
  "preserves I (UserStore_Create now u)" "preserves I (UserStore_Update orm now u)" "preserves I (UserStore_Delete i)"
  "preserves I (UserStore_UpdateLastLogin now i)" "preserves I (IncrementFailedAttempts orm now i)"
  "preserves I (ResetFailedAttempts now i)" "preserves I (RoleStore_Create r)" "preserves I (RoleStore_Update now r)"
  "preserves I (RoleStore_Delete i)" "preserves I (SettingsStore_Set now k v)"
  unfolding UserStore_Create_def UserStore_Update_def UserStore_Delete_def UserStore_UpdateLastLogin_def
    IncrementFailedAttempts_def ResetFailedAttempts_def RoleStore_Create_def RoleStore_Update_def
    RoleStore_Delete_def SettingsStore_Set_def
  by (intro preserves_Transaction frame_rules; simp add: users_irrelevant roles_irrelevant settings_irrelevant)+

end

sublocale account_frame \<subseteq> account_stable
  by unfold_locales (rule account_stores_frame person_created person_renamed)+


section \<open>Catalog handlers, probing and discovery\<close>

locale catalog_stable = table_invariant I for I :: "db \<Rightarrow> bool" +
  assumes UpsertProvider_ok: "preserves I (UpsertProvider uid now p)"
    and SQLStore_Create_ok: "preserves I (SQLStore_Create env uids now e)"
    and SQLStore_Update_ok: "preserves I (SQLStore_Update env uids now e)"
    and SQLStore_Delete_ok: "preserves I (SQLStore_Delete i)"
    and UpdateHealth_ok: "preserves I (UpdateHealth now i h)"
    and SetLifecycle_ok: "preserves I (SetLifecycle now i st)"
    and StoreCard_ok: "preserves I (StoreCard now i data ct)"
begin

lemma preload_keeps:
  "preserves I (preload_type_provider e)" "preserves I (loadCapabilities e)" "preserves I (preload_all es)"
  "preserves I (preload_types es)"
  unfolding preload_type_provider_def preload_type_def preload_provider_def loadCapabilities_def preload_all_def
    preload_types_def preload_providers_def
  by (intro preserves_rule preserves_query)+

lemma catalog_reads:
  "preserves I (SQLStore_Get env i)" "preserves I (FindByEndpoint env url)"
  "preserves I (SQLStore_List env x flt)" "preserves I (ListForProbing env t n)"
  unfolding SQLStore_Get_def FindByEndpoint_def first_entry_def SQLStore_List_def ListForProbing_def
  by (intro preserves_rule preload_keeps preserves_query preserves_First)+

lemmas catalog_rules = preserves_rule catalog_reads UpsertProvider_ok SQLStore_Create_ok SQLStore_Update_ok
  SQLStore_Delete_ok UpdateHealth_ok SetLifecycle_ok StoreCard_ok

lemma registerAgentType_keeps: "preserves I (registerAgentType h ids now t raw src)"
  unfolding registerAgentType_def upsert_provider_of_def Let_def by (intro catalog_rules)

lemma register_with_keeps: "preserves I (register_with h parser ids now raw)"
proof -
  have "preserves I (then_reply (registerAgentType h ids now t raw' SourcePush) f)" for t raw' and f :: "_ \<Rightarrow> card_body reply"
    using registerAgentType_keeps unfolding preserves_def then_reply_def by (simp split: prod.split) (metis snd_conv)
  then show ?thesis unfolding register_with_def Let_def by (intro preserves_rule)
qed

lemma catalog_handlers_keep:
  "preserves I (CreateEntry h tid eid uids now cbody)"
  "preserves I (DeleteEntry h i)"
  "preserves I (RegisterAgentCard h ids now rbody)"
  "preserves I (ImportCatalogEntry h ids now ibody)"
  "preserves I (PatchLifecycle env now i st)"
  unfolding CreateEntry_def DeleteEntry_def RegisterAgentCard_def ImportCatalogEntry_def PatchLifecycle_def Let_def
  by (intro catalog_rules register_with_keeps)+

lemma probe_batch_keeps: "preserves I (probe_batch (sql_prober env) p http clock es)"
proof (induction es)
  case Nil
  show ?case unfolding probe_batch.simps by (rule preserves_ret)
next
  case (Cons e es)
  then show ?case unfolding probe_batch.simps sql_prober_def proberStore.simps
    by (intro preserves_rule UpdateHealth_ok)
qed

lemma probing_keeps:
  "preserves I (checkAll (sql_prober env) p http clock order now)"
  "preserves I (ProbeEntry (sql_prober env) p http now i)"
  unfolding checkAll_def ProbeEntry_def Let_def sql_prober_def proberStore.simps
  by (intro catalog_rules probe_batch_keeps [unfolded sql_prober_def])+

lemma maybeStoreCard_stable: "preserves I k \<Longrightarrow> preserves I (maybeStoreCard m now i raw k)"
  unfolding maybeStoreCard_def by (intro preserves_rule StoreCard_ok)

lemma upsert_each_stable: "preserves I (upsert_each m source fs seen)"
proof (induction fs arbitrary: seen)
  case Nil
  show ?case unfolding upsert_each.simps by (rule preserves_ok)
next
  case (Cons f fs)
  then show ?case unfolding upsert_each.simps Let_def by (intro catalog_rules maybeStoreCard_stable)
qed

lemma mark_unseen_stable: "preserves I (mark_unseen m uids now seen es)"
proof (induction es)
  case Nil
  show ?case unfolding mark_unseen.simps by (rule preserves_ok)
next
  case (Cons e es)
  then show ?case unfolding mark_unseen.simps by (intro catalog_rules)
qed

lemma discovery_keeps: "preserves I (runOnce m scs)"
proof (induction scs)
  case Nil
  show ?case unfolding runOnce.simps by (rule preserves_ret)
next
  case (Cons sc scs)
  then show ?case unfolding runOnce.simps upsert_def Let_def
    by (intro catalog_rules upsert_each_stable mark_unseen_stable)
qed

end

text \<open>Assertions that do not look at the catalog tables.  The membership of a new entry in the default
  project is the one row that the catalog store writes elsewhere.\<close>

locale catalog_frame = table_invariant I for I :: "db \<Rightarrow> bool" +
  assumes providers_irrelevant: "I (s\<lparr>providers := a\<rparr>) = I s"
    and agent_types_irrelevant: "I (s\<lparr>agent_types := b\<rparr>) = I s"
    and capabilities_irrelevant: "I (s\<lparr>capabilities := c\<rparr>) = I s"
    and catalog_entries_irrelevant: "I (s\<lparr>catalog_entries := e\<rparr>) = I s"
    and raw_cards_irrelevant: "I (s\<lparr>raw_cards := f\<rparr>) = I s"
    and membership_row: "preserves I (insert_row catalog_project_memberships put_memberships cpm_clash m)"
begin

lemmas irrelevant = providers_irrelevant agent_types_irrelevant capabilities_irrelevant catalog_entries_irrelevant
  raw_cards_irrelevant

lemma insert_or_ignore_frame:
  "(\<And>t s. I (put t s) = I s) \<Longrightarrow> preserves I (insert_or_ignore tab put clash x)"
  unfolding insert_or_ignore_def by (rule preserves_exec) (simp split: option.split)

lemma insert_rows_frame:
  "(\<And>t s. I (put t s) = I s) \<Longrightarrow> preserves I (insert_rows tab put clash xs)"
  unfolding insert_rows_def by (rule preserves_exec) (simp split: option.split)

lemma save_row_frame:
  "(\<And>t s. I (put t s) = I s) \<Longrightarrow> preserves I (save_row tab put key clash row fresh)"
  unfolding save_row_def by (rule preserves_exec) (simp add: Let_def split: option.split)

lemma insert_row_frame:
  "(\<And>t s. I (put t s) = I s) \<Longrightarrow> preserves I (insert_row tab put clash x)"
  by (rule preserves_insert_row) simp

lemma update_rows_frame:
  "(\<And>t s. I (put t s) = I s) \<Longrightarrow> preserves I (update_rows tab put cond f)"
  by (rule preserves_update_rows) simp

lemmas catalog_frame_rules = membership_row insert_or_ignore_frame insert_rows_frame save_row_frame
  insert_row_frame update_rows_frame preserves_modify preserves_query preserves_First preserves_Transaction preserves_rule

lemma save_associations_frame:
  "preserves I (save_provider_of t)" "preserves I (save_type_of orm e)" "preserves I (insert_capabilities uids t msg)"
  unfolding save_provider_of_def save_type_of_def insert_capabilities_def
  by (intro catalog_frame_rules; simp add: irrelevant)+

lemma catalog_store_frame:
  "preserves I (UpsertProvider uid now p)" "preserves I (SQLStore_Create env uids now e)"
  "preserves I (SQLStore_Update env uids now e)" "preserves I (SQLStore_Delete i)"
  "preserves I (UpdateHealth now i h)" "preserves I (SetLifecycle now i st)" "preserves I (StoreCard now i data ct)"
  unfolding UpsertProvider_def SQLStore_Create_def create_body_def GetDefaultProject_def SQLStore_Update_def
    SQLStore_Delete_def UpdateHealth_def SetLifecycle_def StoreCard_def Let_def
  by (intro save_associations_frame catalog_frame_rules; simp add: irrelevant)+

end

sublocale catalog_frame \<subseteq> catalog_stable
  by unfold_locales (rule catalog_store_frame)+

section \<open>Assertions about other tables than the parties'\<close>

locale party_frame = table_invariant I for I :: "db \<Rightarrow> bool" +
  assumes parties_irrelevant: "I (s\<lparr>parties := ps\<rparr>) = I s"
    and relationships_irrelevant: "I (s\<lparr>party_relationships := rs\<rparr>) = I s"
    and closures_irrelevant: "I (s\<lparr>party_group_closures := cs\<rparr>) = I s"
    and roles_of_parties_irrelevant: "I (s\<lparr>global_party_roles := gs\<rparr>) = I s"
    and memberships_irrelevant: "I (s\<lparr>catalog_project_memberships := ms\<rparr>) = I s"
begin

lemmas party_irrelevant = parties_irrelevant relationships_irrelevant closures_irrelevant
  roles_of_parties_irrelevant memberships_irrelevant

lemma rebuild_frame: "preserves I rebuildAllClosures"
  unfolding rebuildAllClosures_def by (intro preserves_modify preserves_rule; simp add: party_irrelevant)

lemma insert_party_frame: "preserves I (insert_party p)"
  unfolding insert_party_def by (rule preserves_insert_row) (simp add: party_irrelevant)

lemma update_roles_frame: "preserves I (update_roles_stmt params)"
  unfolding update_roles_stmt_def by (rule preserves_exec) (simp add: Let_def party_irrelevant)

lemmas party_frame_rules = rebuild_frame insert_party_frame update_roles_frame preserves_insert_row preserves_update_rows
  preserves_modify preserves_query preserves_First preserves_Transaction preserves_rule

lemma party_store_frame:
  "preserves I (CreateParty uid now p)" "preserves I (DeleteParty i)" "preserves I (AddMember orm uid now rel)"
  "preserves I (RemoveMember f t n)" "preserves I (UpdateMemberRole params)" "preserves I (AssignToProject now c j)"
  "preserves I (RemoveFromProject c j)" "preserves I (CreatePersonForUser uid now u)" "preserves I (UpdatePersonForUser now u)"
  unfolding CreateParty_def DeleteParty_def AddMember_def insert_edge_def FirstOrCreate_rel_def RemoveMember_def
    UpdateMemberRole_def AssignToProject_def RemoveFromProject_def CreatePersonForUser_def UpdatePersonForUser_def Let_def
  by (intro party_frame_rules; simp add: party_irrelevant)+

end

sublocale party_frame \<subseteq> party_stable
  by unfold_locales (rule party_store_frame)+

section \<open>Unique keys of the catalog\<close>

definition type_key :: "AgentType \<Rightarrow> string \<times> string" where
  "type_key t = (AgentKey t, agent_Version t)"

definition catalog_keys :: "db \<Rightarrow> bool" where
  "catalog_keys s \<longleftrightarrow> distinct (map entry_ID (catalog_entries s)) \<and> distinct (map agent_type_ID (agent_types s)) \<and>
     distinct (map type_key (agent_types s)) \<and> distinct (map provider_ID (providers s)) \<and>
     distinct (map raw_AgentTypeID (raw_cards s))"

interpretation ck: party_frame catalog_keys
  by unfold_locales (simp_all add: catalog_keys_def)

lemma entry_row_ID [simp]: "entry_ID (stamp_entry now e) = entry_ID e"
  by (simp add: stamp_entry_def)

lemma agent_type_row_keys [simp]:
  "agent_type_ID (agent_type_row t) = agent_type_ID t" "type_key (agent_type_row t) = type_key t"
  by (simp_all add: agent_type_row_def type_key_def)

lemma clash_None_keys:
  "provider_clash p ps = None \<Longrightarrow> provider_ID p \<notin> provider_ID ` set ps"
  "agent_type_clash t ts = None \<Longrightarrow> agent_type_ID t \<notin> agent_type_ID ` set ts \<and> type_key t \<notin> type_key ` set ts"
  "entry_clash e es = None \<Longrightarrow> entry_ID e \<notin> entry_ID ` set es"
  by (auto simp: provider_clash_def agent_type_clash_def entry_clash_def type_key_def split: if_splits)

lemma insert_keys:
  "preserves catalog_keys (insert_row providers put_providers provider_clash p)"
  "preserves catalog_keys (insert_row agent_types put_agent_types agent_type_clash t)"
  "preserves catalog_keys (insert_row catalog_entries put_entries entry_clash e)"
  "preserves catalog_keys (insert_row catalog_project_memberships put_memberships cpm_clash m)"
  by (rule ck.preserves_insert_row; auto simp: catalog_keys_def dest: clash_None_keys)+

lemma insert_or_ignore_keys:
  "preserves catalog_keys (insert_or_ignore providers put_providers provider_clash p)"
  "preserves catalog_keys (insert_or_ignore agent_types put_agent_types agent_type_clash t)"
  unfolding insert_or_ignore_def
  by (rule ck.preserves_exec; auto simp: catalog_keys_def split: option.splits dest: clash_None_keys)+

lemma insert_rows_keys: "preserves catalog_keys (insert_rows capabilities put_capabilities capability_clash cs)"
  unfolding insert_rows_def by (rule ck.preserves_exec) (simp add: catalog_keys_def split: option.split)

text \<open>A saved row replaces the row with its key or is added; another row never has its unique key.\<close>

lemma save_entry_keys:
  assumes "entry_ID fresh = entry_ID row"
  shows "preserves catalog_keys (save_row catalog_entries put_entries entry_ID clash row fresh)"
  unfolding save_row_def
proof (rule ck.preserves_exec)
  fix s assume I: "catalog_keys s"
  have "distinct (map entry_ID (map (\<lambda>q. if entry_ID q = entry_ID row then row else q) (catalog_entries s)))"
    using I by (intro distinct_map_replace) (simp_all add: catalog_keys_def)
  then show "catalog_keys (snd (let others = filter (\<lambda>q. entry_ID q \<noteq> entry_ID row) (catalog_entries s) in
      case clash row others of
        Some cols \<Rightarrow> (Inl (errorf (''UNIQUE constraint failed: '' @ cols)), s)
      | None \<Rightarrow> if \<exists>q \<in> set (catalog_entries s). entry_ID q = entry_ID row
          then (Inr (), put_entries (map (\<lambda>q. if entry_ID q = entry_ID row then row else q) (catalog_entries s)) s)
          else (Inr (), put_entries (catalog_entries s @ [fresh]) s)))"
    using I assms by (auto simp: Let_def catalog_keys_def simp del: map_map if_image_distrib split: option.split)
qed

lemma save_type_keys:
  "preserves catalog_keys (save_row agent_types put_agent_types agent_type_ID agent_type_clash row row)"
  unfolding save_row_def
proof (rule ck.preserves_exec)
  fix s assume I: "catalog_keys s"
  let ?ts = "agent_types s" and ?others = "filter (\<lambda>q. agent_type_ID q \<noteq> agent_type_ID row) (agent_types s)"
  let ?new = "map (\<lambda>q. if agent_type_ID q = agent_type_ID row then row else q) ?ts"
  have "distinct (map agent_type_ID ?new)" using I by (intro distinct_map_replace) (simp_all add: catalog_keys_def)
  moreover have "distinct (map type_key ?new)" if "agent_type_clash row ?others = None"
    using I clash_None_keys(2) [OF that]
    by (intro distinct_map_replace_other) (auto simp: catalog_keys_def image_iff)
  ultimately show "catalog_keys (snd (let others = ?others in
      case agent_type_clash row others of
        Some cols \<Rightarrow> (Inl (errorf (''UNIQUE constraint failed: '' @ cols)), s)
      | None \<Rightarrow> if \<exists>q \<in> set ?ts. agent_type_ID q = agent_type_ID row
          then (Inr (), put_agent_types ?new s) else (Inr (), put_agent_types (?ts @ [row]) s)))"
    using I clash_None_keys(2) [of row ?others]
    by (auto simp: Let_def catalog_keys_def image_iff simp del: map_map if_image_distrib split: option.split)
qed

lemma update_entry_keys:
  assumes "\<And>e. entry_ID (f e) = entry_ID e"
  shows "preserves catalog_keys (update_rows catalog_entries put_entries P f)"
  using map_key_update [of entry_ID f P, OF assms]
  by (intro ck.preserves_update_rows) (simp add: catalog_keys_def del: map_map)

lemma store_card_keys:
  assumes "raw_AgentTypeID row = i"
  shows "preserves catalog_keys (modify (\<lambda>s. s\<lparr>raw_cards :=
     (if \<exists>q \<in> set (raw_cards s). raw_AgentTypeID q = i
      then map (\<lambda>q. if raw_AgentTypeID q = i then row else q) (raw_cards s) else raw_cards s @ [row])\<rparr>))"
  using distinct_map_replace [of raw_AgentTypeID _ row i] assms
  by (intro ck.preserves_modify) (auto simp: catalog_keys_def simp del: map_map if_image_distrib)

lemmas keys_rules = insert_keys insert_or_ignore_keys insert_rows_keys save_entry_keys save_type_keys update_entry_keys
  ck.preserves_modify ck.preserves_query ck.preserves_First ck.preserves_Transaction preserves_rule

lemma save_associations_keys:
  "preserves catalog_keys (save_provider_of t)" "preserves catalog_keys (save_type_of orm e)"
  "preserves catalog_keys (insert_capabilities uids t msg)"
  unfolding save_provider_of_def save_type_of_def insert_capabilities_def by (intro keys_rules)+

lemma catalog_store_keys:
  "preserves catalog_keys (UpsertProvider uid now p)" "preserves catalog_keys (SQLStore_Create env uids now e)"
  "preserves catalog_keys (SQLStore_Update env uids now e)" "preserves catalog_keys (SQLStore_Delete i)"
  "preserves catalog_keys (UpdateHealth now i h)" "preserves catalog_keys (SetLifecycle now i st)"
  unfolding UpsertProvider_def SQLStore_Create_def create_body_def GetDefaultProject_def SQLStore_Update_def
    SQLStore_Delete_def UpdateHealth_def SetLifecycle_def Let_def
  by (intro save_associations_keys keys_rules;
      simp add: catalog_keys_def distinct_map_filter_keep write_health_def Let_def split: option.split)+

lemma StoreCard_catalog_keys: "preserves catalog_keys (StoreCard now i data ct)"
  unfolding StoreCard_def Let_def by (intro preserves_rule store_card_keys) simp

interpretation ck: account_frame catalog_keys
  by unfold_locales
    (simp_all add: catalog_keys_def [abs_def] ck.CreatePersonForUser_ok [unfolded catalog_keys_def [abs_def]]
      ck.UpdatePersonForUser_ok [unfolded catalog_keys_def [abs_def]])

interpretation ck: catalog_stable catalog_keys
  by unfold_locales (rule catalog_store_keys StoreCard_catalog_keys)+

section \<open>The contracts met by the invariants of the tables\<close>

interpretation acc: party_frame accounts_inv
  by unfold_locales (simp_all add: accounts_inv_def)

interpretation acc: account_stable accounts_inv
  by unfold_locales (intro preserves_rule acc.CreatePersonForUser_ok acc.UpdatePersonForUser_ok)+

interpretation acc: catalog_frame accounts_inv
  by unfold_locales (simp_all add: acc.preserves_insert_row acc.memberships_irrelevant, simp_all add: accounts_inv_def)

lemma closure_inv_same:
  "party_relationships t = party_relationships s \<Longrightarrow> party_group_closures t = party_group_closures s \<Longrightarrow>
   closure_inv t = closure_inv s"
  by (simp add: closure_inv_def closure_pairs_def containment_def)

lemma keys_inv_same:
  "parties t = parties s \<Longrightarrow> party_relationships t = party_relationships s \<Longrightarrow>
   catalog_project_memberships t = catalog_project_memberships s \<Longrightarrow> keys_inv t = keys_inv s"
  by (simp add: keys_inv_def)

lemma typed_graph_same:
  "parties t = parties s \<Longrightarrow> party_relationships t = party_relationships s \<Longrightarrow> typed_graph t = typed_graph s"
  by (simp add: typed_graph_def edge_typed_def has_kind_def)

lemma has_system_same: "parties t = parties s \<Longrightarrow> has_system i k t = has_system i k s"
  by (simp add: has_system_def)

lemmas party_invariants_same = closure_inv_same keys_inv_same typed_graph_same has_system_same

lemma membership_rows:
  "preserves closure_inv (insert_row catalog_project_memberships put_memberships cpm_clash m)"
  "preserves keys_inv (insert_row catalog_project_memberships put_memberships cpm_clash m)"
  "preserves typed_graph (insert_row catalog_project_memberships put_memberships cpm_clash m)"
  "preserves (has_system i k) (insert_row catalog_project_memberships put_memberships cpm_clash m)"
proof -
  show "preserves closure_inv (insert_row catalog_project_memberships put_memberships cpm_clash m)"
    by (rule cl.preserves_insert_row) (simp add: closure_inv_same [of "put_memberships ms s" s for ms s])
  show "preserves keys_inv (insert_row catalog_project_memberships put_memberships cpm_clash m)"
    by (rule ky.preserves_insert_row) (auto simp: keys_inv_def cpm_clash_def split: if_splits)
  show "preserves typed_graph (insert_row catalog_project_memberships put_memberships cpm_clash m)"
    by (rule ty.preserves_insert_row) (simp add: typed_graph_same [of "put_memberships ms s" s for ms s])
  show "preserves (has_system i k) (insert_row catalog_project_memberships put_memberships cpm_clash m)"
    by (rule sy.preserves_insert_row) (simp add: has_system_same [of "put_memberships ms s" s for ms s])
qed

interpretation closure: account_frame closure_inv
  by unfold_locales (intro closure_inv_same closure.CreatePersonForUser_ok closure.UpdatePersonForUser_ok; simp)+

interpretation keys: account_frame keys_inv
  by unfold_locales (intro keys_inv_same keys.CreatePersonForUser_ok keys.UpdatePersonForUser_ok; simp)+

interpretation typed: account_frame typed_graph
  by unfold_locales (intro typed_graph_same CreatePersonForUser_typed UpdatePersonForUser_typed; simp)+

interpretation system: account_frame "has_system i k" for i k
  by unfold_locales (intro has_system_same system.CreatePersonForUser_ok system.UpdatePersonForUser_ok; simp)+

interpretation closure: catalog_frame closure_inv
  by unfold_locales (intro closure_inv_same membership_rows; simp)+

interpretation keys: catalog_frame keys_inv
  by unfold_locales (intro keys_inv_same membership_rows; simp)+

interpretation typed: catalog_frame typed_graph
  by unfold_locales (intro typed_graph_same membership_rows; simp)+

interpretation system: catalog_frame "has_system i k" for i k
  by unfold_locales (intro has_system_same membership_rows; simp)+

section \<open>One step of the server\<close>

text \<open>
  A step is a request to a handler that writes, a round of the prober, an on-demand probe, a polling
  cycle of discovery, or anything that leaves the tables alone: a request that only reads, or the
  engine being given another schedule of refusals.  Everything that a request or the world outside
  decides is free in a step: bodies, identities, clocks, generated identifiers, the packages.
\<close>

inductive system_step :: "db \<Rightarrow> db \<Rightarrow> bool" where
  sys_read: "tables t = tables s \<Longrightarrow> system_step s t"
| sys_party: "api_step orm s t \<Longrightarrow> system_step s t"
| sys_login: "system_step s (snd (Login env now lbody s))"
| sys_password: "system_step s (snd (ChangePassword env now pbody ctx s))"
| sys_user_create: "system_step s (snd (UserHandler_Create env uid pid now cbody s))"
| sys_user_update: "system_step s (snd (UserHandler_Update env now i ubody s))"
| sys_user_delete: "system_step s (snd (UserHandler_Delete i ctx s))"
| sys_role_create: "system_step s (snd (RoleHandler_Create uid now crbody s))"
| sys_role_update: "system_step s (snd (RoleHandler_Update now i urbody s))"
| sys_role_delete: "system_step s (snd (RoleHandler_Delete i s))"
| sys_settings: "system_step s (snd (SettingsHandler_Update now sbody s))"
| sys_entry_create: "system_step s (snd (CreateEntry h tid eid uids now ebody s))"
| sys_entry_delete: "system_step s (snd (DeleteEntry h i s))"
| sys_register: "system_step s (snd (RegisterAgentCard h ids now rbody s))"
| sys_import: "system_step s (snd (ImportCatalogEntry h ids now ibody s))"
| sys_lifecycle: "system_step s (snd (PatchLifecycle senv now i st s))"
| sys_probe: "system_step s (snd (ProbeEntry (sql_prober senv) p http now i s))"
| sys_probe_round: "system_step s (snd (checkAll (sql_prober senv) p http clock order now s))"
| sys_discover: "system_step s (snd (runOnce m scs s))"

text \<open>\<^verbatim>\<open>serving s t\<close>: from \<^verbatim>\<open>s\<close>, some sequence of steps has led to \<^verbatim>\<open>t\<close>.\<close>

inductive serving :: "db \<Rightarrow> db \<Rightarrow> bool" for s where
  serving_start: "serving s s"
| serving_step: "serving s t \<Longrightarrow> system_step t u \<Longrightarrow> serving s u"

locale system_stable = account_stable I + catalog_stable I for I :: "db \<Rightarrow> bool" +
  assumes party_steps: "api_step orm s t \<Longrightarrow> I s \<Longrightarrow> I t"
begin

lemma step_holds: "system_step s t \<Longrightarrow> I s \<Longrightarrow> I t"
  by (induction rule: system_step.induct)
    (auto intro: tables_transfer party_steps preservesD session_handlers_keep account_handlers_keep
      catalog_handlers_keep probing_keeps discovery_keeps)

lemma serving_holds: "serving s t \<Longrightarrow> I s \<Longrightarrow> I t"
  by (induction rule: serving.induct) (simp_all add: step_holds)

end

interpretation closure: system_stable closure_inv
  by unfold_locales (rule closure.api_step_keeps)

interpretation keys: system_stable keys_inv
  by unfold_locales (rule keys.api_step_keeps)

interpretation typed: system_stable typed_graph
  by unfold_locales (rule api_step_typed)

interpretation system: system_stable "has_system i k" for i k
  by unfold_locales (rule system.api_step_keeps)

interpretation acc: system_stable accounts_inv
  by unfold_locales (rule acc.api_step_keeps)

interpretation ck: system_stable catalog_keys
  by unfold_locales (rule ck.api_step_keeps)

section \<open>Migration keeps the invariants\<close>

text \<open>What the theorems of the components assume about the tables.\<close>

definition tables_sound :: "db \<Rightarrow> bool" where
  "tables_sound s \<longleftrightarrow> closure_inv s \<and> keys_inv s \<and> typed_graph s \<and> accounts_inv s \<and> catalog_keys s"

interpretation ts: table_invariant tables_sound
  by unfold_locales (simp add: tables_sound_def cl.faults_irrelevant ky.faults_irrelevant ty.faults_irrelevant
      acc.faults_irrelevant ck.faults_irrelevant)

lemma empty_db_sound: "tables_sound empty_db"
  using closure.init keys.init
  by (simp add: tables_sound_def typed_graph_def accounts_inv_def catalog_keys_def empty_db_def)

lemma serving_sound: "serving s t \<Longrightarrow> tables_sound s \<Longrightarrow> tables_sound t"
  unfolding tables_sound_def
  using closure.serving_holds keys.serving_holds typed.serving_holds acc.serving_holds ck.serving_holds by blast

lemma tables_sound_same:
  assumes "parties t = parties s" "party_relationships t = party_relationships s"
    "party_group_closures t = party_group_closures s" "catalog_project_memberships t = catalog_project_memberships s"
    "users t = users s" "roles t = roles s" "settings t = settings s" "catalog_entries t = catalog_entries s"
    "agent_types t = agent_types s" "providers t = providers s" "raw_cards t = raw_cards s"
  shows "tables_sound t = tables_sound s"
  using assms closure_inv_same [of t s] keys_inv_same [of t s] typed_graph_same [of t s]
  by (simp add: tables_sound_def accounts_inv_def catalog_keys_def)

lemma preserves_conj: "preserves I m \<Longrightarrow> preserves J m \<Longrightarrow> preserves (\<lambda>s. I s \<and> J s) m"
  by (simp add: preserves_def)

lemma preserves_sound:
  assumes "preserves closure_inv m" "preserves keys_inv m" "preserves typed_graph m" "preserves accounts_inv m"
    "preserves catalog_keys m"
  shows "preserves tables_sound m"
  using assms unfolding tables_sound_def preserves_def by blast

lemma ddl_sound: "preserves tables_sound (ddl w)"
  unfolding ddl_def by (rule ts.preserves_modify)

lemma seed_row_sound:
  "preserves tables_sound (first_or_create roles put_roles role_ID role_clash r)"
  "preserves tables_sound (first_or_create settings put_settings setting_Key setting_clash x)"
proof -
  have "preserves tables_sound (insert_row roles put_roles role_clash r)"
    by (rule ts.preserves_insert_row)
      (auto simp: tables_sound_def closure.roles_irrelevant keys.roles_irrelevant typed.roles_irrelevant
        ck.roles_irrelevant accounts_inv_def role_clash_def split: if_splits)
  moreover have "preserves tables_sound (insert_row settings put_settings setting_clash x)"
    by (rule ts.preserves_insert_row)
      (auto simp: tables_sound_def closure.settings_irrelevant keys.settings_irrelevant typed.settings_irrelevant
        ck.settings_irrelevant accounts_inv_def setting_clash_def split: if_splits)
  ultimately show "preserves tables_sound (first_or_create roles put_roles role_ID role_clash r)"
    "preserves tables_sound (first_or_create settings put_settings setting_Key setting_clash x)"
    unfolding first_or_create_def by - (intro preserves_rule ts.preserves_First; assumption)+
qed

lemma rename_status_sound: "preserves tables_sound (rename_status m)"
proof -
  have "preserves tables_sound (update_rows catalog_entries put_entries P (\<lambda>e. e\<lparr>Status := st\<rparr>))" for P st
    by (intro preserves_sound closure.update_rows_frame keys.update_rows_frame typed.update_rows_frame
        acc.update_rows_frame update_entry_keys)
      (simp_all add: closure.catalog_entries_irrelevant keys.catalog_entries_irrelevant
        typed.catalog_entries_irrelevant acc.catalog_entries_irrelevant)
  then show ?thesis unfolding rename_status_def by (intro preserves_rule)
qed

lemma distinct_map_append:
  "distinct (map f xs) \<Longrightarrow> distinct (map f ys) \<Longrightarrow> (\<And>y. y \<in> set ys \<Longrightarrow> f y \<notin> f ` set xs) \<Longrightarrow>
   distinct (map f (xs @ ys))"
  by auto (metis imageI)

text \<open>Copying cards adds one row for each agent type that has none.\<close>

lemma copied_cards_keys:
  assumes "distinct (map agent_type_ID (agent_types s))"
  shows "distinct (map raw_AgentTypeID (copied_cards now s))"
    "r \<in> set (copied_cards now s) \<Longrightarrow> raw_AgentTypeID r \<notin> raw_AgentTypeID ` set (raw_cards s)"
proof -
  define card where "card (t :: AgentType) = (case raw_definition s of None \<Rightarrow> [] | Some defs \<Rightarrow>
     (case map_of defs (agent_type_ID t) of None \<Rightarrow> []
      | Some b \<Rightarrow> if b = '''' \<or> agent_type_ID t \<in> raw_AgentTypeID ` set (raw_cards s) then []
          else [\<lparr>raw_AgentTypeID = agent_type_ID t, raw_Data = b, raw_ContentType = ''application/json'',
                 raw_FetchedAt = now, raw_Truncated = False\<rparr>]))" for t
  have card: "map raw_AgentTypeID (card t) = [] \<or> map raw_AgentTypeID (card t) = [agent_type_ID t]"
    "q \<in> set (card t) \<Longrightarrow> raw_AgentTypeID q \<notin> raw_AgentTypeID ` set (raw_cards s)" for t q
    by (auto simp: card_def split: option.splits if_splits)
  have copied: "copied_cards now s = concat (map card (agent_types s))"
    by (simp add: copied_cards_def card_def [abs_def])
  have "set (map raw_AgentTypeID (concat (map card ts))) \<subseteq> set (map agent_type_ID ts) \<and>
    (distinct (map agent_type_ID ts) \<longrightarrow> distinct (map raw_AgentTypeID (concat (map card ts))))" for ts
  proof (induction ts)
    case (Cons t ts)
    let ?rest = "set (map raw_AgentTypeID (concat (map card ts)))"
    have "agent_type_ID t \<notin> ?rest" if "distinct (map agent_type_ID (t # ts))"
      using that Cons.IH by (metis distinct.simps(2) list.simps(9) subsetD)
    moreover have "map raw_AgentTypeID (concat (map card (t # ts))) =
      map raw_AgentTypeID (card t) @ map raw_AgentTypeID (concat (map card ts))" by simp
    ultimately show ?case
      using Cons.IH card(1) [of t] unfolding distinct_append set_append by (elim disjE) (simp_all add: subset_insertI2)
  qed simp
  then show "distinct (map raw_AgentTypeID (copied_cards now s))" using assms by (simp add: copied)
  show "r \<in> set (copied_cards now s) \<Longrightarrow> raw_AgentTypeID r \<notin> raw_AgentTypeID ` set (raw_cards s)"
    using card(2) by (auto simp: copied)
qed

lemma copy_cards_sound:
  "preserves tables_sound (modify (\<lambda>s. s\<lparr>raw_cards := raw_cards s @ copied_cards now s\<rparr>))"
proof (rule ts.preserves_modify)
  fix s assume I: "tables_sound s"
  then have "distinct (map agent_type_ID (agent_types s))" by (simp add: tables_sound_def catalog_keys_def)
  note copied = copied_cards_keys(1) [OF this, of now] copied_cards_keys(2) [OF this, of _ now]
  have "distinct (map raw_AgentTypeID (raw_cards s @ copied_cards now s))"
    using I copied by (intro distinct_map_append) (simp_all add: tables_sound_def catalog_keys_def)
  then show "tables_sound (s\<lparr>raw_cards := raw_cards s @ copied_cards now s\<rparr>)"
    using I by (simp add: tables_sound_def closure.raw_cards_irrelevant keys.raw_cards_irrelevant
        typed.raw_cards_irrelevant acc.raw_cards_irrelevant catalog_keys_def)
qed

lemma drop_column_sound: "preserves tables_sound (drop_column env)"
  unfolding drop_column_def
  by (rule ts.preserves_exec) (simp add: tables_sound_same [of "s\<lparr>raw_definition := d\<rparr>" s for s d])

text \<open>New parties leave relationships alone.\<close>

lemma new_party_sound:
  assumes "tables_sound s" "party_clash p (parties s) = None"
  shows "tables_sound (put_parties (parties s @ [p]) s)"
proof -
  have "insert_party p (s\<lparr>faults := []\<rparr>) = (Inr (), put_parties (parties s @ [p]) (s\<lparr>faults := []\<rparr>))"
    using assms(2) by (simp add: insert_party_def insert_row_clean)
  moreover have "preserves tables_sound (insert_party p)"
    by (intro preserves_sound insert_party_closure insert_party_keys insert_party_typed acc.insert_party_frame
        ck.insert_party_frame)
  ultimately have "tables_sound (put_parties (parties s @ [p]) (s\<lparr>faults := []\<rparr>))"
    using assms(1) by (metis preserves_result ts.faults_irrelevant)
  moreover have "put_parties (parties s @ [p]) (s\<lparr>faults := []\<rparr>) = (put_parties (parties s @ [p]) s)\<lparr>faults := []\<rparr>" by simp
  ultimately show ?thesis by (simp only: ts.faults_irrelevant)
qed

lemma insert_party_unless_sound: "preserves tables_sound (insert_party_unless c p)"
  unfolding insert_party_unless_def
  by (rule ts.preserves_exec) (auto simp: new_party_sound split: option.split)

lemma seed_persons_sound: "preserves tables_sound (migration007SeedPersonParties now ids)"
  unfolding migration007SeedPersonParties_def seed_person_def
  by (intro preserves_rule ts.preserves_query insert_party_unless_sound)

text \<open>The entries assigned to a project are those that are not in it.\<close>

lemma assign_entries_sound:
  "preserves tables_sound (modify (\<lambda>s. put_memberships (catalog_project_memberships s @ missing_memberships now d s) s))"
proof (rule ts.preserves_modify)
  fix s assume I: "tables_sound s"
  let ?new = "missing_memberships now d s" and ?ms = "catalog_project_memberships s"
  have "distinct (map entry_ID (catalog_entries s))" using I by (simp add: tables_sound_def catalog_keys_def)
  then have "distinct (map entry_ID (filter P (catalog_entries s)))" for P by (rule distinct_map_filter_keep)
  then have "distinct (map cpm_key ?new)"
    by (simp add: missing_memberships_def cpm_key_def comp_def distinct_map inj_on_def)
  moreover have "cpm_key m \<notin> cpm_key ` set ?ms" if "m \<in> set ?new" for m
    using that by (auto simp: missing_memberships_def cpm_key_def)
  moreover have "distinct (map cpm_key ?ms)" using I by (simp add: tables_sound_def keys_inv_def)
  ultimately have "distinct (map cpm_key (?ms @ ?new))" by (intro distinct_map_append)
  moreover have "closure_inv (put_memberships ms s) = closure_inv s" "typed_graph (put_memberships ms s) = typed_graph s" for ms
    by (simp_all add: closure_inv_same [of "put_memberships ms s" s] typed_graph_same [of "put_memberships ms s" s])
  ultimately show "tables_sound (put_memberships (?ms @ ?new) s)"
    using I by (simp add: tables_sound_def keys_inv_def acc.memberships_irrelevant ck.memberships_irrelevant)
qed

lemma Up_sound:
  assumes "m \<in> set (AllMigrations env)"
  shows "preserves tables_sound (Up m)"
proof -
  have "\<forall>m \<in> set (AllMigrations env). preserves tables_sound (Up m)"
    unfolding AllMigrations_def list.set ball_simps migration001CreateTables_def migration002UsersAndRoles_def
      migration003DefaultRoles_def migration004Settings_def migration005HealthColumns_def migration006RawCards_def
      columnExists_def migration007PartyArchetype_def migration007Up_def migration008BackfillPersonParties_def
      migration008Up_def migration009CatalogProjectMembershipIndexes_def ddl_all_def Migration.simps
    by (intro conjI TrueI preserves_rule ddl_sound seed_row_sound rename_status_sound copy_cards_sound drop_column_sound
        insert_party_unless_sound seed_persons_sound assign_entries_sound ts.preserves_query)
  then show ?thesis using assms by blast
qed

text \<open>What every migration keeps, a run keeps: it only adds rows to the table of versions besides.\<close>

locale migration_stable = table_invariant I for I :: "db \<Rightarrow> bool" +
  assumes Up_ok: "m \<in> set (AllMigrations env) \<Longrightarrow> preserves I (Up m)"
    and versions_irrelevant: "I (s\<lparr>schema_migrations := x\<rparr>) = I s"
begin

lemma run_pending_ok: "set ms \<subseteq> set (AllMigrations env) \<Longrightarrow> preserves I (run_pending now cur ms)"
proof (induction ms)
  case Nil
  show ?case unfolding run_pending.simps by (rule preserves_ok)
next
  case (Cons m ms)
  have "preserves I (record_migration now m)"
    unfolding record_migration_def by (rule preserves_exec) (simp add: versions_irrelevant split: option.split)
  then show ?case
    using Cons Up_ok [of m env] unfolding run_pending.simps run_one_def
    by (intro preserves_rule preserves_Transaction) simp_all
qed

lemma Migrate_ok: "preserves I (Migrate now (NewMigrator (AllMigrations env)))"
  unfolding Migrate_def NewMigrator_sorted create_tracking_def CurrentVersion_def HasTable_def
  by (intro preserves_rule run_pending_ok [of _ env] preserves_modify preserves_query preserves_exec)
    (simp_all add: versions_irrelevant split: option.split)

end

interpretation ts: migration_stable tables_sound
  by unfold_locales (erule Up_sound, simp add: tables_sound_same [of "s\<lparr>schema_migrations := x\<rparr>" s for s x])

text \<open>No migration removes or changes a party.\<close>

interpretation pinned: table_invariant "\<lambda>s. p \<in> set (parties s)" for p
  by unfold_locales simp

lemma Up_keeps_parties:
  assumes "m \<in> set (AllMigrations env)"
  shows "preserves (\<lambda>s. p \<in> set (parties s)) (Up m)"
proof -
  have "\<forall>m \<in> set (AllMigrations env). preserves (\<lambda>s. p \<in> set (parties s)) (Up m)"
    unfolding AllMigrations_def list.set ball_simps migration001CreateTables_def migration002UsersAndRoles_def
      migration003DefaultRoles_def migration004Settings_def migration005HealthColumns_def migration006RawCards_def
      columnExists_def migration007PartyArchetype_def migration007Up_def migration008BackfillPersonParties_def
      migration008Up_def migration009CatalogProjectMembershipIndexes_def ddl_all_def ddl_def first_or_create_def
      rename_status_def drop_column_def insert_party_unless_def migration007SeedPersonParties_def seed_person_def
      Migration.simps
    by (intro conjI TrueI preserves_rule pinned.preserves_query pinned.preserves_First pinned.preserves_insert_row
        pinned.preserves_update_rows pinned.preserves_modify pinned.preserves_exec; simp split: option.split)
  then show ?thesis using assms by blast
qed

interpretation pinned: migration_stable "\<lambda>s. p \<in> set (parties s)" for p
  by unfold_locales (erule Up_keeps_parties, simp)

end
