(* ===== verification/Router.thy ===== *)
theory Router
  imports Party_Api User_Api Catalog_Api Migrate
begin

text \<open>
  The router (\<^verbatim>\<open>internal/api/router.go\<close>, \<^verbatim>\<open>middleware.go\<close>, \<^verbatim>\<open>telemetry_handler.go\<close>): which routes
  are mounted for which dependencies, the guards in front of each, and how a request runs through
  them.

  A route is data; its handler is named after the method of the source, and what the names stand for is an
  argument, so the statements hold for every handler.  The package \<^verbatim>\<open>chi\<close>, which matches paths, is an
  argument too.  Recovery, logging, request identifiers and span names do not change replies or state.
\<close>

section \<open>Routes\<close>

record route =
  rt_method :: string
  rt_pattern :: string
  rt_auth :: bool
  rt_perm :: "string option"
  rt_handler :: string

definition public :: "string \<Rightarrow> string \<Rightarrow> string \<Rightarrow> route" where
  "public method pattern h = \<lparr>rt_method = method, rt_pattern = pattern, rt_auth = False, rt_perm = None, rt_handler = h\<rparr>"

definition authed :: "string \<Rightarrow> string \<Rightarrow> string \<Rightarrow> route" where
  "authed method pattern h = \<lparr>rt_method = method, rt_pattern = pattern, rt_auth = True, rt_perm = None, rt_handler = h\<rparr>"

definition guarded :: "string \<Rightarrow> string \<Rightarrow> string \<Rightarrow> string \<Rightarrow> route" where
  "guarded perm method pattern h =
     \<lparr>rt_method = method, rt_pattern = pattern, rt_auth = True, rt_perm = Some perm, rt_handler = h\<rparr>"

lemmas route_kinds = public_def authed_def guarded_def

text \<open>Which optional dependencies are set.\<close>

record RouterDeps =
  has_JWTService :: bool
  has_UserStore :: bool
  has_RoleStore :: bool
  has_SettingsStore :: bool
  has_PartyStore :: bool
  has_PromHandler :: bool
  has_ReadyzPing :: bool
  has_webFS :: bool
  TelemetryEnabled :: bool
  TelemetryEndpoint :: string
  TelemetryServiceName :: string

text \<open>\<^verbatim>\<open>r.Route(base, ...)\<close> mounts the routes under the prefix.\<close>

definition mount :: "string \<Rightarrow> route list \<Rightarrow> route list" where
  "mount base = map (\<lambda>r. r\<lparr>rt_pattern := base @ rt_pattern r\<rparr>)"

definition registerAuthRoutes :: "RouterDeps \<Rightarrow> route list" where
  "registerAuthRoutes deps =
     [public ''POST'' ''/auth/login'' ''Login'', public ''POST'' ''/auth/logout'' ''Logout'',
      authed ''POST'' ''/auth/refresh'' ''Refresh'', authed ''GET'' ''/auth/me'' ''Me'',
      authed ''PUT'' ''/auth/password'' ''ChangePassword''] @
     (if has_PartyStore deps then [authed ''GET'' ''/auth/me/projects'' ''MyProjectsHandler''] else [])"

definition registerCatalogRoutes :: "route list" where
  "registerCatalogRoutes =
     [guarded PermCatalogRead ''GET'' ''/catalog'' ''ListCatalog'',
      guarded PermCatalogWrite ''POST'' ''/catalog'' ''CreateEntry'',
      guarded PermCatalogWrite ''POST'' ''/catalog/validate'' ''ValidateAgentCard'',
      guarded PermCatalogWrite ''POST'' ''/catalog/register'' ''RegisterAgentCard'',
      guarded PermCatalogWrite ''POST'' ''/catalog/import'' ''ImportCatalogEntry'',
      guarded PermCatalogRead ''GET'' ''/catalog/{id}'' ''GetEntry'',
      guarded PermCatalogDelete ''DELETE'' ''/catalog/{id}'' ''DeleteEntry'',
      guarded PermCatalogRead ''GET'' ''/catalog/{id}/card'' ''GetEntryCard'',
      guarded PermCatalogWrite ''PATCH'' ''/catalog/{id}/lifecycle'' ''PatchLifecycle'',
      guarded PermCatalogWrite ''POST'' ''/catalog/{id}/probe'' ''ProbeEntry'',
      guarded PermCatalogRead ''GET'' ''/capabilities'' ''ListCapabilities'',
      guarded PermCatalogRead ''GET'' ''/capabilities/{key}'' ''GetCapabilityAgents'',
      guarded PermCatalogRead ''GET'' ''/stats'' ''GetStats'']"

definition registerUserRoutes :: "RouterDeps \<Rightarrow> route list" where
  "registerUserRoutes deps =
     (if \<not> has_UserStore deps \<or> \<not> has_RoleStore deps then []
      else mount ''/users''
          [guarded PermUsersRead ''GET'' ''/'' ''UserHandler.List'', guarded PermUsersWrite ''POST'' ''/'' ''UserHandler.Create'',
           guarded PermUsersRead ''GET'' ''/{id}'' ''UserHandler.Get'', guarded PermUsersWrite ''PUT'' ''/{id}'' ''UserHandler.Update'',
           guarded PermUsersDelete ''DELETE'' ''/{id}'' ''UserHandler.Delete''] @
        mount ''/roles''
          [guarded PermRolesRead ''GET'' ''/'' ''RoleHandler.List'', guarded PermRolesWrite ''POST'' ''/'' ''RoleHandler.Create'',
           guarded PermRolesWrite ''PUT'' ''/{id}'' ''RoleHandler.Update'',
           guarded PermRolesWrite ''DELETE'' ''/{id}'' ''RoleHandler.Delete''])"

definition registerSettingsRoutes :: "RouterDeps \<Rightarrow> route list" where
  "registerSettingsRoutes deps =
     (if \<not> has_SettingsStore deps then []
      else mount ''/settings''
        [guarded PermSettingsRead ''GET'' ''/'' ''SettingsHandler.GetAll'',
         guarded PermSettingsRead ''GET'' ''/{category}'' ''SettingsHandler.GetByCategory'',
         guarded PermSettingsWrite ''PUT'' ''/'' ''SettingsHandler.Update''])"

definition RegisterPartyKindRoutes :: "PartyKindConfig \<Rightarrow> route list" where
  "RegisterPartyKindRoutes cfg = mount (''/'' @ URLPrefix cfg) (
     [authed ''GET'' ''/'' ''ListPartiesHandler'', guarded (CreatePermission cfg) ''POST'' ''/'' ''CreatePartyHandler''] @
     mount ''/{partyID}''
       [authed ''GET'' ''/'' ''GetPartyHandler'', guarded (ManagePermission cfg) ''DELETE'' ''/'' ''DeletePartyHandler'',
        authed ''GET'' ''/members'' ''ListMembersHandler'',
        guarded (ManagePermission cfg) ''POST'' ''/members'' ''AddMemberHandler'',
        guarded (ManagePermission cfg) ''DELETE'' ''/members/{memberPartyID}'' ''RemoveMemberHandler'',
        guarded (ManagePermission cfg) ''PATCH'' ''/members/{memberPartyID}'' ''UpdateMemberRoleHandler''])"

definition registerCatalogProjectRoutes :: "route list" where
  "registerCatalogProjectRoutes = mount ''/catalog/{id}/projects''
     [authed ''GET'' ''/'' ''ListCatalogProjectsHandler'',
      guarded PermCatalogWrite ''POST'' ''/'' ''AssignCatalogToProjectHandler'',
      guarded PermCatalogWrite ''DELETE'' ''/{projectID}'' ''RemoveCatalogFromProjectHandler'']"

definition registerPartyRoutes :: "RouterDeps \<Rightarrow> route list" where
  "registerPartyRoutes deps =
     (if \<not> has_PartyStore deps then []
      else RegisterPartyKindRoutes groupKindConfig @ RegisterPartyKindRoutes projectKindConfig @
        [authed ''GET'' ''/parties'' ''ListAllPartiesHandler''] @ registerCatalogProjectRoutes)"

definition registerUnauthenticatedCatalogRoutes :: "route list" where
  "registerUnauthenticatedCatalogRoutes =
     [public ''GET'' ''/catalog'' ''ListCatalog'', public ''POST'' ''/catalog'' ''CreateEntry'',
      public ''POST'' ''/catalog/validate'' ''ValidateAgentCard'', public ''POST'' ''/catalog/register'' ''RegisterAgentCard'',
      public ''POST'' ''/catalog/import'' ''ImportCatalogEntry'', public ''GET'' ''/catalog/{id}'' ''GetEntry'',
      public ''DELETE'' ''/catalog/{id}'' ''DeleteEntry'', public ''GET'' ''/catalog/{id}/card'' ''GetEntryCard'',
      public ''PATCH'' ''/catalog/{id}/lifecycle'' ''PatchLifecycle'', public ''POST'' ''/catalog/{id}/probe'' ''ProbeEntry'',
      public ''GET'' ''/stats'' ''GetStats'', public ''GET'' ''/capabilities'' ''ListCapabilities'',
      public ''GET'' ''/capabilities/{key}'' ''GetCapabilityAgents'']"

text \<open>\<^verbatim>\<open>None\<close> is the panic for a token service without its stores.\<close>

definition NewRouter :: "RouterDeps \<Rightarrow> route list option" where
  "NewRouter deps =
     (if has_JWTService deps \<and> (\<not> has_UserStore deps \<or> \<not> has_RoleStore deps) then None
      else Some (
        [public ''GET'' ''/healthz'' ''Healthz''] @
        (if has_ReadyzPing deps then [public ''GET'' ''/readyz'' ''Readyz''] else []) @
        (if has_PromHandler deps then [public ''*'' ''/metrics'' ''PromHandler''] else []) @
        mount ''/api/v1'' (
          [public ''GET'' ''/telemetry/config'' ''TelemetryConfig''] @
          (if has_JWTService deps
           then registerAuthRoutes deps @ registerCatalogRoutes @ registerUserRoutes deps @
             registerSettingsRoutes deps @ registerPartyRoutes deps
           else registerUnauthenticatedCatalogRoutes)) @
        (if has_webFS deps then [public ''*'' ''/*'' ''spaHandler''] else [])))"

section \<open>Requests\<close>

text \<open>What \<^verbatim>\<open>chi\<close> makes of a method and a path: the number of the registered route and the values
  of its parameters, or one of its own two replies.\<close>

datatype chi_result = Matched nat "string \<Rightarrow> string" | MethodNotAllowed | NotFound

type_synonym chi = "(string \<times> string) list \<Rightarrow> string \<Rightarrow> string \<Rightarrow> chi_result"

text \<open>It documents that a match is one of the routes, registered for the method or for all.\<close>

definition chi_ok :: "chi \<Rightarrow> bool" where
  "chi_ok chi \<longleftrightarrow> (\<forall>rs method path i ps. chi rs method path = Matched i ps \<longrightarrow>
     i < length rs \<and> (fst (rs ! i) = method \<or> fst (rs ! i) = ''*''))"

record request =
  rq_method :: string
  rq_path :: string
  rq_Authorization :: string
  rq_cookie :: "string option"

text \<open>What the server is built with: the tokens and \<^verbatim>\<open>chi\<close>.\<close>

record server_env =
  sv_jwt :: jwt_lib
  sv_config :: JWTConfig
  sv_chi :: chi

definition run_route :: "server_env \<Rightarrow> time \<Rightarrow> request \<Rightarrow> route \<Rightarrow> 'b handler \<Rightarrow> (db, 'b reply) act" where
  "run_route env now rq rt h =
     (let permitted = (case rt_perm rt of None \<Rightarrow> h | Some perm \<Rightarrow> RequirePermission perm h);
          authenticated = (if rt_auth rt
            then RequireAuth (sv_jwt env) (sv_config env) now (rq_Authorization rq) (rq_cookie rq) permitted
            else permitted)
      in authenticated empty_ctx)"

definition dispatch :: "server_env \<Rightarrow> route list \<Rightarrow> request \<Rightarrow> chi_result" where
  "dispatch env routes rq = sv_chi env (map (\<lambda>r. (rt_method r, rt_pattern r)) routes) (rq_method rq) (rq_path rq)"

text \<open>\<^verbatim>\<open>CORSMiddleware\<close> answers every \<^verbatim>\<open>OPTIONS\<close> request before routing.\<close>

definition cors_methods :: "string list" where
  "cors_methods = [''GET'', ''POST'', ''PUT'', ''DELETE'', ''OPTIONS'']"

definition CORSMiddleware :: "request \<Rightarrow> (db, 'b reply) act \<Rightarrow> (db, 'b reply) act" where
  "CORSMiddleware rq next_h = (if rq_method rq = ''OPTIONS'' then ret (WriteHeader 204) else next_h)"

definition serve :: "server_env \<Rightarrow> route list \<Rightarrow> (string \<Rightarrow> (string \<Rightarrow> string) \<Rightarrow> 'b handler) \<Rightarrow> time \<Rightarrow> request \<Rightarrow>
    (db, 'b reply) act" where
  "serve env routes handlers now rq = CORSMiddleware rq (case dispatch env routes rq of
       NotFound \<Rightarrow> ret (ErrorResponse 404 ''404 page not found'')
     | MethodNotAllowed \<Rightarrow> ret (WriteHeader 405)
     | Matched i ps \<Rightarrow> run_route env now rq (routes ! i) (handlers (rt_handler (routes ! i)) ps))"

section \<open>Small handlers\<close>

text \<open>\<^verbatim>\<open>NewReadyzHandler\<close>: the status and the reason fields of the body.\<close>

definition NewReadyzHandler :: "error option \<Rightarrow> (string \<times> string) reply" where
  "NewReadyzHandler ping = (case ping of
       Some _ \<Rightarrow> JSONResponse 503 (''error'', ''database unreachable'')
     | None \<Rightarrow> JSONResponse 200 (''ok'', ''''))"

record telemetryConfigResponse =
  tc_Enabled :: bool
  tc_Endpoint :: string
  tc_ServiceName :: string

definition NewTelemetryConfigHandler :: "bool \<Rightarrow> string \<Rightarrow> string \<Rightarrow> telemetryConfigResponse reply" where
  "NewTelemetryConfigHandler enabled endpoint serviceName = JSONResponse 200
     (if enabled then \<lparr>tc_Enabled = True, tc_Endpoint = endpoint, tc_ServiceName = serviceName\<rparr>
      else \<lparr>tc_Enabled = False, tc_Endpoint = '''', tc_ServiceName = ''''\<rparr>)"

text \<open>The file that is served, if any, for a path; \<^verbatim>\<open>stat\<close> tells which files exist.\<close>

definition spaHandler :: "(string \<Rightarrow> bool) \<Rightarrow> string \<Rightarrow> string option" where
  "spaHandler stat path =
     (if HasPrefix path ''/api/'' then None
      else if \<not> stat (TrimPrefix path ''/'') then Some ''/'' else Some path)"

section \<open>What the guards guarantee\<close>

text \<open>Handlers whose routes do not ask for a permission although they take a changing method.\<close>

definition session_handlers :: "string set" where
  "session_handlers = {''Login'', ''Logout'', ''Refresh'', ''ChangePassword'', ''PromHandler'', ''spaHandler''}"

definition write_permissions :: "string set" where
  "write_permissions = {PermCatalogWrite, PermCatalogDelete, PermUsersWrite, PermUsersDelete, PermRolesWrite, PermSettingsWrite}"

text \<open>A route is sound when it only reads, is about the session, or asks for a write permission.\<close>

definition route_sound :: "route \<Rightarrow> bool" where
  "route_sound rt \<longleftrightarrow> rt_method rt = ''GET'' \<or> rt_handler rt \<in> session_handlers \<or>
     (rt_auth rt \<and> (\<exists>p \<in> write_permissions. rt_perm rt = Some p))"

lemma route_sound_mount [simp]: "route_sound (r\<lparr>rt_pattern := p\<rparr>) = route_sound r"
  by (simp add: route_sound_def)

lemma mount_sound [simp]: "list_all route_sound (mount p rs) = list_all route_sound rs"
  by (simp add: mount_def list_all_iff)

lemma kinds_sound:
  "route_sound (public m p h) \<longleftrightarrow> m = ''GET'' \<or> h \<in> session_handlers"
  "route_sound (authed m p h) \<longleftrightarrow> m = ''GET'' \<or> h \<in> session_handlers"
  "route_sound (guarded q m p h) \<longleftrightarrow> m = ''GET'' \<or> h \<in> session_handlers \<or> q \<in> write_permissions"
  by (auto simp: route_sound_def route_kinds)

lemma write_permissions_simps [simp]:
  "PermCatalogWrite \<in> write_permissions" "PermCatalogDelete \<in> write_permissions" "PermUsersWrite \<in> write_permissions"
  "PermUsersDelete \<in> write_permissions" "PermRolesWrite \<in> write_permissions" "PermSettingsWrite \<in> write_permissions"
  by (simp_all add: write_permissions_def)

lemma router_sound:
  assumes "NewRouter deps = Some routes" "has_JWTService deps"
  shows "list_all route_sound routes"
proof -
  have "list_all route_sound (registerAuthRoutes deps)"
    by (simp add: registerAuthRoutes_def kinds_sound session_handlers_def)
  moreover have "list_all route_sound registerCatalogRoutes"
    by (simp add: registerCatalogRoutes_def kinds_sound)
  moreover have "list_all route_sound (registerUserRoutes deps)"
    by (simp add: registerUserRoutes_def kinds_sound)
  moreover have "list_all route_sound (registerSettingsRoutes deps)"
    by (simp add: registerSettingsRoutes_def kinds_sound)
  moreover have "list_all route_sound (registerPartyRoutes deps)"
    by (simp add: registerPartyRoutes_def RegisterPartyKindRoutes_def registerCatalogProjectRoutes_def kinds_sound cfg_defs)
  ultimately show ?thesis
    using assms by (auto simp: NewRouter_def kinds_sound session_handlers_def split: if_splits)
qed

text \<open>Claims that a request authenticates with.\<close>

definition authenticates :: "server_env \<Rightarrow> time \<Rightarrow> request \<Rightarrow> Claims \<Rightarrow> bool" where
  "authenticates env now rq claims \<longleftrightarrow>
     (let bearer = TrimPrefix (rq_Authorization rq) ''Bearer '';
          header = HasPrefix (rq_Authorization rq) ''Bearer '' \<and> bearer \<noteq> '''';
          token = (if header then bearer else (case rq_cookie rq of Some v \<Rightarrow> v | None \<Rightarrow> ''''))
      in token \<noteq> '''' \<and> ValidateToken (sv_jwt env) (sv_config env) now token = Inr claims)"

lemma guarded_change:
  assumes "snd (run_route env now rq rt h s) \<noteq> s" "rt_auth rt" "rt_perm rt = Some p"
  shows "\<exists>claims. authenticates env now rq claims \<and> HasPermission (claim_Permissions claims) p"
  using assms
  by (auto simp: run_route_def RequireAuth_def RequirePermission_def authenticates_def Let_def PermissionsFromContext_def
      split: sum.splits if_splits)

section \<open>Properties\<close>

lemma serve_change:
  assumes "snd (serve env routes handlers now rq s) \<noteq> s"
  obtains i ps where "dispatch env routes rq = Matched i ps"
    "snd (run_route env now rq (routes ! i) (handlers (rt_handler (routes ! i)) ps) s) \<noteq> s"
  using assms by (auto simp: serve_def CORSMiddleware_def split: chi_result.splits if_splits)

text \<open>
  \<^bold>\<open>C2\<close>: Whatever the handlers do, when the token service is configured a request other than GET changes
  the database only through a session route or with a valid token whose claims hold the write
  permission that its route asks for.
\<close>

theorem writes_need_permission:
  assumes deps: "NewRouter deps = Some routes" "has_JWTService deps" and chi: "chi_ok (sv_chi env)"
    and rq: "rq_method rq \<noteq> ''GET''" and change: "snd (serve env routes handlers now rq s) \<noteq> s"
  shows "\<exists>i ps. dispatch env routes rq = Matched i ps \<and> i < length routes \<and>
    (rt_handler (routes ! i) \<in> session_handlers \<or>
     (\<exists>claims p. authenticates env now rq claims \<and> rt_perm (routes ! i) = Some p \<and> p \<in> write_permissions \<and>
        HasPermission (claim_Permissions claims) p))"
proof -
  obtain i ps where d: "dispatch env routes rq = Matched i ps"
    and c: "snd (run_route env now rq (routes ! i) (handlers (rt_handler (routes ! i)) ps) s) \<noteq> s"
    using change by (rule serve_change)
  have i: "i < length routes" "rt_method (routes ! i) = rq_method rq \<or> rt_method (routes ! i) = ''*''"
    using chi [unfolded chi_ok_def, rule_format, OF d [unfolded dispatch_def]] by auto
  then have "route_sound (routes ! i)" "rt_method (routes ! i) \<noteq> ''GET''"
    using router_sound [OF deps] rq by (auto simp: list_all_length)
  then show ?thesis
    using d i guarded_change [OF c] unfolding route_sound_def by blast
qed

text \<open>A server whose \<^verbatim>\<open>chi\<close> compares paths literally.\<close>

definition literal_chi :: chi where
  "literal_chi rs method path = (case find (\<lambda>i. rs ! i = (method, path)) [0..<length rs] of
     Some i \<Rightarrow> Matched i (\<lambda>_. '''') | None \<Rightarrow> NotFound)"

lemma literal_chi_ok: "chi_ok literal_chi"
  by (auto simp: chi_ok_def literal_chi_def split: option.splits dest!: find_Some_set)

definition all_deps :: RouterDeps where
  "all_deps = \<lparr>has_JWTService = True, has_UserStore = True, has_RoleStore = True, has_SettingsStore = True,
     has_PartyStore = True, has_PromHandler = True, has_ReadyzPing = True, has_webFS = True,
     TelemetryEnabled = False, TelemetryEndpoint = '''', TelemetryServiceName = ''agentlens-web''\<rparr>"

text \<open>The changing routes include some with a method that the CORS header does not list.\<close>

lemma cors_omits_patch:
  "\<exists>routes rt. NewRouter all_deps = Some routes \<and> rt \<in> set routes \<and> rt_method rt \<notin> set cors_methods \<and>
     rt_handler rt = ''PatchLifecycle''"
proof -
  have "\<exists>rt \<in> set (mount ''/api/v1'' registerCatalogRoutes). rt_method rt \<notin> set cors_methods \<and> rt_handler rt = ''PatchLifecycle''"
    by (simp add: registerCatalogRoutes_def guarded_def mount_def cors_methods_def)
  moreover obtain routes where "NewRouter all_deps = Some routes" "set (mount ''/api/v1'' registerCatalogRoutes) \<subseteq> set routes"
    by (auto simp: NewRouter_def all_deps_def mount_def)
  ultimately show ?thesis by blast
qed

text \<open>A token that carries one permission, and a request that deletes the one entry there is.\<close>

definition sample_server :: server_env where
  "sample_server = \<lparr>sv_jwt = sample_jwt\<lparr>ParseWithClaims := (\<lambda>tok _ _. if tok = ''w''
       then Inr (sample_claims\<lparr>claim_Permissions := [''catalog:delete'']\<rparr>, True) else Inl (errorf ''invalid''))\<rparr>,
     sv_config = env_config sample_env, sv_chi = literal_chi\<rparr>"

definition delete_request :: request where
  "delete_request = \<lparr>rq_method = ''DELETE'', rq_path = ''/api/v1/catalog/{id}'', rq_Authorization = ''Bearer w'', rq_cookie = None\<rparr>"

definition delete_handlers :: "string \<Rightarrow> (string \<Rightarrow> string) \<Rightarrow> CatalogEntry handler" where
  "delete_handlers name ps ctx = DeleteEntry sample_handler ''e1''"

theorem writes_need_permission_witness:
  "\<exists>claims. authenticates sample_server 7 delete_request claims \<and> HasPermission (claim_Permissions claims) ''catalog:delete''"
proof -
  obtain routes where r: "NewRouter all_deps = Some routes" by (auto simp: NewRouter_def all_deps_def)
  have "case NewRouter all_deps of None \<Rightarrow> False | Some routes \<Rightarrow> (case dispatch sample_server routes delete_request of
      Matched i ps \<Rightarrow> rt_handler (routes ! i) = ''DeleteEntry'' \<and> rt_perm (routes ! i) = Some ''catalog:delete'' | _ \<Rightarrow> False) \<and>
      length (catalog_entries (snd (serve sample_server routes delete_handlers 7 delete_request sample_catalog_db))) = 0"
    by code_simp
  then have d: "case dispatch sample_server routes delete_request of
      Matched i ps \<Rightarrow> rt_handler (routes ! i) = ''DeleteEntry'' \<and> rt_perm (routes ! i) = Some ''catalog:delete'' | _ \<Rightarrow> False"
    and z: "length (catalog_entries (snd (serve sample_server routes delete_handlers 7 delete_request sample_catalog_db))) = 0"
    unfolding r option.case by blast+
  have "length (catalog_entries sample_catalog_db) = 1" by code_simp
  with z have "snd (serve sample_server routes delete_handlers 7 delete_request sample_catalog_db) \<noteq> sample_catalog_db" by auto
  from writes_need_permission [OF r _ _ _ this] d show ?thesis
    by (auto simp: all_deps_def sample_server_def literal_chi_ok delete_request_def session_handlers_def split: chi_result.splits)
qed

end
