(* ===== verification/Startup.thy ===== *)
theory Startup
  imports Otel System Router
begin

text \<open>
  Starting and stopping: the database connection (\<^verbatim>\<open>internal/db/db.go\<close>), the HTTP server
  (\<^verbatim>\<open>internal/server/server.go\<close>) and \<^verbatim>\<open>cmd/agentlens/main.go\<close>, which puts the components together.

  The operating system, the packages and the network are arguments.  \<^verbatim>\<open>main\<close> is a function on a world that
  holds the database, telemetry, the plugin manager, what was printed, and the stack of deferred calls; a
  call of \<^verbatim>\<open>os.Exit\<close> ends it without running that stack.  Log lines are left out.
\<close>

section \<open>Opening a database\<close>

text \<open>\<^verbatim>\<open>gorm_DB\<close> is the method that gives the underlying \<^verbatim>\<open>sql.DB\<close>.\<close>

record gorm_lib =
  gorm_Open :: "string \<Rightarrow> string \<Rightarrow> error option"
  gorm_Exec :: "string \<Rightarrow> error option"
  gorm_DB :: "error option"

definition DialectSQLite :: string where "DialectSQLite = ''sqlite''"
definition DialectPostgres :: string where "DialectPostgres = ''postgres''"

definition sqlite_pragmas :: "string list" where
  "sqlite_pragmas = [''PRAGMA journal_mode=WAL'', ''PRAGMA foreign_keys=ON'', ''PRAGMA busy_timeout=5000'']"

fun exec_pragmas :: "gorm_lib \<Rightarrow> string list \<Rightarrow> error option" where
  "exec_pragmas lib [] = None"
| "exec_pragmas lib (p # ps) = (case gorm_Exec lib p of
       Some e \<Rightarrow> Some (wrapf (''executing '' @ quote p) e) | None \<Rightarrow> exec_pragmas lib ps)"

definition applySQLitePragmas :: "gorm_lib \<Rightarrow> error option" where
  "applySQLitePragmas lib = exec_pragmas lib sqlite_pragmas"

text \<open>The handle is its dialect and the limit on connections, if one is set.\<close>

record DB =
  db_dialect :: string
  MaxOpenConns :: "int option"

definition db_Open :: "gorm_lib \<Rightarrow> string \<Rightarrow> string \<Rightarrow> error + DB" where
  "db_Open lib dialect dsn =
     (if dialect \<noteq> DialectSQLite \<and> dialect \<noteq> DialectPostgres then Inl (errorf (''unsupported dialect: '' @ dialect))
      else case gorm_Open lib dialect dsn of
        Some e \<Rightarrow> Inl (wrapf (''opening '' @ dialect @ '' database'') e)
      | None \<Rightarrow> (case (if dialect = DialectSQLite then applySQLitePragmas lib else None) of
          Some e \<Rightarrow> Inl (wrapf ''applying sqlite pragmas'' e)
        | None \<Rightarrow> Inr \<lparr>db_dialect = dialect, MaxOpenConns = None\<rparr>))"

definition db_OpenMemory :: "gorm_lib \<Rightarrow> error + DB" where
  "db_OpenMemory lib = (case gorm_Open lib DialectSQLite ''file::memory:?cache=shared'' of
       Some e \<Rightarrow> Inl (wrapf ''opening in-memory sqlite'' e)
     | None \<Rightarrow> (case gorm_DB lib of
         Some e \<Rightarrow> Inl (wrapf ''getting underlying sql.DB'' e)
       | None \<Rightarrow> (case applySQLitePragmas lib of
           Some e \<Rightarrow> Inl (wrapf ''applying sqlite pragmas'' e)
         | None \<Rightarrow> Inr \<lparr>db_dialect = DialectSQLite, MaxOpenConns = Some 1\<rparr>)))"

section \<open>The HTTP server\<close>

record http_server =
  srv_Addr :: string
  ReadTimeout :: duration
  WriteTimeout :: duration
  IdleTimeout :: duration

definition server_New :: "string \<Rightarrow> http_server" where
  "server_New addr = \<lparr>srv_Addr = addr, ReadTimeout = 15 * Second, WriteTimeout = 15 * Second, IdleTimeout = 60 * Second\<rparr>"

text \<open>What ends the wait of \<^verbatim>\<open>Start\<close>; when several are ready, \<^verbatim>\<open>select\<close> picks one of them.\<close>

datatype wake = ServeFailed error | SignalReceived | ContextDone

record socket_env =
  net_Listen :: "string \<Rightarrow> error option"
  net_wake :: wake
  net_Shutdown :: "error option"

definition server_Start :: "socket_env \<Rightarrow> http_server \<Rightarrow> error + unit" where
  "server_Start net srv = (case net_Listen net (srv_Addr srv) of
       Some e \<Rightarrow> Inl (wrapf (''listening on '' @ srv_Addr srv) e)
     | None \<Rightarrow> (case net_wake net of
         ServeFailed e \<Rightarrow> Inl (wrapf ''serving'' e)
       | _ \<Rightarrow> (case net_Shutdown net of
           Some e \<Rightarrow> Inl (wrapf ''graceful shutdown'' e)
         | None \<Rightarrow> Inr ())))"

section \<open>The Kubernetes client\<close>

record k8s_lib =
  InClusterConfig :: "error option"
  UserHomeDir :: "error + string"
  BuildConfigFromFlags :: "string \<Rightarrow> error option"
  NewForConfig :: "error option"

definition buildK8sClient :: "os_env \<Rightarrow> (string \<Rightarrow> string \<Rightarrow> string) \<Rightarrow> k8s_lib \<Rightarrow> error + unit" where
  "buildK8sClient os filepath_Join lib =
     (let client = (case NewForConfig lib of Some e \<Rightarrow> Inl (wrapf ''creating kubernetes client'' e) | None \<Rightarrow> Inr ());
          build = (\<lambda>kubeconfig. case BuildConfigFromFlags lib kubeconfig of
            Some e \<Rightarrow> Inl (wrapf ''building kubernetes config'' e) | None \<Rightarrow> client)
      in case InClusterConfig lib of
           None \<Rightarrow> client
         | Some _ \<Rightarrow>
             if Getenv os ''KUBECONFIG'' \<noteq> '''' then build (Getenv os ''KUBECONFIG'')
             else (case UserHomeDir lib of
                 Inl e \<Rightarrow> Inl (wrapf ''unable to determine home directory for kubeconfig'' e)
               | Inr home \<Rightarrow> build (filepath_Join (filepath_Join home ''.kube'') ''config'')))"

section \<open>The world of the command\<close>

datatype cleanup = CloseDB | CancelContext | ShutdownTelemetry | StopPlugins

record world =
  w_db :: db
  w_otel :: otel_state
  w_plugins :: "db PluginManager option"
  w_stdout :: "string list"
  w_defers :: "cleanup list"
  w_ran :: "cleanup list"

datatype outcome = Exit int | Return | Panic

text \<open>\<^verbatim>\<open>me_serving\<close> is what the requests, the prober and discovery do to the database while the server runs.\<close>

record main_env =
  me_os :: os_env
  me_portFlag :: int
  me_configFlag :: string
  me_version :: string
  me_text :: sql_text
  me_otel :: otel_lib
  me_MkdirAll :: "string \<Rightarrow> error option"
  me_Join :: "string \<Rightarrow> string \<Rightarrow> string"
  me_Dir :: "string \<Rightarrow> string"
  me_gorm :: gorm_lib
  me_migrations :: mig_env
  me_auth :: auth_env
  me_adminID :: string
  me_personID :: string
  me_draws :: draws
  me_now :: time
  me_gauge :: "error option \<times> error option"
  me_webFS :: bool
  me_secret :: "string option"
  me_parsers :: parser_env
  me_k8s :: k8s_lib
  me_net :: socket_env
  me_serving :: "db \<Rightarrow> db"

definition fresh_world :: "db \<Rightarrow> world" where
  "fresh_world s = \<lparr>w_db = s, w_otel = otel_start, w_plugins = None, w_stdout = [], w_defers = [], w_ran = []\<rparr>"

definition on_db :: "(db, 'a) op \<Rightarrow> (world, 'a) op" where
  "on_db m = (\<lambda>w. case m (w_db w) of (r, s) \<Rightarrow> (r, w\<lparr>w_db := s\<rparr>))"

definition on_otel :: "(otel_state, 'a) op \<Rightarrow> (world, 'a) op" where
  "on_otel m = (\<lambda>w. case m (w_otel w) of (r, s) \<Rightarrow> (r, w\<lparr>w_otel := s\<rparr>))"

definition checked :: "error option \<Rightarrow> (world, unit) op" where
  "checked e = (case e of Some e \<Rightarrow> fail e | None \<Rightarrow> ok ())"

definition result_op :: "error + 'a \<Rightarrow> (world, 'a) op" where
  "result_op r = ret r"

definition println :: "string \<Rightarrow> (world, unit) op" where
  "println line = (\<lambda>w. (Inr (), w\<lparr>w_stdout := w_stdout w @ [line]\<rparr>))"

definition defer_call :: "cleanup \<Rightarrow> (world, unit) op" where
  "defer_call c = (\<lambda>w. (Inr (), w\<lparr>w_defers := c # w_defers w\<rparr>))"

section \<open>Opening, migrating, bootstrapping\<close>

text \<open>The database named by the configuration, with its directory in place.\<close>

definition open_database :: "main_env \<Rightarrow> Config \<Rightarrow> error + DB" where
  "open_database env cfg = (case database_target (me_Join env) cfg of
       OpenSQLite path \<Rightarrow> (case me_MkdirAll env (me_Dir env path) of
           Some e \<Rightarrow> Inl e | None \<Rightarrow> db_Open (me_gorm env) DialectSQLite path)
     | OpenPostgres dsn \<Rightarrow> db_Open (me_gorm env) DialectPostgres dsn
     | UnsupportedDialect d \<Rightarrow> Inl (errorf (''unsupported database dialect: '' @ d)))"

text \<open>The migrations see the dialect of the connection.\<close>

definition migrate_database :: "main_env \<Rightarrow> DB \<Rightarrow> (world, unit) op" where
  "migrate_database env d = on_db (Migrate (me_now env)
     (NewMigrator (AllMigrations ((me_migrations env)\<lparr>tx_Name := db_dialect d\<rparr>))))"

definition print_credentials :: "string \<Rightarrow> (world, unit) op" where
  "print_credentials password =
     pass_op (println ''  INITIAL ADMIN CREDENTIALS'') (\<lambda>_. pass_op (println ''  Username: admin'') (\<lambda>_.
     pass_op (println (''  Password: '' @ password)) (\<lambda>_. println ''  CHANGE THIS PASSWORD IMMEDIATELY'')))"

text \<open>The person of a new administrator; its failure is only logged.\<close>

definition admin_person :: "main_env \<Rightarrow> (world, unit) op" where
  "admin_person env = try_op (on_db (UserStore_GetByUsername ''admin'')) (\<lambda>_. ok ()) (\<lambda>adminUser.
     case adminUser of
       None \<Rightarrow> ok ()
     | Some u \<Rightarrow> ignore_op (on_db (CreatePersonForUser (me_personID env) (me_now env) u)) (ok ()))"

definition bootstrap_admin :: "main_env \<Rightarrow> (world, unit) op" where
  "bootstrap_admin env =
     pass_op (on_db (BootstrapAdmin (me_auth env) (me_adminID env) (me_now env) (me_draws env))) (\<lambda>password.
     if password \<noteq> '''' then pass_op (print_credentials password) (\<lambda>_. admin_person env) else ok ())"

section \<open>Plugins, sources, routes\<close>

definition on_plugins :: "(db PluginManager, unit) op \<Rightarrow> (world, unit) op" where
  "on_plugins m = (\<lambda>w. case w_plugins w of
       None \<Rightarrow> (Inr (), w)
     | Some pm \<Rightarrow> (case m (pm\<lparr>pm_kernel := (pm_kernel pm)\<lparr>k_world := w_db w\<rparr>\<rparr>) of
         (r, pm') \<Rightarrow> (r, w\<lparr>w_plugins := Some pm', w_db := k_world (pm_kernel pm')\<rparr>)))"

definition new_plugins :: "main_env \<Rightarrow> Config \<Rightarrow> (world, unit) op" where
  "new_plugins env cfg = (\<lambda>w. (Inr (), w\<lparr>w_plugins := Some (server_manager (me_parsers env) cfg (w_db w))\<rparr>))"

datatype source_kind = StaticSources "source_config list" | K8sSources "string list"

definition discovery_sources :: "main_env \<Rightarrow> Config \<Rightarrow> error + source_kind list" where
  "discovery_sources env cfg =
     (let static = (if length (Sources cfg) > 0 then [StaticSources (Sources cfg)] else []) in
      if k8s_Enabled (Kubernetes cfg)
      then (case buildK8sClient (me_os env) (me_Join env) (me_k8s env) of
          Inl e \<Rightarrow> Inl e
        | Inr _ \<Rightarrow> Inr (static @ [K8sSources (k8s_namespaces cfg)]))
      else Inr static)"

text \<open>Whether the discovery manager is started, and whether it stores raw cards.\<close>

definition discovery_manager :: "source_kind list \<Rightarrow> Core \<Rightarrow> bool option" where
  "discovery_manager sources core = (if length sources > 0 then Some (core_cardStore core \<noteq> None) else None)"

definition router_deps :: "main_env \<Rightarrow> Config \<Rightarrow> OtelProvider \<Rightarrow> RouterDeps" where
  "router_deps env cfg tel = \<lparr>has_JWTService = True, has_UserStore = True, has_RoleStore = True, has_SettingsStore = True,
     has_PartyStore = True, has_PromHandler = PromHandler tel, has_ReadyzPing = True, has_webFS = me_webFS env,
     TelemetryEnabled = tel_Enabled (Telemetry cfg), TelemetryEndpoint = frontendTelemetryEndpoint (Telemetry cfg),
     TelemetryServiceName = ''agentlens-web''\<rparr>"

section \<open>The command\<close>

record ready =
  rd_Config :: Config
  rd_Telemetry :: OtelProvider
  rd_JWT :: JWTConfig
  rd_Gauge :: "(db, measurement list) act option"
  rd_Discovery :: "bool option"
  rd_Router :: "route list"

text \<open>The gauge that counts entries by status; that it could not be registered is only logged.\<close>

definition catalog_gauge :: "main_env \<Rightarrow> (db, measurement list) act option" where
  "catalog_gauge env = (case RegisterCatalogGauge (fst (me_gauge env)) (snd (me_gauge env))
     (catalog_counts (SQLStore_Stats (me_text env))) of Inl _ \<Rightarrow> None | Inr callback \<Rightarrow> Some callback)"

text \<open>Everything before \<^verbatim>\<open>srv.Start\<close>; an error is one on which \<^verbatim>\<open>main\<close> calls \<^verbatim>\<open>os.Exit(1)\<close>.  The panics of
  \<^verbatim>\<open>NewJWTService\<close> and \<^verbatim>\<open>NewRouter\<close> are the inner \<^verbatim>\<open>None\<close>.\<close>

definition init_telemetry :: "main_env \<Rightarrow> Config \<Rightarrow> (world, OtelProvider) op" where
  "init_telemetry env cfg = on_otel (otel_Init (me_otel env) (Telemetry cfg) (me_version env))"

definition load_config :: "main_env \<Rightarrow> error + Config" where
  "load_config env = map_sum id (\<lambda>cfg. cfg\<lparr>Port := listen_port (me_portFlag env) cfg\<rparr>) (Load (me_os env) (me_configFlag env))"

definition prepare_database :: "main_env \<Rightarrow> Config \<Rightarrow> (world, unit) op" where
  "prepare_database env cfg =
     pass_op (checked (me_MkdirAll env (DataDir cfg))) (\<lambda>_.
     pass_op (result_op (open_database env cfg)) (\<lambda>d.
     pass_op (defer_call CloseDB) (\<lambda>_.
     pass_op (checked (gorm_DB (me_gorm env))) (\<lambda>_.
     pass_op (migrate_database env d) (\<lambda>_.
     bootstrap_admin env)))))"

definition start_plugins :: "main_env \<Rightarrow> Config \<Rightarrow> (world, unit) op" where
  "start_plugins env cfg =
     pass_op (new_plugins env cfg) (\<lambda>_.
     pass_op (on_plugins InitAll) (\<lambda>_.
     pass_op (defer_call CancelContext) (\<lambda>_.
     pass_op (on_plugins StartAll) (\<lambda>_.
     pass_op (defer_call ShutdownTelemetry) (\<lambda>_. defer_call StopPlugins)))))"

definition jwt_config :: "main_env \<Rightarrow> Config \<Rightarrow> JWTConfig option" where
  "jwt_config env cfg = NewJWTService (me_secret env)
     \<lparr>Secret = JWTSecret (cfg_Auth cfg), Expiration = SessionDuration (cfg_Auth cfg), cfg_RefreshWindow = Hour\<rparr>"

definition finish_start :: "main_env \<Rightarrow> Config \<Rightarrow> OtelProvider \<Rightarrow> JWTConfig \<Rightarrow> (world, ready option) op" where
  "finish_start env cfg tel jwt =
     pass_op (start_plugins env cfg) (\<lambda>_.
     pass_op (result_op (discovery_sources env cfg)) (\<lambda>sources w.
       (Inr (map_option (\<lambda>routes. \<lparr>rd_Config = cfg, rd_Telemetry = tel, rd_JWT = jwt, rd_Gauge = catalog_gauge env,
           rd_Discovery = (case w_plugins w of Some pm \<Rightarrow> discovery_manager sources (k_core (pm_kernel pm)) | None \<Rightarrow> None),
           rd_Router = routes\<rparr>) (NewRouter (router_deps env cfg tel))), w)))"

definition start_up :: "main_env \<Rightarrow> (world, ready option) op" where
  "start_up env =
     pass_op (result_op (load_config env)) (\<lambda>cfg.
     pass_op (init_telemetry env cfg) (\<lambda>tel.
     pass_op (println (''  AgentLens listening on :'' @ decimal (Port cfg))) (\<lambda>_.
     pass_op (prepare_database env cfg) (\<lambda>_.
     case jwt_config env cfg of None \<Rightarrow> ok None | Some jwt \<Rightarrow> finish_start env cfg tel jwt))))"

text \<open>The deferred calls, last first; their errors are only logged.\<close>

definition run_cleanup :: "main_env \<Rightarrow> OtelProvider \<Rightarrow> cleanup \<Rightarrow> world \<Rightarrow> world" where
  "run_cleanup env tel c w = (case c of
       StopPlugins \<Rightarrow> snd (on_plugins StopAll w)
     | ShutdownTelemetry \<Rightarrow> snd (on_otel (run_shutdown (me_otel env) (Shutdown tel)) w)
     | CancelContext \<Rightarrow> w
     | CloseDB \<Rightarrow> w)\<lparr>w_ran := w_ran w @ [c]\<rparr>"

definition run_defers :: "main_env \<Rightarrow> OtelProvider \<Rightarrow> world \<Rightarrow> world" where
  "run_defers env tel w = (fold (run_cleanup env tel) (w_defers w) w)\<lparr>w_defers := []\<rparr>"

definition main :: "main_env \<Rightarrow> (world, outcome) act" where
  "main env = try_op (start_up env) (\<lambda>_. ret (Exit 1)) (\<lambda>r. case r of
       None \<Rightarrow> ret Panic
     | Some rd \<Rightarrow> (\<lambda>w.
         let srv = server_New ('':'' @ decimal (Port (rd_Config rd)));
             w1 = (if net_Listen (me_net env) (srv_Addr srv) = None then w\<lparr>w_db := me_serving env (w_db w)\<rparr> else w)
         in case server_Start (me_net env) srv of
              Inl e \<Rightarrow> (Exit 1, w1)
            | Inr _ \<Rightarrow> (Return, run_defers env (rd_Telemetry rd) w1)))"

section \<open>What a start leaves alone\<close>

text \<open>An operation on the database moves only the database; the rest of the world has its own part.\<close>

definition rest :: "world \<Rightarrow> otel_state \<times> cleanup list \<times> cleanup list" where
  "rest w = (w_otel w, w_defers w, w_ran w)"

lemma on_db_keeps [preserves_rule]:
  "preserves I m \<Longrightarrow> preserves (\<lambda>w. I (w_db w)) (on_db m)"
  "preserves (\<lambda>w. J (rest w)) (on_db m)"
  by (auto simp: preserves_def on_db_def rest_def split: prod.split)

lemma world_keeps [preserves_rule]:
  "preserves (\<lambda>w. I (w_db w)) (on_otel om)" "preserves K (checked err)" "preserves K (result_op res)"
  "preserves (\<lambda>w. I (w_db w)) (println line)" "preserves (\<lambda>w. J (rest w)) (println line)"
  "preserves (\<lambda>w. I (w_db w)) (defer_call c)"
  by (auto simp: preserves_def on_otel_def checked_def result_op_def println_def defer_call_def rest_def
      split: prod.split option.split)

text \<open>The plugins of the server run one statement, on a table that exists.\<close>

lemma start_plugins_outcome:
  assumes "ddl ''raw_cards'' (w_db w) = (d, s)"
  shows "case d of
      Inr _ \<Rightarrow> start_plugins env cfg w = (Inr (), w\<lparr>w_db := s, w_plugins := Some (ready_manager (me_parsers env) cfg s),
        w_defers := [StopPlugins, ShutdownTelemetry, CancelContext] @ w_defers w\<rparr>)
    | Inl _ \<Rightarrow> \<exists>e pm. start_plugins env cfg w = (Inl e, w\<lparr>w_plugins := Some pm, w_db := s\<rparr>)"
proof (cases d)
  case (Inl e)
  then show ?thesis
    using assms server_init_refused [of "w_db w" e s "me_parsers env" cfg]
    by (auto simp: start_plugins_def op_defs new_plugins_def on_plugins_def server_manager_eq)
next
  case (Inr u)
  have "StartAll (ready_manager penv cfg s) = (Inr (), ready_manager penv cfg s)" for penv
    by (simp add: StartAll_def ready_manager_def ready_plugins_def plugin_defs bind_op_def try_op_def on_kernel_def)
  then show ?thesis
    using Inr assms server_init_ok [of "w_db w" s "me_parsers env" cfg]
    by (auto simp: start_plugins_def op_defs new_plugins_def on_plugins_def server_manager_eq defer_call_def ready_manager_def)
qed

lemma start_plugins_tables: "tables (w_db (snd (start_plugins env cfg w))) = tables (w_db w)"
proof -
  obtain d s where d: "ddl ''raw_cards'' (w_db w) = (d, s)" by fastforce
  then have "tables s = tables (w_db w)" unfolding ddl_def modify_def by (elim exec_cases) auto
  then show ?thesis using start_plugins_outcome [OF d, of env cfg] by (cases d) auto
qed

section \<open>What a start leaves behind\<close>

text \<open>Telemetry as \<^verbatim>\<open>Init\<close> left it, with the configuration that was loaded.\<close>

definition telemetry_opened :: "main_env \<Rightarrow> otel_state" where
  "telemetry_opened env = (case load_config env of Inl _ \<Rightarrow> otel_start
     | Inr cfg \<Rightarrow> snd (otel_Init (me_otel env) (Telemetry cfg) (me_version env) otel_start))"

lemma prepare_database_rest:
  assumes "prepare_database env cfg w = (r, w')"
  shows "w_otel w' = w_otel w \<and> w_ran w' = w_ran w \<and> (r = Inr () \<longrightarrow> w_defers w' = CloseDB # w_defers w)"
proof -
  have keep: "preserves (\<lambda>w. J (rest w)) (migrate_database env d)" "preserves (\<lambda>w. J (rest w)) (bootstrap_admin env)" for J d
    unfolding migrate_database_def bootstrap_admin_def print_credentials_def admin_person_def by (intro preserves_rule)+
  have frame: "rest w' = rest w" if "on_rest w = (r, w')" "\<And>J. preserves (\<lambda>w. J (rest w)) on_rest" for on_rest w w' and r :: "error + unit"
    using preservesD [OF that(2) [of "\<lambda>x. x = rest w"], of w] that(1) by simp
  have "w_otel t = w_otel u \<and> w_ran t = w_ran u \<and> w_defers t = w_defers u" if "migrate_database env d u = (q, t)" for q d t u
    using frame [OF that keep(1)] by (simp add: rest_def)
  moreover have "w_otel t = w_otel u \<and> w_ran t = w_ran u \<and> w_defers t = w_defers u" if "bootstrap_admin env u = (q, t)" for q t u
    using frame [OF that keep(2)] by (simp add: rest_def)
  ultimately show ?thesis
    using assms unfolding prepare_database_def pass_op_def checked_def result_op_def defer_call_def
    by (elim try_opE) (force split: option.splits)+
qed

lemma finish_start_leaves:
  assumes "finish_start env cfg tel jwt w = (r, w')"
  shows "w_ran w' = w_ran w \<and> w_otel w' = w_otel w \<and> (\<forall>rd. r = Inr (Some rd) \<longrightarrow>
    w_defers w' = [StopPlugins, ShutdownTelemetry, CancelContext] @ w_defers w \<and>
    rd_Config rd = cfg \<and> rd_Telemetry rd = tel \<and> rd_JWT rd = jwt)"
proof -
  obtain d s where d: "ddl ''raw_cards'' (w_db w) = (d, s)" by fastforce
  show ?thesis
    using start_plugins_outcome [OF d, of env cfg] assms
    by (cases d) (auto simp: finish_start_def op_defs result_op_def split: prod.splits sum.splits)
qed

lemma start_up_leaves:
  assumes "start_up env (fresh_world s) = (r, w)"
  shows "w_ran w = [] \<and> w_otel w = telemetry_opened env \<and> (\<forall>rd. r = Inr (Some rd) \<longrightarrow>
    w_defers w = [StopPlugins, ShutdownTelemetry, CancelContext, CloseDB] \<and>
    otel_Init (me_otel env) (Telemetry (rd_Config rd)) (me_version env) otel_start = (Inr (rd_Telemetry rd), w_otel w))"
proof (cases "load_config env")
  case (Inl e)
  then show ?thesis using assms by (auto simp: start_up_def op_defs result_op_def telemetry_opened_def fresh_world_def)
next
  case (Inr cfg)
  obtain q o' where init: "otel_Init (me_otel env) (Telemetry cfg) (me_version env) otel_start = (q, o')" by fastforce
  show ?thesis
  proof (cases q)
    case Inl
    with Inr init assms show ?thesis
      by (auto simp: start_up_def op_defs result_op_def init_telemetry_def on_otel_def telemetry_opened_def fresh_world_def)
  next
    case tel: (Inr tel)
    define w1 where "w1 = (fresh_world s)\<lparr>w_otel := o', w_stdout := [''  AgentLens listening on :'' @ decimal (Port cfg)]\<rparr>"
    obtain p w2 where prep: "prepare_database env cfg w1 = (p, w2)" by fastforce
    note left = prepare_database_rest [OF prep]
    have run: "(case p of Inl e \<Rightarrow> (Inl e, w2) | Inr _ \<Rightarrow> (case jwt_config env cfg of None \<Rightarrow> (Inr None, w2)
        | Some jwt \<Rightarrow> finish_start env cfg tel jwt w2)) = (r, w)"
      using assms Inr init tel prep
      by (auto simp: start_up_def op_defs result_op_def init_telemetry_def on_otel_def println_def fresh_world_def w1_def
          split: sum.splits option.splits)
    have w1: "w_otel w1 = telemetry_opened env" "w_ran w1 = []" "w_defers w1 = []"
      using Inr init by (simp_all add: w1_def telemetry_opened_def fresh_world_def)
    show ?thesis
    proof (cases "\<exists>u jwt. p = Inr u \<and> jwt_config env cfg = Some jwt")
      case True
      then obtain jwt where p: "p = Inr ()" and fin: "finish_start env cfg tel jwt w2 = (r, w)" using run by auto
      have "o' = telemetry_opened env" using Inr init by (simp add: telemetry_opened_def)
      moreover have "w_defers w2 = [CloseDB]" "w_ran w2 = []" "w_otel w2 = telemetry_opened env" using left p w1 by simp_all
      moreover have "w_ran w = w_ran w2" "w_otel w = w_otel w2" "\<And>rd. r = Inr (Some rd) \<Longrightarrow>
          w_defers w = [StopPlugins, ShutdownTelemetry, CancelContext] @ w_defers w2 \<and> rd_Config rd = cfg \<and> rd_Telemetry rd = tel"
        using finish_start_leaves [OF fin] by blast+
      ultimately show ?thesis using init tel by (metis append_Cons append_Nil)
    next
      case False
      then show ?thesis using run left w1 by (auto split: sum.splits option.splits)
    qed
  qed
qed

section \<open>The end of the command\<close>

lemma run_defers_all:
  assumes "w_defers w = [StopPlugins, ShutdownTelemetry, CancelContext, CloseDB]" and "w_ran w = []"
  shows "w_ran (run_defers env tel w) = [StopPlugins, ShutdownTelemetry, CancelContext, CloseDB] \<and>
    w_defers (run_defers env tel w) = [] \<and>
    w_otel (run_defers env tel w) = snd (run_shutdown (me_otel env) (Shutdown tel) (w_otel w))"
proof -
  have "w_otel (snd (on_plugins m w)) = w_otel w \<and> w_ran (snd (on_plugins m w)) = w_ran w" for m w
    by (auto simp: on_plugins_def split: option.split prod.split)
  then show ?thesis
    using assms by (simp add: run_defers_def run_cleanup_def on_otel_def split: prod.split)
qed

lemma server_Start_returns:
  "server_Start net srv = Inr () \<longleftrightarrow>
   net_Listen net (srv_Addr srv) = None \<and> (\<forall>e. net_wake net \<noteq> ServeFailed e) \<and> net_Shutdown net = None"
  by (auto simp: server_Start_def split: option.splits wake.splits)

text \<open>Stopping the plugins leaves the database alone.\<close>

lemma StopAll_ready: "StopAll (ready_manager penv cfg s) = (Inr (), ready_manager penv cfg s)"
  by (simp add: StopAll_def on_kernel_def ready_manager_def ready_plugins_def plugin_defs errors_Join_def)

lemma start_up_plugins:
  assumes "start_up env w0 = (Inr (Some rd), w)"
  obtains cfg s where "w_plugins w = Some (ready_manager (me_parsers env) cfg s)"
proof -
  obtain cfg tel jwt w1 where fin: "finish_start env cfg tel jwt w1 = (Inr (Some rd), w)"
    using assms by (auto simp: start_up_def elim!: pass_op_InrE split: option.splits)
  obtain d s where d: "ddl ''raw_cards'' (w_db w1) = (d, s)" by fastforce
  show thesis
    using start_plugins_outcome [OF d, of env cfg] fin that
    by (cases d) (auto simp: finish_start_def op_defs result_op_def split: prod.splits sum.splits)
qed

lemma run_defers_db:
  assumes "w_defers w = [StopPlugins, ShutdownTelemetry, CancelContext, CloseDB]"
    and "w_plugins w = Some (ready_manager penv cfg s)"
  shows "w_db (run_defers env tel w) = w_db w"
proof -
  have "(ready_manager penv cfg s)\<lparr>pm_kernel := (pm_kernel (ready_manager penv cfg s))\<lparr>k_world := d\<rparr>\<rparr> = ready_manager penv cfg d" for d
    by (simp add: ready_manager_def)
  then have "w_db (snd (on_plugins StopAll w)) = w_db w"
    using assms(2) by (simp add: on_plugins_def StopAll_ready) (simp add: ready_manager_def)
  then show ?thesis using assms(1) by (simp add: run_defers_def run_cleanup_def on_otel_def split: prod.split)
qed

end
