(* ===== verification/Lifetime.thy ===== *)
theory Lifetime
  imports Startup
begin

text \<open>
  The life of a database: steps of the running system and starts of the command, one after the other
  (\<^verbatim>\<open>history\<close>), what they all keep, and the first start, of an empty database.
\<close>

section \<open>Restarts\<close>

text \<open>What the system keeps from step to step and through a start, of any version of the environment.\<close>

locale restart_stable = table_invariant I for I :: "db \<Rightarrow> bool" +
  assumes step_ok: "system_step s t \<Longrightarrow> I s \<Longrightarrow> I t"
    and migrate_ok: "preserves I (Migrate now (NewMigrator (AllMigrations env)))"
    and bootstrap_ok: "preserves I (BootstrapAdmin aenv uid now ds)"
    and lookup_ok: "preserves I (UserStore_GetByUsername name)"
    and person_ok: "preserves I (CreatePersonForUser pid now u)"
begin

lemma start_plugins_ok: "preserves (\<lambda>w. I (w_db w)) (start_plugins env cfg)"
  using tables_determine [OF start_plugins_tables] by (simp add: preserves_def)

lemma finish_start_ok: "preserves (\<lambda>w. I (w_db w)) (finish_start env cfg tel jwt)"
  unfolding finish_start_def by (intro preserves_rule start_plugins_ok) (simp add: preserves_def)

lemma bootstrap_admin_ok: "preserves (\<lambda>w. I (w_db w)) (bootstrap_admin env)"
  unfolding bootstrap_admin_def print_credentials_def admin_person_def
  by (intro preserves_rule bootstrap_ok lookup_ok person_ok)

lemma start_up_ok: "preserves (\<lambda>w. I (w_db w)) (start_up env)"
  unfolding start_up_def init_telemetry_def prepare_database_def migrate_database_def
  by (intro preserves_rule bootstrap_admin_ok finish_start_ok migrate_ok)

end

text \<open>\<^verbatim>\<open>history s t\<close>: from \<^verbatim>\<open>s\<close>, steps of the running system and starts, successful or not, in any order and
  each with an environment of its own, have led to \<^verbatim>\<open>t\<close>.\<close>

inductive history :: "db \<Rightarrow> db \<Rightarrow> bool" for s where
  history_begin: "history s s"
| history_step: "history s t \<Longrightarrow> system_step t u \<Longrightarrow> history s u"
| history_start: "history s t \<Longrightarrow> history s (w_db (snd (start_up env (fresh_world t))))"

lemma history_serving: "serving t u \<Longrightarrow> history s t \<Longrightarrow> history s u"
  by (induction rule: serving.induct) (auto intro: history_step)

text \<open>A whole run of the command, with whatever it serves, is such a history.\<close>

lemma main_is_history:
  assumes "\<And>t. serving t (me_serving env t)"
  shows "history s (w_db (snd (main env (fresh_world s))))"
proof -
  obtain r w where start: "start_up env (fresh_world s) = (r, w)" by fastforce
  then have "history s (w_db w)" using history_start [OF history_begin [of s], of env] by simp
  then have served: "history s (me_serving env (w_db w))" using history_serving assms by blast
  have "w_db (run_defers env (rd_Telemetry rd) (w\<lparr>w_db := d\<rparr>)) = d" if "r = Inr (Some rd)" for rd d
    using start_up_leaves [OF start] start_up_plugins [OF start [unfolded that]] that
      run_defers_db [of "w\<lparr>w_db := d\<rparr>" "me_parsers env" _ _ env "rd_Telemetry rd"] by fastforce
  moreover have "w_db (run_defers env (rd_Telemetry rd) w) = w_db w" if "r = Inr (Some rd)" for rd
    using start_up_leaves [OF start] start_up_plugins [OF start [unfolded that]] that
      run_defers_db [of w "me_parsers env" _ _ env "rd_Telemetry rd"] by fastforce
  ultimately show ?thesis
    using start \<open>history s (w_db w)\<close> served
    by (auto simp: main_def try_op_def Let_def split: sum.splits option.splits)
qed

context restart_stable
begin

lemma history_holds: "history s t \<Longrightarrow> I s \<Longrightarrow> I t"
  by (induction rule: history.induct)
    (simp_all add: step_ok preservesD [OF start_up_ok] fresh_world_def)

end

lemma step_sound: "system_step s t \<Longrightarrow> tables_sound s \<Longrightarrow> tables_sound t"
  using serving_sound serving_start serving_step by blast

interpretation ts: restart_stable tables_sound
proof unfold_locales
  show "tables_sound t" if "system_step s t" "tables_sound s" for s t using that by (rule step_sound)
  show "preserves tables_sound (Migrate now (NewMigrator (AllMigrations env)))" for now env by (rule ts.Migrate_ok)
  show "preserves tables_sound (BootstrapAdmin aenv uid now ds)" for aenv uid now ds
    by (intro preserves_sound closure.session_handlers_keep keys.session_handlers_keep typed.session_handlers_keep
        acc.session_handlers_keep ck.session_handlers_keep)
  show "preserves tables_sound (UserStore_GetByUsername name)" for name
    by (intro preserves_sound closure.account_reads keys.account_reads typed.account_reads acc.account_reads
        ck.account_reads)
  show "preserves tables_sound (CreatePersonForUser pid now u)" for pid now u
    by (intro preserves_sound closure.person_created_ok keys.person_created_ok typed.person_created_ok
        acc.person_created_ok ck.person_created_ok)
qed

text \<open>A system party stays, once it is there.\<close>

definition sound_with :: "string \<Rightarrow> PartyKind \<Rightarrow> db \<Rightarrow> bool" where
  "sound_with i k s \<longleftrightarrow> tables_sound s \<and> has_system i k s"

lemma sound_with_member:
  "sound_with i k s \<longleftrightarrow> tables_sound s \<and> (\<exists>p \<in> set (parties s). party_ID p = i \<and> party_Kind p = k \<and> party_IsSystem p)"
  by (auto simp: sound_with_def has_system_def tables_sound_def keys_inv_def)

interpretation sw: restart_stable "sound_with i k" for i k
proof unfold_locales
  show "sound_with i k (s\<lparr>faults := fs\<rparr>) = sound_with i k s" for s fs
    by (simp add: sound_with_def ts.faults_irrelevant sy.faults_irrelevant)
  show "sound_with i k t" if "system_step s t" "sound_with i k s" for s t
    using that step_sound system.step_holds unfolding sound_with_def by blast
  show "preserves (sound_with i k) (Migrate now (NewMigrator (AllMigrations env)))" for now env
    using ts.Migrate_ok [of now env] pinned.Migrate_ok [of _ now env] unfolding preserves_def sound_with_member by blast
  show "preserves (sound_with i k) (BootstrapAdmin aenv uid now ds)" for aenv uid now ds
    using ts.bootstrap_ok system.session_handlers_keep(4) unfolding preserves_def sound_with_def by blast
  show "preserves (sound_with i k) (UserStore_GetByUsername name)" for name
    using ts.lookup_ok system.account_reads(2) unfolding preserves_def sound_with_def by blast
  show "preserves (sound_with i k) (CreatePersonForUser pid now u)" for pid now u
    using ts.person_ok system.person_created_ok unfolding preserves_def sound_with_def by blast
qed


section \<open>Migrating an empty database\<close>

lemma run_one_clean:
  assumes "faults s = []" "Up m s = (Inr (), s1)" "faults s1 = []" "schema_migrations s1 = Some ms"
    "\<forall>x \<in> set ms. sm_Version x \<noteq> mig_Version m"
  shows "run_one now m s = (Inr (), s1\<lparr>schema_migrations := Some (ms @ [\<lparr>sm_Version = mig_Version m,
    sm_Description = mig_Description m, sm_AppliedAt = now\<rparr>])\<rparr>)"
  using assms by (auto simp: run_one_def record_migration_def Transaction_clean op_defs)

text \<open>The migrations on tables that hold nothing they look at, with an engine that refuses nothing.\<close>

lemma ddl_all_clean: "faults s = [] \<Longrightarrow> ddl_all ws s = (Inr (), s)"
proof -
  assume f: "faults s = []"
  then have "each_op ddl ws s = (Inr (map (\<lambda>_. ()) ws), s)"
    by (induction ws) (simp_all add: ddl_def op_defs)
  then show ?thesis by (simp add: ddl_all_def op_defs)
qed

lemma Up_clean:
  assumes "faults s = []"
  shows "Up migration001CreateTables s = (Inr (), s)"
    and "Up migration002UsersAndRoles s = (Inr (), s)"
    and "roles s = [] \<Longrightarrow> Up (migration003DefaultRoles env) s = (Inr (), put_roles (default_roles (mig_now env)) s)"
    and "settings s = [] \<Longrightarrow> Up (migration004Settings env) s = (Inr (), put_settings (default_settings (mig_now env)) s)"
    and "catalog_entries s = [] \<Longrightarrow> Up migration005HealthColumns s = (Inr (), s)"
    and "raw_definition s = None \<Longrightarrow> Up (migration006RawCards env) s = (Inr (), s)"
    and "parties s = [] \<Longrightarrow> users s = [] \<Longrightarrow> catalog_entries s = [] \<Longrightarrow> Up (migration007PartyArchetype env) s =
      (Inr (), put_parties [migrated_party (mig_now env) (default_project_id env) PartyKindProject ''default'' None True] s)"
    and "users s = [] \<Longrightarrow> Up (migration008BackfillPersonParties env) s = (Inr (), s)"
    and "Up migration009CatalogProjectMembershipIndexes s = (Inr (), s)"
proof -
  have id: "put_entries (catalog_entries s) s = s" by simp
  show "Up migration001CreateTables s = (Inr (), s)" "Up migration002UsersAndRoles s = (Inr (), s)"
    using assms by (simp_all add: migration001CreateTables_def migration002UsersAndRoles_def ddl_all_clean)
  show "Up (migration003DefaultRoles env) s = (Inr (), put_roles (default_roles (mig_now env)) s)" if "roles s = []"
    using assms that by (simp add: migration003DefaultRoles_def default_roles_def system_role_def first_or_create_def
        op_defs First_clean insert_row_clean first_by_def role_clash_def)
  show "Up (migration004Settings env) s = (Inr (), put_settings (default_settings (mig_now env)) s)" if "settings s = []"
    using assms that by (simp add: migration004Settings_def default_settings_def first_or_create_def ddl_def
        op_defs First_clean insert_row_clean first_by_def setting_clash_def)
  show "Up migration005HealthColumns s = (Inr (), s)" if "catalog_entries s = []"
    using assms that id by (simp add: migration005HealthColumns_def rename_status_def status_mappings_def ddl_def
        op_defs update_rows_clean)
  show "Up (migration006RawCards env) s = (Inr (), s)" if "raw_definition s = None"
    using assms that by (simp add: migration006RawCards_def columnExists_def columnExistsAllowedTables_def ddl_def op_defs)
  show "Up (migration007PartyArchetype env) s =
      (Inr (), put_parties [migrated_party (mig_now env) (default_project_id env) PartyKindProject ''default'' None True] s)"
    if "parties s = []" "users s = []" "catalog_entries s = []"
    using assms that by (simp add: migration007PartyArchetype_def migration007Up_def migration007SeedPersonParties_def
        insert_party_unless_def party_clash_def missing_memberships_def ddl_def op_defs)
  show "Up (migration008BackfillPersonParties env) s = (Inr (), s)" if "users s = []"
    using assms that by (simp add: migration008BackfillPersonParties_def migration008Up_def migration007SeedPersonParties_def op_defs)
  show "Up migration009CatalogProjectMembershipIndexes s = (Inr (), s)"
    using assms by (simp add: migration009CatalogProjectMembershipIndexes_def ddl_def op_defs)
qed

lemma migration_numbers:
  "mig_Version migration001CreateTables = 1" "mig_Version migration002UsersAndRoles = 2"
  "mig_Version (migration003DefaultRoles env) = 3" "mig_Version (migration004Settings env) = 4"
  "mig_Version migration005HealthColumns = 5" "mig_Version (migration006RawCards env) = 6"
  "mig_Version (migration007PartyArchetype env) = 7" "mig_Version (migration008BackfillPersonParties env) = 8"
  "mig_Version migration009CatalogProjectMembershipIndexes = 9"
  using AllMigrations_versions [of env] by (simp_all add: AllMigrations_def upto.simps)

definition first_parties :: "mig_env \<Rightarrow> Party list" where
  "first_parties env = [migrated_party (mig_now env) (default_project_id env) PartyKindProject ''default'' None True]"

lemma Migrate_empty:
  obtains ms where "Migrate now (NewMigrator (AllMigrations env)) empty_db =
    (Inr (), empty_db\<lparr>roles := default_roles (mig_now env), settings := default_settings (mig_now env),
       parties := first_parties env, schema_migrations := Some ms\<rparr>)"
proof -
  have "\<exists>ms. Migrate now (AllMigrations env) empty_db =
    (Inr (), empty_db\<lparr>roles := default_roles (mig_now env), settings := default_settings (mig_now env),
       parties := first_parties env, schema_migrations := Some ms\<rparr>)"
    by (simp add: Migrate_def create_tracking_def CurrentVersion_def HasTable_def op_defs empty_db_def latest_version_def
        AllMigrations_def run_one_clean Up_clean migration_numbers first_parties_def)
  then show ?thesis using that by (auto simp: NewMigrator_sorted)
qed


section \<open>The administrator's person\<close>

text \<open>A person is made for an administrator who has none.\<close>

definition person_of :: "string \<Rightarrow> time \<Rightarrow> User \<Rightarrow> Party" where
  "person_of pid now u = \<lparr>party_ID = pid, party_Kind = PartyKindPerson, party_Name = personName u, party_Version = 0,
     party_UserID = Some (user_ID u), party_IsSystem = False, party_CreatedAt = now, party_UpdatedAt = now\<rparr>"

lemma CreatePersonForUser_clean:
  assumes "faults s = []" and "\<forall>p \<in> set (parties s). party_UserID p \<noteq> Some (user_ID u) \<and> party_ID p \<noteq> pid"
  shows "CreatePersonForUser pid now u s = (Inr (), put_parties (parties s @ [person_of pid now u]) s)"
proof -
  have "first_by party_ID (\<lambda>p. party_UserID p = Some (user_ID u)) (parties s) = None"
    using assms(2) by (auto simp: first_by_None)
  moreover have "party_clash (person_of pid now u) (parties s) = None"
    using assms(2) by (auto simp: party_clash_def person_of_def user_ids_def)
  ultimately show ?thesis
    using assms(1) by (simp add: CreatePersonForUser_def insert_party_def op_defs First_clean insert_row_clean
        person_of_def errors_Is_def record_not_found_def)
qed


section \<open>The first start\<close>

text \<open>What \<^verbatim>\<open>main\<close> makes of an empty database before the plugins start: the rows of the migrations, the
  administrator and the administrator's person.\<close>

definition first_db :: "main_env \<Rightarrow> User \<Rightarrow> SchemaMigration list \<Rightarrow> db" where
  "first_db env u ms = empty_db\<lparr>roles := default_roles (mig_now (me_migrations env)),
     settings := default_settings (mig_now (me_migrations env)),
     parties := first_parties (me_migrations env) @ [person_of (me_personID env) (me_now env) u],
     users := [u], schema_migrations := Some ms\<rparr>"

lemma default_roles_distinct: "distinct (map role_ID (default_roles now))" "distinct (map role_Name (default_roles now))"
  by (simp_all add: default_roles_def system_role_def)

lemma default_settings_distinct: "distinct (map setting_Key (default_settings now))"
  by (simp add: default_settings_def)

lemma prepare_database_first:
  assumes "w_db w = empty_db" and "me_MkdirAll env (DataDir cfg) = None" and "open_database env cfg = Inr d"
    and "gorm_DB (me_gorm env) = None" and "bcrypt_ok (env_bcrypt (me_auth env))"
    and "\<forall>pw. \<exists>h. GenerateFromPassword (env_bcrypt (me_auth env)) pw BcryptCost = Inr h"
    and "None \<notin> set (me_draws env)" and "24 \<le> length (me_draws env)"
    and "me_personID env \<noteq> default_project_id (me_migrations env)"
  obtains w' pw u ms where "prepare_database env cfg w = (Inr (), w')" and "w_db w' = first_db env u ms"
    and "(''  Password: '' @ pw) \<in> set (w_stdout w')" and "pw \<noteq> ''''"
    and "user_ID u = me_adminID env" and "Username u = ''admin''" and "IsActive u" and "user_RoleID u = ''role-admin''"
    and "user_Role u = None" and "\<And>t. \<not> locked_at u t"
    and "CheckPassword (env_bcrypt (me_auth env)) pw (PasswordHash u)"
proof -
  let ?menv = "(me_migrations env)\<lparr>tx_Name := db_dialect d\<rparr>" and ?now = "mig_now (me_migrations env)"
  obtain ms where mig: "Migrate (me_now env) (NewMigrator (AllMigrations ?menv)) empty_db =
      (Inr (), empty_db\<lparr>roles := default_roles ?now, settings := default_settings ?now,
         parties := first_parties ?menv, schema_migrations := Some ms\<rparr>)" (is "_ = (_, ?s1)")
    using Migrate_empty [of "me_now env" ?menv] by auto
  have s1: "faults ?s1 = []" "users ?s1 = []" by (simp_all add: empty_db_def)
  obtain pw u where boot: "BootstrapAdmin (me_auth env) (me_adminID env) (me_now env) (me_draws env) ?s1 =
      (Inr pw, ?s1\<lparr>users := [u]\<rparr>)" (is "_ = (_, ?s2)") and pw: "pw \<noteq> ''''"
    and u: "user_ID u = me_adminID env" "Username u = ''admin''" "IsActive u" "user_RoleID u = ''role-admin''"
      "user_Role u = None" "\<And>t. \<not> locked_at u t" "CheckPassword (env_bcrypt (me_auth env)) pw (PasswordHash u)"
    using BootstrapAdmin_clean [OF assms(5) s1 assms(7,8,6), of "me_adminID env" "me_now env"] by metis
  let ?v = "u\<lparr>user_Role := role_of ?s2 u\<rparr>"
  have "accounts_inv ?s2"
    using u(5) default_roles_distinct default_settings_distinct by (simp add: accounts_inv_def)
  then have get: "UserStore_GetByUsername ''admin'' ?s2 = (Inr (Some ?v), ?s2)"
    using GetByUsername_clean [of ?s2 u] u(2) s1(1) by simp
  have "person_of pid now ?v = person_of pid now u" for pid now by (simp add: person_of_def personName_def)
  then have person: "CreatePersonForUser (me_personID env) (me_now env) ?v ?s2 = (Inr (), first_db env u ms)"
    using CreatePersonForUser_clean [of ?s2 ?v "me_personID env" "me_now env"] assms(9) s1(1)
    by (simp add: first_db_def first_parties_def migrated_party_def)
  obtain w' where run: "prepare_database env cfg w = (Inr (), w')" and "w_db w' = first_db env u ms"
    and "(''  Password: '' @ pw) \<in> set (w_stdout w')"
    using assms(1-4) mig boot get person pw
    by (simp add: prepare_database_def migrate_database_def bootstrap_admin_def print_credentials_def admin_person_def
        op_defs checked_def result_op_def defer_call_def on_db_def println_def)
  then show thesis using that pw u by blast
qed


lemma first_login:
  assumes "pw \<noteq> ''''" and "Username u = ''admin''" and "IsActive u" and "user_RoleID u = ''role-admin''"
    and "user_Role u = None" and "\<not> locked_at u t" and "CheckPassword (env_bcrypt aenv) pw (PasswordHash u)"
    and "\<forall>key c. \<exists>tok. SignedString (env_jwt aenv) key c = Inr tok"
  shows "\<exists>resp s' r. Login aenv t (credentials ''admin'' pw) (first_db env u ms) = (JSONResponse 200 resp, s') \<and>
    user_Role (resp_User resp) = Some r \<and> role_ID r = ''role-admin'' \<and> PermUsersWrite \<in> set (Permissions r)"
proof -
  let ?s = "first_db env u ms"
  have I: "accounts_inv ?s"
    using assms(5) default_roles_distinct default_settings_distinct by (simp add: accounts_inv_def first_db_def)
  obtain r where r: "role_of ?s u = Some r" "role_ID r = ''role-admin''" "PermUsersWrite \<in> set (Permissions r)"
    using assms(4) by (auto simp: role_of_def first_db_def default_roles_def system_role_def first_by_def PermUsersWrite_def)
  have clean: "faults ?s = []" and mem: "u \<in> set (users ?s)" by (simp_all add: first_db_def empty_db_def)
  have "Login aenv t (credentials (Username u) pw) ?s =
    (case GenerateToken (env_jwt aenv) (env_config aenv) t (u\<lparr>user_Role := Some r\<rparr>) (Some r) of
       Inl _ \<Rightarrow> ErrorResponse 500 ''failed to generate token''
     | Inr token \<Rightarrow> JSONResponse 200 \<lparr>resp_Token = token, resp_User = u\<lparr>user_Role := Some r\<rparr>, resp_Cookie = token\<rparr>,
     logged_in t (user_ID u) ?s)"
    using Login_right [OF clean I mem, of pw t aenv] assms(1-3,6,7) unfolding r(1) by simp
  moreover obtain tok where "GenerateToken (env_jwt aenv) (env_config aenv) t (u\<lparr>user_Role := Some r\<rparr>) (Some r) = Inr tok"
    using assms(8) unfolding GenerateToken_def by (metis sum.simps(6))
  ultimately show ?thesis using r assms(2) by auto
qed

lemma start_up_first:
  assumes "load_config env = Inr cfg" and "fst (otel_Init (me_otel env) (Telemetry cfg) (me_version env) otel_start) = Inr tel"
    and "me_MkdirAll env (DataDir cfg) = None" and "open_database env cfg = Inr d" and "gorm_DB (me_gorm env) = None"
    and "jwt_config env cfg = Some jwt" and "discovery_sources env cfg = Inr sources"
    and "bcrypt_ok (env_bcrypt (me_auth env))"
    and "\<forall>pw. \<exists>h. GenerateFromPassword (env_bcrypt (me_auth env)) pw BcryptCost = Inr h"
    and "None \<notin> set (me_draws env)" and "24 \<le> length (me_draws env)"
    and "me_personID env \<noteq> default_project_id (me_migrations env)"
  obtains rd w pw u ms where "start_up env (fresh_world empty_db) = (Inr (Some rd), w)" and "rd_JWT rd = jwt"
    and "w_db w = first_db env u ms" and "(''  Password: '' @ pw) \<in> set (w_stdout w)" and "pw \<noteq> ''''"
    and "user_ID u = me_adminID env" and "Username u = ''admin''" and "IsActive u" and "user_RoleID u = ''role-admin''"
    and "user_Role u = None" and "\<And>t. \<not> locked_at u t"
    and "CheckPassword (env_bcrypt (me_auth env)) pw (PasswordHash u)"
proof -
  obtain o' where init: "otel_Init (me_otel env) (Telemetry cfg) (me_version env) otel_start = (Inr tel, o')"
    using assms(2) by (metis prod.collapse)
  define w1 where "w1 = (fresh_world empty_db)\<lparr>w_otel := o', w_stdout := [''  AgentLens listening on :'' @ decimal (Port cfg)]\<rparr>"
  have "w_db w1 = empty_db" by (simp add: w1_def fresh_world_def)
  then obtain w2 pw u ms where prep: "prepare_database env cfg w1 = (Inr (), w2)" "w_db w2 = first_db env u ms"
    "(''  Password: '' @ pw) \<in> set (w_stdout w2)" and pw: "pw \<noteq> ''''"
    and u: "user_ID u = me_adminID env" "Username u = ''admin''" "IsActive u" "user_RoleID u = ''role-admin''"
      "user_Role u = None" "\<And>t. \<not> locked_at u t" "CheckPassword (env_bcrypt (me_auth env)) pw (PasswordHash u)"
    by (rule prepare_database_first [OF _ assms(3-5,8,9,10-12)]) blast
  have "ddl ''raw_cards'' (w_db w2) = (Inr (), w_db w2)"
    using prep(2) by (simp add: ddl_def modify_def exec_def first_db_def empty_db_def)
  note plugins = start_plugins_outcome [OF this, of env cfg]
  obtain routes where "NewRouter (router_deps env cfg tel) = Some routes"
    by (auto simp: NewRouter_def router_deps_def)
  then obtain rd w where run: "start_up env (fresh_world empty_db) = (Inr (Some rd), w)" "rd_JWT rd = jwt"
    "w_db w = w_db w2" "w_stdout w = w_stdout w2"
    using assms(1,6,7) init prep(1) plugins
    by (simp add: start_up_def op_defs result_op_def init_telemetry_def on_otel_def println_def finish_start_def
        fresh_world_def w1_def)
  show thesis by (rule that [OF run(1,2) _ _ pw u]) (use run prep in simp_all)
qed

lemma default_project_found:
  assumes "faults s = []" and "p \<in> set (parties s)" and "party_Kind p = PartyKindProject" and "party_IsSystem p"
  shows "\<exists>q \<in> set (parties s). GetDefaultProject s = (Inr q, s) \<and> party_Kind q = PartyKindProject \<and> party_IsSystem q"
proof -
  let ?c = "\<lambda>p. party_Kind p = PartyKindProject \<and> party_IsSystem p"
  obtain q where q: "first_by party_ID ?c (parties s) = Some q"
    using assms(2-4) first_by_None [of party_ID ?c "parties s"] by (cases "first_by party_ID ?c (parties s)") auto
  then have "GetDefaultProject s = (Inr q, s)" using assms(1) by (simp add: GetDefaultProject_def op_defs First_clean)
  then show ?thesis using first_by_Some [OF q] by blast
qed

text \<open>A successful start of an unversioned database leaves a default project.\<close>

lemma start_up_default_project:
  assumes "start_up env (fresh_world s) = (Inr (Some rd), w)" and "tables_sound s" and "versions s = []"
  obtains i where "sound_with i PartyKindProject (w_db w)"
proof -
  obtain cfg tel jwt w0 w1 where prep: "prepare_database env cfg w0 = (Inr (), w1)" "w_db w0 = s"
    and fin: "finish_start env cfg tel jwt w1 = (Inr (Some rd), w)"
    using assms(1) by (auto simp: start_up_def result_op_def init_telemetry_def on_otel_def println_def fresh_world_def
        elim!: pass_op_InrE split: prod.splits option.splits)
  then obtain d w2 w3 where mig: "migrate_database env d w2 = (Inr (), w3)" "w_db w2 = s"
    and boot: "bootstrap_admin env w3 = (Inr (), w1)"
    by (auto simp: prepare_database_def result_op_def checked_def defer_call_def elim!: pass_op_InrE split: option.splits)
  then have run: "Migrate (me_now env) (NewMigrator (AllMigrations ((me_migrations env)\<lparr>tx_Name := db_dialect d\<rparr>))) s =
      (Inr (), w_db w3)"
    by (auto simp: migrate_database_def on_db_def split: prod.splits)
  obtain p where "p \<in> set (parties (w_db w3))" "party_Kind p = PartyKindProject" "party_IsSystem p"
    using migration_completes [OF assms(3) run] by (auto simp: archetyped_def is_default_project_def)
  then have "sound_with (party_ID p) PartyKindProject (w_db w3)"
    using preserves_result [OF ts.Migrate_ok assms(2) run] by (auto simp: sound_with_member)
  then have "sound_with (party_ID p) PartyKindProject (w_db w1)"
    using preserves_result [OF sw.bootstrap_admin_ok _ boot] by blast
  then have "sound_with (party_ID p) PartyKindProject (w_db w)"
    using preserves_result [OF sw.finish_start_ok _ fin] by blast
  then show thesis by (rule that)
qed

end
