(* ===== verification/Background.thy ===== *)
theory Background
  imports Lifetime
begin

text \<open>
  What runs beside the requests and around them: the polling loops of the discovery manager
  (\<^verbatim>\<open>internal/discovery/manager.go\<close>), the prober (\<^verbatim>\<open>plugins/health/health.go\<close>) and the older checker
  (\<^verbatim>\<open>internal/health/checker.go\<close>); what a probe reports to telemetry; the middleware that wraps every
  request (\<^verbatim>\<open>internal/api/middleware.go\<close>, \<^verbatim>\<open>router.go\<close>); the plugin form of the sources (\<^verbatim>\<open>plugins/sources\<close>); and the
  stand-alone constructor of the store (\<^verbatim>\<open>internal/store/sql_store.go\<close>).
\<close>

section \<open>Polling loops\<close>

text \<open>What a loop's \<^verbatim>\<open>select\<close> receives, in order: a tick of its timer, with what the world holds at that moment, or the end
  of the context.  A list without an end is a loop that still waits.\<close>

datatype 'a tick = Tick 'a | ContextCancelled

fun poll :: "('a \<Rightarrow> ('s, unit) act) \<Rightarrow> 'a tick list \<Rightarrow> ('s, unit) act" where
  "poll turn [] = ret ()"
| "poll turn (ContextCancelled # ticks) = ret ()"
| "poll turn (Tick x # ticks) = (\<lambda>s. poll turn ticks (snd (turn x s)))"

text \<open>\<^verbatim>\<open>Manager.Run\<close> runs one cycle before it waits.\<close>

definition Manager_Run :: "Manager \<Rightarrow> scan list \<Rightarrow> scan list tick list \<Rightarrow> (db, unit) act" where
  "Manager_Run m first ticks = (\<lambda>s. poll (runOnce m) ticks (snd (runOnce m first s)))"

text \<open>What a round of probes meets: the answers, the clock, the order in which the probes end, and the time.\<close>

record probe_round =
  pr_http :: "string \<Rightarrow> http_result"
  pr_clock :: "string \<Rightarrow> time"
  pr_order :: "CatalogEntry list \<Rightarrow> CatalogEntry list"
  pr_now :: time

definition HealthPlugin_run :: "'s proberStore \<Rightarrow> HealthPlugin \<Rightarrow> probe_round tick list \<Rightarrow> ('s, unit) act" where
  "HealthPlugin_run st p = poll (\<lambda>r. checkAll st p (pr_http r) (pr_clock r) (pr_order r) (pr_now r))"

definition Checker_Run :: "store_env \<Rightarrow> sql_text \<Rightarrow> (string \<Rightarrow> nat \<Rightarrow> string) \<Rightarrow> probe_round tick list \<Rightarrow> (db, unit) act" where
  "Checker_Run env x uids = poll (\<lambda>r. Checker_checkAll env x uids (pr_http r) (pr_clock r) (pr_order r))"

text \<open>A loop does nothing but rounds: what every round keeps, it keeps.\<close>

lemma poll_keeps: "(\<And>x. preserves I (turn x)) \<Longrightarrow> preserves I (poll turn ticks)"
  by (induction turn ticks rule: poll.induct) (simp_all add: preserves_def)

lemma poll_cancelled: "poll turn (ticks @ ContextCancelled # later) s = poll turn ticks s"
  by (induction turn ticks arbitrary: s rule: poll.induct) simp_all

lemma serving_poll:
  assumes "\<And>x t. system_step t (snd (turn x t))" and "serving s t"
  shows "serving s (snd (poll turn ticks t))"
  using assms by (induction turn ticks arbitrary: t rule: poll.induct) (simp_all, metis serving_step)

lemma loops_serve:
  "serving s (snd (Manager_Run m scans ticks s))"
  "serving s (snd (HealthPlugin_run (sql_prober env) p rounds s))"
  unfolding Manager_Run_def HealthPlugin_run_def
  by (intro serving_poll sys_discover sys_probe_round serving_step [OF serving_start] serving_start)+

section \<open>What a probe reports\<close>

text \<open>The attributes, status and event of the span and what is recorded with the instruments.\<close>

record probe_report =
  rep_Attributes :: "(string \<times> string) list"
  rep_LatencyMs :: int
  rep_Error :: "(string \<times> string) option"
  rep_Transition :: "(string \<times> string) option"
  rep_Measurements :: "measurement list"

definition probe_protocol :: "CatalogEntry \<Rightarrow> string" where
  "probe_protocol entry = (case entry_AgentType entry of Some t \<Rightarrow> agent_Protocol t | None \<Rightarrow> '''')"

definition recordProbeMetrics :: "LifecycleState \<Rightarrow> Health \<Rightarrow> CatalogEntry \<Rightarrow> probe_report" where
  "recordProbeMetrics stateBefore h entry =
     (let probeResult = probeResultString (State h); changed = stateBefore \<noteq> State h in
      \<lparr>rep_Attributes = [(''agentlens.probe.url'', resolveProbURL entry), (''agentlens.probe.result'', probeResult),
         (''agentlens.probe.state_before'', stateBefore), (''agentlens.probe.state_after'', State h)],
       rep_LatencyMs = LatencyMs h,
       rep_Error = (if LastError h \<noteq> '''' then Some (truncateStr (LastError h) 256, LastError h) else None),
       rep_Transition = (if changed then Some (stateBefore, State h) else None),
       rep_Measurements = (if changed then RecordStateTransition stateBefore (State h) (probe_protocol entry) else []) @
         RecordProbe probeResult (probe_protocol entry) (Finite (LatencyMs h) 0)\<rparr>)"

text \<open>\<^verbatim>\<open>probeOne\<close> reports every probe that it makes; a deprecated entry is not probed.\<close>

definition probe_report_of :: "HealthPlugin \<Rightarrow> (string \<Rightarrow> http_result) \<Rightarrow> time \<Rightarrow> CatalogEntry \<Rightarrow> probe_report option" where
  "probe_report_of p http now entry = (if Status entry = LifecycleDeprecated then None
     else Some (recordProbeMetrics (State (entry_Health entry)) (probeOne p http now entry) entry))"

text \<open>How often an instrument was used.\<close>

definition uses :: "string \<Rightarrow> measurement list \<Rightarrow> nat" where
  "uses name ms = length (filter (\<lambda>m. ms_Name m = name) ms)"

section \<open>Middleware\<close>

text \<open>A handler that panics has no reply; the state is as it was at that moment.\<close>

definition RecoveryMiddleware :: "('s, 'b reply option) act \<Rightarrow> ('s, 'b reply) act" where
  "RecoveryMiddleware next_h = (\<lambda>s. case next_h s of
       (Some r, s') \<Rightarrow> (r, s')
     | (None, s') \<Rightarrow> (ErrorResponse 500 ''internal server error'', s'))"

record request_log =
  log_method :: string
  log_path :: string
  log_status :: nat

text \<open>\<^verbatim>\<open>responseWriter\<close> sees the status on its way out; the line is logged after the handler.\<close>

definition LoggerMiddleware :: "request \<Rightarrow> ('s, 'b reply) act \<Rightarrow> ('s, 'b reply \<times> request_log) act" where
  "LoggerMiddleware rq next_h = (\<lambda>s. case next_h s of (r, s') \<Rightarrow>
     ((r, \<lparr>log_method = rq_method rq, log_path = rq_path rq, log_status = status r\<rparr>), s'))"

text \<open>The name of the span of a request: its path until the route is known, then the pattern.\<close>

definition routePatternSpanNameMiddleware :: "bool \<Rightarrow> request \<Rightarrow> string option \<Rightarrow> string option" where
  "routePatternSpanNameMiddleware recording rq pattern =
     (if \<not> recording then None
      else case pattern of
        None \<Rightarrow> Some (rq_method rq @ '' '' @ rq_path rq)
      | Some p \<Rightarrow> if p = '''' then Some (rq_method rq @ '' '' @ rq_path rq) else Some (rq_method rq @ '' '' @ p))"

section \<open>The plugin form of the sources\<close>

text \<open>\<^verbatim>\<open>main\<close> does not register these plugins; it gives the manager the sources of \<^verbatim>\<open>internal/discovery\<close>.\<close>

definition source_plugin :: "string \<Rightarrow> 'w Plugin" where
  "source_plugin name = \<lparr>pl_Name = name, pl_Version = ''1.0.0'', pl_Type = ''source'', pl_Init = ok (), pl_Start = ok (),
     pl_Stop = ok (), pl_parser = None, pl_cardStore = False\<rparr>"

definition k8s_plugin :: "'w Plugin" where "k8s_plugin = source_plugin ''k8s-source''"

definition static_plugin :: "'w Plugin" where "static_plugin = source_plugin ''static-source''"

definition K8sPlugin_Discover :: "(string \<Rightarrow> error + Service list) \<Rightarrow> (Protocol \<Rightarrow> ParserPlugin option) \<Rightarrow> http_get \<Rightarrow> time \<Rightarrow>
    string list \<Rightarrow> error + AgentType list" where
  "K8sPlugin_Discover list_services parsers get now = K8s_Discover list_services (K8sPlugin_processService parsers get now)"

section \<open>The stand-alone store\<close>

definition NewSQLiteStore :: "gorm_lib \<Rightarrow> mig_env \<Rightarrow> time \<Rightarrow> string \<Rightarrow> (db, DB) op" where
  "NewSQLiteStore lib menv now path =
     (case (if path = '':memory:'' then db_OpenMemory lib else db_Open lib DialectSQLite path) of
        Inl e \<Rightarrow> fail (wrapf ''opening sqlite db'' e)
      | Inr d \<Rightarrow> bind_op (Migrate now (NewMigrator (AllMigrations (menv\<lparr>tx_Name := db_dialect d\<rparr>))))
          ''running migrations'' (\<lambda>_. ok d))"

text \<open>Closing asks for the handle of the driver first.\<close>

definition SQLStore_Close :: "gorm_lib \<Rightarrow> error option \<Rightarrow> error option" where
  "SQLStore_Close lib close_err = (case gorm_DB lib of Some e \<Rightarrow> Some e | None \<Rightarrow> close_err)"

section \<open>Properties\<close>

lemma report_counts:
  assumes "probe_report_of p http now entry = Some rep"
  shows "uses ''agentlens.health.probes.total'' (rep_Measurements rep) = 1 \<and>
    uses ''agentlens.health.probes.latency'' (rep_Measurements rep) = 1 \<and>
    uses ''agentlens.health.state_transitions.total'' (rep_Measurements rep) =
      (if State (entry_Health entry) = State (probeOne p http now entry) then 0 else 1)"
  using assms by (auto simp: probe_report_of_def recordProbeMetrics_def Let_def uses_def RecordProbe_def
      RecordStateTransition_def counted_def split: if_splits)

text \<open>No handler's panic reaches the server, and a handler that returns is not touched.\<close>

lemma RecoveryMiddleware_total:
  "status (fst (RecoveryMiddleware next_h s)) = (case fst (next_h s) of Some r \<Rightarrow> status r | None \<Rightarrow> 500) \<and>
   snd (RecoveryMiddleware next_h s) = snd (next_h s)"
  by (auto simp: RecoveryMiddleware_def split: prod.split option.split)

lemma LoggerMiddleware_transparent:
  "fst (fst (LoggerMiddleware rq next_h s)) = fst (next_h s) \<and> snd (LoggerMiddleware rq next_h s) = snd (next_h s)"
  by (simp add: LoggerMiddleware_def split: prod.split)

text \<open>A successful stand-alone constructor leaves a migrated database, on the dialect of SQLite.\<close>

lemma NewSQLiteStore_complete:
  assumes "NewSQLiteStore lib menv now path s = (Inr d, s')" "versions s = []"
  shows "db_dialect d = DialectSQLite \<and> seeded s' \<and> configured s' \<and> renamed s' \<and> archetyped s'"
proof -
  have open_d: "db_dialect d = DialectSQLite"
    using assms(1) by (auto simp: NewSQLiteStore_def db_Open_def db_OpenMemory_def op_defs split: option.splits if_splits prod.splits sum.splits)
  have "Migrate now (NewMigrator (AllMigrations (menv\<lparr>tx_Name := db_dialect d\<rparr>))) s = (Inr (), s')"
    using assms(1) by (auto simp: NewSQLiteStore_def elim!: bind_op_InrE split: sum.splits)
  from migration_completes [OF assms(2) this] open_d show ?thesis by simp
qed

text \<open>
  \<^bold>\<open>C27\<close>: However long the discovery manager runs, whatever its sources report and whichever statements fail: every
  entry that was pushed is still there as it was, and every row is one from before, of the same source and with the
  same status or offline, or one that the manager added, which is registered or offline.
\<close>

theorem discovery_run_contained:
  assumes "distinct (map entry_ID (catalog_entries s))"
  shows "(\<forall>e \<in> set (catalog_entries s). Source e = SourcePush \<longrightarrow>
       e \<in> set (catalog_entries (snd (Manager_Run m first ticks s)))) \<and>
    (\<forall>r \<in> set (catalog_entries (snd (Manager_Run m first ticks s))).
       (\<exists>e \<in> set (catalog_entries s). entry_ID e = entry_ID r \<and> Source e = Source r \<and>
          (Status r = Status e \<or> Status r = LifecycleOffline)) \<or>
       (entry_ID r \<notin> entry_ID ` set (catalog_entries s) \<and> Source r \<noteq> SourcePush \<and>
          Status r \<in> {LifecycleRegistered, LifecycleOffline}))"
proof -
  have "preserves (keeps P) (Manager_Run m first ticks)" for P
    using runOnce_keeps [of P m] poll_keeps [where turn = "runOnce m" and I = "keeps P" and ticks = ticks, OF runOnce_keeps] by (simp add: Manager_Run_def preserves_def)
  from preservesD [OF this keeps_start [OF assms]] show ?thesis unfolding keeps_def allowed_def by blast
qed

theorem discovery_run_contained_witness:
  "\<exists>r. r \<in> set (catalog_entries (snd (Manager_Run sample_manager [] [Tick [empty_scan], ContextCancelled] deprecated_db))) \<and>
     Status r = LifecycleOffline \<and> (\<exists>e \<in> set (catalog_entries deprecated_db). entry_ID e = entry_ID r \<and> Source e = Source r)"
proof -
  let ?run = "Manager_Run sample_manager [] [Tick [empty_scan], ContextCancelled] deprecated_db"
  have run: "snd ?run = snd (runOnce sample_manager [empty_scan] deprecated_db)" by (simp add: Manager_Run_def)
  obtain r e where r: "catalog_entries (snd ?run) = [r]" "Status r = LifecycleOffline" "entry_ID r = ''e1''"
    and e: "catalog_entries deprecated_db = [e]" "entry_ID e = ''e1''"
    using deprecated_run unfolding run by (auto simp: map_eq_Cons_conv)
  then show ?thesis
    using discovery_run_contained [of deprecated_db sample_manager "[]" "[Tick [empty_scan], ContextCancelled]"] by simp
qed

end
