(* ===== verification/Spec2Isabelle.thy ===== *)
theory Spec2Isabelle
  imports Catalog_Listing Json_Columns Background
begin

text \<open>
  AgentLens is a catalog of AI agents: one Go server (\<^verbatim>\<open>cmd/agentlens\<close>) with an HTTP interface, a
  relational database behind an object-relational mapper, plugins that parse agent cards and probe agents,
  and a manager that discovers agents from static lists and from Kubernetes.  This library models its Go code
  and proves what makes each part correct, what the parts promise each other, and what holds of the whole.

  \<^bold>\<open>The parts and how they interact.\<close>  Requests reach the router (\<^verbatim>\<open>internal/api/router.go\<close>), whose
  guards ask the tokens (\<^verbatim>\<open>internal/auth\<close>) and the project roles; handlers (\<^verbatim>\<open>internal/api\<close>) call the
  stores (\<^verbatim>\<open>internal/store\<close>, \<^verbatim>\<open>plugins/cardstore\<close>), which read and write the tables.  Registering an agent
  runs a card parser (\<^verbatim>\<open>plugins/parsers\<close>), importing one fetches the card first (\<^verbatim>\<open>internal/service\<close>).  The
  prober (\<^verbatim>\<open>plugins/health\<close>) and the discovery manager (\<^verbatim>\<open>internal/discovery\<close>) write to the same catalog store.
  The kernel (\<^verbatim>\<open>internal/kernel\<close>) owns the plugins; \<^verbatim>\<open>main\<close> loads the configuration, sets up telemetry, opens and
  migrates the database, creates the first administrator, starts the plugins and serves until a signal.

  \<^bold>\<open>How the code is modelled.\<close>  A record field or constructor has the name it has in the code, with a prefix
  where a name occurs in several structs.  A function that can fail gives \<^verbatim>\<open>error + 'a\<close>; an error is its message and the
  sentinels that \<^verbatim>\<open>errors.Is\<close> finds in its chain.  A function that uses the database is an \<^verbatim>\<open>op\<close>, a function
  from the state to result and new state; \<^verbatim>\<open>bind_op\<close>, \<^verbatim>\<open>pass_op\<close> and \<^verbatim>\<open>ignore_op\<close> are the three ways in which
  the code treats an error (wrap, return, drop).  The database (record \<^verbatim>\<open>db\<close>) is a list of rows for each table with the unique
  indexes that the schema declares, and a schedule \<^verbatim>\<open>faults\<close> that says for each coming statement whether the engine
  refuses it; the property that nothing is refused is \<^verbatim>\<open>faults s = []\<close>, and properties without it hold under every schedule.
  A transaction that fails restores the tables.  Times are integers of nanoseconds, identifiers and the clock
  are arguments of the operations that draw them.  Go's \<^verbatim>\<open>int\<close> appears as \<^verbatim>\<open>int\<close>; where bits matter (addresses, runes) words or
  explicit bounds are used.

  \<^bold>\<open>What is an argument.\<close>  The packages outside the repository: bcrypt, the JWT and UUID packages, \<^verbatim>\<open>encoding/json\<close> and
  YAML decoding of concrete text, SHA-256, Unicode tables beyond ASCII, the router \<^verbatim>\<open>chi\<close>, DNS and HTTP
  exchanges, the Kubernetes client, the operating system, the OpenTelemetry packages, and choices of GORM that it documents
  either way (record \<^verbatim>\<open>orm\<close>).  Properties that rely on one of them name the documented behaviour (\<^verbatim>\<open>bcrypt_ok\<close>, \<^verbatim>\<open>jwt_ok\<close>,
  \<^verbatim>\<open>chi_ok\<close>), and their witnesses give a concrete instance.

  \<^bold>\<open>The theories.\<close>
  \<^verbatim>\<open>Prelude\<close>: errors, operations, the rules \<^verbatim>\<open>preserves_rule\<close> that push an invariant through an operation, strings.
  \<^verbatim>\<open>Model_Types\<close>, \<^verbatim>\<open>Capability\<close>, \<^verbatim>\<open>Catalog_Entry\<close>: the types of \<^verbatim>\<open>internal/model\<close> (\<^verbatim>\<open>party.go\<close>, \<^verbatim>\<open>user.go\<close>, \<^verbatim>\<open>agent.go\<close>,
  \<^verbatim>\<open>capability.go\<close> and others) with their validation and derived fields.
  \<^verbatim>\<open>Capability_Json\<close>, \<^verbatim>\<open>Json_Columns\<close>: the polymorphic codec of capabilities and their table rows, and the columns of
  \<^verbatim>\<open>json_types.go\<close>; what is written is read back.
  \<^verbatim>\<open>Database\<close>: the tables, statements, refusals and transactions; the locale \<^verbatim>\<open>table_invariant\<close>.
  \<^verbatim>\<open>Party_Closure\<close>, \<^verbatim>\<open>Party_Store\<close>, \<^verbatim>\<open>Party_Integrity\<close>: \<^verbatim>\<open>store/party_store*.go\<close>; the recursive query of the closure table
  (a work list with a termination proof), the operations, and the locale \<^verbatim>\<open>party_stable\<close> of what they all keep.
  \<^verbatim>\<open>Party_Roles\<close>, \<^verbatim>\<open>Party_Api\<close>: roles in projects, the project guard, and the party handlers (\<^verbatim>\<open>api/party_handlers.go\<close>,
  \<^verbatim>\<open>catalog_project.go\<close>); the handlers keep the graph well typed.
  \<^verbatim>\<open>User_Store\<close>, \<^verbatim>\<open>Password\<close>, \<^verbatim>\<open>Auth\<close>, \<^verbatim>\<open>User_Api\<close>: users, roles, settings, lockout, password policy and generator, tokens, and
  the handlers of \<^verbatim>\<open>auth_handlers.go\<close>, \<^verbatim>\<open>user_handlers.go\<close>, \<^verbatim>\<open>role_handlers.go\<close>, \<^verbatim>\<open>settings_handlers.go\<close>.
  \<^verbatim>\<open>Catalog_Store\<close>, \<^verbatim>\<open>Catalog_Query\<close>, \<^verbatim>\<open>Catalog_View\<close>, \<^verbatim>\<open>Catalog_Listing\<close>: \<^verbatim>\<open>store/sql_store*.go\<close>, \<^verbatim>\<open>health_store.go\<close>,
  \<^verbatim>\<open>provider_store.go\<close>; the normalised tables refine a map from identifiers to entries, pages tile the listing.
  \<^verbatim>\<open>Health\<close>: \<^verbatim>\<open>plugins/health\<close>: one probe, a batch, the rate limiter against its history, the polling queue.
  \<^verbatim>\<open>Parsers\<close>, \<^verbatim>\<open>Card_Fetcher\<close>, \<^verbatim>\<open>Catalog_Api\<close>: the card parsers and validators, the fetcher with its address filter and redirect rules,
  and the catalog handlers (\<^verbatim>\<open>handlers.go\<close>, \<^verbatim>\<open>register_handler.go\<close>, \<^verbatim>\<open>import_handler.go\<close>, \<^verbatim>\<open>capability_handlers.go\<close>).
  \<^verbatim>\<open>Discovery\<close>: the crawler, the sources and the reconciliation of \<^verbatim>\<open>discovery/manager.go\<close>.
  \<^verbatim>\<open>Config\<close>, \<^verbatim>\<open>Migrate\<close>, \<^verbatim>\<open>Kernel\<close>, \<^verbatim>\<open>Router\<close>: \<^verbatim>\<open>config/config.go\<close>; \<^verbatim>\<open>db/migrate.go\<close> and all nine migrations; the plugin manager,
  licences and the log fan-out; the route table with its guards.
  \<^verbatim>\<open>System\<close>: the steps of the running server as one relation \<^verbatim>\<open>system_step\<close>, and the contracts between components as locales
  (\<^verbatim>\<open>account_stable\<close>, \<^verbatim>\<open>catalog_stable\<close>, \<^verbatim>\<open>system_stable\<close>, \<^verbatim>\<open>migration_stable\<close>), interpreted for each invariant.
  \<^verbatim>\<open>Otel\<close>: \<^verbatim>\<open>internal/telemetry\<close>: set-up and shutdown of the providers, metrics, and the tracing decorator of the store.
  \<^verbatim>\<open>Startup\<close>, \<^verbatim>\<open>Lifetime\<close>: \<^verbatim>\<open>db/db.go\<close>, \<^verbatim>\<open>server/server.go\<close> and \<^verbatim>\<open>main.go\<close>; restarts (a whole run of
  \<^verbatim>\<open>main\<close> is such a history), and the first start.
  \<^verbatim>\<open>Background\<close>: the polling loops of discovery and probing, what a probe reports, the middleware around every request.
  This theory holds the properties that span all of them.

  \<^bold>\<open>What the lemmas show.\<close>  Invariants (closure table, keys, typed graph, accounts, catalog keys) are kept by every operation under every
  schedule; refinements relate the tables to abstract maps and histories; equivalences relate the recursive query to
  the transitive closure, the project guard to the listing of projects, the address filter to its ranges, the tracing store to the
  store it wraps; round trips cover the capability codec, the JSON columns and header syntax; functional properties say what
  registration, login, lockout, password change, migration and start-up do on each branch.

  \<^bold>\<open>Bounds.\<close>  Most loops of the code are structural recursions over the lists they walk.  The others have a termination
  proof: the recursive closure query (\<^verbatim>\<open>cte_loop\<close>) takes rows from a queue and each of the finitely many pairs enters it once,
  redirects (\<^verbatim>\<open>client_Do\<close>) stop at the limit of the code, and decoding runes, address groups and durations shortens the input.
  Trimming counts down from the length of the text, which is enough because every step removes a character.  The password
  generator consumes a finite list of draws, of which twenty-four successful ones are proved to be enough.

  \<^bold>\<open>Concurrency.\<close>  Each handler runs as one step of \<^verbatim>\<open>system_step\<close>.  What can happen between the reads and writes of one
  operation is modelled where the code is exposed to it, in \<^verbatim>\<open>Health\<close>: the order of the probes of a batch is irrelevant, and an
  operator's decision made while a probe is running is lost.

  \<^bold>\<open>Not modelled.\<close>  The web frontend, the embedded files (\<^verbatim>\<open>web/embed.go\<close>) and the mock agents under \<^verbatim>\<open>examples\<close>; log lines; SQL text (the conditions are modelled, \<^verbatim>\<open>LIKE\<close> and \<^verbatim>\<open>LOWER\<close> are arguments); contexts and time-outs other than through the error they give; and the
  interleaving of two requests inside the engine.
\<close>

section \<open>A sample environment\<close>

text \<open>No variable is set, nothing fails, telemetry is off.\<close>


definition sample_os :: os_env where
  "sample_os = \<lparr>Getenv = (\<lambda>_. ''''), ReadFile = (\<lambda>_. Inl (errorf ''no file'')), yaml_Unmarshal = (\<lambda>_ _. Inl (errorf ''no yaml'')),
     ParseFloat = (\<lambda>_. None)\<rparr>"

definition sample_main :: main_env where
  "sample_main = \<lparr>me_os = sample_os, me_portFlag = 9000, me_configFlag = '''', me_version = ''v1'',
     me_text = h_text good_handler, me_otel = failing_prom, me_MkdirAll = (\<lambda>_. None), me_Join = (\<lambda>a b. a @ ''/'' @ b),
     me_Dir = (\<lambda>p. p), me_gorm = \<lparr>gorm_Open = (\<lambda>_ _. None), gorm_Exec = (\<lambda>_. None), gorm_DB = None\<rparr>,
     me_migrations = sample_mig_env, me_auth = sample_env2, me_adminID = ''u0'', me_personID = ''p0'',
     me_draws = replicate 24 (Some 3), me_now = 5, me_gauge = (None, None), me_webFS = True, me_secret = Some ''secret'',
     me_parsers = h_json good_handler, me_k8s = \<lparr>InClusterConfig = None, UserHomeDir = Inr ''/root'',
       BuildConfigFromFlags = (\<lambda>_. None), NewForConfig = None\<rparr>,
     me_net = \<lparr>net_Listen = (\<lambda>_. None), net_wake = SignalReceived, net_Shutdown = None\<rparr>,
     me_serving = (\<lambda>s. s)\<rparr>"

lemma sample_load: "load_config sample_main = Inr (defaults\<lparr>Port := 9000\<rparr>)"
  by (simp add: load_config_def sample_main_def Load_def sample_os_def applyEnv_def applyHealthCheckEnv_def
      applyDatabaseEnv_def applyTelemetryEnv_def endpoint_of_def env_var_def text_of_def parsed_of_def flag_of_def
      defaults_def listen_port_def Let_def)

lemmas sample_conditions = sample_main_def sample_mig_env_def sample_env2_def sample_env_def

lemma sample_environment:
  "fst (otel_Init (me_otel sample_main) (Telemetry (defaults\<lparr>Port := 9000\<rparr>)) (me_version sample_main) otel_start) = Inr noop_provider"
  "me_MkdirAll sample_main (DataDir (defaults\<lparr>Port := 9000\<rparr>)) = None"
  "open_database sample_main (defaults\<lparr>Port := 9000\<rparr>) = Inr \<lparr>db_dialect = ''sqlite'', MaxOpenConns = None\<rparr>"
  "gorm_DB (me_gorm sample_main) = None"
  "jwt_config sample_main (defaults\<lparr>Port := 9000\<rparr>) =
     Some \<lparr>Secret = ''secret'', Expiration = 24 * Hour, cfg_RefreshWindow = Hour\<rparr>"
  "discovery_sources sample_main (defaults\<lparr>Port := 9000\<rparr>) = Inr []"
  "bcrypt_ok (env_bcrypt (me_auth sample_main))"
  "\<forall>pw. \<exists>h. GenerateFromPassword (env_bcrypt (me_auth sample_main)) pw BcryptCost = Inr h"
  "None \<notin> set (me_draws sample_main)" "24 \<le> length (me_draws sample_main)"
  "me_personID sample_main \<noteq> default_project_id (me_migrations sample_main)"
proof -
  show "fst (otel_Init (me_otel sample_main) (Telemetry (defaults\<lparr>Port := 9000\<rparr>)) (me_version sample_main) otel_start) = Inr noop_provider"
    by (simp add: otel_Init_def defaults_def)
  show "open_database sample_main (defaults\<lparr>Port := 9000\<rparr>) = Inr \<lparr>db_dialect = ''sqlite'', MaxOpenConns = None\<rparr>"
    by (simp add: open_database_def sample_main_def database_target_def defaults_def db_Open_def DialectSQLite_def
        applySQLitePragmas_def sqlite_pragmas_def)
  show "jwt_config sample_main (defaults\<lparr>Port := 9000\<rparr>) =
     Some \<lparr>Secret = ''secret'', Expiration = 24 * Hour, cfg_RefreshWindow = Hour\<rparr>"
    by (simp add: jwt_config_def NewJWTService_def sample_main_def defaults_def Let_def Hour_def Minute_def)
  show "discovery_sources sample_main (defaults\<lparr>Port := 9000\<rparr>) = Inr []"
    by (simp add: discovery_sources_def defaults_def)
  show "bcrypt_ok (env_bcrypt (me_auth sample_main))" by (simp add: sample_conditions sample_bcrypt_ok)
  show "\<forall>pw. \<exists>h. GenerateFromPassword (env_bcrypt (me_auth sample_main)) pw BcryptCost = Inr h"
    by (simp add: sample_conditions sample_bcrypt_def)
qed (simp_all add: sample_conditions)

lemma sample_signs: "\<forall>key c. \<exists>tok. SignedString (env_jwt (me_auth sample_main)) key c = Inr tok"
  by (simp add: sample_conditions)

lemma sample_start:
  obtains rd w u ms where "start_up sample_main (fresh_world empty_db) = (Inr (Some rd), w)"
    and "w_db w = first_db sample_main u ms" and "Username u = ''admin''"
  using start_up_first [OF sample_load sample_environment] by metis

section \<open>Properties of the whole\<close>



text \<open>
  \<^bold>\<open>C6\<close>: Every state that requests, probing, discovery and starts of the command can bring an empty
  database into, in any order, with any environments and any refusals of the engine, is sound: the closure
  table is the transitive closure of the containment edges, which are acyclic; every relationship fits
  a kind of party; and no two rows share a key, a user name, a role name, an agent key or a card.
\<close>

theorem every_state_is_sound:
  assumes "history empty_db s"
  shows "closure_pairs s = (containment s)\<^sup>+ \<and> acyclic (containment s) \<and>
    (\<forall>r \<in> set (party_relationships s). \<exists>cfg \<in> {groupKindConfig, projectKindConfig}.
       RelationshipName r = MemberRelationship cfg \<and> FromRole r \<in> set (ValidMemberRoles cfg) \<and>
       has_kind s (ToPartyID r) [cfg_Kind cfg] \<and> has_kind s (FromPartyID r) [PartyKindPerson, PartyKindGroup]) \<and>
    distinct (map party_ID (parties s)) \<and> distinct (map rel_key (party_relationships s)) \<and>
    distinct (map cpm_key (catalog_project_memberships s)) \<and> distinct (map user_ID (users s)) \<and>
    distinct (map Username (users s)) \<and> distinct (map role_Name (roles s)) \<and> distinct (map setting_Key (settings s)) \<and>
    distinct (map entry_ID (catalog_entries s)) \<and> distinct (map type_key (agent_types s)) \<and>
    distinct (map raw_AgentTypeID (raw_cards s))"
proof -
  have "tables_sound s" using ts.history_holds [OF assms] empty_db_sound by blast
  then show ?thesis
    using typed_edge [of s] unfolding tables_sound_def closure_inv_def keys_inv_def accounts_inv_def catalog_keys_def
    by (intro conjI ballI) simp_all
qed

theorem every_state_is_sound_witness:
  "\<exists>s. history empty_db s \<and> map Username (users s) = [''admin''] \<and> closure_pairs s = (containment s)\<^sup>+ \<and>
     distinct (map party_ID (parties s)) \<and> length (parties s) = 2"
proof -
  obtain rd w u ms where run: "start_up sample_main (fresh_world empty_db) = (Inr (Some rd), w)"
    "w_db w = first_db sample_main u ms" "Username u = ''admin''" by (rule sample_start)
  have "history empty_db (w_db w)" using run(1) history_start [OF history_begin [of empty_db], of sample_main] by simp
  then show ?thesis
    using every_state_is_sound [of "w_db w"] run(2,3)
    by (intro exI [of _ "w_db w"]) (simp add: first_db_def first_parties_def)
qed

text \<open>
  \<^bold>\<open>C15\<close>: Once a database without recorded migrations has been started with success, the default project
  is found by every later lookup that the engine does not refuse: no request removes it, and no later start,
  successful or not, does.
\<close>

theorem default_project_always_there:
  assumes "history empty_db s" and "versions s = []" and "start_up env (fresh_world s) = (Inr (Some rd), w)"
    and "history (w_db w) t" and "faults t = []"
  shows "\<exists>p \<in> set (parties t). GetDefaultProject t = (Inr p, t) \<and> party_Kind p = PartyKindProject \<and> party_IsSystem p"
proof -
  have "tables_sound s" using ts.history_holds [OF assms(1)] empty_db_sound by blast
  then obtain i where "sound_with i PartyKindProject (w_db w)"
    using start_up_default_project [OF assms(3) _ assms(2)] by blast
  then have "sound_with i PartyKindProject t" using sw.history_holds [OF assms(4)] by blast
  then show ?thesis using default_project_found [OF assms(5)] by (auto simp: sound_with_member)
qed

theorem default_project_always_there_witness:
  "\<exists>rd w p. start_up sample_main (fresh_world empty_db) = (Inr (Some rd), w) \<and>
     fst (GetDefaultProject ((snd (DeletePartyHandler projectKindConfig ''d0'' (w_db w)))\<lparr>faults := []\<rparr>)) = Inr p"
proof -
  obtain rd w u ms where run: "start_up sample_main (fresh_world empty_db) = (Inr (Some rd), w)" by (rule sample_start)
  let ?s = "snd (DeletePartyHandler projectKindConfig ''d0'' (w_db w))"
  have "history (w_db w) ?s" by (intro history_step [OF history_begin] sys_party api_delete) simp
  then have "history (w_db w) (?s\<lparr>faults := []\<rparr>)" by (rule history_step [OF _ sys_read]) simp
  moreover have "versions empty_db = []" by (simp add: versions_def empty_db_def)
  ultimately obtain p where "GetDefaultProject (?s\<lparr>faults := []\<rparr>) = (Inr p, ?s\<lparr>faults := []\<rparr>)"
    using default_project_always_there [OF history_begin _ run] by fastforce
  with run show ?thesis by auto
qed


end
